(* ===== verification/Prelude.thy ===== *)
theory Prelude
  imports Main "HOL-Library.Word"
begin

unbundle bit_operations_syntax

text \<open>
  Shared vocabulary of the development. Python integers are \<^typ>\<open>int\<close>, a \<open>bytes\<close> or
  \<open>bytearray\<close> object and a list of integers are both \<open>int list\<close>, with \<open>bytes_ok\<close> saying
  that every entry lies in \<open>range(256)\<close>. A call that can raise returns a sum
  (\<open>Inl\<close> the exception); a method that changes \<open>self\<close> and can raise returns the state it
  leaves behind together with the exception, because in Python the assignments done before
  a \<open>raise\<close> stay done.
\<close>

named_theorems bytes_simps \<open>facts about byte lists\<close>
named_theorems frame_intros \<open>closure of the frame predicates under the send operations\<close>

type_synonym bytes = "int list"

datatype py_error =
    IndexError
  | KeyError
  | ValueError
  | ValidationError
  | OSError
  | OverflowError
  | UnboundLocalError
  | AttributeError
  | TypeError
  | NotImplementedError
  | InvalidMessage
  | UdsInvalidMessage
  | MessageTypeNotSupported
  | ServiceIDNotSupported
  | IdentifierNotFound
  | InvalidProtocolError
  | InvalidPayloadTypeError
  | InvalidV2GTPMessageError
  | InvalidSDPRequestError
  | InvalidSDPResponseError
  | FaultyStateImplementationError
  | EXIEncodingError
  | EXIDecodingError
  | V2GMessageValidationError
  | UnicodeEncodeError
  | MessageProcessingError
  | SDPFailedError
  | CertSignatureError
  | CertNotYetValidError
  | CertExpiredError
  | CertRevokedError
  | CertAttributeError
  | CertChainLengthError
  | KeyTypeError
  | PrivateKeyReadError
  | EncryptionError
  | DecryptionError
  | FileNotFoundError
  | OCSPServerNotFoundError
  | ExtensionNotFound
  | UnsupportedAlgorithm

section \<open>Results and state that survives an exception\<close>

type_synonym 'a result = "py_error + 'a"
type_synonym 's outcome = "'s \<times> py_error option"

definition rbind :: "'a result \<Rightarrow> ('a \<Rightarrow> 'b result) \<Rightarrow> 'b result" where
  "rbind r f = (case r of Inl e \<Rightarrow> Inl e | Inr x \<Rightarrow> f x)"

definition done_with :: "'s \<Rightarrow> 's outcome" where
  "done_with s = (s, None)"

definition raises :: "py_error \<Rightarrow> 's \<Rightarrow> 's outcome" where
  "raises e s = (s, Some e)"

definition andthen :: "'s outcome \<Rightarrow> ('s \<Rightarrow> 's outcome) \<Rightarrow> 's outcome" where
  "andthen r f = (case r of (s, None) \<Rightarrow> f s | (s, Some e) \<Rightarrow> (s, Some e))"

text \<open>\<open>try: body except Exception: pass\<close> keeps the state and forgets the exception.\<close>

definition swallow :: "'s outcome \<Rightarrow> 's" where
  "swallow r = fst r"

lemma rbind_simps [simp]:
  "rbind (Inl e) f = Inl e" "rbind (Inr x) f = f x"
  by (simp_all add: rbind_def)

lemma rbind_Inr_iff: "rbind r f = Inr y \<longleftrightarrow> (\<exists>x. r = Inr x \<and> f x = Inr y)"
  by (cases r) auto

lemma outcome_simps [simp]:
  "andthen (done_with s) f = f s"
  "andthen (raises e s) f = raises e s"
  "swallow (done_with s) = s" "swallow (raises e s) = s"
  "fst (done_with s) = s" "snd (done_with s) = None"
  "fst (raises e s) = s" "snd (raises e s) = Some e"
  by (simp_all add: andthen_def done_with_def raises_def swallow_def)

lemma andthen_None:
  "snd r = None \<Longrightarrow> andthen r f = f (fst r)"
  by (cases r) (auto simp: andthen_def split: option.splits)

text \<open>A predicate that the first part establishes and the second keeps holds at the end.\<close>

lemma andthen_fst_inv:
  assumes "P (fst r)" and "\<And>s. P s \<Longrightarrow> P (fst (f s))"
  shows "P (fst (andthen r f))"
  using assms by (cases r) (auto simp: andthen_def split: option.splits)

section \<open>Indexing\<close>

text \<open>\<open>xs[i]\<close> for the non-negative indices the code uses.\<close>

definition py_get :: "'a list \<Rightarrow> nat \<Rightarrow> 'a result" where
  "py_get xs i = (if i < length xs then Inr (xs ! i) else Inl IndexError)"

text \<open>\<open>xs[a:b]\<close> for non-negative bounds never raises.\<close>

definition pyslice :: "nat \<Rightarrow> nat \<Rightarrow> 'a list \<Rightarrow> 'a list" where
  "pyslice a b xs = drop a (take b xs)"

lemma py_get_Cons [simp]:
  "py_get (x # xs) 0 = Inr x" "py_get (x # xs) (Suc i) = py_get xs i"
  "py_get [] i = Inl IndexError"
  by (auto simp: py_get_def)

lemma py_get_num [simp]: "py_get (x # xs) (numeral n) = py_get xs (pred_numeral n)"
  by (simp add: numeral_eq_Suc)

lemma slice_append_left:
  "b \<le> length xs \<Longrightarrow> pyslice a b (xs @ ys) = pyslice a b xs"
  by (simp add: pyslice_def)

lemma slice_append_right:
  "length xs \<le> a \<Longrightarrow> pyslice a b (xs @ ys) = pyslice (a - length xs) (b - length xs) ys"
  by (cases "length xs \<le> b") (auto simp: pyslice_def)

lemma slice_0 [simp]: "pyslice 0 b xs = take b xs"
  by (simp add: pyslice_def)

lemma slice_Cons [simp]:
  "pyslice (Suc a) (Suc b) (x # xs) = pyslice a b xs"
  by (simp add: pyslice_def)

lemma slice_Cons_num [simp]:
  "pyslice (numeral a) (numeral b) (x # xs) = pyslice (pred_numeral a) (pred_numeral b) xs"
  "pyslice (Suc 0) (numeral b) (x # xs) = pyslice 0 (pred_numeral b) xs"
  by (simp_all add: numeral_eq_Suc)

lemma slice_length: "length (pyslice a b xs) = min b (length xs) - a"
  by (simp add: pyslice_def)

lemma slice_slice:
  assumes "a \<le> b" "b \<le> c"
  shows "pyslice a b xs @ pyslice b c xs = pyslice a c xs"
proof -
  have split: "take c xs = take b xs @ drop b (take c xs)"
    using assms append_take_drop_id [of b "take c xs"] by (simp add: min_absorb1)
  have "pyslice a c xs = drop a (take b xs) @ drop (a - length (take b xs)) (drop b (take c xs))"
    unfolding pyslice_def by (subst split) simp
  also have "drop (a - length (take b xs)) (drop b (take c xs)) = drop b (take c xs)"
    using assms by (cases "b \<le> length xs") (auto simp: min_def)
  finally show ?thesis by (simp add: pyslice_def)
qed

section \<open>Bytes\<close>

definition byte_ok :: "int \<Rightarrow> bool" where
  "byte_ok b \<longleftrightarrow> 0 \<le> b \<and> b < 256"

definition bytes_ok :: "bytes \<Rightarrow> bool" where
  "bytes_ok bs \<longleftrightarrow> list_all byte_ok bs"

text \<open>\<open>bytearray(list)\<close> raises \<open>ValueError\<close> on an entry outside \<open>range(256)\<close>.\<close>

definition bytearray :: "int list \<Rightarrow> bytes result" where
  "bytearray xs = (if bytes_ok xs then Inr xs else Inl ValueError)"

lemma byte_ok_numeral [simp]:
  "byte_ok 0" "byte_ok 1" "byte_ok (numeral n) \<longleftrightarrow> (numeral n :: int) < 256"
  by (simp_all add: byte_ok_def)

lemma bytes_ok_simps [simp, bytes_simps]:
  "bytes_ok []"
  "bytes_ok (x # xs) \<longleftrightarrow> byte_ok x \<and> bytes_ok xs"
  "bytes_ok (xs @ ys) \<longleftrightarrow> bytes_ok xs \<and> bytes_ok ys"
  "bytes_ok (replicate n x) \<longleftrightarrow> n = 0 \<or> byte_ok x"
  by (auto simp: bytes_ok_def list_all_iff)

lemma bytes_ok_take [intro, bytes_simps]: "bytes_ok xs \<Longrightarrow> bytes_ok (take n xs)"
  by (auto simp: bytes_ok_def list_all_iff dest: in_set_takeD)

lemma bytes_ok_drop [intro, bytes_simps]: "bytes_ok xs \<Longrightarrow> bytes_ok (drop n xs)"
  by (auto simp: bytes_ok_def list_all_iff dest: in_set_dropD)

lemma bytes_ok_slice [intro, bytes_simps]: "bytes_ok xs \<Longrightarrow> bytes_ok (pyslice a b xs)"
  by (auto simp: pyslice_def)

lemma bytes_ok_nth: "bytes_ok xs \<Longrightarrow> i < length xs \<Longrightarrow> byte_ok (xs ! i)"
  by (auto simp: bytes_ok_def list_all_iff)

lemma bytearray_ok [simp]: "bytes_ok xs \<Longrightarrow> bytearray xs = Inr xs"
  by (simp add: bytearray_def)

lemma byte_and_255 [simp]: "byte_ok (n AND 255)"
proof -
  have "n AND 255 = take_bit 8 n"
    by (simp add: take_bit_eq_mask mask_eq_exp_minus_1)
  then show ?thesis
    using take_bit_int_less_exp [of 8 n] by (simp add: byte_ok_def)
qed

lemma and_255_mod: "n AND 255 = n mod (256 :: int)"
  using take_bit_eq_mask [of 8 n] by (simp add: mask_eq_exp_minus_1 take_bit_eq_mod)

lemma and_15_mod: "n AND 15 = n mod (16 :: int)"
  using take_bit_eq_mask [of 4 n] by (simp add: mask_eq_exp_minus_1 take_bit_eq_mod)

lemma push_bit_or_add:
  fixes a d :: int
  assumes "0 \<le> d" "d < 2 ^ k"
  shows "push_bit k a OR d = a * 2 ^ k + d"
proof -
  have "push_bit k a AND d = 0"
  proof (rule bit_eqI)
    fix n
    have d: "take_bit k d = d"
      using assms by (simp add: take_bit_int_eq_self)
    have "bit d n \<Longrightarrow> n < k"
      using bit_take_bit_iff [of k d n] d by simp
    then show "bit (push_bit k a AND d) n \<longleftrightarrow> bit (0 :: int) n"
      by (auto simp: bit_simps)
  qed
  then have "push_bit k a OR d = push_bit k a + d"
    by (rule disjunctive_add_eq_or [symmetric])
  then show ?thesis by (simp add: push_bit_eq_mult)
qed

section \<open>Big-endian integers\<close>

text \<open>The reference encoding: \<open>k\<close> bytes, most significant first.\<close>

fun be_bytes :: "nat \<Rightarrow> int \<Rightarrow> bytes" where
  "be_bytes 0 n = []"
| "be_bytes (Suc k) n = be_bytes k (n div 256) @ [n mod 256]"

definition be_num :: "bytes \<Rightarrow> int" where
  "be_num bs = foldl (\<lambda>a d. a * 256 + d) 0 bs"

text \<open>Python's \<open>int.to_bytes(k, "big")\<close> and \<open>int.from_bytes(bs, "big")\<close>.\<close>

definition int_to_bytes :: "nat \<Rightarrow> int \<Rightarrow> bytes result" where
  "int_to_bytes k n = (if 0 \<le> n \<and> n < 256 ^ k then Inr (be_bytes k n) else Inl OverflowError)"

definition int_from_bytes :: "bytes \<Rightarrow> int" where
  "int_from_bytes bs = be_num bs"

lemma length_be_bytes [simp]: "length (be_bytes k n) = k"
  by (induction k arbitrary: n) auto

lemma bytes_ok_be_bytes [simp, bytes_simps]: "bytes_ok (be_bytes k n)"
  by (induction k arbitrary: n) (auto simp: byte_ok_def)

lemma be_num_snoc [simp]: "be_num (bs @ [d]) = be_num bs * 256 + d"
  by (simp add: be_num_def)

lemma be_num_Nil [simp]: "be_num [] = 0"
  by (simp add: be_num_def)

lemma be_num_be_bytes: "be_num (be_bytes k n) = n mod 256 ^ k"
proof (induction k arbitrary: n)
  case 0
  then show ?case by simp
next
  case (Suc k)
  have "be_num (be_bytes (Suc k) n) = (n div 256) mod 256 ^ k * 256 + n mod 256"
    using Suc.IH by simp
  also have "\<dots> = n mod (256 * 256 ^ k)"
    by (simp add: zmod_zmult2_eq)
  finally show ?case by simp
qed

lemma be_num_be_bytes_id: "0 \<le> n \<Longrightarrow> n < 256 ^ k \<Longrightarrow> be_num (be_bytes k n) = n"
  by (simp add: be_num_be_bytes)

lemma be_num_bounds: "bytes_ok bs \<Longrightarrow> 0 \<le> be_num bs \<and> be_num bs < 256 ^ length bs"
proof (induction bs rule: rev_induct)
  case Nil
  then show ?case by simp
next
  case (snoc d bs)
  then have "0 \<le> be_num bs" "be_num bs + 1 \<le> 256 ^ length bs" "0 \<le> d" "d < 256"
    by (auto simp: byte_ok_def)
  then show ?case by simp
qed

lemma be_bytes_be_num: "bytes_ok bs \<Longrightarrow> be_bytes (length bs) (be_num bs) = bs"
proof (induction bs rule: rev_induct)
  case Nil
  then show ?case by simp
next
  case (snoc d bs)
  then have "(be_num bs * 256 + d) div 256 = be_num bs" "(be_num bs * 256 + d) mod 256 = d"
    by (auto simp: byte_ok_def)
  with snoc show ?case by simp
qed

lemma be_num_singleton [simp]: "be_num [d] = d"
  by (simp add: be_num_def)

section \<open>Text\<close>

text \<open>A Python \<open>str\<close> is its list of code points; \<open>encode('utf-8')\<close> fails on surrogates.\<close>

type_synonym py_str = "int list"

definition utf8_char :: "int \<Rightarrow> bytes result" where
  "utf8_char c =
     (if c < 128 then Inr [c]
      else if c < 2048 then Inr [192 + c div 64, 128 + c mod 64]
      else if 55296 \<le> c \<and> c < 57344 then Inl UnicodeEncodeError
      else if c < 65536 then Inr [224 + c div 4096, 128 + c div 64 mod 64, 128 + c mod 64]
      else Inr [240 + c div 262144, 128 + c div 4096 mod 64, 128 + c div 64 mod 64, 128 + c mod 64])"

fun utf8_encode :: "py_str \<Rightarrow> bytes result" where
  "utf8_encode [] = Inr []"
| "utf8_encode (c # cs) =
     rbind (utf8_char c) (\<lambda>b. rbind (utf8_encode cs) (\<lambda>bs. Inr (b @ bs)))"

definition ascii :: "string \<Rightarrow> py_str" where
  "ascii s = map of_char s"

text \<open>\<open>str\<close> of an integer.\<close>

fun nat_text :: "nat \<Rightarrow> string" where
  "nat_text n = (if n < 10 then [char_of (48 + n)] else nat_text (n div 10) @ [char_of (48 + n mod 10)])"

definition int_text :: "int \<Rightarrow> string" where
  "int_text n = (if n < 0 then CHR ''-'' # nat_text (nat (- n)) else nat_text (nat n))"

lemma utf8_encode_ascii:
  "list_all (\<lambda>c. 0 \<le> c \<and> c < 128) s \<Longrightarrow> utf8_encode s = Inr s"
  by (induction s) (auto simp: utf8_char_def)

end
