(* ===== verification/Doip_Message.thy ===== *)
theory Doip_Message
  imports Prelude
begin

text \<open>
  The DoIP codec of \<open>doip_lib\<close>: the byte helpers of \<open>utils.py\<close>, the seven registered message
  classes of \<open>doip.py\<close> with their \<open>parse\<close> and \<open>render\<close> methods, and the framing of
  \<open>DOIPMessage\<close> (version preamble, payload type, length). The locale \<open>payload_codec\<close> is the
  contract a message class offers to the framing, and every class is an interpretation of it.
\<close>

section \<open>Byte helpers (utils.py)\<close>

fun num_to_bytes_loop :: "nat \<Rightarrow> int \<Rightarrow> bytes \<Rightarrow> bytes" where
  "num_to_bytes_loop 0 num data = data"
| "num_to_bytes_loop (Suc n) num data =
     num_to_bytes_loop n (drop_bit 8 num) ((num AND 255) # data)"

definition num_to_bytes :: "int \<Rightarrow> nat \<Rightarrow> bytes" where
  "num_to_bytes num numbytes = num_to_bytes_loop numbytes num []"

fun bytes_to_num_loop :: "bytes \<Rightarrow> int \<Rightarrow> int" where
  "bytes_to_num_loop [] num = num"
| "bytes_to_num_loop (d # ds) num = bytes_to_num_loop ds (push_bit 8 num OR d)"

definition bytes_to_num :: "bytes \<Rightarrow> int" where
  "bytes_to_num data = bytes_to_num_loop data 0"

lemma num_to_bytes_loop_eq: "num_to_bytes_loop k num data = be_bytes k num @ data"
  by (induction k num data rule: num_to_bytes_loop.induct)
    (auto simp: and_255_mod drop_bit_eq_div)

lemma num_to_bytes_be [bytes_simps]: "num_to_bytes num k = be_bytes k num"
  by (simp add: num_to_bytes_def num_to_bytes_loop_eq)

lemma bytes_to_num_loop_eq:
  "bytes_ok ds \<Longrightarrow> bytes_to_num_loop ds num = foldl (\<lambda>a d. a * 256 + d) num ds"
proof (induction ds arbitrary: num)
  case Nil
  then show ?case by simp
next
  case (Cons d ds)
  then have "push_bit 8 num OR d = num * 256 + d"
    using push_bit_or_add [of d 8 num] by (simp add: byte_ok_def)
  with Cons show ?case by simp
qed

lemma bytes_to_num_be [bytes_simps]: "bytes_ok ds \<Longrightarrow> bytes_to_num ds = be_num ds"
  by (simp add: bytes_to_num_def bytes_to_num_loop_eq be_num_def)

lemma length_num_to_bytes [simp]: "length (num_to_bytes n k) = k"
  by (simp add: num_to_bytes_be)

lemma bytes_ok_num_to_bytes [simp]: "bytes_ok (num_to_bytes n k)"
  by (simp add: num_to_bytes_be)

lemma bytes_to_num_num_to_bytes [simp]:
  "0 \<le> n \<Longrightarrow> n < 256 ^ k \<Longrightarrow> bytes_to_num (num_to_bytes n k) = n"
  by (simp add: num_to_bytes_be bytes_to_num_be be_num_be_bytes_id)

section \<open>Message classes (doip.py)\<close>

text \<open>
  The VIN of an announcement is a \<open>str\<close> when the object is built from the configuration and a
  \<open>bytearray\<close> when it comes out of \<open>parse\<close>; only the former has an \<open>encode\<close> method.
\<close>

datatype vin_value = VinStr py_str | VinBytes bytes

datatype doip_message =
    VehicleIdentityRequest
  | VehicleAnnouncement (vin: vin_value) (logical_address: int) (eid: int) (gid: int)
      (action_required: int)
  | RoutingActivationRequest (source_address: int) (activation_type: int)
  | RoutingActivationResponse (target_address: int) (source_address: int) (response_code: int)
  | DiagnosticMessage (target_address: int) (source_address: int) (userdata: bytes)
  | DiagnosticMessageAck (source_address: int) (target_address: int) (ack_code: int)
  | DiagnosticMessageNegativeAck (source_address: int) (target_address: int) (nack_code: int)

fun payload_type :: "doip_message \<Rightarrow> int" where
  "payload_type VehicleIdentityRequest = 0x0001"
| "payload_type (VehicleAnnouncement _ _ _ _ _) = 0x0004"
| "payload_type (RoutingActivationRequest _ _) = 0x0005"
| "payload_type (RoutingActivationResponse _ _ _) = 0x0006"
| "payload_type (DiagnosticMessage _ _ _) = 0x8001"
| "payload_type (DiagnosticMessageAck _ _ _) = 0x8002"
| "payload_type (DiagnosticMessageNegativeAck _ _ _) = 0x8003"

definition REGISTERED_PAYLOADS :: "int list" where
  "REGISTERED_PAYLOADS = [0x0001, 0x0004, 0x0005, 0x0006, 0x8001, 0x8002, 0x8003]"

subsection \<open>VehicleIdentityRequest\<close>

definition VehicleIdentityRequest_parse :: "bytes \<Rightarrow> doip_message result" where
  "VehicleIdentityRequest_parse data =
     (if length data > 0 then Inl InvalidMessage else Inr VehicleIdentityRequest)"

definition VehicleIdentityRequest_render :: "bytes result" where
  "VehicleIdentityRequest_render = Inr []"

subsection \<open>VehicleAnnouncement\<close>

text \<open>\<open>bytes.rstrip(b'\0')\<close> and \<open>bytes.ljust(n, b'\0')\<close>.\<close>

definition rstrip0 :: "bytes \<Rightarrow> bytes" where
  "rstrip0 bs = rev (dropWhile (\<lambda>b. b = 0) (rev bs))"

definition ljust0 :: "nat \<Rightarrow> bytes \<Rightarrow> bytes" where
  "ljust0 n bs = bs @ replicate (n - length bs) 0"

definition VehicleAnnouncement_parse :: "bytes \<Rightarrow> doip_message result" where
  "VehicleAnnouncement_parse data =
     (if length data \<noteq> 32 then Inl InvalidMessage
      else
        let v = rstrip0 (pyslice 0 17 data);
            la = bytes_to_num (pyslice 17 19 data);
            e = bytes_to_num (pyslice 19 25 data);
            g = bytes_to_num (pyslice 25 31 data)
        in rbind (py_get data 31) (\<lambda>a. Inr (VehicleAnnouncement (VinBytes v) la e g a)))"

definition VehicleAnnouncement_render :: "vin_value \<Rightarrow> int \<Rightarrow> int \<Rightarrow> int \<Rightarrow> int \<Rightarrow> bytes result" where
  "VehicleAnnouncement_render v la e g a =
     rbind (case v of VinStr s \<Rightarrow> utf8_encode s | VinBytes _ \<Rightarrow> Inl AttributeError) (\<lambda>encoded_vin.
       let data = ljust0 17 encoded_vin @ num_to_bytes la 2 @ num_to_bytes e 6 @ num_to_bytes g 6
       in rbind (bytearray [a]) (\<lambda>ab.
            if length (data @ ab) \<noteq> 32 then Inl InvalidMessage else Inr (data @ ab)))"

subsection \<open>RoutingActivationRequest and RoutingActivationResponse\<close>

definition RoutingActivationRequest_parse :: "bytes \<Rightarrow> doip_message result" where
  "RoutingActivationRequest_parse data =
     (if length data < 7 then Inl InvalidMessage
      else
        let source_addr = bytes_to_num (take 2 data)
        in rbind (py_get data 2) (\<lambda>t. Inr (RoutingActivationRequest source_addr t)))"

definition RoutingActivationRequest_render :: "int \<Rightarrow> int \<Rightarrow> bytes result" where
  "RoutingActivationRequest_render sa at =
     rbind (bytearray [at]) (\<lambda>tb.
       let data = num_to_bytes sa 2 @ tb @ replicate 8 0
       in if length data \<noteq> 11 then Inl InvalidMessage else Inr data)"

definition RoutingActivationResponse_parse :: "bytes \<Rightarrow> doip_message result" where
  "RoutingActivationResponse_parse data =
     (if length data \<noteq> 13 then Inl InvalidMessage
      else
        let ta = bytes_to_num (take 2 data);
            sa = bytes_to_num (pyslice 2 4 data)
        in rbind (py_get data 4) (\<lambda>c. Inr (RoutingActivationResponse ta sa c)))"

definition RoutingActivationResponse_render :: "int \<Rightarrow> int \<Rightarrow> int \<Rightarrow> bytes result" where
  "RoutingActivationResponse_render ta sa rc =
     rbind (bytearray [rc]) (\<lambda>cb.
       let data = num_to_bytes ta 2 @ num_to_bytes sa 2 @ cb @ replicate 8 0
       in if length data \<noteq> 13 then Inl InvalidMessage else Inr data)"

subsection \<open>Diagnostic messages\<close>

definition DiagnosticMessage_parse :: "bytes \<Rightarrow> doip_message result" where
  "DiagnosticMessage_parse data =
     (if length data < 5 then Inl InvalidMessage
      else
        let sa = bytes_to_num (take 2 data);
            ta = bytes_to_num (pyslice 2 4 data)
        in Inr (DiagnosticMessage ta sa (drop 4 data)))"

definition DiagnosticMessage_render :: "int \<Rightarrow> int \<Rightarrow> bytes \<Rightarrow> bytes result" where
  "DiagnosticMessage_render ta sa ud =
     rbind (bytearray ud) (\<lambda>ub.
       let data = num_to_bytes sa 2 @ num_to_bytes ta 2 @ ub
       in if length data < 5 then Inl InvalidMessage else Inr data)"

definition DiagnosticMessageAck_parse :: "bytes \<Rightarrow> doip_message result" where
  "DiagnosticMessageAck_parse data =
     (if length data < 5 then Inl InvalidMessage
      else
        let sa = bytes_to_num (take 2 data);
            ta = bytes_to_num (pyslice 2 4 data)
        in rbind (py_get data 4) (\<lambda>c. Inr (DiagnosticMessageAck sa ta c)))"

definition DiagnosticMessageAck_render :: "int \<Rightarrow> int \<Rightarrow> int \<Rightarrow> bytes result" where
  "DiagnosticMessageAck_render sa ta ac =
     rbind (bytearray [ac]) (\<lambda>ab.
       let data = num_to_bytes sa 2 @ num_to_bytes ta 2 @ ab
       in if length data < 5 then Inl InvalidMessage else Inr data)"

definition DiagnosticMessageNegativeAck_parse :: "bytes \<Rightarrow> doip_message result" where
  "DiagnosticMessageNegativeAck_parse data =
     (if length data < 5 then Inl InvalidMessage
      else
        let sa = bytes_to_num (take 2 data);
            ta = bytes_to_num (pyslice 2 4 data)
        in rbind (py_get data 4) (\<lambda>c. Inr (DiagnosticMessageNegativeAck sa ta c)))"

definition DiagnosticMessageNegativeAck_render :: "int \<Rightarrow> int \<Rightarrow> int \<Rightarrow> bytes result" where
  "DiagnosticMessageNegativeAck_render sa ta nc =
     rbind (bytearray [nc]) (\<lambda>nb.
       let data = num_to_bytes sa 2 @ num_to_bytes ta 2 @ nb
       in if length data < 5 then Inl InvalidMessage else Inr data)"

subsection \<open>Framing (DOIPMessage.parse, DOIPMessage.render)\<close>

definition parse_payload :: "int \<Rightarrow> bytes \<Rightarrow> doip_message result" where
  "parse_payload pt data =
     (if pt = 0x0001 then VehicleIdentityRequest_parse data
      else if pt = 0x0004 then VehicleAnnouncement_parse data
      else if pt = 0x0005 then RoutingActivationRequest_parse data
      else if pt = 0x0006 then RoutingActivationResponse_parse data
      else if pt = 0x8001 then DiagnosticMessage_parse data
      else if pt = 0x8002 then DiagnosticMessageAck_parse data
      else if pt = 0x8003 then DiagnosticMessageNegativeAck_parse data
      else Inl KeyError)"

definition doip_parse :: "bytes \<Rightarrow> (doip_message \<times> int) result" where
  "doip_parse data =
     rbind (py_get data 0) (\<lambda>version.
     rbind (py_get data 1) (\<lambda>inverse.
       if version \<noteq> inverse XOR 255 then Inl InvalidMessage
       else
         let pt = bytes_to_num (pyslice 2 4 data) in
         if pt \<notin> set REGISTERED_PAYLOADS then Inl MessageTypeNotSupported
         else
           let written_length = bytes_to_num (pyslice 4 8 data);
               actual_length = int (length (drop 8 data))
           in if actual_length < written_length then Inl InvalidMessage
              else rbind (parse_payload pt (pyslice 8 (8 + nat written_length) data))
                     (\<lambda>m. Inr (m, written_length + 8))))"

fun render_payload :: "doip_message \<Rightarrow> bytes result" where
  "render_payload VehicleIdentityRequest = VehicleIdentityRequest_render"
| "render_payload (VehicleAnnouncement v la e g a) = VehicleAnnouncement_render v la e g a"
| "render_payload (RoutingActivationRequest sa at) = RoutingActivationRequest_render sa at"
| "render_payload (RoutingActivationResponse ta sa rc) = RoutingActivationResponse_render ta sa rc"
| "render_payload (DiagnosticMessage ta sa ud) = DiagnosticMessage_render ta sa ud"
| "render_payload (DiagnosticMessageAck sa ta ac) = DiagnosticMessageAck_render sa ta ac"
| "render_payload (DiagnosticMessageNegativeAck sa ta nc) =
     DiagnosticMessageNegativeAck_render sa ta nc"

definition render_header :: "int \<Rightarrow> bytes \<Rightarrow> bytes" where
  "render_header pt data =
     [0x2, 0xfd] @ num_to_bytes pt 2 @ num_to_bytes (int (length data)) 4 @ data"

definition doip_render :: "doip_message \<Rightarrow> bytes result" where
  "doip_render m = rbind (render_payload m) (\<lambda>data. Inr (render_header (payload_type m) data))"


section \<open>Round trips\<close>

text \<open>The field values that fit the wire format, and what \<open>parse\<close> gives back.\<close>

fun doip_wf :: "doip_message \<Rightarrow> bool" where
  "doip_wf VehicleIdentityRequest \<longleftrightarrow> True"
| "doip_wf (VehicleAnnouncement v la e g a) \<longleftrightarrow>
     (case v of
        VinStr s \<Rightarrow> list_all (\<lambda>c. 0 \<le> c \<and> c < 128) s \<and> length s \<le> 17 \<and> (s = [] \<or> last s \<noteq> 0)
      | VinBytes _ \<Rightarrow> False) \<and>
     0 \<le> la \<and> la < 2 ^ 16 \<and> 0 \<le> e \<and> e < 2 ^ 48 \<and> 0 \<le> g \<and> g < 2 ^ 48 \<and> byte_ok a"
| "doip_wf (RoutingActivationRequest sa at) \<longleftrightarrow> 0 \<le> sa \<and> sa < 2 ^ 16 \<and> byte_ok at"
| "doip_wf (RoutingActivationResponse ta sa rc) \<longleftrightarrow>
     0 \<le> ta \<and> ta < 2 ^ 16 \<and> 0 \<le> sa \<and> sa < 2 ^ 16 \<and> byte_ok rc"
| "doip_wf (DiagnosticMessage ta sa ud) \<longleftrightarrow>
     0 \<le> ta \<and> ta < 2 ^ 16 \<and> 0 \<le> sa \<and> sa < 2 ^ 16 \<and> bytes_ok ud \<and> ud \<noteq> [] \<and>
     int (length ud) + 4 < 2 ^ 32"
| "doip_wf (DiagnosticMessageAck sa ta ac) \<longleftrightarrow>
     0 \<le> ta \<and> ta < 2 ^ 16 \<and> 0 \<le> sa \<and> sa < 2 ^ 16 \<and> byte_ok ac"
| "doip_wf (DiagnosticMessageNegativeAck sa ta nc) \<longleftrightarrow>
     0 \<le> ta \<and> ta < 2 ^ 16 \<and> 0 \<le> sa \<and> sa < 2 ^ 16 \<and> byte_ok nc"

fun doip_parsed :: "doip_message \<Rightarrow> doip_message" where
  "doip_parsed (VehicleAnnouncement (VinStr s) la e g a) = VehicleAnnouncement (VinBytes s) la e g a"
| "doip_parsed m = m"

lemma dropWhile_zeros: "dropWhile (\<lambda>b. b = 0) (replicate k (0::int) @ xs) = dropWhile (\<lambda>b. b = 0) xs"
  by (induction k) auto

lemma rstrip0_ljust0: "s = [] \<or> last s \<noteq> 0 \<Longrightarrow> rstrip0 (ljust0 n s) = s"
  by (cases s rule: rev_cases) (auto simp: rstrip0_def ljust0_def dropWhile_zeros)

lemma length_ljust0 [simp]: "length s \<le> n \<Longrightarrow> length (ljust0 n s) = n"
  by (simp add: ljust0_def)

lemma ascii_bytes_ok: "list_all (\<lambda>c. 0 \<le> c \<and> c < 128) s \<Longrightarrow> bytes_ok s"
  by (auto simp: bytes_ok_def list_all_iff byte_ok_def)

lemma num_to_bytes_2: "num_to_bytes n 2 = [n div 256 mod 256, n mod 256]"
  by (simp add: num_to_bytes_be numeral_2_eq_2)

lemma bytes_to_num_2:
  assumes "0 \<le> n" "n < 65536"
  shows "bytes_to_num [n div 256 mod 256, n mod 256] = n"
    and "bytes_to_num [n div 256, n mod 256] = n"
  using bytes_to_num_num_to_bytes [of n 2] assms by (simp_all add: num_to_bytes_2)

text \<open>The contract of a message class towards the framing.\<close>

locale payload_codec =
  fixes cls_type :: int
    and cls_parse :: "bytes \<Rightarrow> doip_message result"
    and member :: "doip_message \<Rightarrow> bool"
  assumes registered: "cls_type \<in> set REGISTERED_PAYLOADS"
    and type_range: "0 \<le> cls_type" "cls_type < 65536"
    and dispatch: "parse_payload cls_type = cls_parse"
    and member_type: "member m \<Longrightarrow> payload_type m = cls_type"
    and render_total: "member m \<Longrightarrow> doip_wf m \<Longrightarrow>
          \<exists>data. render_payload m = Inr data \<and> int (length data) < 2 ^ 32"
    and parse_render: "member m \<Longrightarrow> doip_wf m \<Longrightarrow> render_payload m = Inr data \<Longrightarrow>
          cls_parse data = Inr (doip_parsed m)"
begin

lemma framed_round_trip:
  assumes "member m" "doip_wf m"
  shows "\<exists>bs. doip_render m = Inr bs \<and>
           doip_parse (bs @ rest) = Inr (doip_parsed m, int (length bs))"
proof -
  obtain data where data: "render_payload m = Inr data" "int (length data) < 2 ^ 32"
    using render_total [OF assms] by blast
  let ?n = "int (length data)"
  have parse: "cls_parse data = Inr (doip_parsed m)"
    by (rule parse_render [OF assms data(1)])
  obtain a b c d where len: "num_to_bytes ?n 4 = [a, b, c, d]"
    using that by (simp add: num_to_bytes_be eval_nat_numeral)
  have n: "bytes_to_num [a, b, c, d] = ?n"
    using bytes_to_num_num_to_bytes [of ?n 4] data(2) by (simp add: len)
  have pt: "bytes_to_num [cls_type div 256 mod 256, cls_type mod 256] = cls_type"
    using type_range by (rule bytes_to_num_2(1))
  have bs: "render_header cls_type data =
      [2, 253, cls_type div 256 mod 256, cls_type mod 256, a, b, c, d] @ data"
    by (simp add: render_header_def num_to_bytes_2 len)
  have sl: "pyslice 8 (8 + nat ?n) (render_header cls_type data @ rest) = data"
    unfolding bs by (simp add: pyslice_def drop_take)
  have "doip_parse (render_header cls_type data @ rest) = Inr (doip_parsed m, ?n + 8)"
    using sl unfolding bs
    by (simp add: doip_parse_def pt n registered dispatch parse Let_def)
  moreover have "int (length (render_header cls_type data)) = ?n + 8"
    unfolding bs by simp
  moreover have "doip_render m = Inr (render_header cls_type data)"
    using data(1) assms(1) by (simp add: doip_render_def member_type)
  ultimately show ?thesis by auto
qed

end

lemmas codec_defs = REGISTERED_PAYLOADS_def parse_payload_def fun_eq_iff
  num_to_bytes_2 bytes_to_num_2 Let_def

interpretation vehicle_identity_request: payload_codec "0x0001" VehicleIdentityRequest_parse
  "\<lambda>m. m = VehicleIdentityRequest"
  by unfold_locales
    (auto simp: codec_defs VehicleIdentityRequest_render_def VehicleIdentityRequest_parse_def)

interpretation routing_activation_request: payload_codec "0x0005" RoutingActivationRequest_parse
  "\<lambda>m. \<exists>sa at. m = RoutingActivationRequest sa at"
  by unfold_locales
    (auto simp: codec_defs RoutingActivationRequest_render_def RoutingActivationRequest_parse_def)

interpretation routing_activation_response: payload_codec "0x0006" RoutingActivationResponse_parse
  "\<lambda>m. \<exists>ta sa rc. m = RoutingActivationResponse ta sa rc"
  by unfold_locales
    (auto simp: codec_defs RoutingActivationResponse_render_def RoutingActivationResponse_parse_def)

interpretation diagnostic_message: payload_codec "0x8001" DiagnosticMessage_parse
  "\<lambda>m. \<exists>ta sa ud. m = DiagnosticMessage ta sa ud"
  by unfold_locales
    (auto simp: codec_defs DiagnosticMessage_render_def DiagnosticMessage_parse_def Suc_le_eq
      split: if_splits)

interpretation diagnostic_message_ack: payload_codec "0x8002" DiagnosticMessageAck_parse
  "\<lambda>m. \<exists>sa ta ac. m = DiagnosticMessageAck sa ta ac"
  by unfold_locales
    (auto simp: codec_defs DiagnosticMessageAck_render_def DiagnosticMessageAck_parse_def)

interpretation diagnostic_message_nack: payload_codec "0x8003" DiagnosticMessageNegativeAck_parse
  "\<lambda>m. \<exists>sa ta nc. m = DiagnosticMessageNegativeAck sa ta nc"
  by unfold_locales
    (auto simp: codec_defs DiagnosticMessageNegativeAck_render_def
      DiagnosticMessageNegativeAck_parse_def)

lemma VehicleAnnouncement_round_trip:
  assumes "doip_wf (VehicleAnnouncement (VinStr s) la e g a)"
    and "VehicleAnnouncement_render (VinStr s) la e g a = Inr data"
  shows "VehicleAnnouncement_parse data = Inr (VehicleAnnouncement (VinBytes s) la e g a)"
proof -
  have enc: "utf8_encode s = Inr s" and len: "length s \<le> 17" and strip: "rstrip0 (ljust0 17 s) = s"
    using assms(1) by (auto intro: utf8_encode_ascii rstrip0_ljust0)
  have a: "byte_ok a" and range: "0 \<le> la" "la < 256 ^ 2" "0 \<le> e" "e < 256 ^ 6" "0 \<le> g" "g < 256 ^ 6"
    using assms(1) by auto
  let ?v = "ljust0 17 s" and ?l = "num_to_bytes la 2" and ?e = "num_to_bytes e 6"
    and ?g = "num_to_bytes g 6"
  have data: "data = ?v @ ?l @ ?e @ ?g @ [a]"
    using assms(2) enc len a by (simp add: VehicleAnnouncement_render_def Let_def)
  have "pyslice 0 17 data = ?v" "pyslice 17 19 data = ?l" "pyslice 19 25 data = ?e"
    "pyslice 25 31 data = ?g" "data ! 31 = a" "length data = 32"
    unfolding data using len by (simp_all add: pyslice_def nth_append)
  then show ?thesis
    using strip range
    by (simp add: VehicleAnnouncement_parse_def Let_def py_get_def bytes_to_num_num_to_bytes)
qed

lemma VehicleAnnouncement_render_total:
  assumes "doip_wf (VehicleAnnouncement (VinStr s) la e g a)"
  shows "\<exists>data. VehicleAnnouncement_render (VinStr s) la e g a = Inr data \<and> length data = 32"
  using assms utf8_encode_ascii [of s]
  by (auto simp: VehicleAnnouncement_render_def Let_def)

interpretation vehicle_announcement: payload_codec "0x0004" VehicleAnnouncement_parse
  "\<lambda>m. \<exists>s la e g a. m = VehicleAnnouncement (VinStr s) la e g a"
proof (unfold_locales, goal_cases)
  case (6 m)
  then obtain s la e g a where m: "m = VehicleAnnouncement (VinStr s) la e g a" by blast
  then obtain data where "render_payload m = Inr data" "length data = 32"
    using VehicleAnnouncement_render_total [of s la e g a] 6 by auto
  then show ?case by (intro exI [of _ data]) simp
next
  case (7 m data)
  then show ?case using VehicleAnnouncement_round_trip by fastforce
qed (auto simp: codec_defs)

lemma doip_wf_member:
  assumes "doip_wf m"
  obtains "m = VehicleIdentityRequest"
  | s la e g a where "m = VehicleAnnouncement (VinStr s) la e g a"
  | sa at where "m = RoutingActivationRequest sa at"
  | ta sa rc where "m = RoutingActivationResponse ta sa rc"
  | ta sa ud where "m = DiagnosticMessage ta sa ud"
  | sa ta ac where "m = DiagnosticMessageAck sa ta ac"
  | sa ta nc where "m = DiagnosticMessageNegativeAck sa ta nc"
  using assms by (cases m rule: doip_wf.cases) (auto split: vin_value.splits)

lemma doip_framed:
  assumes "doip_wf m"
  shows "\<exists>bs. doip_render m = Inr bs \<and>
           doip_parse (bs @ rest) = Inr (doip_parsed m, int (length bs))"
  using assms
proof (cases rule: doip_wf_member)
  case 1
  then show ?thesis using vehicle_identity_request.framed_round_trip assms by blast
next
  case 2
  then show ?thesis using vehicle_announcement.framed_round_trip assms by blast
next
  case 3
  then show ?thesis using routing_activation_request.framed_round_trip assms by blast
next
  case 4
  then show ?thesis using routing_activation_response.framed_round_trip assms by blast
next
  case 5
  then show ?thesis using diagnostic_message.framed_round_trip assms by blast
next
  case 6
  then show ?thesis using diagnostic_message_ack.framed_round_trip assms by blast
next
  case 7
  then show ?thesis using diagnostic_message_nack.framed_round_trip assms by blast
qed

text \<open>
  C19: for every message whose fields fit the wire format, \<open>render\<close> succeeds, and \<open>parse\<close> applied to
  the rendered bytes followed by anything returns the message (the VIN of an announcement as
  bytes) and the number of bytes \<open>render\<close> produced.
\<close>

theorem doip_parse_render:
  assumes "doip_wf m"
  shows "\<exists>bs. doip_render m = Inr bs \<and>
           doip_parse (bs @ rest) = Inr (doip_parsed m, int (length bs))"
  using assms by (rule doip_framed)

theorem doip_parse_render_witness:
  "\<exists>bs. doip_render (DiagnosticMessage 0x3300 0xE00 [0x22, 0x32, 0x00]) = Inr bs \<and>
     doip_parse (bs @ [1, 2]) =
       Inr (DiagnosticMessage 0x3300 0xE00 [0x22, 0x32, 0x00], int (length bs))"
proof -
  have wf: "doip_wf (DiagnosticMessage 0x3300 0xE00 [0x22, 0x32, 0x00])" by simp
  show ?thesis using doip_parse_render [OF wf, of "[1, 2]"] by simp
qed

section \<open>What parse accepts\<close>

lemma num_to_bytes_slice:
  assumes "bytes_ok data" "length (pyslice a b data) = k"
  shows "num_to_bytes (bytes_to_num (pyslice a b data)) k = pyslice a b data"
  using assms be_bytes_be_num [of "pyslice a b data"]
  by (auto simp: num_to_bytes_be bytes_to_num_be bytes_ok_slice)

lemma parse_payload_DiagnosticMessage:
  assumes "parse_payload pt p = Inr (DiagnosticMessage ta sa ud)" "pt \<in> set REGISTERED_PAYLOADS"
  shows "pt = 0x8001 \<and> 5 \<le> length p \<and> sa = bytes_to_num (take 2 p) \<and>
         ta = bytes_to_num (pyslice 2 4 p) \<and> ud = drop 4 p"
  using assms
  by (auto simp: parse_payload_def REGISTERED_PAYLOADS_def rbind_Inr_iff Let_def
      VehicleIdentityRequest_parse_def VehicleAnnouncement_parse_def
      RoutingActivationRequest_parse_def RoutingActivationResponse_parse_def
      DiagnosticMessage_parse_def DiagnosticMessageAck_parse_def
      DiagnosticMessageNegativeAck_parse_def split: if_splits)

lemma doip_parse_Inr:
  assumes "doip_parse data = Inr (m, used)"
  shows "2 \<le> length data" "data ! 0 = data ! 1 XOR 255"
    "bytes_to_num (pyslice 2 4 data) \<in> set REGISTERED_PAYLOADS"
    "bytes_to_num (pyslice 4 8 data) \<le> int (length (drop 8 data))"
    "parse_payload (bytes_to_num (pyslice 2 4 data))
       (pyslice 8 (8 + nat (bytes_to_num (pyslice 4 8 data))) data) = Inr m"
    "used = bytes_to_num (pyslice 4 8 data) + 8"
  using assms by (auto simp: doip_parse_def rbind_Inr_iff Let_def py_get_def split: if_splits)

lemma DiagnosticMessage_render_parse:
  assumes "bytes_ok p" "5 \<le> length p"
  shows "DiagnosticMessage_render (bytes_to_num (pyslice 2 4 p)) (bytes_to_num (take 2 p))
           (drop 4 p) = Inr p"
proof -
  have "num_to_bytes (bytes_to_num (take 2 p)) 2 = take 2 p"
    using num_to_bytes_slice [OF assms(1), of 0 2 2] assms(2) by (simp add: slice_length)
  moreover have "num_to_bytes (bytes_to_num (pyslice 2 4 p)) 2 = pyslice 2 4 p"
    using num_to_bytes_slice [OF assms(1), of 2 4 2] assms(2) by (simp add: slice_length)
  moreover have "take 2 p @ pyslice 2 4 p @ drop 4 p = p"
    using slice_slice [of 0 2 4 p] append_take_drop_id [of 4 p] by (simp flip: append_assoc)
  moreover have "bytes_ok (drop 4 p)" "length (pyslice 2 4 p) = 2"
    using assms by (auto simp: slice_length)
  ultimately show ?thesis
    using assms(2) by (simp add: DiagnosticMessage_render_def)
qed

lemma render_header_parse:
  assumes ok: "bytes_ok data" and len: "8 \<le> length data"
    and v: "data ! 0 = 2" "data ! 0 = data ! 1 XOR 255"
    and n: "int n = bytes_to_num (pyslice 4 8 data)" "length (pyslice 8 (8 + n) data) = n"
  shows "render_header (bytes_to_num (pyslice 2 4 data)) (pyslice 8 (8 + n) data) =
           take (8 + n) data"
proof -
  have "num_to_bytes (bytes_to_num (pyslice 2 4 data)) 2 = pyslice 2 4 data"
    using num_to_bytes_slice [OF ok, of 2 4 2] len by (simp add: slice_length)
  moreover have "num_to_bytes (int n) 4 = pyslice 4 8 data"
    using num_to_bytes_slice [OF ok, of 4 8 4] len n(1) by (simp add: slice_length)
  moreover have "[2, 0xfd] = pyslice 0 2 data"
  proof -
    have "data ! 1 = (data ! 1 XOR 255) XOR 255" by (simp add: xor.assoc)
    then have "data ! 1 = 253" using v by simp
    then show ?thesis using len v by (cases data; cases "tl data") (auto simp: numeral_2_eq_2)
  qed
  moreover have "pyslice 0 2 data @ pyslice 2 4 data @ pyslice 4 8 data @ pyslice 8 (8 + n) data =
      pyslice 0 (8 + n) data"
    using slice_slice [of 4 8 "8 + n" data] slice_slice [of 2 4 "8 + n" data]
      slice_slice [of 0 2 "8 + n" data] by simp
  ultimately show ?thesis using n(2) by (simp add: render_header_def)
qed

text \<open>
  Re-rendering a diagnostic message that was accepted with protocol version 2 gives back
  exactly the bytes of the buffer that \<open>parse\<close> reports as used, so no byte of the request is
  lost or invented between the two.
\<close>

lemma doip_render_parse:
  assumes ok: "bytes_ok data" and v: "data ! 0 = 2"
    and parse: "doip_parse data = Inr (DiagnosticMessage ta sa ud, used)"
  shows "doip_render (DiagnosticMessage ta sa ud) = Inr (take (nat used) data)"
proof -
  define n where "n = nat (bytes_to_num (pyslice 4 8 data))"
  let ?p = "pyslice 8 (8 + n) data"
  note inv = doip_parse_Inr [OF parse]
  have pt: "bytes_to_num (pyslice 2 4 data) = 0x8001" and p5: "5 \<le> length ?p"
    and fields: "sa = bytes_to_num (take 2 ?p)" "ta = bytes_to_num (pyslice 2 4 ?p)"
      "ud = drop 4 ?p"
    using parse_payload_DiagnosticMessage [OF inv(5) inv(3)] by (auto simp: n_def)
  have "0 \<le> bytes_to_num (pyslice 4 8 data)"
    using be_num_bounds [of "pyslice 4 8 data"] ok by (simp add: bytes_to_num_be bytes_ok_slice)
  then have nn: "int n = bytes_to_num (pyslice 4 8 data)" and used: "nat used = 8 + n"
    using inv(6) by (simp_all add: n_def)
  have np: "length ?p = n" using inv(4) nn by (simp add: pyslice_def)
  have "DiagnosticMessage_render ta sa ud = Inr ?p"
    unfolding fields by (rule DiagnosticMessage_render_parse [OF bytes_ok_slice [OF ok] p5])
  moreover have "8 \<le> length data" using p5 by (simp add: pyslice_def)
  then have "render_header 0x8001 ?p = take (8 + n) data"
    using render_header_parse [OF ok _ v inv(2) nn np] pt by simp
  ultimately show ?thesis using used by (simp add: doip_render_def)
qed

text \<open>
  An announcement that came out of \<open>parse\<close> cannot be rendered again: its VIN is a
  \<open>bytearray\<close>, and \<open>render\<close> calls \<open>encode\<close> on it, which raises \<open>AttributeError\<close>.
\<close>

lemma parsed_announcement_not_renderable:
  assumes "doip_parse data = Inr (VehicleAnnouncement v la e g a, used)"
  shows "doip_render (VehicleAnnouncement v la e g a) = Inl AttributeError"
proof -
  have "\<exists>bs. v = VinBytes bs"
    using doip_parse_Inr(5) [OF assms] doip_parse_Inr(3) [OF assms]
    by (auto simp: parse_payload_def REGISTERED_PAYLOADS_def rbind_Inr_iff Let_def
        VehicleIdentityRequest_parse_def VehicleAnnouncement_parse_def
        RoutingActivationRequest_parse_def RoutingActivationResponse_parse_def
        DiagnosticMessage_parse_def DiagnosticMessageAck_parse_def
        DiagnosticMessageNegativeAck_parse_def split: if_splits)
  then show ?thesis by (auto simp: doip_render_def VehicleAnnouncement_render_def)
qed

end
