(* ===== verification/Uds_Service.thy ===== *)
theory Uds_Service
  imports Doip_Message
begin

text \<open>
  The UDS layer of \<open>doip_lib/uds.py\<close> (request parsing and reply rendering of the three registered
  services) and the data source of \<open>doip_lib/simulator.py\<close> with the output formats that
  \<open>services/doip_service.py\<close> configures. The signal generators (\<open>framp\<close>, \<open>fsine\<close>, \<open>fstep\<close>)
  are floating-point functions of the time of day; the model takes the generator of an endpoint,
  and the clock, as parameters.
\<close>

section \<open>Services (uds.py)\<close>

datatype uds_service =
    TesterPresent (suppress_reply: int) (is_reply: bool)
  | ReadDataByIdentifier (data_identifier: int) (readdata: "bytes option") (is_reply: bool)
  | UdsError (service_id_with_error: int) (error_code: int) (is_reply: bool)

fun service_id :: "uds_service \<Rightarrow> int" where
  "service_id (TesterPresent _ _) = 0x3e"
| "service_id (ReadDataByIdentifier _ _ _) = 0x22"
| "service_id (UdsError _ _ _) = 0x3f"

definition REGISTERED_SERVICEIDS :: "int list" where
  "REGISTERED_SERVICEIDS = [0x3e, 0x22, 0x3f]"

abbreviation (input) "UDS_SERVICE_NOT_SUPPORTED \<equiv> (0x11 :: int)"
abbreviation (input) "UDS_INVALID_FORMAT \<equiv> (0x13 :: int)"
abbreviation (input) "UDS_REQUEST_OUT_OF_RANGE \<equiv> (0x31 :: int)"

definition TesterPresent_parse :: "bytes \<Rightarrow> bool \<Rightarrow> uds_service result" where
  "TesterPresent_parse data reply =
     (if length data < 1 then Inl UdsInvalidMessage
      else rbind (py_get data 0) (\<lambda>s. Inr (TesterPresent s reply)))"

definition ReadDataByIdentifier_parse :: "bytes \<Rightarrow> bool \<Rightarrow> uds_service result" where
  "ReadDataByIdentifier_parse data reply =
     (if length data < 2 then Inl UdsInvalidMessage
      else Inr (ReadDataByIdentifier (bytes_to_num (take 2 data))
                  (if reply then Some (drop 2 data) else None) reply))"

definition UdsError_parse :: "bytes \<Rightarrow> bool \<Rightarrow> uds_service result" where
  "UdsError_parse data reply =
     (if length data \<noteq> 2 then Inl UdsInvalidMessage
      else rbind (py_get data 0) (\<lambda>s. rbind (py_get data 1) (\<lambda>c. Inr (UdsError s c reply))))"

definition uds_parse :: "bytes \<Rightarrow> uds_service result" where
  "uds_parse data =
     (if length data = 0 then Inl UdsInvalidMessage
      else
        let sid = hd data AND 0xbf;
            reply = (hd data AND 0x40 \<noteq> 0)
        in if sid \<notin> set REGISTERED_SERVICEIDS then Inl ServiceIDNotSupported
           else if sid = 0x3e then TesterPresent_parse (drop 1 data) reply
           else if sid = 0x22 then ReadDataByIdentifier_parse (drop 1 data) reply
           else UdsError_parse (drop 1 data) reply)"

text \<open>\<open>UDSService.render(data, is_reply)\<close>: the response bit is set in the service byte.\<close>

definition uds_service_render :: "int \<Rightarrow> bytes \<Rightarrow> bool \<Rightarrow> bytes result" where
  "uds_service_render sid data reply =
     rbind (bytearray [if reply then sid OR 0x40 else sid]) (\<lambda>h. Inr (h @ data))"

fun uds_render :: "uds_service \<Rightarrow> bool \<Rightarrow> bytes result" where
  "uds_render (TesterPresent s r) reply =
     rbind (bytearray [s]) (\<lambda>data.
       if length data < 1 then Inl UdsInvalidMessage else uds_service_render 0x3e data reply)"
| "uds_render (ReadDataByIdentifier ident ud r) reply =
     (let data = num_to_bytes ident 2 @
                   (if reply then (case ud of None \<Rightarrow> [] | Some d \<Rightarrow> d) else [])
      in if length data < 2 then Inl UdsInvalidMessage else uds_service_render 0x22 data reply)"
| "uds_render (UdsError s c r) reply =
     rbind (bytearray [s, c]) (\<lambda>data.
       if length data < 2 then Inl UdsInvalidMessage else uds_service_render 0x3f data reply)"

fun uds_wf :: "uds_service \<Rightarrow> bool" where
  "uds_wf (TesterPresent s r) \<longleftrightarrow> byte_ok s"
| "uds_wf (ReadDataByIdentifier ident ud r) \<longleftrightarrow>
     0 \<le> ident \<and> ident < 2 ^ 16 \<and> (case ud of None \<Rightarrow> \<not> r | Some d \<Rightarrow> r \<and> bytes_ok d)"
| "uds_wf (UdsError s c r) \<longleftrightarrow> byte_ok s \<and> byte_ok c"

lemma service_id_bits [simp]:
  "(0x3e :: int) OR 0x40 = 0x7e" "(0x22 :: int) OR 0x40 = 0x62" "(0x3f :: int) OR 0x40 = 0x7f"
  by simp_all

text \<open>
  A UDS message whose fields fit their width survives rendering and parsing: rendering it with
  its own reply flag succeeds, and parsing the bytes gives the same message, the reply flag being
  recovered from bit 6 of the service byte.
\<close>

lemma uds_parse_render:
  assumes "uds_wf m"
  shows "\<exists>bs. uds_render m (is_reply m) = Inr bs \<and> uds_parse bs = Inr m"
proof (cases m)
  case (TesterPresent s r)
  then show ?thesis using assms
    by (cases r) (auto simp: uds_service_render_def uds_parse_def REGISTERED_SERVICEIDS_def
        TesterPresent_parse_def)
next
  case (ReadDataByIdentifier ident ud r)
  then show ?thesis using assms
    by (cases r; cases ud) (auto simp: uds_service_render_def uds_parse_def REGISTERED_SERVICEIDS_def
        ReadDataByIdentifier_parse_def num_to_bytes_2 bytes_to_num_2 Let_def)
next
  case (UdsError s c r)
  then show ?thesis using assms
    by (cases r) (auto simp: uds_service_render_def uds_parse_def REGISTERED_SERVICEIDS_def
        UdsError_parse_def)
qed

lemma uds_render_reply_head:
  assumes "uds_render m True = Inr bs"
  shows "\<exists>rest. bs = (service_id m OR 0x40) # rest"
  using assms
  by (cases m) (auto simp: uds_service_render_def rbind_Inr_iff Let_def split: if_splits)

lemma uds_render_reply_total:
  assumes "uds_wf m"
  shows "\<exists>bs. uds_render m True = Inr bs \<and> bytes_ok bs \<and>
           length bs \<le> 3 + (case m of ReadDataByIdentifier _ (Some d) _ \<Rightarrow> length d | _ \<Rightarrow> 0)"
  using assms
  by (cases m) (auto simp: uds_service_render_def Let_def split: option.splits)

section \<open>Identifier data (simulator.py) and output formats (doip_service.py)\<close>

type_synonym 't endpoint = "string \<times> ('t \<Rightarrow> 't \<Rightarrow> int) \<times> (int \<Rightarrow> bytes result)"

record 't identifier_data_simulator =
  identifier_map :: "int \<rightharpoonup> int \<rightharpoonup> 't endpoint"
  start_time :: 't

definition has_target_address :: "'t identifier_data_simulator \<Rightarrow> int \<Rightarrow> bool" where
  "has_target_address sim ta \<longleftrightarrow> identifier_map sim ta \<noteq> None"

definition read_value :: "'t identifier_data_simulator \<Rightarrow> 't \<Rightarrow> int \<Rightarrow> int \<Rightarrow> bytes result" where
  "read_value sim timestamp ta ident =
     (case identifier_map sim ta of
        None \<Rightarrow> Inl IdentifierNotFound
      | Some target_map \<Rightarrow>
          (case target_map ident of
             None \<Rightarrow> Inl IdentifierNotFound
           | Some (label, generator_fn, format_fn) \<Rightarrow>
               rbind (format_fn (generator_fn timestamp (start_time sim))) bytearray))"

definition accelerator_format :: "int \<Rightarrow> bytes result" where
  "accelerator_format n = Inr [n]"

definition brakehydralic_format :: "int \<Rightarrow> bytes result" where
  "brakehydralic_format n = Inr (num_to_bytes n 2)"

text \<open>\<open>bytearray + list\<close> is not defined in Python: the concatenation raises \<open>TypeError\<close>.\<close>

definition bytearray_plus_list :: "bytes \<Rightarrow> int list \<Rightarrow> bytes result" where
  "bytearray_plus_list ba xs = Inl TypeError"

definition steeringangle_format :: "int \<Rightarrow> bytes result" where
  "steeringangle_format n =
     (let sign = (if n < 0 then 1 else 0); magnitude = \<bar>n\<bar>
      in bytearray_plus_list (num_to_bytes magnitude 2) [sign])"

text \<open>The data map of \<open>config\<close>, over the three generators it is built with.\<close>

definition config_datamap ::
    "('t \<Rightarrow> 't \<Rightarrow> int) \<Rightarrow> ('t \<Rightarrow> 't \<Rightarrow> int) \<Rightarrow> ('t \<Rightarrow> 't \<Rightarrow> int) \<Rightarrow> int \<rightharpoonup> int \<rightharpoonup> 't endpoint" where
  "config_datamap ramp_acc ramp_brake sine =
     [0x3300 \<mapsto> [0x3200 \<mapsto> (''Dummy Accelerator'', ramp_acc, accelerator_format),
                  0x3230 \<mapsto> (''Dummy Brake'', ramp_brake, brakehydralic_format)],
      0x3301 \<mapsto> [0x3250 \<mapsto> (''Dummy Steering'', sine, steeringangle_format)]]"

lemma read_value_bytes:
  assumes "read_value sim t ta ident = Inr d"
  shows "bytes_ok d" and "has_target_address sim ta"
  using assms
  by (auto simp: read_value_def has_target_address_def bytearray_def rbind_Inr_iff
      split: option.splits prod.splits if_splits)

end
