(* ===== verification/Doip_Server.thy ===== *)
theory Doip_Server
  imports Uds_Service
begin

text \<open>
  The DoIP server of \<open>doip_lib/server.py\<close>: the body of the TCP session loop, the session over
  what the stream reader returns, and the UDP handler, with the counter that simulates a crash
  after three over-long packets. Calls on asyncio objects are recorded as events, in order.
\<close>

section \<open>State\<close>

datatype server_event =
    Write bytes
  | TcpServerClose
  | WriterClose
  | Sleep nat
  | StartTcpServer
  | UdpTransportClose
  | StartUdpServer

record doip_server =
  should_stop_cnt :: int
  should_restart_tcp :: bool
  events :: "server_event list"

definition emit :: "server_event \<Rightarrow> doip_server \<Rightarrow> doip_server" where
  "emit e srv = srv\<lparr>events := events srv @ [e]\<rparr>"

abbreviation "emit_all es srv \<equiv> fold emit es srv"

text \<open>How one pass of the session loop ends.\<close>

datatype loop_end = Continue | Break | Raise py_error

type_synonym session_state = "doip_server \<times> bool"

definition write_message :: "doip_message \<Rightarrow> doip_server \<Rightarrow> doip_server outcome" where
  "write_message m srv =
     (case doip_render m of Inl e \<Rightarrow> raises e srv | Inr bs \<Rightarrow> done_with (emit (Write bs) srv))"

section \<open>The diagnostic reply\<close>

text \<open>
  The \<open>try\<close> block after the acknowledgement: parse the UDS request, build the reply, and turn the
  two UDS exceptions into error replies. Any other exception leaves the block.
\<close>

definition uds_reply_for ::
    "'t identifier_data_simulator \<Rightarrow> 't \<Rightarrow> int \<Rightarrow> uds_service \<Rightarrow> uds_service result" where
  "uds_reply_for sim now ta req =
     (case req of
        TesterPresent _ _ \<Rightarrow> Inr req
      | ReadDataByIdentifier ident _ _ \<Rightarrow>
          (case read_value sim now ta ident of
             Inr d \<Rightarrow> Inr (ReadDataByIdentifier ident (Some d) True)
           | Inl IdentifierNotFound \<Rightarrow> Inr (UdsError 0x22 UDS_REQUEST_OUT_OF_RANGE False)
           | Inl e \<Rightarrow> Inl e)
      | UdsError _ _ _ \<Rightarrow> Inr (UdsError 0x22 UDS_SERVICE_NOT_SUPPORTED False))"

definition diagnostic_reply ::
    "'t identifier_data_simulator \<Rightarrow> 't \<Rightarrow> int \<Rightarrow> int \<Rightarrow> bytes \<Rightarrow> doip_message result" where
  "diagnostic_reply sim now sa ta ud =
     (let error_reply = (\<lambda>code.
            rbind (py_get ud 0) (\<lambda>sid.
            rbind (uds_render (UdsError sid code False) True) (\<lambda>bs.
              Inr (DiagnosticMessage sa ta bs))))
      in case rbind (uds_parse ud) (\<lambda>req.
                rbind (uds_reply_for sim now ta req) (\<lambda>reply.
                rbind (uds_render reply True) (\<lambda>bs. Inr (DiagnosticMessage sa ta bs)))) of
           Inr m \<Rightarrow> Inr m
         | Inl ServiceIDNotSupported \<Rightarrow> error_reply UDS_SERVICE_NOT_SUPPORTED
         | Inl UdsInvalidMessage \<Rightarrow> error_reply UDS_INVALID_FORMAT
         | Inl e \<Rightarrow> Inl e)"

section \<open>One pass of the TCP session loop\<close>

definition handle_diagnostic ::
    "'t identifier_data_simulator \<Rightarrow> 't \<Rightarrow> doip_message \<Rightarrow> doip_server \<Rightarrow> doip_server outcome" where
  "handle_diagnostic sim now request srv =
     (case request of
        DiagnosticMessage ta sa ud \<Rightarrow>
          (if \<not> has_target_address sim ta
           then write_message (DiagnosticMessageNegativeAck sa ta 0x03) srv
           else andthen (write_message (DiagnosticMessageAck sa ta 0x0) srv) (\<lambda>srv.
                  case diagnostic_reply sim now sa ta ud of
                    Inl e \<Rightarrow> raises e srv
                  | Inr m \<Rightarrow> write_message m srv))
      | _ \<Rightarrow> done_with srv)"

definition overlong_packet :: "doip_server \<Rightarrow> doip_server" where
  "overlong_packet srv =
     (let srv = srv\<lparr>should_stop_cnt := should_stop_cnt srv + 1\<rparr>
      in if should_stop_cnt srv = 3
         then emit StartTcpServer
                ((emit_all [TcpServerClose, WriterClose, Sleep 3] (srv\<lparr>should_stop_cnt := 0\<rparr>))
                   \<lparr>should_restart_tcp := True\<rparr>)
         else srv)"

definition loop_of :: "doip_server outcome \<Rightarrow> bool \<Rightarrow> session_state \<times> loop_end" where
  "loop_of r activated = (case r of (srv, None) \<Rightarrow> ((srv, activated), Continue)
                          | (srv, Some e) \<Rightarrow> ((srv, activated), Raise e))"

definition tcp_step ::
    "int \<Rightarrow> 't identifier_data_simulator \<Rightarrow> 't \<Rightarrow> bytes \<Rightarrow> session_state \<Rightarrow> session_state \<times> loop_end" where
  "tcp_step discovery sim now data st =
     (case st of (srv, routing_activated) \<Rightarrow>
       if length data = 0 then (st, Break)
       else if length data \<ge> 50 then ((overlong_packet srv, routing_activated), Continue)
       else
         (case doip_parse data of
            Inl e \<Rightarrow> (st, Raise e)
          | Inr (request, used) \<Rightarrow>
              if \<not> routing_activated then
                (case request of
                   RoutingActivationRequest sa at \<Rightarrow>
                     (case write_message (RoutingActivationResponse sa discovery 0x10) srv of
                        (srv', None) \<Rightarrow> ((srv', True), Continue)
                      | (srv', Some e) \<Rightarrow> ((srv', False), Raise e))
                 | _ \<Rightarrow> (st, Break))
              else loop_of (handle_diagnostic sim now request srv) routing_activated))"

text \<open>
  The loop over successive results of \<open>reader.read()\<close>; once the list is used up the reader returns
  \<open>b''\<close>. Every exception is caught, and the \<open>finally\<close> clause closes the writer.
\<close>

fun tcp_loop ::
    "int \<Rightarrow> 't identifier_data_simulator \<Rightarrow> 't \<Rightarrow> bytes list \<Rightarrow> session_state \<Rightarrow> session_state" where
  "tcp_loop discovery sim now [] st = fst (tcp_step discovery sim now [] st)"
| "tcp_loop discovery sim now (data # chunks) st =
     (case tcp_step discovery sim now data st of
        (st', Continue) \<Rightarrow> tcp_loop discovery sim now chunks st'
      | (st', _) \<Rightarrow> st')"

text \<open>
  \<open>StreamReader.read()\<close> without a size reads until end of file: the first call returns the whole
  stream, every later one \<open>b''\<close>.
\<close>

definition reads_to_eof :: "bytes \<Rightarrow> bytes list" where
  "reads_to_eof stream = (if stream = [] then [] else [stream])"

definition handle_tcp_session ::
    "int \<Rightarrow> 't identifier_data_simulator \<Rightarrow> 't \<Rightarrow> bytes \<Rightarrow> doip_server \<Rightarrow> doip_server" where
  "handle_tcp_session discovery sim now stream srv =
     emit WriterClose (fst (tcp_loop discovery sim now (reads_to_eof stream) (srv, False)))"

section \<open>The UDP handler\<close>

definition udp_message_handler :: "bytes \<Rightarrow> doip_server \<Rightarrow> doip_server" where
  "udp_message_handler data srv =
     (if length data \<ge> 100 then
        let srv = srv\<lparr>should_stop_cnt := should_stop_cnt srv + 1\<rparr>
        in if should_stop_cnt srv = 3
           then (emit_all [UdpTransportClose, Sleep 5, StartUdpServer]
                   (srv\<lparr>should_stop_cnt := 0\<rparr>))\<lparr>should_stop_cnt := 0\<rparr>
           else srv
      else srv)"

section \<open>Crash simulation\<close>

text \<open>Restarts recorded so far, and the packets that count towards the next one.\<close>

definition restarts :: "doip_server \<Rightarrow> nat" where
  "restarts srv = length (filter (\<lambda>e. e = TcpServerClose \<or> e = UdpTransportClose) (events srv))"

definition crash_inv :: "doip_server \<Rightarrow> bool" where
  "crash_inv srv \<longleftrightarrow> 0 \<le> should_stop_cnt srv \<and> should_stop_cnt srv < 3"

definition crash_weight :: "doip_server \<Rightarrow> int" where
  "crash_weight srv = 3 * int (restarts srv) + should_stop_cnt srv"

lemma emit_simps [simp]:
  "events (emit e srv) = events srv @ [e]"
  "should_stop_cnt (emit e srv) = should_stop_cnt srv"
  "should_restart_tcp (emit e srv) = should_restart_tcp srv"
  by (simp_all add: emit_def)

locale crash_simulating =
  fixes handle :: "'i \<Rightarrow> doip_server \<Rightarrow> doip_server"
    and overlong :: "'i \<Rightarrow> bool"
  assumes inv: "crash_inv srv \<Longrightarrow> crash_inv (handle i srv)"
    and weight: "crash_inv srv \<Longrightarrow>
          crash_weight (handle i srv) = crash_weight srv + (if overlong i then 1 else 0)"
begin

lemma fold_weight:
  "crash_inv srv \<Longrightarrow> crash_inv (fold handle is srv) \<and>
     crash_weight (fold handle is srv) = crash_weight srv + int (length (filter overlong is))"
  by (induction "is" arbitrary: srv) (auto simp: inv weight)

lemma fold_restarts:
  assumes "crash_inv srv" "events srv = []" "should_stop_cnt srv = 0"
  shows "restarts (fold handle is srv) = length (filter overlong is) div 3"
proof -
  have "3 * int (restarts (fold handle is srv)) + should_stop_cnt (fold handle is srv) =
      int (length (filter overlong is))"
    and "crash_inv (fold handle is srv)"
    using fold_weight [OF assms(1), of "is"] assms(2,3)
    by (simp_all add: crash_weight_def restarts_def)
  then show ?thesis unfolding crash_inv_def by linarith
qed

end

interpretation udp: crash_simulating udp_message_handler "\<lambda>data. 100 \<le> length data"
  by unfold_locales
    (auto simp: crash_inv_def crash_weight_def restarts_def udp_message_handler_def Let_def)

lemma write_message_frame:
  "should_stop_cnt (fst (write_message m srv)) = should_stop_cnt srv"
  "restarts (fst (write_message m srv)) = restarts srv"
  by (auto simp: write_message_def restarts_def split: sum.splits)

lemma handle_diagnostic_frame:
  "should_stop_cnt (fst (handle_diagnostic sim now m srv)) = should_stop_cnt srv \<and>
   restarts (fst (handle_diagnostic sim now m srv)) = restarts srv"
proof (cases m)
  case (DiagnosticMessage ta sa ud)
  let ?P = "\<lambda>s. should_stop_cnt s = should_stop_cnt srv \<and> restarts s = restarts srv"
  have "?P (fst (andthen (write_message (DiagnosticMessageAck sa ta 0) srv) (\<lambda>srv.
      case diagnostic_reply sim now sa ta ud of
        Inl e \<Rightarrow> raises e srv | Inr m \<Rightarrow> write_message m srv)))"
    by (rule andthen_fst_inv) (auto simp: write_message_frame split: sum.splits)
  then show ?thesis
    using DiagnosticMessage by (auto simp: handle_diagnostic_def write_message_frame)
qed (auto simp: handle_diagnostic_def)

lemma tcp_step_crash:
  assumes "crash_inv srv"
  shows "crash_inv (fst (fst (tcp_step disc sim now data (srv, act))))"
    and "crash_weight (fst (fst (tcp_step disc sim now data (srv, act)))) =
           crash_weight srv + (if 50 \<le> length data then 1 else 0)"
proof -
  let ?r = "fst (fst (tcp_step disc sim now data (srv, act)))"
  have "(should_stop_cnt ?r = should_stop_cnt srv \<and> restarts ?r = restarts srv) \<or>
      (50 \<le> length data \<and> ?r = overlong_packet srv)"
    and "50 \<le> length data \<Longrightarrow> ?r = overlong_packet srv"
    using handle_diagnostic_frame [of sim now _ srv] write_message_frame [of _ srv]
    by (auto simp: tcp_step_def loop_of_def split: sum.splits prod.splits option.splits
        doip_message.splits) (metis fst_conv)+
  moreover have "crash_inv (overlong_packet srv)"
    "crash_weight (overlong_packet srv) = crash_weight srv + 1"
    using assms by (auto simp: overlong_packet_def crash_inv_def crash_weight_def restarts_def Let_def)
  ultimately show "crash_inv ?r"
    "crash_weight ?r = crash_weight srv + (if 50 \<le> length data then 1 else 0)"
    using assms by (auto simp: crash_inv_def crash_weight_def)
qed

lemma tcp_step_empty [simp]: "tcp_step disc sim now [] st = (st, Break)"
  by (cases st) (simp add: tcp_step_def)

lemma handle_tcp_session_step:
  "handle_tcp_session disc sim now stream srv =
     emit WriterClose (fst (fst (tcp_step disc sim now stream (srv, False))))"
  by (cases "tcp_step disc sim now stream (srv, False)")
    (auto simp: handle_tcp_session_def reads_to_eof_def split: loop_end.splits)

interpretation tcp: crash_simulating "\<lambda>stream. handle_tcp_session disc sim now stream"
  "\<lambda>stream. 50 \<le> length stream" for disc sim now
proof
  fix srv i assume "crash_inv srv"
  then show "crash_inv (handle_tcp_session disc sim now i srv)"
    and "crash_weight (handle_tcp_session disc sim now i srv) =
      crash_weight srv + (if 50 \<le> length i then 1 else 0)"
    using tcp_step_crash [of srv disc sim now i False]
    by (auto simp: handle_tcp_session_step crash_inv_def crash_weight_def restarts_def)
qed

text \<open>Sessions and datagrams interleave on the one counter.\<close>

datatype input = TcpSession bytes | UdpDatagram bytes

definition serve ::
    "int \<Rightarrow> 't identifier_data_simulator \<Rightarrow> 't \<Rightarrow> input \<Rightarrow> doip_server \<Rightarrow> doip_server" where
  "serve disc sim now i srv =
     (case i of TcpSession stream \<Rightarrow> handle_tcp_session disc sim now stream srv
      | UdpDatagram data \<Rightarrow> udp_message_handler data srv)"

fun overlong_input :: "input \<Rightarrow> bool" where
  "overlong_input (TcpSession stream) \<longleftrightarrow> 50 \<le> length stream"
| "overlong_input (UdpDatagram data) \<longleftrightarrow> 100 \<le> length data"

interpretation server: crash_simulating "serve disc sim now" overlong_input for disc sim now
  by unfold_locales
    (auto simp: serve_def udp.inv udp.weight tcp.inv tcp.weight split: input.splits)

definition init_server :: doip_server where
  "init_server = \<lparr>should_stop_cnt = 0, should_restart_tcp = False, events = []\<rparr>"


section \<open>What a session answers\<close>

lemma doip_round_trip:
  assumes "doip_wf m" "\<And>v la e g a. m \<noteq> VehicleAnnouncement v la e g a"
  obtains bs where "doip_render m = Inr bs" "doip_parse bs = Inr (m, int (length bs))"
proof -
  have "doip_parsed m = m"
  proof (cases m)
    case VehicleAnnouncement
    then show ?thesis using assms(2) by blast
  qed simp_all
  then show ?thesis using doip_framed [OF assms(1), of "[]"] that by auto
qed

lemma write_message_wf:
  assumes "doip_wf m" "\<And>v la e g a. m \<noteq> VehicleAnnouncement v la e g a"
  obtains bs where "write_message m srv = done_with (emit (Write bs) srv)"
    "doip_parse bs = Inr (m, int (length bs))"
  using doip_round_trip [OF assms] by (metis (no_types, lifting) sum.case(2) write_message_def)

lemma diagnostic_reply_read:
  assumes "byte_ok hi" "byte_ok lo" and "read_value sim now ta (hi * 256 + lo) = Inr d"
  shows "diagnostic_reply sim now sa ta (0x22 # hi # lo # rest) =
           Inr (DiagnosticMessage sa ta (0x62 # hi # lo # d))"
proof -
  have num: "bytes_to_num [hi, lo] = hi * 256 + lo"
    using assms(1,2) by (simp add: bytes_to_num_be be_num_def)
  have "num_to_bytes (hi * 256 + lo) 2 = [hi, lo]"
    using assms(1,2) by (simp add: num_to_bytes_2 byte_ok_def)
  then show ?thesis
    using assms(3) num
    by (simp add: diagnostic_reply_def uds_parse_def REGISTERED_SERVICEIDS_def Let_def
        ReadDataByIdentifier_parse_def uds_reply_for_def uds_service_render_def)
qed


definition sample_sim :: "nat identifier_data_simulator" where
  "sample_sim = \<lparr>identifier_map = config_datamap (\<lambda>t t0. 7) (\<lambda>t t0. 0x1234) (\<lambda>t t0. 5),
                 start_time = 0\<rparr>"




lemma overlong_packet_events:
  "events (overlong_packet srv) =
     events srv @ (if should_stop_cnt srv = 2
                   then [TcpServerClose, WriterClose, Sleep 3, StartTcpServer] else [])"
  by (simp add: overlong_packet_def Let_def)

text \<open>
  C40: because \<open>reader.read()\<close> without a size returns only at end of file, a session sees at most one
  packet; everything a session ever writes is a routing activation response, so no diagnostic
  request of any client is acknowledged or answered.
\<close>

theorem session_never_answers_diagnostics:
  "\<exists>es. events (handle_tcp_session disc sim now stream srv) = events srv @ es \<and>
     (\<forall>bs. Write bs \<in> set es \<longrightarrow>
        (\<exists>sa. doip_render (RoutingActivationResponse sa disc 0x10) = Inr bs))"
proof -
  obtain srv' act fin where t: "tcp_step disc sim now stream (srv, False) = ((srv', act), fin)"
    by (metis surj_pair)
  have ev: "events (handle_tcp_session disc sim now stream srv) = events srv' @ [WriterClose]"
    by (simp add: handle_tcp_session_step t)
  show ?thesis
  proof (cases "50 \<le> length stream")
    case True
    then have "srv' = overlong_packet srv" using t by (auto simp: tcp_step_def split: if_splits)
    with ev show ?thesis by (simp add: overlong_packet_events)
  next
    case False
    then have "srv' = srv \<or> (\<exists>sa bs. doip_render (RoutingActivationResponse sa disc 0x10) = Inr bs \<and>
        srv' = emit (Write bs) srv)"
      using t
      by (auto simp: tcp_step_def write_message_def raises_def done_with_def
          split: if_splits sum.splits prod.splits doip_message.splits)
    then show ?thesis using ev by auto
  qed
qed

theorem session_never_answers_diagnostics_witness:
  "\<exists>es. events (handle_tcp_session 0x3000 sample_sim 1
        [2, 0xfd, 0, 5, 0, 0, 0, 7, 0x0E, 0, 0, 0, 0, 0, 0] init_server) = [] @ es \<and>
     (\<forall>bs. Write bs \<in> set es \<longrightarrow>
        (\<exists>sa. doip_render (RoutingActivationResponse sa 0x3000 0x10) = Inr bs))"
  using session_never_answers_diagnostics
    [of "0x3000" sample_sim 1 "[2, 0xfd, 0, 5, 0, 0, 0, 7, 0x0E, 0, 0, 0, 0, 0, 0]" init_server]
  by (simp add: init_server_def)

text \<open>
  Reading the steering angle (identifier \<open>0x3250\<close> on target \<open>0x3301\<close>) of the shipped
  configuration never produces a reply: the format function adds a list to a \<open>bytearray\<close>, so after
  the acknowledgement the session ends with \<open>TypeError\<close>, whatever the generator returns.
\<close>

lemma steering_angle_unreadable:
  assumes "identifier_map sim = config_datamap g1 g2 g3"
  shows "read_value sim now 0x3301 0x3250 = Inl TypeError"
  using assms
  by (simp add: read_value_def config_datamap_def steeringangle_format_def
      bytearray_plus_list_def Let_def)

end
