(* ===== verification/Can_Engine.thy ===== *)
theory Can_Engine
  imports Prelude
begin

text \<open>
  The task engine of \<open>engine/engine.py\<close>: CAN messages and the \<open>Task.send\<close>/\<open>Task._send\<close> helpers
  every task inherits, the periodic threads, and \<open>Engine\<close> with registration, start, stop and
  resume. Threads are objects with identity, so the engine keeps them in a store indexed by
  reference; a thread that has seen its stop event leaves its loop (\<open>Leaving\<close>) before
  \<open>is_alive()\<close> turns false (\<open>Dead\<close>), and the step relation interleaves the two with the engine's
  own operations.
\<close>

section \<open>Messages and sending\<close>

record can_message =
  arbitration_id :: int
  data :: bytes
  is_extended_id :: bool

text \<open>The part of a task that sends: the messages handed to the bus, in order.\<close>

record task_base =
  sent :: "can_message list"

definition mk_message :: "int \<Rightarrow> int list \<Rightarrow> bool \<Rightarrow> can_message result" where
  "mk_message i d ext =
     rbind (bytearray d) (\<lambda>bs. Inr \<lparr>arbitration_id = i, data = bs, is_extended_id = ext\<rparr>)"

definition send :: "int \<Rightarrow> int list \<Rightarrow> 'a task_base_scheme \<Rightarrow> 'a task_base_scheme outcome" where
  "send i d s =
     (case mk_message i d True of
        Inl e \<Rightarrow> raises e s
      | Inr m \<Rightarrow> done_with (s\<lparr>sent := sent s @ [m]\<rparr>))"

text \<open>
  \<open>Task._send\<close>: \<open>run\<close> does nothing in every task; then the data of \<open>get_data\<close>, which may also
  change the task, is sent unless it is \<open>None\<close>.
\<close>

definition periodic_send ::
    "('a task_base_scheme \<Rightarrow> 'a task_base_scheme \<times> (int \<times> int list) option result) \<Rightarrow>
     'a task_base_scheme \<Rightarrow> 'a task_base_scheme outcome" where
  "periodic_send get_data s =
     (case get_data s of
        (s', Inl e) \<Rightarrow> raises e s'
      | (s', Inr None) \<Rightarrow> done_with s'
      | (s', Inr (Some (i, d))) \<Rightarrow> send i d s')"

lemma send_ok:
  "bytes_ok d \<Longrightarrow>
     send i d s = done_with (s\<lparr>sent := sent s @ [\<lparr>arbitration_id = i, data = d, is_extended_id = True\<rparr>]\<rparr>)"
  by (simp add: send_def mk_message_def)

section \<open>Threads and the engine\<close>

datatype phase = Unstarted | Running | Leaving | Dead

record sleeper =
  thread_name :: string
  task_function :: nat
  period :: nat
  stop_event :: bool
  phase :: phase

definition PeriodicSleeper :: "string \<Rightarrow> nat \<Rightarrow> nat \<Rightarrow> sleeper" where
  "PeriodicSleeper nm f p =
     \<lparr>thread_name = nm, task_function = f, period = p, stop_event = False, phase = Unstarted\<rparr>"

definition is_alive :: "sleeper \<Rightarrow> bool" where
  "is_alive t \<longleftrightarrow> phase t = Running \<or> phase t = Leaving"

record engine =
  store :: "nat \<Rightarrow> sleeper"
  next_ref :: nat
  tasks :: "nat list"
  listeners :: "nat list"
  stopped_tasks :: "nat list"

definition init_engine :: engine where
  "init_engine = \<lparr>store = (\<lambda>_. PeriodicSleeper [] 0 0), next_ref = 0, tasks = [], listeners = [],
                  stopped_tasks = []\<rparr>"

definition set_thread :: "nat \<Rightarrow> sleeper \<Rightarrow> engine \<Rightarrow> engine" where
  "set_thread r t e = e\<lparr>store := (store e)(r := t)\<rparr>"

definition register_task :: "string \<Rightarrow> nat \<Rightarrow> nat \<Rightarrow> engine \<Rightarrow> engine" where
  "register_task nm f p e =
     (set_thread (next_ref e) (PeriodicSleeper nm f p) e)
       \<lparr>next_ref := Suc (next_ref e), tasks := tasks e @ [next_ref e],
        listeners := listeners e @ [f]\<rparr>"

definition start_thread :: "nat \<Rightarrow> engine \<Rightarrow> engine" where
  "start_thread r e = set_thread r ((store e r)\<lparr>phase := Running\<rparr>) e"

definition start :: "engine \<Rightarrow> engine" where
  "start e = fold start_thread (tasks e) e"

text \<open>The loop body of \<open>stop_all_task\<close>, and the whole method.\<close>

definition stop_one :: "nat \<Rightarrow> engine \<Rightarrow> engine" where
  "stop_one r e =
     (if stop_event (store e r) then e
      else (set_thread r ((store e r)\<lparr>stop_event := True\<rparr>) e)
             \<lparr>stopped_tasks := stopped_tasks e @ [r]\<rparr>)"

definition stop_all_task :: "engine \<Rightarrow> engine" where
  "stop_all_task e = fold stop_one (tasks e) (e\<lparr>stopped_tasks := []\<rparr>)"

text \<open>\<open>list.index\<close>: the position of the first occurrence.\<close>

fun list_index :: "'a list \<Rightarrow> 'a \<Rightarrow> nat option" where
  "list_index [] x = None"
| "list_index (y # ys) x = (if x = y then Some 0 else map_option Suc (list_index ys x))"

text \<open>
  The loop body of \<open>resume_all_tasks\<close>. A failing \<open>index\<close> is caught inside the loop, after the event
  has been cleared.
\<close>

definition resume_one :: "nat \<Rightarrow> engine \<Rightarrow> engine" where
  "resume_one r e =
     (let e = set_thread r ((store e r)\<lparr>stop_event := False\<rparr>) e; t = store e r
      in if is_alive t then e
         else
           (case list_index (tasks e) r of
              None \<Rightarrow> e
            | Some idx \<Rightarrow>
                let n = next_ref e;
                    e = (set_thread n (PeriodicSleeper (thread_name t) (task_function t) (period t)) e)
                          \<lparr>next_ref := Suc n, tasks := (tasks e)[idx := n]\<rparr>
                in start_thread n e))"

definition resume_all_tasks :: "engine \<Rightarrow> engine" where
  "resume_all_tasks e = (fold resume_one (stopped_tasks e) e)\<lparr>stopped_tasks := []\<rparr>"

text \<open>What the threads do on their own: notice the stop event at the loop head, then finish.\<close>

definition observe_stop :: "nat \<Rightarrow> engine \<Rightarrow> engine" where
  "observe_stop r e =
     (if phase (store e r) = Running \<and> stop_event (store e r)
      then set_thread r ((store e r)\<lparr>phase := Leaving\<rparr>) e else e)"

definition finish :: "nat \<Rightarrow> engine \<Rightarrow> engine" where
  "finish r e =
     (if phase (store e r) = Leaving then set_thread r ((store e r)\<lparr>phase := Dead\<rparr>) e else e)"

text \<open>One controller command (the stop and resume tasks) or one thread step.\<close>

datatype engine_action = Stop | Resume | Observe nat | Finish nat

fun engine_act :: "engine_action \<Rightarrow> engine \<Rightarrow> engine" where
  "engine_act Stop e = stop_all_task e"
| "engine_act Resume e = resume_all_tasks e"
| "engine_act (Observe r) e = observe_stop r e"
| "engine_act (Finish r) e = finish r e"

inductive reachable_from :: "engine \<Rightarrow> engine \<Rightarrow> bool" for e0 where
  reach_start: "reachable_from e0 e0"
| reach_act: "reachable_from e0 e \<Longrightarrow> reachable_from e0 (engine_act a e)"

inductive_cases reachable_fromE: "reachable_from e0 e"

section \<open>Well-formedness\<close>

definition engine_wf :: "engine \<Rightarrow> bool" where
  "engine_wf e \<longleftrightarrow>
     distinct (tasks e) \<and> (\<forall>r \<in> set (tasks e). r < next_ref e) \<and>
     distinct (stopped_tasks e) \<and> set (stopped_tasks e) \<subseteq> set (tasks e)"

text \<open>What identifies a task across thread replacements.\<close>

definition signature :: "engine \<Rightarrow> nat \<Rightarrow> string \<times> nat \<times> nat" where
  "signature e r = (thread_name (store e r), task_function (store e r), period (store e r))"

definition task_list :: "engine \<Rightarrow> (string \<times> nat \<times> nat) list" where
  "task_list e = map (signature e) (tasks e)"

lemma set_thread_simps [simp]:
  "store (set_thread r t e) = (store e)(r := t)" "next_ref (set_thread r t e) = next_ref e"
  "tasks (set_thread r t e) = tasks e" "listeners (set_thread r t e) = listeners e"
  "stopped_tasks (set_thread r t e) = stopped_tasks e"
  by (simp_all add: set_thread_def)

lemma start_thread_simps [simp]:
  "store (start_thread r e) = (store e)(r := (store e r)\<lparr>phase := Running\<rparr>)"
  "next_ref (start_thread r e) = next_ref e" "tasks (start_thread r e) = tasks e"
  "listeners (start_thread r e) = listeners e" "stopped_tasks (start_thread r e) = stopped_tasks e"
  by (simp_all add: start_thread_def)

lemma signature_stopped [simp]: "signature (e\<lparr>stopped_tasks := xs\<rparr>) = signature e"
  by (simp add: signature_def fun_eq_iff)

lemma task_list_stopped [simp]: "task_list (e\<lparr>stopped_tasks := xs\<rparr>) = task_list e"
  by (simp add: task_list_def)

lemma list_index_Some:
  "list_index xs x = Some i \<Longrightarrow> i < length xs \<and> xs ! i = x"
  by (induction xs arbitrary: i) (auto split: if_splits)

lemma list_index_mem: "x \<in> set xs \<Longrightarrow> \<exists>i. list_index xs x = Some i"
  by (induction xs) auto

section \<open>Stopping\<close>

lemma stop_fold:
  assumes "distinct rs"
  shows "store (fold stop_one rs e) =
           (\<lambda>r. if r \<in> set rs then (store e r)\<lparr>stop_event := True\<rparr> else store e r)"
    and "stopped_tasks (fold stop_one rs e) =
           stopped_tasks e @ filter (\<lambda>r. \<not> stop_event (store e r)) rs"
    and "tasks (fold stop_one rs e) = tasks e" and "next_ref (fold stop_one rs e) = next_ref e"
    and "listeners (fold stop_one rs e) = listeners e"
  using assms
proof (induction rs arbitrary: e)
  case (Cons r rs)
  have st: "store (stop_one r e) = (store e)(r := (store e r)\<lparr>stop_event := True\<rparr>)"
    "tasks (stop_one r e) = tasks e" "next_ref (stop_one r e) = next_ref e"
    "listeners (stop_one r e) = listeners e"
    "stopped_tasks (stop_one r e) =
       stopped_tasks e @ (if stop_event (store e r) then [] else [r])" for r e
    by (auto simp: stop_one_def fun_eq_iff)
  case 1 show ?case using 1 Cons.IH(1) by (auto simp: st fun_eq_iff)
  case 2 show ?case using 2 Cons.IH(2) by (auto simp: st intro!: filter_cong)
  case 3 show ?case using 3 Cons.IH(3) by (simp add: st)
  case 4 show ?case using 4 Cons.IH(4) by (simp add: st)
  case 5 show ?case using 5 Cons.IH(5) by (simp add: st)
qed simp_all

lemma stop_all_task_eq:
  assumes "distinct (tasks e)"
  shows "store (stop_all_task e) =
           (\<lambda>r. if r \<in> set (tasks e) then (store e r)\<lparr>stop_event := True\<rparr> else store e r)"
    and "stopped_tasks (stop_all_task e) = filter (\<lambda>r. \<not> stop_event (store e r)) (tasks e)"
    and "tasks (stop_all_task e) = tasks e" and "next_ref (stop_all_task e) = next_ref e"
    and "listeners (stop_all_task e) = listeners e"
  using stop_fold [OF assms, of "e\<lparr>stopped_tasks := []\<rparr>"]
  by (auto simp: stop_all_task_def fun_eq_iff)

section \<open>Resuming\<close>

text \<open>One iteration, for a reference that is in the task list.\<close>

lemma resume_one_alive:
  assumes "is_alive (store e r)"
  shows "resume_one r e = set_thread r ((store e r)\<lparr>stop_event := False\<rparr>) e"
  using assms by (simp add: resume_one_def Let_def is_alive_def)

lemma resume_one_dead:
  assumes "\<not> is_alive (store e r)" "r \<in> set (tasks e)"
  obtains idx where "idx < length (tasks e)" "tasks e ! idx = r"
    "tasks (resume_one r e) = (tasks e)[idx := next_ref e]"
    "next_ref (resume_one r e) = Suc (next_ref e)"
    "stopped_tasks (resume_one r e) = stopped_tasks e"
    "r \<noteq> next_ref e \<Longrightarrow> store (resume_one r e) =
       (store e)(r := (store e r)\<lparr>stop_event := False\<rparr>,
                 next_ref e := (store e r)\<lparr>stop_event := False, phase := Running\<rparr>)"
proof -
  obtain idx where idx: "list_index (tasks e) r = Some idx"
    using list_index_mem [OF assms(2)] by blast
  have "PeriodicSleeper (thread_name t) (task_function t) (period t)\<lparr>phase := Running\<rparr> =
      t\<lparr>stop_event := False, phase := Running\<rparr>" for t :: sleeper
    by (cases t) (simp add: PeriodicSleeper_def)
  with assms(1) idx list_index_Some [OF idx] show ?thesis
    by (intro that [of idx]) (auto simp: resume_one_def Let_def is_alive_def fun_eq_iff)
qed

definition loop_wf :: "engine \<Rightarrow> bool" where
  "loop_wf e \<longleftrightarrow> distinct (tasks e) \<and> (\<forall>r \<in> set (tasks e). r < next_ref e)"

lemma task_list_upd:
  assumes "idx < length (tasks e)" "tasks e' = (tasks e)[idx := n]"
    and "signature e' n = signature e (tasks e ! idx)"
    and "\<And>r. r \<in> set (tasks e) \<Longrightarrow> signature e' r = signature e r"
  shows "task_list e' = task_list e"
  using assms by (auto simp: task_list_def list_eq_iff_nth_eq nth_list_update)

text \<open>What one iteration promises about the engine it leaves.\<close>

definition resumed :: "nat \<Rightarrow> engine \<Rightarrow> engine \<Rightarrow> bool" where
  "resumed r e e' \<longleftrightarrow>
     loop_wf e' \<and> task_list e' = task_list e \<and>
     set (tasks e') - {r, next_ref e} = set (tasks e) - {r} \<and>
     (\<forall>q. q \<noteq> r \<longrightarrow> q < next_ref e \<longrightarrow> store e' q = store e q) \<and>
     next_ref e \<le> next_ref e' \<and> stopped_tasks e' = stopped_tasks e \<and>
     (\<forall>q \<in> set (tasks e'). q = r \<or> q = next_ref e \<longrightarrow>
        \<not> stop_event (store e' q) \<and> (phase (store e r) \<noteq> Leaving \<longrightarrow> phase (store e' q) = Running))"

lemma resumed_alive:
  assumes "loop_wf e" "is_alive (store e r)"
  shows "resumed r e (resume_one r e)"
  using assms
  by (auto simp: resumed_def resume_one_alive loop_wf_def task_list_def signature_def is_alive_def)

lemma resumed_dead:
  assumes wf: "loop_wf e" and r: "r \<in> set (tasks e)" and dead: "\<not> is_alive (store e r)"
  shows "resumed r e (resume_one r e)"
proof -
  have rn: "r < next_ref e" and nt: "next_ref e \<notin> set (tasks e)" and dist: "distinct (tasks e)"
    using wf r by (auto simp: loop_wf_def)
  from resume_one_dead [OF dead r] obtain idx where
    idx: "idx < length (tasks e)" "tasks e ! idx = r"
    and t: "tasks (resume_one r e) = (tasks e)[idx := next_ref e]"
      "next_ref (resume_one r e) = Suc (next_ref e)"
      "stopped_tasks (resume_one r e) = stopped_tasks e"
      "store (resume_one r e) =
       (store e)(r := (store e r)\<lparr>stop_event := False\<rparr>,
                 next_ref e := (store e r)\<lparr>stop_event := False, phase := Running\<rparr>)"
    using rn by (metis less_irrefl)
  have set': "set ((tasks e)[idx := next_ref e]) = insert (next_ref e) (set (tasks e) - {r})"
    using idx dist by (simp add: set_update_distinct)
  have "task_list (resume_one r e) = task_list e"
    by (rule task_list_upd [OF idx(1) t(1)]) (use idx nt t(4) rn in \<open>auto simp: signature_def\<close>)
  moreover have "loop_wf (resume_one r e)"
    using wf nt dist t(1,2) set' by (auto simp: loop_wf_def distinct_list_update)
  ultimately show ?thesis using t set' rn nt by (auto simp: resumed_def)
qed

lemma resume_one_resumed:
  "loop_wf e \<Longrightarrow> r \<in> set (tasks e) \<Longrightarrow> resumed r e (resume_one r e)"
  by (cases "is_alive (store e r)") (auto intro: resumed_alive resumed_dead)

lemma resume_fold:
  assumes "loop_wf e" "distinct rs" "set rs \<subseteq> set (tasks e)"
  shows "loop_wf (fold resume_one rs e) \<and> task_list (fold resume_one rs e) = task_list e \<and>
         stopped_tasks (fold resume_one rs e) = stopped_tasks e"
  using assms
proof (induction rs arbitrary: e)
  case (Cons r rs)
  have res: "resumed r e (resume_one r e)" using Cons.prems by (auto intro: resume_one_resumed)
  then have "set rs \<subseteq> set (tasks (resume_one r e))" using Cons.prems by (auto simp: resumed_def)
  with Cons.IH [of "resume_one r e"] Cons.prems res show ?case by (auto simp: resumed_def)
qed simp

definition running :: "engine \<Rightarrow> nat \<Rightarrow> bool" where
  "running e r \<longleftrightarrow> phase (store e r) = Running \<and> \<not> stop_event (store e r)"

definition all_running :: "engine \<Rightarrow> bool" where
  "all_running e \<longleftrightarrow> (\<forall>r \<in> set (tasks e). running e r)"

lemma resume_fold_running:
  assumes "loop_wf e" "distinct rs" "set rs \<subseteq> set (tasks e)"
    and "\<forall>r \<in> set rs. phase (store e r) \<noteq> Leaving"
    and "\<forall>r \<in> set (tasks e) - set rs. running e r"
  shows "all_running (fold resume_one rs e)"
  using assms
proof (induction rs arbitrary: e)
  case Nil
  then show ?case by (simp add: all_running_def)
next
  case (Cons r rs)
  let ?e = "resume_one r e"
  have res: "resumed r e ?e" using Cons.prems by (auto intro: resume_one_resumed)
  have below: "q < next_ref e" if "q \<in> set (tasks e)" for q
    using Cons.prems(1) that by (auto simp: loop_wf_def)
  have ph: "phase (store e r) \<noteq> Leaving" using Cons.prems(4) by simp
  have "set rs \<subseteq> set (tasks ?e)" using res Cons.prems by (auto simp: resumed_def)
  moreover have "store ?e q = store e q" if "q \<in> set rs" for q
    using res Cons.prems(2,3) below that by (auto simp: resumed_def)
  then have "\<forall>q \<in> set rs. phase (store ?e q) \<noteq> Leaving"
    using Cons.prems(4) by simp
  moreover have "\<forall>q \<in> set (tasks ?e) - set rs. running ?e q"
  proof
    fix q assume q: "q \<in> set (tasks ?e) - set rs"
    show "running ?e q"
    proof (cases "q = r \<or> q = next_ref e")
      case True
      then show ?thesis using res q ph by (auto simp: resumed_def running_def)
    next
      case False
      then have "q \<in> set (tasks e)" using res q by (auto simp: resumed_def)
      then show ?thesis
        using False q res Cons.prems(5) below by (auto simp: resumed_def running_def)
    qed
  qed
  ultimately show ?case
    using Cons.IH [of ?e] res Cons.prems by (auto simp: resumed_def)
qed

section \<open>Properties of the engine\<close>

lemma engine_wf_loop: "engine_wf e \<Longrightarrow> loop_wf e"
  by (simp add: engine_wf_def loop_wf_def)

lemma engine_act_wf:
  assumes "engine_wf e"
  shows "engine_wf (engine_act a e) \<and> task_list (engine_act a e) = task_list e"
proof (cases a)
  case Stop
  then show ?thesis
    using assms stop_all_task_eq [of e]
    by (auto simp: engine_wf_def task_list_def signature_def)
next
  case Resume
  have "loop_wf (fold resume_one (stopped_tasks e) e) \<and>
      task_list (fold resume_one (stopped_tasks e) e) = task_list e"
    using assms resume_fold [of e "stopped_tasks e"] by (auto simp: engine_wf_def loop_wf_def)
  then show ?thesis
    using Resume by (auto simp: resume_all_tasks_def engine_wf_def loop_wf_def)
next
  case (Observe r)
  then show ?thesis
    using assms by (auto simp: observe_stop_def engine_wf_def task_list_def signature_def)
next
  case (Finish r)
  then show ?thesis
    using assms by (auto simp: finish_def engine_wf_def task_list_def signature_def)
qed

text \<open>
  C21: whatever stop and resume commands arrive and however the threads interleave with them, the
  engine keeps exactly the registered tasks: the name, task function and period at every position
  of the task list never change, the list has no duplicate threads, and every thread remembered as
  stopped is in it.
\<close>

theorem engine_keeps_tasks:
  assumes "reachable_from e0 e" "engine_wf e0"
  shows "engine_wf e \<and> task_list e = task_list e0"
  using assms by (induction rule: reachable_from.induct) (auto dest: engine_act_wf)

definition sample_engine :: engine where
  "sample_engine = start (register_task ''dtc'' 1 1000 (register_task ''throttle'' 0 10 init_engine))"

lemma sample_engine_wf: "engine_wf sample_engine" "all_running sample_engine"
  by (auto simp: sample_engine_def start_def register_task_def init_engine_def engine_wf_def
      all_running_def running_def PeriodicSleeper_def)

theorem engine_keeps_tasks_witness:
  "task_list (engine_act Resume (engine_act (Observe 0) (engine_act Stop sample_engine))) =
     [(''throttle'', 0, 10), (''dtc'', 1, 1000)]"
proof -
  have "task_list (engine_act Resume (engine_act (Observe 0) (engine_act Stop sample_engine))) =
      task_list sample_engine"
    using engine_keeps_tasks [OF _ sample_engine_wf(1)]
    by (meson reachable_from.intros)
  then show ?thesis
    by (simp add: task_list_def signature_def sample_engine_def start_def register_task_def
        init_engine_def PeriodicSleeper_def)
qed

fun thread_action :: "engine_action \<Rightarrow> bool" where
  "thread_action (Observe _) \<longleftrightarrow> True"
| "thread_action (Finish _) \<longleftrightarrow> True"
| "thread_action _ \<longleftrightarrow> False"

lemma thread_action_frame:
  "thread_action a \<Longrightarrow> tasks (engine_act a e) = tasks e \<and> next_ref (engine_act a e) = next_ref e \<and>
     stopped_tasks (engine_act a e) = stopped_tasks e \<and> task_list (engine_act a e) = task_list e"
  by (cases a) (auto simp: observe_stop_def finish_def task_list_def signature_def)

lemma thread_actions_frame:
  assumes "list_all thread_action acts"
  shows "tasks (fold engine_act acts e) = tasks e \<and> next_ref (fold engine_act acts e) = next_ref e \<and>
    stopped_tasks (fold engine_act acts e) = stopped_tasks e \<and>
    task_list (fold engine_act acts e) = task_list e"
  using assms by (induction acts arbitrary: e) (auto simp: thread_action_frame)



text \<open>Every event set and nothing remembered: no command can bring such an engine back.\<close>

definition stuck :: "engine \<Rightarrow> bool" where
  "stuck e \<longleftrightarrow> engine_wf e \<and> stopped_tasks e = [] \<and> (\<forall>r \<in> set (tasks e). stop_event (store e r))"

lemma stuck_act: "stuck e \<Longrightarrow> stuck (engine_act a e)"
  using engine_act_wf [of e a] stop_all_task_eq [of e]
  by (cases a) (auto simp: stuck_def engine_wf_def resume_all_tasks_def observe_stop_def finish_def
      filter_empty_conv)

text \<open>
  Two stop commands in a row lose the tasks. The second one empties the list of stopped tasks
  without stopping anything, so from then on no sequence of stop, resume and thread steps ever
  clears a stop event: every task thread stays stopped.
\<close>

lemma double_stop_is_permanent:
  assumes "engine_wf e" and "reachable_from (stop_all_task (stop_all_task e)) e'"
  shows "\<forall>r \<in> set (tasks e'). stop_event (store e' r)"
proof -
  have wf1: "engine_wf (stop_all_task e)" using engine_act_wf [OF assms(1), of Stop] by simp
  have wf2: "engine_wf (stop_all_task (stop_all_task e))"
    using engine_act_wf [OF wf1, of Stop] by simp
  have "stuck (stop_all_task (stop_all_task e))"
    using wf2 stop_all_task_eq [of e] stop_all_task_eq [of "stop_all_task e"] assms(1) wf1
    by (auto simp: stuck_def engine_wf_def filter_empty_conv)
  from assms(2) this have "stuck e'"
    by (induction rule: reachable_from.induct) (auto intro: stuck_act)
  then show ?thesis by (simp add: stuck_def)
qed

text \<open>
  The race between \<open>is_alive()\<close> and a thread that is about to end is real: a resume command that
  arrives while a thread has already left its loop clears the event but starts no new thread, and
  the task ends up dead although nothing marks it as stopped.
\<close>

lemma resume_can_lose_a_leaving_thread:
  "\<exists>acts. (let e = fold engine_act acts sample_engine
           in stopped_tasks e = [] \<and> (\<exists>r \<in> set (tasks e). phase (store e r) = Dead \<and>
                \<not> stop_event (store e r)))"
  by (rule exI [of _ "[Stop, Observe 0, Resume, Finish 0]"])
    (simp add: Let_def sample_engine_def start_def register_task_def init_engine_def
      PeriodicSleeper_def stop_all_task_def stop_one_def observe_stop_def finish_def
      resume_all_tasks_def resume_one_def is_alive_def)

end
