(* ===== verification/Can_Tasks.thy ===== *)
theory Can_Tasks
  imports Can_Engine
begin

text \<open>
  The CAN tasks of \<open>task/\<close> except the ECU simulator (theory \<open>Uds_Echo\<close>), with the OBD helpers of
  \<open>util/obd_util.py\<close>: throttle, stored-DTC reader, heartbeats, overflow checker, periodic error,
  unknown first frames, and the stop and resume controllers that drive the engine. The locale
  \<open>can_task\<close> is what the engine and the bus rely on: a task keeps its own invariant and hands only
  frames of at most eight bytes to the bus.
\<close>

section \<open>OBD helpers\<close>

definition REQUEST_ID :: int where
  "REQUEST_ID = 0x7DF"

definition is_request :: "can_message \<Rightarrow> bool" where
  "is_request msg \<longleftrightarrow> arbitration_id msg = REQUEST_ID"

definition is_response :: "can_message \<Rightarrow> bool" where
  "is_response msg \<longleftrightarrow> 0x7E8 \<le> arbitration_id msg \<and> arbitration_id msg < 0x7EF"

text \<open>Reading a local variable before assignment.\<close>

definition read_local :: "'a option \<Rightarrow> 'a result" where
  "read_local v = (case v of None \<Rightarrow> Inl UnboundLocalError | Some x \<Rightarrow> Inr x)"

definition try_or :: "'a result \<Rightarrow> 's \<Rightarrow> ('a \<Rightarrow> 's outcome) \<Rightarrow> 's outcome" where
  "try_or r s f = (case r of Inl e \<Rightarrow> raises e s | Inr x \<Rightarrow> f x)"

lemma try_or_simps [simp]: "try_or (Inl e) s f = raises e s" "try_or (Inr x) s f = f x"
  by (simp_all add: try_or_def)

text \<open>The answer to OBD mode 3 that two tasks build in the same way: DTC U3FFF.\<close>

definition stored_dtc_data :: "int \<Rightarrow> int list result" where
  "stored_dtc_data mode =
     (let dtc_category = 0x03; dtc_code = push_bit 14 dtc_category OR 0x3FFF
      in rbind (int_to_bytes 2 dtc_code) (\<lambda>code1.
           Inr ([4, mode + 0x40, 0xAA] @ code1 @ [0, 0] @ [0])))"

section \<open>Throttle control\<close>

record throttle = task_base +
  speed :: int
  rpm :: int
  init :: bool

definition init_throttle :: throttle where
  "init_throttle = \<lparr>sent = [], speed = 0, rpm = 0, init = False\<rparr>"

definition get_rpm_bytes :: "throttle \<Rightarrow> bytes result" where
  "get_rpm_bytes s = int_to_bytes 2 (rpm s)"

definition rpm_frame :: "throttle \<Rightarrow> int \<Rightarrow> int list result" where
  "rpm_frame s fill =
     rbind (get_rpm_bytes s) (\<lambda>b. rbind (py_get b 0) (\<lambda>b0. rbind (py_get b 1) (\<lambda>b1.
       Inr ([speed s, b0, b1] @ replicate 5 fill))))"

fun welcome_light :: "nat list \<Rightarrow> throttle \<Rightarrow> throttle outcome" where
  "welcome_light [] s = done_with s"
| "welcome_light (i # is) s =
     (let s = s\<lparr>speed := int i, rpm := int i * 100\<rparr>
      in try_or (rpm_frame s 0xFF) s (\<lambda>d. andthen (send 0xEEE d s) (welcome_light is)))"

definition reset :: "throttle \<Rightarrow> throttle outcome" where
  "reset s =
     andthen (send 0xEEE [0xDE, 0xAD, 0xBE, 0xEF] (s\<lparr>init := False, speed := 0, rpm := 0\<rparr>)) (\<lambda>s.
     andthen (welcome_light [0..<255] s) (\<lambda>s. done_with (s\<lparr>init := True\<rparr>)))"

text \<open>
  \<open>mode\<close> is assigned in the first branch only; the \<open>elif\<close> conditions of the other branch read it.
\<close>

definition throttle_on_message_received :: "can_message \<Rightarrow> throttle \<Rightarrow> throttle outcome" where
  "throttle_on_message_received msg s =
     (if is_request msg then
        (if length (data msg) > 3 then
           try_or (py_get (data msg) 1) s (\<lambda>mode. try_or (py_get (data msg) 2) s (\<lambda>subfn.
             if mode = 0x11 \<and> subfn = 0x01
             then andthen (reset s) (send 0x7E8 [0x02, 0x51, 0x01])
             else done_with s))
         else
           let mode = None in
           try_or (read_local mode) s (\<lambda>mode.
             if mode = 0x03 then try_or (stored_dtc_data mode) s (\<lambda>d. send 0x7E8 d s)
             else if mode = 0x01 then
               try_or (py_get (data msg) 2) s (\<lambda>pid.
                 if pid = 0x0D then send 0x7E8 [3, mode + 0x40, 0x0D, speed s, 0, 0, 0, 0] s
                 else if pid = 0x0C then
                   try_or (get_rpm_bytes s) s (\<lambda>b. try_or (py_get b 0) s (\<lambda>b0. try_or (py_get b 1) s (\<lambda>b1.
                     send 0x7E8 [4, mode + 0x40, 0x0C, b0, b1, 0, 0, 0] s)))
                 else done_with s)
             else done_with s))
      else done_with s)"

definition throttle_get_data :: "throttle \<Rightarrow> throttle \<times> (int \<times> int list) option result" where
  "throttle_get_data s =
     (if init s then
        let s = s\<lparr>speed := (speed s + 1) mod 255, rpm := (rpm s + 10) mod 16384\<rparr>
        in (s, rbind (rpm_frame s 0) (\<lambda>d. Inr (Some (0xEEE, d))))
      else
        (case reset s of (s', None) \<Rightarrow> (s', Inr None) | (s', Some e) \<Rightarrow> (s', Inl e)))"

section \<open>Diagnostic control\<close>

definition dtc_on_message_received :: "can_message \<Rightarrow> task_base \<Rightarrow> task_base outcome" where
  "dtc_on_message_received msg s =
     andthen
       (if is_request msg then
          try_or (py_get (data msg) 1) s (\<lambda>mode.
            if mode = 0x03 then try_or (stored_dtc_data mode) s (\<lambda>d. send 0x7E8 d s)
            else done_with s)
        else done_with s)
       (\<lambda>s. if arbitration_id msg = 0xD0C then send 0xD1C (data msg) s else done_with s)"

section \<open>Heartbeats\<close>

text \<open>The two \<open>random.choice\<close> draws are arguments; mode \<open>0xFF\<close> talks to third-party sockets only.\<close>

definition heartbit_get_data :: "int \<Rightarrow> int \<Rightarrow> (int \<times> int list) option" where
  "heartbit_get_data mode choice =
     (if mode = 0x03 then Some (REQUEST_ID, [1, mode, 0, 0, 0, 0, 0, 0])
      else if mode = 0x01 then Some (REQUEST_ID, [2, mode, choice, 0, 0, 0, 0, 0])
      else None)"

definition uds_heartbit_get_data :: "(int \<times> int list) option" where
  "uds_heartbit_get_data = Some (0x7dc, [0x08, 0x07, 0x03, 0x04, 0x05, 0x06, 0x07, 0x08])"

definition j1939_heartbit_get_data :: "(int \<times> int list) option" where
  "j1939_heartbit_get_data = Some (0x18feca00, [0x00, 0xFF, 0xFF, 0xFF, 0x00, 0xFF, 0xFF, 0xFF])"

section \<open>Overflow checker\<close>

text \<open>A Python dict: insertion order, one entry per key.\<close>

fun dict_set :: "('k \<times> 'v) list \<Rightarrow> 'k \<Rightarrow> 'v \<Rightarrow> ('k \<times> 'v) list" where
  "dict_set [] k v = [(k, v)]"
| "dict_set ((k', v') # d) k v = (if k = k' then (k, v) # d else (k', v') # dict_set d k v)"

definition dict_del :: "('k \<times> 'v) list \<Rightarrow> 'k \<Rightarrow> ('k \<times> 'v) list" where
  "dict_del d k = filter (\<lambda>p. fst p \<noteq> k) d"

record overflow_checker = task_base +
  OVERFLOW :: bool
  lengths :: "(int \<times> nat) list"

fun first_overflow :: "(int \<times> nat) list \<Rightarrow> bool" where
  "first_overflow [] = False"
| "first_overflow ((k, l) # d) = (if l > 64 \<and> l \<le> 70 then True else first_overflow d)"

definition overflow_on_message_received :: "can_message \<Rightarrow> overflow_checker \<Rightarrow> overflow_checker" where
  "overflow_on_message_received msg s =
     (let s = s\<lparr>lengths := dict_set (lengths s) (arbitration_id msg) (length (data msg))\<rparr>
      in if first_overflow (lengths s)
         then s\<lparr>OVERFLOW := True, lengths := dict_del (lengths s) (arbitration_id msg)\<rparr>
         else s)"

definition overflow_get_data ::
    "overflow_checker \<Rightarrow> overflow_checker \<times> (int \<times> int list) option result" where
  "overflow_get_data s =
     (if \<not> OVERFLOW s then (s, Inr (Some (0x7AA, [0x01, 0x02, 0x03])))
      else (s\<lparr>OVERFLOW := False\<rparr>, Inr (Some (0xFFF, replicate 8 0xff))))"

section \<open>Periodic error\<close>

record periodic_error = task_base +
  recv_count :: int

definition periodic_on_message_received :: "can_message \<Rightarrow> periodic_error \<Rightarrow> periodic_error" where
  "periodic_on_message_received msg s = s\<lparr>recv_count := recv_count s + 1\<rparr>"

definition periodic_get_data ::
    "periodic_error \<Rightarrow> periodic_error \<times> (int \<times> int list) option result" where
  "periodic_get_data s =
     (if recv_count s mod 1024 = 0
      then (s\<lparr>recv_count := 0\<rparr>, Inr (Some (0x700, [0xDE, 0xAD, 0xBE, 0xEF])))
      else (s, Inr None))"

section \<open>Unknown first frames\<close>

record unknown_ff = task_base +
  unknown_id :: int
  fc_ovflw_received :: bool
  fc_ovflw_count :: int

definition unknown_ff_on_message_received :: "can_message \<Rightarrow> unknown_ff \<Rightarrow> unknown_ff" where
  "unknown_ff_on_message_received msg s =
     (if arbitration_id msg \<noteq> unknown_id s then s
      else if data msg = [] \<or> length (data msg) < 3 then s
      else
        let frame_type = drop_bit 4 (hd (data msg)) AND 0xF
        in if frame_type = 0x3 then
             let fs = hd (data msg) AND 0xF
             in if fs = 2 then s\<lparr>fc_ovflw_received := True, fc_ovflw_count := fc_ovflw_count s + 1\<rparr>
                else s
           else s)"

definition unknown_ff_get_data :: "unknown_ff \<Rightarrow> unknown_ff \<times> (int \<times> int list) option result" where
  "unknown_ff_get_data s =
     (s, Inr (Some (unknown_id s, [0x10, 0x0A, 0x01, 0x02, 0x03, 0x04, 0x05, 0x06])))"

section \<open>Stop and resume controllers\<close>

record controller =
  can_id :: int
  payload :: "int list"

definition payload_or :: "int list option \<Rightarrow> int list \<Rightarrow> int list" where
  "payload_or p dflt = (case p of None \<Rightarrow> dflt | Some [] \<Rightarrow> dflt | Some xs \<Rightarrow> xs)"

definition Task_Stop_Controller :: "int \<Rightarrow> int list option \<Rightarrow> controller" where
  "Task_Stop_Controller i p =
     \<lparr>can_id = i, payload = payload_or p [0x01, 0x28, 0x03, 0x00, 0xAA, 0xAA, 0xAA, 0xAA]\<rparr>"

definition Task_Resume_Controller :: "int \<Rightarrow> int list option \<Rightarrow> controller" where
  "Task_Resume_Controller i p =
     \<lparr>can_id = i, payload = payload_or p [0x01, 0x10, 0x00, 0xAA, 0xAA, 0xAA, 0xAA, 0xAA]\<rparr>"

definition stop_on_message_received :: "controller \<Rightarrow> can_message \<Rightarrow> engine \<Rightarrow> engine" where
  "stop_on_message_received c msg e =
     (if arbitration_id msg = can_id c then
        if data msg = payload c then stop_all_task e else e
      else e)"

definition resume_on_message_received :: "controller \<Rightarrow> can_message \<Rightarrow> engine \<Rightarrow> engine" where
  "resume_on_message_received c msg e =
     (if arbitration_id msg = can_id c then
        if data msg = payload c then resume_all_tasks e else e
      else e)"

section \<open>Start-up (main.py)\<close>

record options =
  overflow_off :: bool
  vehicle_off :: bool
  heartbit_off :: bool
  uds_heartbit_off :: bool
  j1939_heartbit_off :: bool
  dtc_off :: bool
  periodic_error_off :: bool
  can_demo_on :: bool
  uds_echo_on :: bool
  unknown_ff_on :: bool

text \<open>Task name, task function (numbered in registration order of the code) and period in ms.\<close>

definition task_table :: "options \<Rightarrow> (string \<times> nat \<times> nat) list" where
  "task_table opt =
     (if vehicle_off opt then [] else [(''throttle_control'', 0, 10)]) @
     (if dtc_off opt then [] else [(''diagnostic_control'', 1, 1000)]) @
     (if heartbit_off opt then [] else [(''heartbit'', 2, 1000)]) @
     (if uds_heartbit_off opt then [] else [(''uds_heartbit'', 3, 500)]) @
     (if j1939_heartbit_off opt then [] else [(''j1939_heartbit'', 4, 500)]) @
     (if overflow_off opt then [] else [(''overflow_checker'', 5, 10)]) @
     (if periodic_error_off opt then [] else [(''periodic_error'', 6, 100)]) @
     (if uds_echo_on opt then [(''uds_echo'', 7, 1000)] else []) @
     (if unknown_ff_on opt then [(''unknown_ff_sender'', 8, 5000)] else []) @
     (if can_demo_on opt then [(''stop_controller'', 9, 100), (''resume_controller'', 10, 100)] else [])"

definition main_engine :: "options \<Rightarrow> engine" where
  "main_engine opt = start (fold (\<lambda>(nm, f, p). register_task nm f p) (task_table opt) init_engine)"

section \<open>The contract of a task\<close>

definition frame_ok :: "can_message \<Rightarrow> bool" where
  "frame_ok m \<longleftrightarrow> bytes_ok (data m) \<and> length (data m) \<le> 8"

datatype task_event = Receive can_message | Tick

text \<open>A task between the notifier, which delivers messages, and its thread, which ticks.\<close>

fun task_run ::
    "(can_message \<Rightarrow> 's \<Rightarrow> 's) \<Rightarrow> ('s \<Rightarrow> 's outcome) \<Rightarrow> task_event list \<Rightarrow> 's \<Rightarrow> 's" where
  "task_run receive tick [] s = s"
| "task_run receive tick (Receive m # es) s = task_run receive tick es (receive m s)"
| "task_run receive tick (Tick # es) s = task_run receive tick es (fst (tick s))"

locale can_task =
  fixes outbox :: "'s \<Rightarrow> can_message list"
    and ok :: "can_message \<Rightarrow> bool"
    and inv :: "'s \<Rightarrow> bool"
    and receive :: "can_message \<Rightarrow> 's \<Rightarrow> 's"
    and tick :: "'s \<Rightarrow> 's outcome"
  assumes receive_inv: "inv s \<Longrightarrow> bytes_ok (data m) \<Longrightarrow> inv (receive m s)"
    and tick_inv: "inv s \<Longrightarrow> inv (fst (tick s))"
    and tick_safe: "inv s \<Longrightarrow> snd (tick s) = None"
    and outbox_ok: "inv s \<Longrightarrow> list_all ok (outbox s)"
begin

lemma run_inv:
  "inv s \<Longrightarrow> \<forall>m. Receive m \<in> set es \<longrightarrow> bytes_ok (data m) \<Longrightarrow> inv (task_run receive tick es s)"
proof (induction es arbitrary: s)
  case (Cons e es)
  then show ?case by (cases e) (auto intro: receive_inv tick_inv)
qed simp

lemma run_outbox:
  "inv s \<Longrightarrow> \<forall>m. Receive m \<in> set es \<longrightarrow> bytes_ok (data m) \<Longrightarrow>
     list_all ok (outbox (task_run receive tick es s))"
  by (rule outbox_ok) (rule run_inv)

end

lemma send_frame [frame_intros]:
  assumes "bytes_ok d" "length d \<le> 8" "list_all frame_ok (sent s)"
  shows "snd (send i d s) = None" "list_all frame_ok (sent (fst (send i d s)))"
  using assms by (simp_all add: send_ok frame_ok_def)

section \<open>Throttle\<close>

definition throttle_inv :: "throttle \<Rightarrow> bool" where
  "throttle_inv s \<longleftrightarrow> 0 \<le> speed s \<and> speed s < 255 \<and> 0 \<le> rpm s \<and> rpm s \<le> 25400 \<and>
     list_all frame_ok (sent s)"

lemma int_to_bytes_2: "0 \<le> n \<Longrightarrow> n < 65536 \<Longrightarrow> int_to_bytes 2 n = Inr [n div 256, n mod 256]"
  by (simp add: int_to_bytes_def numeral_2_eq_2)

lemma rpm_frame_ok:
  assumes "0 \<le> speed s" "speed s < 255" "0 \<le> rpm s" "rpm s \<le> 25400" "byte_ok fill"
  shows "\<exists>d. rpm_frame s fill = Inr d \<and> bytes_ok d \<and> length d = 8"
proof -
  have "byte_ok (rpm s div 256)" "byte_ok (rpm s mod 256)" "byte_ok (speed s)"
    using assms by (auto simp: byte_ok_def)
  then show ?thesis using assms by (simp add: rpm_frame_def get_rpm_bytes_def int_to_bytes_2)
qed

lemma welcome_light_ok:
  assumes "list_all (\<lambda>i. i < 255) is" "list_all frame_ok (sent s)"
  shows "snd (welcome_light is s) = None \<and> list_all frame_ok (sent (fst (welcome_light is s))) \<and>
    length (sent (fst (welcome_light is s))) = length (sent s) + length is \<and>
    (is \<noteq> [] \<longrightarrow> speed (fst (welcome_light is s)) = int (last is) \<and>
       rpm (fst (welcome_light is s)) = int (last is) * 100)"
  using assms
proof (induction "is" s rule: welcome_light.induct)
  case (2 i "is" s)
  let ?s = "s\<lparr>speed := int i, rpm := int i * 100\<rparr>"
  obtain d where d: "rpm_frame ?s 255 = Inr d" "bytes_ok d" "length d = 8"
    using rpm_frame_ok [of ?s 255] 2 by auto
  let ?t = "?s\<lparr>sent := sent s @ [\<lparr>arbitration_id = 3822, data = d, is_extended_id = True\<rparr>]\<rparr>"
  have "send 3822 d ?s = done_with ?t" using d by (simp add: send_ok)
  moreover have "frame_ok \<lparr>arbitration_id = 3822, data = d, is_extended_id = True\<rparr>"
    using d by (simp add: frame_ok_def)
  ultimately show ?case
    using 2 d by (cases "is") (auto simp: Let_def)
qed simp

lemma reset_ok:
  assumes "list_all frame_ok (sent s)"
  shows "snd (reset s) = None \<and> throttle_inv (fst (reset s)) \<and> init (fst (reset s)) \<and>
    length (sent (fst (reset s))) = length (sent s) + 256 \<and> speed (fst (reset s)) = 254 \<and>
    rpm (fst (reset s)) = 25400"
proof -
  let ?t = "s\<lparr>init := False, speed := 0, rpm := 0,
    sent := sent s @ [\<lparr>arbitration_id = 3822, data = [222, 173, 190, 239], is_extended_id = True\<rparr>]\<rparr>"
  let ?w = "welcome_light [0..<255] ?t"
  have "list_all frame_ok (sent ?t)" using assms by (simp add: frame_ok_def)
  then have w: "snd ?w = None" "list_all frame_ok (sent (fst ?w))"
    "length (sent (fst ?w)) = length (sent s) + 256" "speed (fst ?w) = 254" "rpm (fst ?w) = 25400"
    using welcome_light_ok [of "[0..<255]" ?t] by (auto simp: list_all_iff)
  have "reset s = done_with ((fst ?w)\<lparr>init := True\<rparr>)"
    by (simp add: reset_def send_ok andthen_None w(1) del: welcome_light.simps upt.simps)
  then show ?thesis using w by (simp add: throttle_inv_def)
qed

lemma throttle_receive_ok:
  assumes "throttle_inv s"
  shows "throttle_inv (fst (throttle_on_message_received msg s))"
proof -
  have fr: "list_all frame_ok (sent s)" using assms by (simp add: throttle_inv_def)
  have "throttle_inv (fst (andthen (reset s) (send 0x7E8 [0x02, 0x51, 0x01])))"
    using reset_ok [OF fr] by (auto simp: andthen_None send_ok throttle_inv_def frame_ok_def)
  then show ?thesis
    using assms by (auto simp: throttle_on_message_received_def read_local_def try_or_def py_get_def)
qed

lemma throttle_tick_ok:
  assumes "throttle_inv s"
  shows "throttle_inv (fst (periodic_send throttle_get_data s)) \<and>
         snd (periodic_send throttle_get_data s) = None"
proof (cases "init s")
  case True
  let ?s = "s\<lparr>speed := (speed s + 1) mod 255, rpm := (rpm s + 10) mod 16384\<rparr>"
  have inv: "throttle_inv ?s" using assms
    by (auto simp: throttle_inv_def intro: order.trans [OF less_imp_le [OF pos_mod_bound]])
  then obtain d where d: "rpm_frame ?s 0 = Inr d" "bytes_ok d" "length d = 8"
    using rpm_frame_ok [of ?s 0] by (auto simp: throttle_inv_def)
  then show ?thesis using True inv
    by (simp add: periodic_send_def throttle_get_data_def Let_def send_ok throttle_inv_def frame_ok_def)
next
  case False
  then show ?thesis
    using assms reset_ok [of s]
    by (auto simp: periodic_send_def throttle_get_data_def throttle_inv_def
        split: prod.splits option.splits)
qed

interpretation throttle: can_task sent frame_ok throttle_inv
  "\<lambda>m s. swallow (throttle_on_message_received m s)" "periodic_send throttle_get_data"
  by unfold_locales
    (use throttle_receive_ok throttle_tick_ok in \<open>auto simp: swallow_def throttle_inv_def\<close>)

text \<open>
  Whatever messages arrive and however often the thread ticks, the throttle task hands only
  frames of at most eight bytes to the bus: the speed stays below 255 and the engine speed within
  two bytes, so neither \<open>to_bytes\<close> nor the message constructor ever raises in a tick.
\<close>

lemma throttle_frames:
  assumes "\<forall>m. Receive m \<in> set es \<longrightarrow> bytes_ok (data m)"
  shows "list_all frame_ok (sent (task_run (\<lambda>m s. swallow (throttle_on_message_received m s))
             (periodic_send throttle_get_data) es init_throttle)) \<and>
    snd (periodic_send throttle_get_data (task_run (\<lambda>m s. swallow (throttle_on_message_received m s))
             (periodic_send throttle_get_data) es init_throttle)) = None"
proof -
  have "throttle_inv init_throttle" by (simp add: throttle_inv_def init_throttle_def)
  then show ?thesis
    using throttle.run_outbox [OF _ assms] throttle.tick_safe [OF throttle.run_inv [OF _ assms]]
    by blast
qed

definition sample_request :: "int list \<Rightarrow> can_message" where
  "sample_request d = \<lparr>arbitration_id = 0x7DF, data = d, is_extended_id = False\<rparr>"

text \<open>
  The throttle task answers no OBD request: on a request of more than three bytes that is not the
  ECU reset it sends nothing, and on a shorter one it raises \<open>UnboundLocalError\<close> before sending,
  because \<open>mode\<close> is read in a branch where it was never assigned. In particular the documented
  answers to modes 1 and 3 are unreachable.
\<close>

lemma throttle_answers_no_obd_request:
  assumes "is_request msg" and "\<not> (length (data msg) > 3 \<and> data msg ! 1 = 0x11)"
  shows "throttle_on_message_received msg s =
    (if length (data msg) > 3 then done_with s else raises UnboundLocalError s)"
  using assms
  by (auto simp: throttle_on_message_received_def read_local_def py_get_def)

section \<open>Diagnostic control\<close>

lemma stored_dtc_3: "stored_dtc_data 3 = Inr [4, 0x43, 0xAA, 0xFF, 0xFF, 0, 0, 0]"
  by (simp add: stored_dtc_data_def int_to_bytes_2)

text \<open>
  The DTC task on every message. An OBD mode 3 request is answered by one frame on \<open>0x7E8\<close> carrying
  U3FFF (\<open>0xFFFF\<close>), a request too short to have a mode raises \<open>IndexError\<close>, a message on \<open>0xD0C\<close> is
  echoed unchanged to \<open>0xD1C\<close>, and nothing is sent otherwise.
\<close>

lemma dtc_answers:
  assumes "bytes_ok (data msg)"
  shows "dtc_on_message_received msg s =
    (let reply = (\<lambda>i d. done_with (s\<lparr>sent := sent s @ [\<lparr>arbitration_id = i, data = d, is_extended_id = True\<rparr>]\<rparr>))
     in if arbitration_id msg = 0x7DF then
          (if length (data msg) < 2 then raises IndexError s
           else if data msg ! 1 = 3 then reply 0x7E8 [4, 0x43, 0xAA, 0xFF, 0xFF, 0, 0, 0]
           else done_with s)
        else if arbitration_id msg = 0xD0C then reply 0xD1C (data msg)
        else done_with s)"
  using assms by (simp add: dtc_on_message_received_def is_request_def REQUEST_ID_def py_get_def
      stored_dtc_3 send_ok Let_def)

interpretation dtc: can_task sent "\<lambda>m :: can_message. bytes_ok (data m)"
  "\<lambda>s :: task_base. list_all (\<lambda>m. bytes_ok (data m)) (sent s)"
  "\<lambda>m s. swallow (dtc_on_message_received m s)" "\<lambda>s. periodic_send (\<lambda>s. (s, Inr None)) s"
proof
  fix s :: task_base and m :: can_message
  assume inv: "list_all (\<lambda>m. bytes_ok (data m)) (sent s)" and ok: "bytes_ok (data m)"
  show "list_all (\<lambda>m. bytes_ok (data m)) (sent (swallow (dtc_on_message_received m s)))"
    unfolding swallow_def dtc_on_message_received_def
    by (rule andthen_fst_inv)
      (use inv ok in \<open>auto simp: try_or_def stored_dtc_3 send_ok split: sum.splits\<close>)
qed (simp_all add: periodic_send_def)

section \<open>Overflow checker\<close>

definition overflow_inv :: "overflow_checker \<Rightarrow> bool" where
  "overflow_inv s \<longleftrightarrow> \<not> first_overflow (lengths s) \<and> distinct (map fst (lengths s)) \<and>
     list_all frame_ok (sent s)"

lemma first_overflow_iff: "first_overflow d \<longleftrightarrow> (\<exists>(k, l) \<in> set d. 64 < l \<and> l \<le> 70)"
  by (induction d rule: first_overflow.induct) auto

lemma set_dict_set:
  "distinct (map fst d) \<Longrightarrow> set (dict_set d k v) = insert (k, v) {p \<in> set d. fst p \<noteq> k}"
  by (induction d k v rule: dict_set.induct) force+

lemma distinct_dict_set: "distinct (map fst d) \<Longrightarrow> distinct (map fst (dict_set d k v))"
  by (induction d k v rule: dict_set.induct) (auto simp: set_dict_set)

lemma distinct_dict_del: "distinct (map fst d) \<Longrightarrow> distinct (map fst (dict_del d k))"
  by (induction d) (auto simp: dict_del_def)

lemma overflow_receive:
  assumes "overflow_inv s"
  shows "overflow_inv (overflow_on_message_received msg s) \<and>
    (OVERFLOW (overflow_on_message_received msg s) \<longleftrightarrow>
       OVERFLOW s \<or> 64 < length (data msg) \<and> length (data msg) \<le> 70)"
proof -
  have clean: "\<not> (64 < l \<and> l \<le> 70)" if "(k, l) \<in> set (lengths s)" for k l
    using assms that by (auto simp: overflow_inv_def first_overflow_iff)
  have dist: "distinct (map fst (lengths s))" using assms by (simp add: overflow_inv_def)
  let ?d = "dict_set (lengths s) (arbitration_id msg) (length (data msg))"
  have "first_overflow ?d \<longleftrightarrow> 64 < length (data msg) \<and> length (data msg) \<le> 70"
    using clean dist by (fastforce simp: first_overflow_iff set_dict_set)
  moreover have "\<not> first_overflow (dict_del ?d (arbitration_id msg))"
    using clean dist by (fastforce simp: first_overflow_iff set_dict_set dict_del_def)
  ultimately show ?thesis
    using assms dist
    by (auto simp: overflow_on_message_received_def overflow_inv_def Let_def distinct_dict_set
        distinct_dict_del)
qed

interpretation overflow: can_task sent frame_ok overflow_inv overflow_on_message_received
  "periodic_send overflow_get_data"
  by unfold_locales
    (use overflow_receive in \<open>auto simp: periodic_send_def overflow_get_data_def send_ok
      overflow_inv_def frame_ok_def numeral_eq_Suc\<close>)

definition overlong_since :: "task_event list \<Rightarrow> bool \<Rightarrow> bool" where
  "overlong_since es b =
     fold (\<lambda>e b. case e of Tick \<Rightarrow> False
            | Receive m \<Rightarrow> b \<or> 64 < length (data m) \<and> length (data m) \<le> 70) es b"

text \<open>
  C34: in every run the overflow flag says exactly whether a message of 65 to 70 bytes arrived since
  the last tick, independently of all the lengths recorded before, and the next tick then reports
  the failure on \<open>0xFFF\<close> instead of the regular \<open>0x7AA\<close> frame.
\<close>

theorem overflow_flag_exact:
  assumes "\<forall>m. Receive m \<in> set es \<longrightarrow> bytes_ok (data m)" and "overflow_inv s"
  shows "let s' = task_run overflow_on_message_received (periodic_send overflow_get_data) es s
         in OVERFLOW s' = overlong_since es (OVERFLOW s) \<and>
            snd (overflow_get_data s') =
              Inr (Some (if overlong_since es (OVERFLOW s) then (0xFFF, replicate 8 0xff)
                         else (0x7AA, [1, 2, 3])))"
proof -
  have tick: "OVERFLOW (fst (periodic_send overflow_get_data s)) = False" for s
    by (auto simp: periodic_send_def overflow_get_data_def send_ok numeral_eq_Suc)
  have "OVERFLOW (task_run overflow_on_message_received (periodic_send overflow_get_data) es s) =
      overlong_since es (OVERFLOW s)"
    using assms
  proof (induction es arbitrary: s)
    case (Cons e es)
    then show ?case
      using tick overflow_receive overflow.tick_inv by (cases e) (auto simp: overlong_since_def)
  qed (simp add: overlong_since_def)
  then show ?thesis by (simp add: overflow_get_data_def Let_def)
qed

theorem overflow_flag_exact_witness:
  "snd (overflow_get_data (task_run overflow_on_message_received (periodic_send overflow_get_data)
      [Tick, Receive (sample_request (replicate 66 0))] \<lparr>sent = [], OVERFLOW = False, lengths = []\<rparr>)) =
   Inr (Some (0xFFF, replicate 8 0xff))"
proof -
  have "overflow_inv \<lparr>sent = [], OVERFLOW = False, lengths = []\<rparr>" by (simp add: overflow_inv_def)
  then show ?thesis
    using overflow_flag_exact [of "[Tick, Receive (sample_request (replicate 66 0))]"
        "\<lparr>sent = [], OVERFLOW = False, lengths = []\<rparr>"]
    by (auto simp: sample_request_def overlong_since_def Let_def)
qed

section \<open>Periodic error and unknown first frames\<close>

interpretation periodic: can_task sent frame_ok "\<lambda>s. list_all frame_ok (sent s)"
  periodic_on_message_received "periodic_send periodic_get_data"
  by unfold_locales
    (auto simp: periodic_on_message_received_def periodic_send_def periodic_get_data_def send_ok
      frame_ok_def)

interpretation unknown_ff: can_task sent frame_ok "\<lambda>s. list_all frame_ok (sent s)"
  unknown_ff_on_message_received "periodic_send unknown_ff_get_data"
  by unfold_locales
    (auto simp: unknown_ff_on_message_received_def periodic_send_def unknown_ff_get_data_def send_ok
      frame_ok_def Let_def)

text \<open>A flow-control frame with status overflow for the given identifier.\<close>

definition is_fc_overflow :: "int \<Rightarrow> can_message \<Rightarrow> bool" where
  "is_fc_overflow i m \<longleftrightarrow>
     arbitration_id m = i \<and> length (data m) \<ge> 3 \<and> data m ! 0 = 0x32"

lemma nibbles_fc_overflow:
  assumes "byte_ok b"
  shows "drop_bit 4 b AND 0xF = 3 \<and> b AND 0xF = 2 \<longleftrightarrow> b = 0x32"
  using assms by (auto simp: and_15_mod drop_bit_eq_div byte_ok_def) presburger

text \<open>
  The counter of the unknown-ECU task grows by exactly the number of flow-control frames with
  status overflow (first byte \<open>0x32\<close>, at least three bytes) that arrive on its identifier.
\<close>

lemma unknown_ff_counts:
  assumes "\<forall>m \<in> set ms. bytes_ok (data m)"
  shows "fc_ovflw_count (fold unknown_ff_on_message_received ms s) =
           fc_ovflw_count s + int (length (filter (is_fc_overflow (unknown_id s)) ms))"
  using assms
proof (induction ms arbitrary: s)
  case (Cons m ms)
  have id: "unknown_id (unknown_ff_on_message_received m s) = unknown_id s"
    by (auto simp: unknown_ff_on_message_received_def Let_def)
  have "fc_ovflw_count (unknown_ff_on_message_received m s) =
      fc_ovflw_count s + (if is_fc_overflow (unknown_id s) m then 1 else 0)"
  proof (cases "data m")
    case (Cons b bs)
    then have "byte_ok b" using Cons.prems by simp
    from nibbles_fc_overflow [OF this] Cons show ?thesis
      by (auto simp: unknown_ff_on_message_received_def is_fc_overflow_def Let_def)
  qed (simp add: unknown_ff_on_message_received_def is_fc_overflow_def)
  with Cons id show ?case by simp
qed simp

section \<open>Start-up\<close>

lemma register_all:
  assumes "loop_wf e" "stopped_tasks e = []"
  shows "loop_wf (fold (\<lambda>(nm, f, p). register_task nm f p) ts e) \<and>
    stopped_tasks (fold (\<lambda>(nm, f, p). register_task nm f p) ts e) = [] \<and>
    task_list (fold (\<lambda>(nm, f, p). register_task nm f p) ts e) = task_list e @ ts \<and>
    ((\<forall>r \<in> set (tasks e). \<not> stop_event (store e r)) \<longrightarrow>
     (\<forall>r \<in> set (tasks (fold (\<lambda>(nm, f, p). register_task nm f p) ts e)).
        \<not> stop_event (store (fold (\<lambda>(nm, f, p). register_task nm f p) ts e) r)))"
  using assms
proof (induction ts arbitrary: e)
  case (Cons t ts)
  obtain nm f p where t: "t = (nm, f, p)" by (metis surj_pair)
  let ?e = "register_task nm f p e"
  have "loop_wf ?e" "stopped_tasks ?e = []" "task_list ?e = task_list e @ [t]"
    "(\<forall>r \<in> set (tasks e). \<not> stop_event (store e r)) \<longrightarrow>
       (\<forall>r \<in> set (tasks ?e). \<not> stop_event (store ?e r))"
    using Cons.prems t
    by (auto simp: register_task_def loop_wf_def task_list_def signature_def PeriodicSleeper_def)
  with Cons.IH [of ?e] t show ?case by auto
qed simp

lemma start_fold:
  "tasks (fold start_thread rs e) = tasks e \<and> next_ref (fold start_thread rs e) = next_ref e \<and>
   stopped_tasks (fold start_thread rs e) = stopped_tasks e \<and>
   store (fold start_thread rs e) =
     (\<lambda>r. if r \<in> set rs then (store e r)\<lparr>phase := Running\<rparr> else store e r)"
  by (induction rs arbitrary: e) (auto simp: fun_eq_iff)

lemma task_list_start: "task_list (start e) = task_list e"
proof -
  have "signature (start e) = signature e"
    by (auto simp: start_def start_fold signature_def fun_eq_iff)
  then show ?thesis by (simp add: task_list_def start_def start_fold)
qed

text \<open>
  Starting the program registers exactly the tasks the command-line options select, in the
  order of the code with their periods, and leaves every one of them running.
\<close>

lemma main_starts_selected_tasks:
  "engine_wf (main_engine opt) \<and> all_running (main_engine opt) \<and>
   task_list (main_engine opt) = task_table opt"
proof -
  let ?r = "fold (\<lambda>(nm, f, p). register_task nm f p) (task_table opt) init_engine"
  have "loop_wf init_engine" "stopped_tasks init_engine = []" "tasks init_engine = []"
    "task_list init_engine = []"
    by (simp_all add: init_engine_def loop_wf_def task_list_def)
  then have r: "loop_wf ?r" "stopped_tasks ?r = []" "task_list ?r = task_table opt"
    "\<forall>r \<in> set (tasks ?r). \<not> stop_event (store ?r r)"
    using register_all [of init_engine "task_table opt"] by auto
  moreover have "engine_wf (start ?r)" "all_running (start ?r)"
    using r start_fold [of "tasks ?r" ?r]
    by (auto simp: start_def engine_wf_def loop_wf_def all_running_def running_def)
  ultimately show ?thesis by (simp add: main_engine_def task_list_start)
qed

end
