(* ===== verification/Uds_Echo.thy ===== *)
theory Uds_Echo
  imports Can_Tasks
begin

text \<open>
  The ECU simulator of \<open>task/task_uds_echo.py\<close>: ISO-TP reception and transmission on top of CAN
  frames, the service dispatcher and all eighteen OBD-II and UDS handlers. The four random bytes a
  seed request draws are an argument of the operations that may draw them.
\<close>

section \<open>State\<close>

record uds_echo = task_base +
  response_id :: int
  request_ids :: "int list"
  silent_mode :: bool
  vin :: py_str
  session :: int
  security_unlocked :: bool
  mf_buffer :: "int list"
  mf_seq :: int
  rx_mf_pending :: "int list option"
  rx_mf_total :: nat
  rx_mf_req_id :: int

definition DEFAULT_REQUEST_IDS :: "int list" where
  "DEFAULT_REQUEST_IDS =
     [0x7DF, 0x7E0, 0x7E1, 0x7E2, 0x7E3, 0x7E4, 0x7E5, 0x7E6, 0x7E7, 0x7EE, 0x7FF]"

definition Task_UDS_Echo :: "int \<Rightarrow> bool \<Rightarrow> int list option \<Rightarrow> py_str \<Rightarrow> uds_echo" where
  "Task_UDS_Echo resp silent req v =
     \<lparr>sent = [], response_id = resp,
      request_ids = (case req of None \<Rightarrow> DEFAULT_REQUEST_IDS | Some [] \<Rightarrow> DEFAULT_REQUEST_IDS
                     | Some ids \<Rightarrow> ids),
      silent_mode = silent, vin = v, session = 0x01, security_unlocked = False,
      mf_buffer = [], mf_seq = 0, rx_mf_pending = None, rx_mf_total = 0, rx_mf_req_id = 0\<rparr>"

abbreviation (input) "SF_FRAME_ID \<equiv> (0 :: int)"
abbreviation (input) "FF_FRAME_ID \<equiv> (1 :: int)"
abbreviation (input) "CF_FRAME_ID \<equiv> (2 :: int)"
abbreviation (input) "FC_FRAME_ID \<equiv> (3 :: int)"

abbreviation (input) "NRC_SUB_FUNCTION_NOT_SUPPORTED \<equiv> (0x12 :: int)"
abbreviation (input) "NRC_INCORRECT_MSG_LENGTH \<equiv> (0x13 :: int)"
abbreviation (input) "NRC_REQUEST_OUT_OF_RANGE \<equiv> (0x31 :: int)"
abbreviation (input) "NRC_SERVICE_NOT_SUPPORTED \<equiv> (0x11 :: int)"

section \<open>ISO-TP transmission\<close>

definition isotp_send :: "int list \<Rightarrow> uds_echo \<Rightarrow> uds_echo outcome" where
  "isotp_send p s =
     (let size = length p
      in if size \<le> 7
         then send (response_id s) ([int size] @ p @ replicate (7 - size) 0) s
         else
           andthen (send (response_id s)
                      ([0x10 OR (drop_bit 8 (int size) AND 0x0F), int size AND 0xFF] @ take 6 p) s)
             (\<lambda>s. done_with (s\<lparr>mf_buffer := drop 6 p, mf_seq := 0x21\<rparr>)))"

definition pad8 :: "int list \<Rightarrow> int list" where
  "pad8 cf = (if length cf < 8 then cf @ replicate (8 - length cf) 0 else cf)"

lemma pad8_chunk: "pad8 (x # take 7 buf) = x # take 7 buf @ replicate (7 - length buf) 0"
  by (auto simp: pad8_def min_def)

lemma send_more: "send i d s = (s', r) \<Longrightarrow> mf_buffer s' = mf_buffer s"
  by (auto simp: send_def raises_def done_with_def split: sum.splits)

function push_consecutive_frames :: "uds_echo \<Rightarrow> uds_echo outcome" where
  "push_consecutive_frames s =
     (if mf_buffer s = [] then done_with s
      else
        let chunk = take 7 (mf_buffer s);
            s1 = s\<lparr>mf_buffer := drop 7 (mf_buffer s)\<rparr>;
            cf = pad8 ([mf_seq s1] @ chunk)
        in (case send (response_id s1) cf s1 of
              (s2, Some e) \<Rightarrow> (s2, Some e)
            | (s2, None) \<Rightarrow>
                push_consecutive_frames (s2\<lparr>mf_seq := (((mf_seq s2 AND 0x0F) + 1) mod 16) OR 0x20\<rparr>)))"
  by pat_completeness auto
termination
  by (relation "measure (\<lambda>s. length (mf_buffer s))") (auto dest!: send_more sym [of "(_, None)"])

declare push_consecutive_frames.simps [simp del]

definition send_positive :: "int \<Rightarrow> int list \<Rightarrow> uds_echo \<Rightarrow> uds_echo outcome" where
  "send_positive sid d s = isotp_send ([sid + 0x40] @ d) s"

definition send_nrc :: "int \<Rightarrow> int \<Rightarrow> uds_echo \<Rightarrow> uds_echo outcome" where
  "send_nrc sid nrc s = isotp_send [0x7F, sid, nrc] s"

section \<open>OBD-II handlers\<close>

text \<open>\<open>msg.data[i] if len(msg.data) > i else d\<close>.\<close>

definition data_or :: "can_message \<Rightarrow> nat \<Rightarrow> int \<Rightarrow> int" where
  "data_or msg i d = (if length (data msg) > i then data msg ! i else d)"

definition handle_obd_current_data :: "can_message \<Rightarrow> uds_echo \<Rightarrow> uds_echo outcome" where
  "handle_obd_current_data msg s =
     (let pid = data_or msg 2 0x00; sid = 0x01
      in if pid \<in> set [0x00, 0x20, 0x40, 0x60, 0x80, 0xA0, 0xC0]
           then send_positive sid [pid, 0xBF, 0xBF, 0xB9, 0x93] s
         else if pid = 0x01 then send_positive sid [pid, 0x00, 0x07, 0xE5, 0xE5] s
         else if pid = 0x05 then send_positive sid [pid, 120] s
         else if pid = 0x0C then send_positive sid [pid, 0x2E, 0xE0] s
         else if pid = 0x0D then send_positive sid [pid, 60] s
         else if pid = 0x2F then send_positive sid [pid, 178] s
         else if pid = 0x41 then send_positive sid [pid, 0x00, 0x0F, 0xFF, 0x00] s
         else if pid = 0x51 then send_positive sid [pid, 0x01] s
         else send_positive sid [pid, 0x00] s)"

definition handle_obd_freeze_frame :: "can_message \<Rightarrow> uds_echo \<Rightarrow> uds_echo outcome" where
  "handle_obd_freeze_frame msg s = send_positive 0x02 [0x01, 0x01] s"

definition handle_obd_stored_dtc :: "can_message \<Rightarrow> uds_echo \<Rightarrow> uds_echo outcome" where
  "handle_obd_stored_dtc msg s = send_positive 0x03 [0x02, 0x01, 0x00, 0x01, 0x02] s"

definition handle_obd_clear_dtc :: "can_message \<Rightarrow> uds_echo \<Rightarrow> uds_echo outcome" where
  "handle_obd_clear_dtc msg s = send_positive 0x04 [] s"

definition handle_obd_pending_dtc :: "can_message \<Rightarrow> uds_echo \<Rightarrow> uds_echo outcome" where
  "handle_obd_pending_dtc msg s = send_positive 0x07 [0x01, 0x02, 0x03] s"

definition handle_obd_vehicle_info :: "can_message \<Rightarrow> uds_echo \<Rightarrow> uds_echo outcome" where
  "handle_obd_vehicle_info msg s =
     (let pid = data_or msg 2 0x00; sid = 0x09
      in if pid = 0x00 then send_positive sid [pid, 0x55, 0x00, 0x00, 0x00] s
         else if pid = 0x02 then send_positive sid ([pid, 0x01] @ vin s) s
         else if pid = 0x0A then send_positive sid ([pid, 0x01] @ ascii ''ARCHONZ_ECU'') s
         else send_positive sid [pid, 0x00] s)"

definition handle_obd_perm_dtc :: "can_message \<Rightarrow> uds_echo \<Rightarrow> uds_echo outcome" where
  "handle_obd_perm_dtc msg s = send_positive 0x0A [0x00] s"

section \<open>UDS handlers\<close>

definition handle_diagnostic_session_control :: "can_message \<Rightarrow> uds_echo \<Rightarrow> uds_echo outcome" where
  "handle_diagnostic_session_control msg s =
     (if silent_mode s then done_with s
      else
        let sub_fn = data_or msg 2 0x01
        in if sub_fn \<in> set [0x01, 0x02, 0x03, 0x04]
           then send_positive 0x10 [sub_fn, 0x00, 0x32, 0x01, 0xF4] (s\<lparr>session := sub_fn\<rparr>)
           else send_nrc 0x10 NRC_SUB_FUNCTION_NOT_SUPPORTED s)"

definition handle_ecu_reset :: "can_message \<Rightarrow> uds_echo \<Rightarrow> uds_echo outcome" where
  "handle_ecu_reset msg s =
     (let sub_fn = data_or msg 2 0x01
      in if sub_fn \<in> set [0x01, 0x02, 0x03]
         then send_positive 0x11 [sub_fn, 0x0F] (s\<lparr>session := 0x01, security_unlocked := False\<rparr>)
         else if sub_fn \<in> set [0x04, 0x05] then send_positive 0x11 [sub_fn] s
         else send_nrc 0x11 NRC_SUB_FUNCTION_NOT_SUPPORTED s)"

definition handle_clear_dtc :: "can_message \<Rightarrow> uds_echo \<Rightarrow> uds_echo outcome" where
  "handle_clear_dtc msg s = send_positive 0x14 [] s"

definition handle_read_dtc_info :: "can_message \<Rightarrow> uds_echo \<Rightarrow> uds_echo outcome" where
  "handle_read_dtc_info msg s =
     (let sub_fn = data_or msg 2 0x01
      in if sub_fn = 0x01 then send_positive 0x19 [sub_fn, 0xFF, 0x00, 0x02] s
         else if sub_fn = 0x02 then
           let mask = data_or msg 3 0xFF in send_positive 0x19 [sub_fn, mask, 0x01, 0x00, 0x2F] s
         else if sub_fn = 0x06 then send_positive 0x19 [sub_fn, 0x00] s
         else if sub_fn = 0x0A then send_positive 0x19 [sub_fn, 0xFF, 0x01, 0x00, 0x2F] s
         else send_nrc 0x19 NRC_SUB_FUNCTION_NOT_SUPPORTED s)"

definition handle_read_data_by_id :: "can_message \<Rightarrow> uds_echo \<Rightarrow> uds_echo outcome" where
  "handle_read_data_by_id msg s =
     (if length (data msg) < 4 then send_nrc 0x22 NRC_INCORRECT_MSG_LENGTH s
      else
        let did_hi = data msg ! 2; did_lo = data msg ! 3; did = push_bit 8 did_hi OR did_lo
        in if did = 0xF190 then send_positive 0x22 ([did_hi, did_lo] @ vin s) s
           else if did = 0xF187 then
             send_positive 0x22 ([did_hi, did_lo] @
               [0x30, 0x34, 0x45, 0x39, 0x30, 0x36, 0x33, 0x32, 0x33, 0x46, 0x20]) s
           else if did = 0xF189 then send_positive 0x22 [did_hi, did_lo, 0x38, 0x34, 0x31, 0x30] s
           else if did = 0xF191 then send_positive 0x22 [did_hi, did_lo, 0x48, 0x57, 0x30, 0x31] s
           else if did = 0xF19E then send_positive 0x22 ([did_hi, did_lo] @ ascii ''ArchonZ_ECU'') s
           else send_nrc 0x22 NRC_REQUEST_OUT_OF_RANGE s)"

definition handle_security_access :: "int list \<Rightarrow> can_message \<Rightarrow> uds_echo \<Rightarrow> uds_echo outcome" where
  "handle_security_access seed msg s =
     (let sub_fn = data_or msg 2 0x01
      in if sub_fn mod 2 = 1 then send_positive 0x27 ([sub_fn] @ seed) s
         else if sub_fn mod 2 = 0 then send_positive 0x27 [sub_fn] (s\<lparr>security_unlocked := True\<rparr>)
         else send_nrc 0x27 NRC_SUB_FUNCTION_NOT_SUPPORTED s)"

definition handle_communication_control :: "can_message \<Rightarrow> uds_echo \<Rightarrow> uds_echo outcome" where
  "handle_communication_control msg s =
     (let sub_fn = data_or msg 2 0x00
      in if sub_fn \<in> set [0x00, 0x01, 0x02, 0x03] then send_positive 0x28 [sub_fn] s
         else send_nrc 0x28 NRC_SUB_FUNCTION_NOT_SUPPORTED s)"

definition handle_write_data_by_id :: "can_message \<Rightarrow> uds_echo \<Rightarrow> uds_echo outcome" where
  "handle_write_data_by_id msg s =
     (if length (data msg) < 4 then send_nrc 0x2E NRC_INCORRECT_MSG_LENGTH s
      else send_positive 0x2E [data msg ! 2, data msg ! 3] s)"

definition handle_routine_control :: "can_message \<Rightarrow> uds_echo \<Rightarrow> uds_echo outcome" where
  "handle_routine_control msg s =
     (if length (data msg) < 4 then send_nrc 0x31 NRC_INCORRECT_MSG_LENGTH s
      else send_positive 0x31 [data msg ! 2, data msg ! 3, data_or msg 4 0x00] s)"

definition handle_tester_present :: "can_message \<Rightarrow> uds_echo \<Rightarrow> uds_echo outcome" where
  "handle_tester_present msg s = send_positive 0x3E [data_or msg 2 0x00] s"

definition handle_control_dtc_settings :: "can_message \<Rightarrow> uds_echo \<Rightarrow> uds_echo outcome" where
  "handle_control_dtc_settings msg s =
     (let sub_fn = data_or msg 2 0x01
      in if sub_fn \<in> set [0x01, 0x02] then send_positive 0x85 [sub_fn] s
         else send_nrc 0x85 NRC_SUB_FUNCTION_NOT_SUPPORTED s)"

section \<open>Dispatch and reception\<close>

definition dispatch :: "int list \<Rightarrow> int \<Rightarrow> can_message \<Rightarrow> uds_echo \<Rightarrow> uds_echo outcome" where
  "dispatch seed sid msg s =
     (if sid = 0x01 then handle_obd_current_data msg s
      else if sid = 0x02 then handle_obd_freeze_frame msg s
      else if sid = 0x03 then handle_obd_stored_dtc msg s
      else if sid = 0x04 then handle_obd_clear_dtc msg s
      else if sid = 0x07 then handle_obd_pending_dtc msg s
      else if sid = 0x09 then handle_obd_vehicle_info msg s
      else if sid = 0x0A then handle_obd_perm_dtc msg s
      else if sid = 0x10 then handle_diagnostic_session_control msg s
      else if sid = 0x11 then handle_ecu_reset msg s
      else if sid = 0x14 then handle_clear_dtc msg s
      else if sid = 0x19 then handle_read_dtc_info msg s
      else if sid = 0x22 then handle_read_data_by_id msg s
      else if sid = 0x27 then handle_security_access seed msg s
      else if sid = 0x28 then handle_communication_control msg s
      else if sid = 0x2E then handle_write_data_by_id msg s
      else if sid = 0x31 then handle_routine_control msg s
      else if sid = 0x3E then handle_tester_present msg s
      else if sid = 0x85 then handle_control_dtc_settings msg s
      else send_nrc sid NRC_SERVICE_NOT_SUPPORTED s)"

definition synthetic_message :: "int \<Rightarrow> int list \<Rightarrow> can_message" where
  "synthetic_message i p =
     \<lparr>arbitration_id = i, data = [int (length p) AND 0x0F] @ p, is_extended_id = False\<rparr>"

definition dispatch_reassembled :: "int list \<Rightarrow> uds_echo \<Rightarrow> uds_echo outcome" where
  "dispatch_reassembled seed s =
     (case rx_mf_pending s of
        None \<Rightarrow> done_with s
      | Some pending \<Rightarrow>
          if length pending < rx_mf_total s then done_with s
          else
            let p = take (rx_mf_total s) pending;
                req_id = rx_mf_req_id s;
                s = s\<lparr>rx_mf_pending := None, rx_mf_total := 0, rx_mf_req_id := 0\<rparr>
            in if length p < 2 then done_with s
               else dispatch seed (p ! 0) (synthetic_message req_id p) s)"

definition receive :: "int list \<Rightarrow> can_message \<Rightarrow> uds_echo \<Rightarrow> uds_echo outcome" where
  "receive seed msg s =
     (if data msg = [] then done_with s
      else if arbitration_id msg \<in> set (request_ids s) \<and>
              drop_bit 4 (data msg ! 0) AND 0xF = FC_FRAME_ID \<and> mf_buffer s \<noteq> []
        then push_consecutive_frames s
      else if arbitration_id msg \<notin> set (request_ids s) then done_with s
      else if length (data msg) < 2 then done_with s
      else
        let pci = data msg ! 0; frame_type = drop_bit 4 pci AND 0xF
        in if frame_type = FF_FRAME_ID \<and> length (data msg) \<ge> 2 then
             let s = s\<lparr>rx_mf_total := nat (push_bit 8 (data msg ! 0 AND 0x0F) OR data msg ! 1),
                       rx_mf_pending := Some (pyslice 2 8 (data msg)),
                       rx_mf_req_id := arbitration_id msg\<rparr>
             in if length (pyslice 2 8 (data msg)) \<ge> rx_mf_total s
                then dispatch_reassembled seed s else done_with s
           else if frame_type = CF_FRAME_ID \<and> rx_mf_pending s \<noteq> None then
             let pending = the (rx_mf_pending s) @ pyslice 1 8 (data msg);
                 s = s\<lparr>rx_mf_pending := Some pending\<rparr>
             in if length pending \<ge> rx_mf_total s then dispatch_reassembled seed s else done_with s
           else if frame_type \<noteq> SF_FRAME_ID then done_with s
           else
             let sf_dl = pci AND 0xF
             in if sf_dl < 1 \<or> int (length (data msg)) < sf_dl + 1 then done_with s
                else dispatch seed (data msg ! 1) msg s)"

definition uds_on_message_received :: "int list \<Rightarrow> can_message \<Rightarrow> uds_echo \<Rightarrow> uds_echo" where
  "uds_on_message_received seed msg s = swallow (receive seed msg s)"

section \<open>What transmission does\<close>

definition frame :: "int \<Rightarrow> int list \<Rightarrow> can_message" where
  "frame i d = \<lparr>arbitration_id = i, data = d, is_extended_id = True\<rparr>"

definition first_frame :: "int list \<Rightarrow> int list" where
  "first_frame p =
     (if length p \<le> 7 then [int (length p)] @ p @ replicate (7 - length p) 0
      else [16 + int (length p) div 256 mod 16, int (length p) mod 256] @ take 6 p)"

text \<open>The consecutive frames for a buffer, the first one numbered \<open>n\<close>.\<close>

function cf_frames :: "int \<Rightarrow> int list \<Rightarrow> int list list" where
  "cf_frames n buf =
     (if buf = [] then []
      else ((32 + n mod 16) # take 7 buf @ replicate (7 - length buf) 0) # cf_frames (n + 1) (drop 7 buf))"
  by pat_completeness auto
termination
  by (relation "measure (\<lambda>(n, buf). length buf)") auto

declare cf_frames.simps [simp del]

lemma or_nibble: "0 \<le> n \<Longrightarrow> n < 16 \<Longrightarrow> (16 :: int) OR n = 16 + n" "0 \<le> n \<Longrightarrow> n < 16 \<Longrightarrow> n OR (32 :: int) = 32 + n"
  using push_bit_or_add [of n 4 1] push_bit_or_add [of n 4 2] by (simp_all add: or.commute)

lemma first_frame_ok: "bytes_ok p \<Longrightarrow> bytes_ok (first_frame p) \<and> length (first_frame p) = 8"
  by (auto simp: first_frame_def byte_ok_def bytes_ok_take)

lemma isotp_send_eq:
  assumes "bytes_ok p"
  shows "isotp_send p s =
    done_with (let s = s\<lparr>sent := sent s @ [frame (response_id s) (first_frame p)]\<rparr>
               in if length p \<le> 7 then s else s\<lparr>mf_buffer := drop 6 p, mf_seq := 0x21\<rparr>)"
proof (cases "length p \<le> 7")
  case True
  then show ?thesis
    using first_frame_ok [OF assms]
    by (simp add: isotp_send_def first_frame_def send_ok frame_def Let_def)
next
  case False
  have "16 OR (drop_bit 8 (int (length p)) AND 15) = 16 + int (length p) div 256 mod 16"
    by (simp add: and_15_mod drop_bit_eq_div or_nibble)
  then show ?thesis
    using False first_frame_ok [OF assms]
    by (simp add: isotp_send_def first_frame_def send_ok frame_def and_255_mod Let_def)
qed

lemma cf_frames_ok:
  "bytes_ok buf \<Longrightarrow> list_all (\<lambda>d. bytes_ok d \<and> length d = 8) (cf_frames n buf)"
proof (induction n buf rule: cf_frames.induct)
  case (1 n buf)
  have "byte_ok (32 + n mod 16)"
    using pos_mod_bound [of 16 n] pos_mod_sign [of 16 n] by (simp add: byte_ok_def)
  with 1 show ?case
    by (subst cf_frames.simps) (auto simp: min_def bytes_ok_take bytes_ok_drop)
qed

lemma push_consecutive_frames_eq:
  assumes "bytes_ok (mf_buffer s)" "0 \<le> n" "mf_seq s = 32 + n mod 16"
  shows "\<exists>q. push_consecutive_frames s =
    done_with (s\<lparr>mf_buffer := [], mf_seq := 32 + q mod 16,
                 sent := sent s @ map (frame (response_id s)) (cf_frames n (mf_buffer s))\<rparr>)"
  using assms
proof (induction "mf_buffer s" arbitrary: s n rule: length_induct)
  case (1 s)
  show ?case
  proof (cases "mf_buffer s = []")
    case True
    then have "s = s\<lparr>mf_buffer := [], mf_seq := 32 + n mod 16, sent := sent s @ []\<rparr>"
      using 1 by (cases s) simp
    then show ?thesis using True
      by (subst push_consecutive_frames.simps) (auto simp: cf_frames.simps intro!: exI [of _ n])
  next
    case False
    let ?cf = "(32 + n mod 16) # take 7 (mf_buffer s) @ replicate (7 - length (mf_buffer s)) 0"
    let ?t = "s\<lparr>mf_buffer := drop 7 (mf_buffer s), sent := sent s @ [frame (response_id s) ?cf],
                mf_seq := 32 + (n + 1) mod 16\<rparr>"
    have "bytes_ok ?cf"
      using cf_frames_ok [OF 1(2), of n] False by (subst (asm) cf_frames.simps) simp
    have seq: "(((32 + n mod 16) AND 15) + 1) mod 16 OR 32 = 32 + (n + 1) mod (16 :: int)"
    proof -
      have "(32 + n mod 16) AND 15 = n mod 16" unfolding and_15_mod by presburger
      then show ?thesis by (simp add: or_nibble mod_simps)
    qed
    have "push_consecutive_frames s = push_consecutive_frames ?t"
      using False \<open>bytes_ok ?cf\<close> seq 1(4)
      by (subst push_consecutive_frames.simps)
        (simp add: Let_def send_ok frame_def done_with_def pad8_chunk)
    moreover obtain q where "push_consecutive_frames ?t =
      done_with (?t\<lparr>mf_buffer := [], mf_seq := 32 + q mod 16,
                   sent := sent ?t @ map (frame (response_id ?t)) (cf_frames (n + 1) (mf_buffer ?t))\<rparr>)"
      using 1(1) [rule_format, of "mf_buffer ?t" ?t "n + 1"] False 1(2,3)
      by (auto simp: bytes_ok_drop)
    ultimately show ?thesis
      using False by (subst cf_frames.simps) (auto intro!: exI [of _ q])
  qed
qed

section \<open>What reception does\<close>

lemma high_nibble: "0 \<le> n \<Longrightarrow> n < 16 \<Longrightarrow> drop_bit 4 (16 + n) AND 15 = (1 :: int)"
  "0 \<le> n \<Longrightarrow> n < 16 \<Longrightarrow> drop_bit 4 (32 + n) AND 15 = (2 :: int)"
  by (simp_all add: and_15_mod drop_bit_eq_div div_add_self1)

lemma low_nibble: "0 \<le> n \<Longrightarrow> n < 16 \<Longrightarrow> (16 + n) AND 15 = (n :: int)"
  unfolding and_15_mod by presburger

lemma receive_first_frame:
  assumes "7 < length p" "length p \<le> 4095" "i \<in> set (request_ids r)"
  shows "receive seed (frame i (first_frame p)) r =
    done_with (r\<lparr>rx_mf_total := length p, rx_mf_pending := Some (take 6 p), rx_mf_req_id := i\<rparr>)"
proof -
  define k where "k = int (length p) div 256"
  have k: "0 \<le> k" "k < 16" and kmod: "int (length p) div 256 mod 16 = k"
    using assms(2) by (simp_all add: k_def)
  have "push_bit 8 k OR (int (length p) mod 256) = int (length p)"
    using push_bit_or_add [of "int (length p) mod 256" 8 k] by (simp add: k_def)
  then have total: "nat (push_bit 8 ((16 + k) AND 15) OR (int (length p) mod 256)) = length p"
    by (simp add: low_nibble k)
  have ff: "first_frame p = (16 + k) # (int (length p) mod 256) # take 6 p"
    using assms(1) kmod by (simp add: first_frame_def)
  have sl: "pyslice 2 8 ((16 + k) # (int (length p) mod 256) # take 6 p) = take 6 p"
    by (simp add: pyslice_def)
  have len: "\<not> length p \<le> min (length p) 6" using assms(1) by simp
  show ?thesis
    using assms(3) k total len sl
    by (simp add: receive_def frame_def ff Let_def high_nibble)
qed

definition rx_cleared :: "uds_echo \<Rightarrow> uds_echo" where
  "rx_cleared r = r\<lparr>rx_mf_pending := None, rx_mf_total := 0, rx_mf_req_id := 0\<rparr>"

lemma dispatch_reassembled_eq:
  assumes "rx_mf_pending r = Some (p @ pad)" "rx_mf_total r = length p" "2 \<le> length p"
  shows "dispatch_reassembled seed r =
    dispatch seed (p ! 0) (synthetic_message (rx_mf_req_id r) p) (rx_cleared r)"
  using assms by (simp add: dispatch_reassembled_def rx_cleared_def Let_def)

lemma receive_cf:
  assumes "0 \<le> n" "n < 16" "i \<in> set (request_ids r)" "rx_mf_pending r = Some P"
    and "c \<noteq> []" "length c \<le> 7"
  shows "receive seed (frame i ((32 + n) # c)) r =
    (let r' = r\<lparr>rx_mf_pending := Some (P @ c)\<rparr>
     in if length (P @ c) \<ge> rx_mf_total r then dispatch_reassembled seed r' else done_with r')"
proof -
  have "pyslice 1 8 ((32 + n) # c) = c" using assms(6) by (simp add: pyslice_def)
  moreover have "2 \<le> length ((32 + n) # c)" using assms(5) by (cases c) auto
  ultimately show ?thesis
    using assms(1-5) by (simp add: receive_def frame_def Let_def high_nibble)
qed

lemma receive_cf_frames:
  assumes "buf \<noteq> []" "i \<in> set (request_ids r)" "rx_mf_pending r = Some P"
    and "rx_mf_total r = length P + length buf" "2 \<le> length (P @ buf)"
  shows "fold (uds_on_message_received seed) (map (frame i) (cf_frames n buf)) r =
    swallow (dispatch seed ((P @ buf) ! 0) (synthetic_message (rx_mf_req_id r) (P @ buf)) (rx_cleared r))"
  using assms
proof (induction n buf arbitrary: r P rule: cf_frames.induct)
  case (1 n buf)
  let ?c = "take 7 buf @ replicate (7 - length buf) 0"
  let ?r = "r\<lparr>rx_mf_pending := Some (P @ ?c)\<rparr>"
  have step: "receive seed (frame i ((32 + n mod 16) # ?c)) r =
      (if length (P @ ?c) \<ge> rx_mf_total r then dispatch_reassembled seed ?r else done_with ?r)"
    using 1 by (subst receive_cf [of _ _ _ P]) (auto simp: Let_def)
  have unfold: "fold (uds_on_message_received seed) (map (frame i) (cf_frames n buf)) r =
      fold (uds_on_message_received seed) (map (frame i) (cf_frames (n + 1) (drop 7 buf)))
        (swallow (receive seed (frame i ((32 + n mod 16) # ?c)) r))"
    using 1 by (subst cf_frames.simps) (simp add: uds_on_message_received_def)
  show ?case
  proof (cases "length buf \<le> 7")
    case True
    then have "dispatch_reassembled seed ?r = dispatch seed ((P @ buf) ! 0)
        (synthetic_message (rx_mf_req_id r) (P @ buf)) (rx_cleared r)"
      using 1 dispatch_reassembled_eq [of ?r "P @ buf" "replicate (7 - length buf) 0" seed]
      by (simp add: rx_cleared_def)
    then show ?thesis
      using True step unfold 1 by (simp add: cf_frames.simps)
  next
    case False
    then have "swallow (receive seed (frame i ((32 + n mod 16) # ?c)) r) =
        r\<lparr>rx_mf_pending := Some (P @ take 7 buf)\<rparr>"
      using step 1 by (simp add: min_def)
    then show ?thesis
      using unfold 1(1) [of "r\<lparr>rx_mf_pending := Some (P @ take 7 buf)\<rparr>" "P @ take 7 buf"] 1(2-6) False
      by (simp add: rx_cleared_def)
  qed
qed



section \<open>What the dispatcher answers\<close>

text \<open>
  The diagnostic state a tester can observe, and what a request is meant to do to it: only a session
  control request changes the session, a reset goes back to the default session and locks the unit,
  and the key phase of a security access (an even sub-function) unlocks it.
\<close>

definition diag_state :: "uds_echo \<Rightarrow> int \<times> bool" where
  "diag_state s = (session s, security_unlocked s)"

definition diag_step :: "bool \<Rightarrow> int \<Rightarrow> int \<Rightarrow> int \<times> bool \<Rightarrow> int \<times> bool" where
  "diag_step silent sid sub st =
     (if sid = 0x10 \<and> \<not> silent \<and> sub \<in> {1..4} then (sub, snd st)
      else if sid = 0x11 \<and> sub \<in> {1..3} then (1, False)
      else if sid = 0x27 \<and> even sub then (fst st, True)
      else st)"

definition SERVICES :: "int list" where
  "SERVICES = [0x01, 0x02, 0x03, 0x04, 0x07, 0x09, 0x0A, 0x10, 0x11, 0x14, 0x19, 0x22, 0x27, 0x28,
     0x2E, 0x31, 0x3E, 0x85]"

definition is_reply :: "int \<Rightarrow> int list \<Rightarrow> bool" where
  "is_reply sid p \<longleftrightarrow> p \<noteq> [] \<and>
     (if sid \<in> set SERVICES then hd p = sid + 0x40 \<or> p \<in> (\<lambda>n. [0x7F, sid, n]) ` {0x12, 0x13, 0x31}
      else p = [0x7F, sid, 0x11])"

definition diag_set :: "int \<times> bool \<Rightarrow> uds_echo \<Rightarrow> uds_echo" where
  "diag_set st s = s\<lparr>session := fst st, security_unlocked := snd st\<rparr>"

lemma diag_set_simps [simp]:
  "diag_state (diag_set st s) = st" "diag_set (diag_state s) s = s"
  "response_id (diag_set st s) = response_id s" "sent (diag_set st s) = sent s"
  "vin (diag_set st s) = vin s" "request_ids (diag_set st s) = request_ids s"
  by (simp_all add: diag_set_def diag_state_def)

lemma diag_state_updates [simp]:
  "diag_state (s\<lparr>sent := a\<rparr>) = diag_state s" "diag_state (s\<lparr>mf_buffer := b\<rparr>) = diag_state s"
  "diag_state (s\<lparr>mf_seq := n\<rparr>) = diag_state s" "diag_state (rx_cleared s) = diag_state s"
  "diag_state (s\<lparr>rx_mf_pending := x\<rparr>) = diag_state s" "diag_state (s\<lparr>rx_mf_total := t\<rparr>) = diag_state s"
  "diag_state (s\<lparr>rx_mf_req_id := i\<rparr>) = diag_state s"
  by (simp_all add: diag_state_def rx_cleared_def)

definition request_ok :: "int list \<Rightarrow> int \<Rightarrow> can_message \<Rightarrow> uds_echo \<Rightarrow> bool" where
  "request_ok seed sid msg s \<longleftrightarrow>
     bytes_ok seed \<and> byte_ok sid \<and> bytes_ok (data msg) \<and> bytes_ok (vin s)"

definition sub_function :: "can_message \<Rightarrow> int" where
  "sub_function msg = data_or msg 2 1"

lemma data_or_byte: "bytes_ok (data msg) \<Longrightarrow> byte_ok d \<Longrightarrow> byte_ok (data_or msg i d)"
  by (simp add: data_or_def bytes_ok_nth)

lemma is_reply_pos: "sid \<in> set SERVICES \<Longrightarrow> is_reply sid ((sid + 0x40) # d)"
  by (simp add: is_reply_def)

lemma is_reply_nrc: "sid \<in> set SERVICES \<Longrightarrow> n \<in> {0x12, 0x13, 0x31} \<Longrightarrow> is_reply sid [0x7F, sid, n]"
  by (simp add: is_reply_def)

lemmas obd_handlers = handle_obd_current_data_def handle_obd_freeze_frame_def
  handle_obd_stored_dtc_def handle_obd_clear_dtc_def handle_obd_pending_dtc_def
  handle_obd_vehicle_info_def handle_obd_perm_dtc_def

lemmas uds_handlers = handle_diagnostic_session_control_def handle_ecu_reset_def
  handle_clear_dtc_def handle_read_dtc_info_def handle_read_data_by_id_def
  handle_security_access_def handle_communication_control_def handle_write_data_by_id_def
  handle_routine_control_def handle_tester_present_def handle_control_dtc_settings_def

lemmas reply_defs = send_positive_def send_nrc_def diag_step_def sub_function_def

text \<open>The form every handler has: a reply is computed, the diagnostic state moves, one send follows.\<close>

definition replies :: "int \<Rightarrow> int \<times> bool \<Rightarrow> uds_echo \<Rightarrow> uds_echo outcome \<Rightarrow> bool" where
  "replies sid st s r \<longleftrightarrow> (\<exists>p. r = isotp_send p (diag_set st s) \<and> bytes_ok p \<and> is_reply sid p)"

lemma replies_pos:
  assumes "sid \<in> set SERVICES" "bytes_ok d" "s' = diag_set st s"
  shows "replies sid st s (send_positive sid d s')"
proof -
  have "byte_ok (sid + 0x40)" using assms(1) by (auto simp: SERVICES_def)
  with assms show ?thesis unfolding replies_def send_positive_def
    by (intro exI [of _ "(sid + 0x40) # d"]) (simp add: is_reply_pos)
qed

lemma replies_nrc:
  assumes "sid \<in> set SERVICES" "n \<in> {0x12, 0x13, 0x31}" "s' = diag_set st s"
  shows "replies sid st s (send_nrc sid n s')"
proof -
  have "byte_ok sid" using assms(1) by (auto simp: SERVICES_def)
  with assms show ?thesis unfolding replies_def send_nrc_def
    by (intro exI [of _ "[0x7F, sid, n]"]) (auto simp: is_reply_nrc)
qed

lemma replies_obd:
  assumes "bytes_ok (data msg)" "bytes_ok (vin s)"
  shows "replies 0x01 (diag_state s) s (handle_obd_current_data msg s)"
    "replies 0x02 (diag_state s) s (handle_obd_freeze_frame msg s)"
    "replies 0x03 (diag_state s) s (handle_obd_stored_dtc msg s)"
    "replies 0x04 (diag_state s) s (handle_obd_clear_dtc msg s)"
    "replies 0x07 (diag_state s) s (handle_obd_pending_dtc msg s)"
    "replies 0x09 (diag_state s) s (handle_obd_vehicle_info msg s)"
    "replies 0x0A (diag_state s) s (handle_obd_perm_dtc msg s)"
  using assms by (auto simp: obd_handlers Let_def SERVICES_def ascii_def data_or_byte
      intro!: replies_pos)

lemma replies_session_control:
  assumes "\<not> silent_mode s" "bytes_ok (data msg)"
  shows "replies 0x10 (diag_step False 0x10 (sub_function msg) (diag_state s)) s
    (handle_diagnostic_session_control msg s)"
  using assms
  by (auto simp: handle_diagnostic_session_control_def Let_def SERVICES_def data_or_byte
      sub_function_def diag_step_def diag_set_def diag_state_def intro!: replies_pos replies_nrc)

lemma replies_ecu_reset:
  assumes "bytes_ok (data msg)"
  shows "replies 0x11 (diag_step b 0x11 (sub_function msg) (diag_state s)) s
    (handle_ecu_reset msg s)"
  using assms
  by (auto simp: handle_ecu_reset_def Let_def SERVICES_def data_or_byte
      sub_function_def diag_step_def diag_set_def diag_state_def intro!: replies_pos replies_nrc)

lemma replies_security_access:
  assumes "bytes_ok (data msg)" "bytes_ok seed"
  shows "replies 0x27 (diag_step b 0x27 (sub_function msg) (diag_state s)) s
    (handle_security_access seed msg s)"
  using assms
  by (auto simp: handle_security_access_def Let_def SERVICES_def data_or_byte even_iff_mod_2_eq_zero
      sub_function_def diag_step_def diag_set_def diag_state_def intro!: replies_pos replies_nrc)

lemma replies_uds:
  assumes "bytes_ok (data msg)" "bytes_ok (vin s)"
  shows "replies 0x14 (diag_state s) s (handle_clear_dtc msg s)"
    "replies 0x19 (diag_state s) s (handle_read_dtc_info msg s)"
    "replies 0x22 (diag_state s) s (handle_read_data_by_id msg s)"
    "replies 0x28 (diag_state s) s (handle_communication_control msg s)"
    "replies 0x2E (diag_state s) s (handle_write_data_by_id msg s)"
    "replies 0x31 (diag_state s) s (handle_routine_control msg s)"
    "replies 0x3E (diag_state s) s (handle_tester_present msg s)"
    "replies 0x85 (diag_state s) s (handle_control_dtc_settings msg s)"
  using assms by (auto simp: uds_handlers Let_def SERVICES_def ascii_def data_or_byte bytes_ok_nth
      intro!: replies_pos replies_nrc)

lemma dispatch_replies:
  assumes "request_ok seed sid msg s" "\<not> (silent_mode s \<and> sid = 0x10)"
  shows "replies sid (diag_step (silent_mode s) sid (sub_function msg) (diag_state s)) s
    (dispatch seed sid msg s)"
proof (cases "sid \<in> set SERVICES")
  case True
  have other: "sid \<notin> {0x10, 0x11, 0x27} \<Longrightarrow>
      diag_step (silent_mode s) sid (sub_function msg) (diag_state s) = diag_state s"
    by (simp add: diag_step_def)
  from True consider "sid = 0x10" | "sid = 0x11" | "sid = 0x27"
    | "sid \<in> {0x01, 0x02, 0x03, 0x04, 0x07, 0x09, 0x0A}"
    | "sid \<in> {0x14, 0x19, 0x22, 0x28, 0x2E, 0x31, 0x3E, 0x85}"
    by (auto simp: SERVICES_def)
  then show ?thesis
  proof cases
    case 1
    then show ?thesis
      using assms replies_session_control [of s msg] by (simp add: dispatch_def request_ok_def)
  next
    case 2
    then show ?thesis
      using assms replies_ecu_reset [of msg] by (simp add: dispatch_def request_ok_def)
  next
    case 3
    then show ?thesis
      using assms replies_security_access [of msg seed] by (simp add: dispatch_def request_ok_def)
  next
    case 4
    then show ?thesis
      using assms other replies_obd [of msg s] by (auto simp: dispatch_def request_ok_def)
  next
    case 5
    then show ?thesis
      using assms other replies_uds [of msg s] by (auto simp: dispatch_def request_ok_def)
  qed
next
  case False
  then have "dispatch seed sid msg s = isotp_send [0x7F, sid, 0x11] s"
    by (simp add: dispatch_def SERVICES_def send_nrc_def)
  moreover have "diag_step (silent_mode s) sid (sub_function msg) (diag_state s) = diag_state s"
    using False by (auto simp: diag_step_def SERVICES_def)
  ultimately show ?thesis
    using False assms(1)
    by (auto simp: replies_def is_reply_def request_ok_def intro!: exI [of _ "[0x7F, sid, 0x11]"])
qed

lemma dispatch_silent:
  "silent_mode s \<Longrightarrow> dispatch seed 0x10 msg s = done_with s"
  by (simp add: dispatch_def handle_diagnostic_session_control_def)

lemma receive_single_frame:
  assumes "arbitration_id msg \<in> set (request_ids s)" "data msg = n # sid # rest" "1 \<le> n" "n \<le> 7"
    "int (length rest) \<ge> n - 1"
  shows "receive seed msg s = dispatch seed sid msg s"
proof -
  have n: "drop_bit 4 n = 0" "n AND 15 = n"
    using assms(3,4) by (simp_all add: drop_bit_eq_div and_15_mod)
  then have "drop_bit 4 n AND 15 = 0" by simp
  then show ?thesis
    using assms n by (simp add: receive_def Let_def)
qed

text \<open>
  Every single-frame request on a watched identifier, outside silent session control, is
  answered by exactly one frame, sent on the response identifier: it starts a positive response of
  the requested service (service id plus 0x40) or a negative response 7F naming that service;
  a service the unit does not implement always gets code 0x11, and no exception is swallowed.
\<close>

lemma single_frame_answered:
  assumes "arbitration_id msg \<in> set (request_ids s)"
    and "data msg = n # sid # rest" "1 \<le> n" "n \<le> 7" "n - 1 \<le> int (length rest)"
    and "request_ok seed sid msg s" "\<not> (silent_mode s \<and> sid = 0x10)"
  shows "\<exists>p. is_reply sid p \<and> bytes_ok p \<and>
    sent (uds_on_message_received seed msg s) = sent s @ [frame (response_id s) (first_frame p)] \<and>
    snd (receive seed msg s) = None"
proof -
  have r: "receive seed msg s = dispatch seed sid msg s"
    by (rule receive_single_frame) (use assms in auto)
  from dispatch_replies [OF assms(6,7)] obtain p where p: "bytes_ok p" "is_reply sid p"
    "dispatch seed sid msg s =
       isotp_send p (diag_set (diag_step (silent_mode s) sid (sub_function msg) (diag_state s)) s)"
    by (auto simp: replies_def)
  then show ?thesis
    by (intro exI [of _ p]) (simp add: r uds_on_message_received_def isotp_send_eq Let_def)
qed

text \<open>
  C13: the dispatcher refines the abstract diagnostic state machine: on every request the session and
  the security flag move as \<open>diag_step\<close> says, whatever is sent besides.
\<close>

theorem dispatch_refines:
  assumes "request_ok seed sid msg s"
  shows "diag_state (fst (dispatch seed sid msg s)) =
    diag_step (silent_mode s) sid (sub_function msg) (diag_state s)"
proof (cases "silent_mode s \<and> sid = 0x10")
  case True
  then show ?thesis using dispatch_silent [of s seed msg] by (simp add: diag_step_def)
next
  case False
  from dispatch_replies [OF assms this] show ?thesis
    by (auto simp: replies_def isotp_send_eq Let_def)
qed

theorem dispatch_refines_witness:
  "diag_state (fst (dispatch [1, 2, 3, 4] 0x27 (frame 0x7E0 [2, 0x27, 2]) (Task_UDS_Echo 0x7E8 False None []))) =
     (1, True)"
  using dispatch_refines [of "[1, 2, 3, 4]" "0x27" "frame 0x7E0 [2, 0x27, 2]" "Task_UDS_Echo 0x7E8 False None []"]
  by (simp add: frame_def Task_UDS_Echo_def request_ok_def diag_step_def sub_function_def data_or_def
      diag_state_def)

section \<open>Traces\<close>

text \<open>What holds of the unit between any two frames it receives.\<close>

definition full_frame :: "can_message \<Rightarrow> bool" where
  "full_frame m \<longleftrightarrow> bytes_ok (data m) \<and> length (data m) = 8"

definition uds_inv :: "uds_echo \<Rightarrow> bool" where
  "uds_inv s \<longleftrightarrow> bytes_ok (vin s) \<and> bytes_ok (mf_buffer s) \<and>
     (mf_buffer s \<noteq> [] \<longrightarrow> mf_seq s = 0x21) \<and> session s \<in> {1..4} \<and>
     (\<forall>p. rx_mf_pending s = Some p \<longrightarrow> bytes_ok p) \<and>
     list_all (\<lambda>m. full_frame m \<and> arbitration_id m = response_id s) (sent s)"

lemma full_first_frame: "bytes_ok p \<Longrightarrow> full_frame (frame i (first_frame p))"
  using first_frame_ok [of p] by (simp add: full_frame_def frame_def)

lemma isotp_send_inv:
  "bytes_ok p \<Longrightarrow> uds_inv s \<Longrightarrow> uds_inv (fst (isotp_send p s))"
  by (auto simp: isotp_send_eq uds_inv_def full_first_frame Let_def frame_def [of _ "first_frame p"]
      bytes_ok_drop dest: full_first_frame [of p "response_id s"])

lemma diag_step_session:
  "fst st \<in> {1..4} \<Longrightarrow> fst (diag_step b sid sub st) \<in> {1..4}"
  by (simp add: diag_step_def)

lemma dispatch_inv:
  assumes "request_ok seed sid msg s" "uds_inv s"
  shows "uds_inv (fst (dispatch seed sid msg s))"
proof (cases "silent_mode s \<and> sid = 0x10")
  case True
  then show ?thesis using assms dispatch_silent [of s seed msg] by simp
next
  case False
  let ?st = "diag_step (silent_mode s) sid (sub_function msg) (diag_state s)"
  have "uds_inv (diag_set ?st s)"
    using assms(2) diag_step_session [of "diag_state s"]
    by (auto simp: uds_inv_def diag_set_def diag_state_def)
  with dispatch_replies [OF assms(1) False] show ?thesis
    by (auto simp: replies_def intro: isotp_send_inv)
qed

lemma byte_and_15 [simp]: "byte_ok (n AND 15)"
  using pos_mod_bound [of 16 n] pos_mod_sign [of 16 n] by (simp add: and_15_mod byte_ok_def)

lemma dispatch_reassembled_inv:
  assumes "bytes_ok seed" "uds_inv s"
  shows "uds_inv (fst (dispatch_reassembled seed s))"
proof (cases "rx_mf_pending s")
  case None
  then show ?thesis using assms by (simp add: dispatch_reassembled_def)
next
  case (Some pending)
  let ?p = "take (rx_mf_total s) pending"
  have cleared: "uds_inv (rx_cleared s)" using assms by (simp add: uds_inv_def rx_cleared_def)
  have p: "bytes_ok ?p" using assms Some by (auto simp: uds_inv_def bytes_ok_take)
  have "2 \<le> length ?p \<Longrightarrow> request_ok seed (?p ! 0) (synthetic_message i ?p) (rx_cleared s)" for i
    using assms p by (auto simp: request_ok_def synthetic_message_def uds_inv_def rx_cleared_def
        intro: bytes_ok_nth [of ?p 0, simplified])
  from dispatch_inv [OF this cleared] show ?thesis
    using Some assms(2) cleared
    by (simp add: dispatch_reassembled_def Let_def rx_cleared_def)
qed

lemma push_consecutive_frames_inv:
  assumes "uds_inv s" "mf_buffer s \<noteq> []"
  shows "uds_inv (fst (push_consecutive_frames s)) \<and> mf_buffer (fst (push_consecutive_frames s)) = []"
proof -
  obtain q where q: "push_consecutive_frames s =
    done_with (s\<lparr>mf_buffer := [], mf_seq := 32 + q mod 16,
                 sent := sent s @ map (frame (response_id s)) (cf_frames 1 (mf_buffer s))\<rparr>)"
    using push_consecutive_frames_eq [of s 1] assms by (auto simp: uds_inv_def)
  have "list_all (\<lambda>m. full_frame m \<and> arbitration_id m = response_id s)
      (map (frame (response_id s)) (cf_frames 1 (mf_buffer s)))"
    using cf_frames_ok [of "mf_buffer s" 1] assms(1)
    by (auto simp: uds_inv_def list_all_iff full_frame_def frame_def)
  with q assms(1) show ?thesis by (simp add: uds_inv_def)
qed

lemma receive_inv:
  assumes "bytes_ok seed" "bytes_ok (data msg)" "uds_inv s"
  shows "uds_inv (fst (receive seed msg s))"
proof -
  have req: "1 < length (data msg) \<Longrightarrow> request_ok seed (data msg ! 1) msg s"
    using assms by (simp add: request_ok_def uds_inv_def bytes_ok_nth)
  have ff: "uds_inv (s\<lparr>rx_mf_total := t, rx_mf_pending := Some (pyslice 2 8 (data msg)), rx_mf_req_id := i\<rparr>)" for t i
    using assms by (auto simp: uds_inv_def)
  have cf: "rx_mf_pending s = Some p \<Longrightarrow> uds_inv (s\<lparr>rx_mf_pending := Some (p @ pyslice 1 8 (data msg))\<rparr>)" for p
    using assms by (auto simp: uds_inv_def)
  show ?thesis
    using assms dispatch_inv [OF req assms(3)] push_consecutive_frames_inv [OF assms(3)] ff
      dispatch_reassembled_inv [OF assms(1) ff] cf dispatch_reassembled_inv [OF assms(1) cf]
    by (auto simp: receive_def Let_def)
qed

text \<open>
  Over any sequence of received frames (each with the random bytes drawn while it is handled) the
  unit sends only full eight-byte frames on its response identifier, stays in one of the four
  diagnostic sessions, and has never been left with bytes outside the byte range in either of its
  ISO-TP buffers.
\<close>

lemma uds_trace_inv:
  assumes "bytes_ok v" "\<forall>(seed, m) \<in> set ms. bytes_ok seed \<and> bytes_ok (data m)"
  shows "uds_inv (fold (\<lambda>(seed, m). uds_on_message_received seed m) ms (Task_UDS_Echo i silent req v))"
proof -
  have "uds_inv s \<Longrightarrow> \<forall>(seed, m) \<in> set ms. bytes_ok seed \<and> bytes_ok (data m) \<Longrightarrow>
      uds_inv (fold (\<lambda>(seed, m). uds_on_message_received seed m) ms s)" for s ms
    by (induction ms arbitrary: s)
      (auto simp: uds_on_message_received_def swallow_def receive_inv)
  moreover have "uds_inv (Task_UDS_Echo i silent req v)"
    using assms(1) by (simp add: uds_inv_def Task_UDS_Echo_def)
  ultimately show ?thesis using assms(2) by blast
qed

text \<open>
  No flow control is ever sent for a multi-frame request. Receiving the first frame of a request
  longer than a single frame records it and transmits nothing at all, so a tester that follows
  ISO 15765-2 and waits for the flow-control frame never sends the rest.
\<close>

lemma first_frame_gets_no_flow_control:
  assumes "7 < length p" "length p \<le> 4095" "i \<in> set (request_ids r)"
  shows "sent (uds_on_message_received seed (frame i (first_frame p)) r) = sent r \<and>
    rx_mf_pending (uds_on_message_received seed (frame i (first_frame p)) r) = Some (take 6 p)"
  using receive_first_frame [OF assms] by (simp add: uds_on_message_received_def)

end
