(* ===== verification/V2gtp.thy ===== *)
theory V2gtp
  imports Prelude
begin

text \<open>
  The V2G transfer protocol framing of \<open>iso15118/shared/messages/v2gtp.py\<close> and the protocol,
  namespace and payload-type enumerations of \<open>enums.py\<close> it is defined over. An \<open>IntEnum\<close> member
  compares equal to its integer, so a payload type is the integer and an enumeration is the list of
  its values; the lookup \<open>Enum(value)\<close> raises \<open>ValueError\<close> outside that list.
\<close>

section \<open>Enumerations\<close>

abbreviation (input) "PROTOCOL_VERSION \<equiv> (0x01 :: int)"
abbreviation (input) "INV_PROTOCOL_VERSION \<equiv> (0xFE :: int)"

definition UINT_32_MAX :: int where
  "UINT_32_MAX = 2 ^ 32 - 1"

definition DINPayloadTypes :: "int list" where
  "DINPayloadTypes = [0x8001, 0x9000, 0x9001]"

definition ISOV2PayloadTypes :: "int list" where
  "ISOV2PayloadTypes = [0x8001, 0x9000, 0x9001]"

definition ISOV20PayloadTypes :: "int list" where
  "ISOV20PayloadTypes =
     [0x8001, 0x8002, 0x8003, 0x8004, 0x8005, 0x8006, 0x8101, 0x8102, 0x8103, 0x8104,
      0x9000, 0x9001, 0x9002, 0x9003]"

definition enum_value :: "int list \<Rightarrow> int \<Rightarrow> int result" where
  "enum_value options v = (if v \<in> set options then Inr v else Inl ValueError)"

definition DIN_MSG_DEF :: string where "DIN_MSG_DEF = ''urn:din:70121:2012:MsgDef''"
definition ISO_V2_MSG_DEF :: string where "ISO_V2_MSG_DEF = ''urn:iso:15118:2:2013:MsgDef''"
definition ISO_V20_BASE :: string where "ISO_V20_BASE = ''urn:iso:std:iso:15118:-20''"
definition SAP_NS :: string where "SAP_NS = ''urn:iso:15118:2:2010:AppProtocol''"

datatype protocol =
    UNKNOWN
  | DIN_SPEC_70121
  | ISO_15118_2
  | ISO_15118_20_COMMON_MESSAGES
  | ISO_15118_20_AC
  | ISO_15118_20_DC
  | ISO_15118_20_WPT
  | ISO_15118_20_ACDP

fun ns :: "protocol \<Rightarrow> string" where
  "ns UNKNOWN = ''''"
| "ns DIN_SPEC_70121 = DIN_MSG_DEF"
| "ns ISO_15118_2 = ISO_V2_MSG_DEF"
| "ns ISO_15118_20_COMMON_MESSAGES = ISO_V20_BASE @ '':CommonMessages''"
| "ns ISO_15118_20_AC = ISO_V20_BASE @ '':AC''"
| "ns ISO_15118_20_DC = ISO_V20_BASE @ '':DC''"
| "ns ISO_15118_20_WPT = ISO_V20_BASE @ '':WPT''"
| "ns ISO_15118_20_ACDP = ISO_V20_BASE @ '':ACDP''"

definition protocols :: "protocol list" where
  "protocols = [UNKNOWN, DIN_SPEC_70121, ISO_15118_2, ISO_15118_20_COMMON_MESSAGES, ISO_15118_20_AC,
     ISO_15118_20_DC, ISO_15118_20_WPT, ISO_15118_20_ACDP]"

definition get_by_ns :: "string \<Rightarrow> protocol" where
  "get_by_ns n = (case find (\<lambda>p. ns p = n) protocols of Some p \<Rightarrow> p | None \<Rightarrow> UNKNOWN)"

fun starts_with :: "string \<Rightarrow> string \<Rightarrow> bool" where
  "starts_with s [] = True"
| "starts_with [] (c # cs) = False"
| "starts_with (x # s) (c # cs) = (x = c \<and> starts_with s cs)"

definition is_v20 :: "protocol \<Rightarrow> bool" where
  "is_v20 p = starts_with (ns p) ISO_V20_BASE"

section \<open>Messages\<close>

record v2gtp_message =
  protocol :: protocol
  protocol_version :: int
  inv_protocol_version :: int
  payload_type :: int
  payload_length :: int
  payload :: bytes

definition get_payload_type :: "bytes \<Rightarrow> int" where
  "get_payload_type header =
     (if length header = 8 then int_from_bytes (pyslice 2 4 header) else - 1)"

definition get_payload_length :: "bytes \<Rightarrow> int" where
  "get_payload_length header =
     (if length header = 8 then int_from_bytes (drop 4 header) else - 1)"

definition is_payload_type_valid :: "protocol \<Rightarrow> int \<Rightarrow> bool" where
  "is_payload_type_valid p t =
     (if (p \<in> set [ISO_15118_2, UNKNOWN] \<and> t \<notin> set ISOV2PayloadTypes) \<or>
         (is_v20 p \<and> t \<notin> set ISOV20PayloadTypes)
      then False else True)"

text \<open>The constructor; \<open>Protocol.options()\<close> lists every member, so its first check always passes.\<close>

definition V2GTPMessage :: "protocol \<Rightarrow> int \<Rightarrow> bytes \<Rightarrow> v2gtp_message result" where
  "V2GTPMessage p t pl =
     (if p \<notin> set protocols then Inl InvalidProtocolError
      else if \<not> is_payload_type_valid p t then Inl InvalidPayloadTypeError
      else Inr \<lparr>protocol = p, protocol_version = PROTOCOL_VERSION,
                inv_protocol_version = INV_PROTOCOL_VERSION, payload_type = t,
                payload_length = int (length pl), payload = pl\<rparr>)"

definition is_header_valid :: "protocol \<Rightarrow> bytes \<Rightarrow> bool result" where
  "is_header_valid p header =
     rbind (py_get header 0) (\<lambda>version.
     rbind (py_get header 1) (\<lambda>inv_version.
       Inr (length header = 8 \<and> p \<in> set protocols \<and> version = PROTOCOL_VERSION \<and>
            inv_version = INV_PROTOCOL_VERSION \<and> is_payload_type_valid p (get_payload_type header) \<and>
            \<not> get_payload_length header > UINT_32_MAX \<and> \<not> get_payload_length header < 0)))"

definition to_bytes :: "v2gtp_message \<Rightarrow> bytes result" where
  "to_bytes m =
     rbind (int_to_bytes 1 (protocol_version m)) (\<lambda>v.
     rbind (int_to_bytes 1 (inv_protocol_version m)) (\<lambda>i.
     rbind (int_to_bytes 2 (payload_type m)) (\<lambda>t.
     rbind (int_to_bytes 4 (payload_length m)) (\<lambda>l.
       Inr ((v @ i @ t @ l) @ payload m)))))"

definition from_bytes :: "protocol \<Rightarrow> bytes \<Rightarrow> v2gtp_message result" where
  "from_bytes p d =
     (if length d \<ge> 10 then
        let header = take 8 d
        in rbind (is_header_valid p header) (\<lambda>valid.
             if valid then
               rbind (enum_value (if is_v20 p then ISOV20PayloadTypes else ISOV2PayloadTypes)
                        (get_payload_type header)) (\<lambda>t.
               V2GTPMessage p t (drop 8 d))
             else Inl InvalidV2GTPMessageError)
      else Inl InvalidV2GTPMessageError)"

section \<open>Enumerations: facts\<close>

lemma in_protocols [simp]: "p \<in> set protocols"
  by (cases p) (simp_all add: protocols_def)

lemma is_v20_simps [simp]:
  "\<not> is_v20 UNKNOWN" "\<not> is_v20 DIN_SPEC_70121" "\<not> is_v20 ISO_15118_2"
  "is_v20 ISO_15118_20_COMMON_MESSAGES" "is_v20 ISO_15118_20_AC" "is_v20 ISO_15118_20_DC"
  "is_v20 ISO_15118_20_WPT" "is_v20 ISO_15118_20_ACDP"
  by (simp_all add: is_v20_def ISO_V20_BASE_def DIN_MSG_DEF_def ISO_V2_MSG_DEF_def)

lemma ns_inject [simp]: "ns p = ns q \<longleftrightarrow> p = q"
  by (cases p; cases q) (simp_all add: ISO_V20_BASE_def DIN_MSG_DEF_def ISO_V2_MSG_DEF_def)

lemma get_by_ns_ns [simp]: "get_by_ns (ns p) = p"
proof -
  have "find (\<lambda>q. ns q = ns p) protocols = Some p"
    by (cases p) (simp_all add: protocols_def del: ns.simps)
  then show ?thesis by (simp add: get_by_ns_def)
qed

definition payload_types :: "protocol \<Rightarrow> int list" where
  "payload_types p =
     (if p = DIN_SPEC_70121 then DINPayloadTypes
      else if is_v20 p then ISOV20PayloadTypes else ISOV2PayloadTypes)"

lemma payload_types_range: "t \<in> set (payload_types p) \<Longrightarrow> 0 \<le> t \<and> t < 65536"
  by (auto simp: payload_types_def DINPayloadTypes_def ISOV2PayloadTypes_def ISOV20PayloadTypes_def
      split: if_splits)

lemma payload_types_valid: "t \<in> set (payload_types p) \<Longrightarrow> is_payload_type_valid p t"
  by (cases p) (auto simp: payload_types_def is_payload_type_valid_def DINPayloadTypes_def
      ISOV2PayloadTypes_def)

lemma payload_types_enum:
  "enum_value (if is_v20 p then ISOV20PayloadTypes else ISOV2PayloadTypes) t =
     (if t \<in> set (payload_types p) then Inr t else Inl ValueError)"
  by (cases p) (auto simp: payload_types_def enum_value_def DINPayloadTypes_def ISOV2PayloadTypes_def)

lemma payload_type_invalid:
  "p \<noteq> DIN_SPEC_70121 \<Longrightarrow> is_payload_type_valid p t \<longleftrightarrow> t \<in> set (payload_types p)"
  by (cases p) (auto simp: payload_types_def is_payload_type_valid_def)

section \<open>Framing\<close>

definition header_of :: "int \<Rightarrow> int \<Rightarrow> bytes" where
  "header_of t n = [PROTOCOL_VERSION, INV_PROTOCOL_VERSION] @ be_bytes 2 t @ be_bytes 4 n"

definition message_of :: "protocol \<Rightarrow> int \<Rightarrow> bytes \<Rightarrow> v2gtp_message" where
  "message_of p t pl = \<lparr>protocol = p, protocol_version = PROTOCOL_VERSION,
     inv_protocol_version = INV_PROTOCOL_VERSION, payload_type = t,
     payload_length = int (length pl), payload = pl\<rparr>"

lemma V2GTPMessage_eq:
  "V2GTPMessage p t pl =
     (if is_payload_type_valid p t then Inr (message_of p t pl) else Inl InvalidPayloadTypeError)"
  by (simp add: V2GTPMessage_def message_of_def)

lemma to_bytes_message_of:
  assumes "0 \<le> t" "t < 65536" "int (length pl) \<le> UINT_32_MAX"
  shows "to_bytes (message_of p t pl) = Inr (header_of t (int (length pl)) @ pl)"
proof -
  have "be_bytes 1 n = [n mod 256]" for n by (simp add: One_nat_def)
  with assms show ?thesis
    by (simp add: to_bytes_def message_of_def header_of_def int_to_bytes_def UINT_32_MAX_def)
qed

lemma length_header_of [simp]: "length (header_of t n) = 8"
  by (simp add: header_of_def)

lemma header_of_fields:
  assumes "0 \<le> t" "t < 65536" "0 \<le> n" "n \<le> UINT_32_MAX"
  shows "get_payload_type (header_of t n) = t" "get_payload_length (header_of t n) = n"
proof -
  have "pyslice 2 4 (header_of t n) = be_bytes 2 t"
    by (simp add: header_of_def pyslice_def)
  then show "get_payload_type (header_of t n) = t"
    using assms by (simp add: get_payload_type_def int_from_bytes_def be_num_be_bytes_id)
  have "drop 4 (header_of t n) = be_bytes 4 n"
    by (simp add: header_of_def)
  then show "get_payload_length (header_of t n) = n"
    using assms be_num_be_bytes_id [of n 4]
    by (simp add: get_payload_length_def int_from_bytes_def UINT_32_MAX_def)
qed

lemma is_header_valid_8:
  assumes "length h = 8" "bytes_ok h"
  shows "is_header_valid p h =
    Inr (h ! 0 = PROTOCOL_VERSION \<and> h ! 1 = INV_PROTOCOL_VERSION \<and>
         is_payload_type_valid p (get_payload_type h))"
proof -
  have "length (drop 4 h) = 4" "bytes_ok (drop 4 h)" using assms by auto
  then have "0 \<le> get_payload_length h" "get_payload_length h \<le> UINT_32_MAX"
    using be_num_bounds [of "drop 4 h"] assms(1)
    by (auto simp: get_payload_length_def int_from_bytes_def UINT_32_MAX_def)
  then show ?thesis
    using assms(1) by (auto simp: is_header_valid_def py_get_def)
qed

text \<open>What \<open>from_bytes\<close> does on well-formed bytes, as one equation.\<close>

lemma from_bytes_eq:
  assumes "bytes_ok d"
  shows "from_bytes p d =
    (if length d < 10 \<or> d ! 0 \<noteq> PROTOCOL_VERSION \<or> d ! 1 \<noteq> INV_PROTOCOL_VERSION \<or>
        \<not> is_payload_type_valid p (get_payload_type (take 8 d))
     then Inl InvalidV2GTPMessageError
     else if get_payload_type (take 8 d) \<in> set (payload_types p)
     then Inr (message_of p (get_payload_type (take 8 d)) (drop 8 d))
     else Inl ValueError)"
proof (cases "length d < 10")
  case True
  then show ?thesis by (simp add: from_bytes_def)
next
  case False
  then have "is_header_valid p (take 8 d) = Inr (d ! 0 = PROTOCOL_VERSION \<and>
      d ! 1 = INV_PROTOCOL_VERSION \<and> is_payload_type_valid p (get_payload_type (take 8 d)))"
    using is_header_valid_8 [of "take 8 d" p] assms by (auto simp: bytes_ok_take)
  then show ?thesis
    using False by (simp add: from_bytes_def Let_def payload_types_enum V2GTPMessage_eq
        payload_types_valid)
qed

lemma from_bytes_framed:
  assumes "t \<in> set (payload_types p)" "bytes_ok pl" "2 \<le> length pl" "0 \<le> n" "n \<le> UINT_32_MAX"
  shows "from_bytes p (header_of t n @ pl) = Inr (message_of p t pl)"
proof -
  have t: "0 \<le> t" "t < 65536" using payload_types_range [OF assms(1)] by auto
  have "bytes_ok (header_of t n @ pl)" using assms(2) by (simp add: header_of_def)
  moreover have "(header_of t n @ pl) ! 0 = PROTOCOL_VERSION"
    "(header_of t n @ pl) ! 1 = INV_PROTOCOL_VERSION"
    by (simp_all add: header_of_def)
  ultimately show ?thesis
    using assms t by (simp add: from_bytes_eq header_of_fields payload_types_valid)
qed

text \<open>
  C31: framing round trip. A message built for a payload type of its protocol, with at least the two
  payload bytes the receiver insists on and at most 2^32 - 1, is serialised, and the receiver
  rebuilds exactly that message.
\<close>

theorem v2gtp_roundtrip:
  assumes "t \<in> set (payload_types p)" "bytes_ok pl" "2 \<le> length pl" "int (length pl) \<le> UINT_32_MAX"
  shows "\<exists>m bs. V2GTPMessage p t pl = Inr m \<and> to_bytes m = Inr bs \<and> from_bytes p bs = Inr m"
proof -
  have t: "0 \<le> t" "t < 65536" using payload_types_range [OF assms(1)] by auto
  show ?thesis
    using from_bytes_framed [OF assms(1-3) _ assms(4)] to_bytes_message_of [OF t assms(4)] assms(1)
    by (auto simp: V2GTPMessage_eq payload_types_valid)
qed

theorem v2gtp_roundtrip_witness:
  "\<exists>m bs. V2GTPMessage ISO_15118_20_DC 0x8004 [0x80, 0x8C] = Inr m \<and> to_bytes m = Inr bs \<and>
     from_bytes ISO_15118_20_DC bs = Inr m"
  by (rule v2gtp_roundtrip) (simp_all add: payload_types_def ISOV20PayloadTypes_def UINT_32_MAX_def)



text \<open>
  The length field of a received header is never compared with the payload: frames that differ
  only in that field are accepted alike and give the same message.
\<close>

lemma declared_length_ignored:
  assumes "bytes_ok pl" "t \<in> set (payload_types p)" "2 \<le> length pl"
    and "0 \<le> n" "n \<le> UINT_32_MAX" "0 \<le> n'" "n' \<le> UINT_32_MAX"
  shows "from_bytes p (header_of t n @ pl) = Inr (message_of p t pl) \<and>
    from_bytes p (header_of t n' @ pl) = from_bytes p (header_of t n @ pl)"
  using assms by (simp add: from_bytes_framed)

end
