(* ===== verification/Sdp.thy ===== *)
theory Sdp
  imports V2gtp
begin

text \<open>
  The SECC discovery messages of \<open>iso15118/shared/messages/sdp.py\<close>. The constructor of a response
  returns early on a bad argument and leaves an object without fields behind; such an object is
  \<open>None\<close>, and reading a field of it raises \<open>AttributeError\<close>.
\<close>

datatype security = TLS | NO_TLS
datatype transport = TCP | UDP

fun security_value :: "security \<Rightarrow> int" where
  "security_value TLS = 0x00"
| "security_value NO_TLS = 0x10"

fun transport_value :: "transport \<Rightarrow> int" where
  "transport_value TCP = 0x00"
| "transport_value UDP = 0x10"

definition security_from_byte :: "bytes \<Rightarrow> security result" where
  "security_from_byte b =
     (if int_from_bytes b = security_value TLS then Inr TLS
      else if int_from_bytes b = security_value NO_TLS then Inr NO_TLS
      else Inl ValueError)"

definition transport_from_byte :: "bytes \<Rightarrow> transport result" where
  "transport_from_byte b =
     (if int_from_bytes b = transport_value TCP then Inr TCP
      else if int_from_bytes b = transport_value UDP then Inr UDP
      else Inl ValueError)"

record sdp_request =
  req_security :: security
  req_transport :: transport

definition request_to_payload :: "sdp_request \<Rightarrow> bytes result" where
  "request_to_payload q =
     rbind (int_to_bytes 1 (security_value (req_security q))) (\<lambda>s.
     rbind (int_to_bytes 1 (transport_value (req_transport q))) (\<lambda>t. Inr (s @ t)))"

definition request_from_payload :: "bytes \<Rightarrow> sdp_request result" where
  "request_from_payload p =
     (if length p \<noteq> 2 then Inl InvalidSDPRequestError
      else
        (case rbind (security_from_byte (take 1 p)) (\<lambda>s.
              rbind (transport_from_byte (pyslice 1 2 p)) (\<lambda>t.
                Inr \<lparr>req_security = s, req_transport = t\<rparr>)) of
           Inl ValueError \<Rightarrow> Inl InvalidSDPRequestError
         | r \<Rightarrow> r))"

abbreviation (input) "MIN_TCP_PORT \<equiv> (49152 :: int)"
abbreviation (input) "MAX_TCP_PORT \<equiv> (65535 :: int)"

record sdp_response =
  ip_address :: bytes
  resp_port :: int
  resp_security :: security
  resp_transport :: transport

definition SDPResponse :: "bytes \<Rightarrow> int \<Rightarrow> security \<Rightarrow> transport \<Rightarrow> sdp_response option" where
  "SDPResponse ip p s t =
     (if length ip \<noteq> 16 then None
      else if p < MIN_TCP_PORT \<or> p > MAX_TCP_PORT then None
      else Some \<lparr>ip_address = ip, resp_port = p, resp_security = s, resp_transport = t\<rparr>)"

definition response_to_payload :: "sdp_response option \<Rightarrow> bytes result" where
  "response_to_payload r =
     (case r of
        None \<Rightarrow> Inl AttributeError
      | Some r \<Rightarrow>
          rbind (int_to_bytes 2 (resp_port r)) (\<lambda>p.
          rbind (int_to_bytes 1 (security_value (resp_security r))) (\<lambda>s.
          rbind (int_to_bytes 1 (transport_value (resp_transport r))) (\<lambda>t.
            Inr (ip_address r @ p @ s @ t)))))"

text \<open>\<open>Security(n)\<close> and \<open>Transport(n)\<close> look the member up by value.\<close>

definition response_from_payload :: "bytes \<Rightarrow> sdp_response option result" where
  "response_from_payload p =
     (if length p \<noteq> 20 then Inl InvalidSDPResponseError
      else
        rbind (security_from_byte (pyslice 18 19 p)) (\<lambda>s.
        rbind (transport_from_byte (pyslice 19 20 p)) (\<lambda>t.
          Inr (SDPResponse (take 16 p) (int_from_bytes (pyslice 16 18 p)) s t))))"

text \<open>
  Every request object is an \<open>SDPRequest\<close> (the wireless request is a subclass of it), so the first
  branch of the type test is the one taken.
\<close>

definition create_sdp_response ::
  "sdp_request \<Rightarrow> bytes \<Rightarrow> int \<Rightarrow> bool \<Rightarrow> sdp_response option" where
  "create_sdp_response q ip p tls_enabled =
     SDPResponse ip p (if tls_enabled then TLS else NO_TLS) TCP"

section \<open>Properties\<close>

lemma int_to_bytes_1: "byte_ok n \<Longrightarrow> int_to_bytes 1 n = Inr [n]"
  by (simp add: int_to_bytes_def byte_ok_def One_nat_def)

lemma value_bytes [simp]: "byte_ok (security_value s)" "byte_ok (transport_value t)"
  by (cases s; simp) (cases t; simp)

lemma from_byte_value [simp]:
  "security_from_byte [security_value s] = Inr s" "transport_from_byte [transport_value t] = Inr t"
  by (cases s; simp add: security_from_byte_def int_from_bytes_def)
    (cases t; simp add: transport_from_byte_def int_from_bytes_def)

lemma from_byte_error:
  "security_from_byte b = Inl e \<Longrightarrow> e = ValueError" "transport_from_byte b = Inl e \<Longrightarrow> e = ValueError"
  by (auto simp: security_from_byte_def transport_from_byte_def split: if_splits)

lemma request_from_payload_error:
  "request_from_payload p = Inl e \<Longrightarrow> e = InvalidSDPRequestError"
  by (cases "security_from_byte (take 1 p)"; cases "transport_from_byte (pyslice 1 2 p)")
    (auto simp: request_from_payload_def dest: from_byte_error split: if_splits)

lemma request_roundtrip:
  "rbind (request_to_payload q) request_from_payload = Inr q"
  by (cases q) (simp add: request_to_payload_def request_from_payload_def int_to_bytes_1 [unfolded One_nat_def])

lemma create_sdp_response_payload:
  assumes "length ip = 16" "MIN_TCP_PORT \<le> p" "p \<le> MAX_TCP_PORT"
  shows "response_to_payload (create_sdp_response q ip p tls) =
    Inr (ip @ be_bytes 2 p @ [security_value (if tls then TLS else NO_TLS), 0])"
  using assms by (simp add: response_to_payload_def create_sdp_response_def SDPResponse_def
      int_to_bytes_1) (simp add: int_to_bytes_def)

lemma response_from_payload_wire:
  assumes "length ip = 16" "MIN_TCP_PORT \<le> p" "p \<le> MAX_TCP_PORT"
  shows "response_from_payload (ip @ be_bytes 2 p @ [security_value s, 0]) =
    Inr (Some \<lparr>ip_address = ip, resp_port = p, resp_security = s, resp_transport = TCP\<rparr>)"
proof -
  let ?w = "ip @ be_bytes 2 p @ [security_value s, transport_value TCP]"
  have "pyslice 16 18 ?w = be_bytes 2 p" "pyslice 18 19 ?w = [security_value s]"
    "pyslice 19 20 ?w = [transport_value TCP]" "length ?w = 20" "take 16 ?w = ip"
    using assms(1) by (simp_all add: pyslice_def)
  then have "response_from_payload ?w = Inr (SDPResponse ip p s TCP)"
    unfolding response_from_payload_def using assms(2,3)
    by (simp del: transport_value.simps add: int_from_bytes_def be_num_be_bytes_id)
  then show ?thesis
    using assms by (simp add: SDPResponse_def)
qed

text \<open>
  Discovery round trip. A request survives the wire whatever its two fields, and the response
  created for a well-formed server address reads back, on the vehicle's side, as the server's address
  and port with TCP and with TLS offered exactly when a TLS server exists, independently of
  what the request asked for.
\<close>

lemma sdp_roundtrip:
  assumes "length ip = 16" "bytes_ok ip" "MIN_TCP_PORT \<le> p" "p \<le> MAX_TCP_PORT"
  shows "rbind (request_to_payload q) request_from_payload = Inr q \<and>
    rbind (response_to_payload (create_sdp_response q ip p tls)) response_from_payload =
      Inr (Some \<lparr>ip_address = ip, resp_port = p, resp_security = (if tls then TLS else NO_TLS),
                 resp_transport = TCP\<rparr>)"
  using create_sdp_response_payload [OF assms(1,3,4), of q tls]
    response_from_payload_wire [OF assms(1,3,4), of "if tls then TLS else NO_TLS"]
    request_roundtrip [of q]
  by simp

end
