(* ===== verification/Din_Messages.thy ===== *)
theory Din_Messages
  imports V2gtp Complex_Main
begin

text \<open>
  The DIN SPEC 70121 messages (\<open>iso15118/shared/messages/din_spec\<close>), the protocol negotiation
  messages (\<open>app_protocol.py\<close>), the error responses prepared for them
  (\<open>secc/failed_responses.py\<close>) and the vehicle data the charger keeps
  (\<open>secc/controller/ev_data.py\<close>). A pydantic model is a constructor whose arguments are its fields
  in declaration order, an optional field an \<open>option\<close>. A decimal value is the rational number
  \<open>value * 10 ** multiplier\<close>; the code holds it as a float, and with a 16-bit value and a multiplier
  of at least -3 the one comparison it makes, against 2, comes out the same.
\<close>

section \<open>Enumerations\<close>

datatype auth_enum = EIM | PNC | EIM_V2 | PNC_V2

datatype authorization_status = ACCEPTED | REJECTED | ONGOING_AUTH

datatype energy_mode =
    AC_SINGLE_PHASE_CORE | AC_THREE_PHASE_CORE | DC_CORE | DC_EXTENDED | DC_COMBO_CORE | DC_UNIQUE

datatype evse_processing = FINISHED | ONGOING | ONGOING_WAITING_FOR_CUSTOMER

datatype isolation_level = INVALID | VALID | WARNING | FAULT | NO_IMD

datatype dc_ev_error_code =
    NO_ERROR | FAILED_RESS_TEMPERATURE_INHIBIT | FAILED_EV_SHIFT_POSITION
  | FAILED_CHARGER_CONNECTOR_LOCK_FAULT | FAILED_EV_RESS_MALFUNCTION
  | FAILED_CHARGING_CURRENT_DIFFERENTIAL | FAILED_CHARGING_VOLTAGE_OUT_OF_RANGE
  | FAILED_CHARGING_SYSTEM_INCOMPATIBILITY | NO_DATA | RESERVED_A | RESERVED_B | RESERVED_C

datatype evse_notification = NO_NOTIFICATION | STOP_CHARGING | RE_NEGOTIATION

datatype dc_evse_status_code =
    EVSE_NOT_READY | EVSE_READY | EVSE_SHUTDOWN | EVSE_UTILITY_INTERUPT_EVENT
  | EVSE_ISOLATION_MONITORING_ACTIVE | EVSE_EMERGENCY_SHUTDOWN | EVSE_MALFUNCTION
  | EVSE_RESERVED_8 | EVSE_RESERVED_9 | EVSE_RESERVED_A | EVSE_RESERVED_B | EVSE_RESERVED_C

datatype service_category = CHARGING | CERTIFICATE | INTERNET | CUSTOM

text \<open>
  The response codes of DIN SPEC 70121 and of ISO 15118-2, two string enumerations that agree on the
  text of their common codes. The last four are those only ISO 15118-2 has, and
  \<open>FAILED_EVSE_PRESENT_VOLTAGE_TO_LOW\<close> is the one only DIN SPEC 70121 has.
\<close>

datatype response_code =
    OK | OK_NEW_SESSION_ESTABLISHED | OK_OLD_SESSION_JOINED | OK_CERTIFICATE_EXPIRES_SOON
  | FAILED | FAILED_SEQUENCE_ERROR | FAILED_SERVICE_ID_INVALID | FAILED_UNKNOWN_SESSION
  | FAILED_SERVICE_SELECTION_INVALID | FAILED_PAYMENT_SELECTION_INVALID
  | FAILED_CERTIFICATE_EXPIRED | FAILED_SIGNATURE_ERROR | FAILED_NO_CERTIFICATE_AVAILABLE
  | FAILED_CERT_CHAIN_ERROR | FAILED_CHALLENGE_INVALID | FAILED_CONTRACT_CANCELED
  | FAILED_WRONG_CHARGE_PARAMETER | FAILED_POWER_DELIVERY_NOT_APPLIED
  | FAILED_TARIFF_SELECTION_INVALID | FAILED_CHARGING_PROFILE_INVALID
  | FAILED_EVSE_PRESENT_VOLTAGE_TO_LOW | FAILED_METERING_SIGNATURE_NOT_VALID
  | FAILED_WRONG_ENERGY_TRANSFER_MODE
  | FAILED_NO_CHARGE_SERVICE_SELECTED | FAILED_CONTACTOR_ERROR
  | FAILED_CERTIFICATE_NOT_ALLOWED_AT_THIS_EVSE | FAILED_CERTIFICATE_REVOKED

datatype sap_code = NEGOTIATION_OK | MINOR_DEVIATION | NEGOTIATION_FAILED

section \<open>Data types\<close>

datatype unit_symbol = AMPERE | VOLTAGE | WATT | WATT_HOURS | SECONDS

record physical_value =
  pv_value :: int
  multiplier :: int
  pv_unit :: "unit_symbol option"

definition get_decimal_value :: "physical_value \<Rightarrow> rat" where
  "get_decimal_value pv =
     (if multiplier pv \<ge> 0 then of_int (pv_value pv * 10 ^ nat (multiplier pv))
      else of_int (pv_value pv) / of_int (10 ^ nat (- multiplier pv)))"

definition pv_ok :: "physical_value \<Rightarrow> bool" where
  "pv_ok pv \<longleftrightarrow> - 32768 \<le> pv_value pv \<and> pv_value pv \<le> 32767 \<and>
     - 3 \<le> multiplier pv \<and> multiplier pv \<le> 3"

record dc_ev_status =
  ev_ready :: bool
  ev_cabin_conditioning :: "bool option"
  ev_ress_conditioning :: "bool option"
  ev_error_code :: dc_ev_error_code
  ev_ress_soc :: int

record dc_evse_status =
  notification_max_delay :: int
  evse_notification :: evse_notification
  evse_isolation_status :: "isolation_level option"
  evse_status_code :: dc_evse_status_code

record dc_ev_charge_parameter =
  cp_dc_ev_status :: dc_ev_status
  ev_maximum_current_limit :: physical_value
  ev_maximum_power_limit :: "physical_value option"
  ev_maximum_voltage_limit :: physical_value
  ev_energy_capacity :: "physical_value option"
  ev_energy_request :: "physical_value option"
  full_soc :: "int option"
  cp_bulk_soc :: "int option"

record dc_ev_power_delivery_parameter =
  pd_dc_ev_status :: dc_ev_status
  pd_bulk_charging_complete :: "bool option"
  pd_charging_complete :: bool

record dc_evse_charge_parameter =
  cpe_dc_evse_status :: dc_evse_status
  evse_maximum_current_limit :: physical_value
  evse_maximum_power_limit :: physical_value
  evse_maximum_voltage_limit :: physical_value
  evse_minimum_current_limit :: physical_value
  evse_minimum_voltage_limit :: physical_value
  evse_current_regulation_tolerance :: "physical_value option"
  evse_peak_current_ripple :: physical_value
  evse_energy_to_be_delivered :: "physical_value option"

record charge_service =
  service_id :: int
  service_category :: service_category
  free_service :: bool
  energy_transfer_type :: energy_mode

record current_demand_req =
  cd_dc_ev_status :: dc_ev_status
  cd_ev_target_current :: physical_value
  ev_max_voltage_limit :: "physical_value option"
  ev_max_current_limit :: "physical_value option"
  ev_max_power_limit :: "physical_value option"
  bulk_charging_complete :: "bool option"
  charging_complete :: bool
  remaining_time_to_full_soc :: "physical_value option"
  cd_remaining_time_to_bulk_soc :: "physical_value option"
  cd_ev_target_voltage :: physical_value

record current_demand_res =
  cd_dc_evse_status :: dc_evse_status
  cd_evse_present_voltage :: physical_value
  cd_evse_present_current :: physical_value
  evse_current_limit_achieved :: bool
  evse_voltage_limit_achieved :: bool
  evse_power_limit_achieved :: bool
  evse_max_voltage_limit :: "physical_value option"
  evse_max_current_limit :: "physical_value option"
  evse_max_power_limit :: "physical_value option"

text \<open>A schedule tuple: its id and the maximum power per interval \<open>(start, duration, p_max)\<close>.\<close>

record sa_schedule_tuple =
  sa_schedule_tuple_id :: int
  p_max_schedule_id :: int
  p_max_entries :: "(int \<times> int option \<times> int) list"

section \<open>Messages\<close>

datatype din_body =
    SessionSetupReq (evcc_id_of: string)
  | SessionSetupRes response_code string "int option"
  | ServiceDiscoveryReq "string option" "service_category option"
  | ServiceDiscoveryRes response_code "auth_enum list" charge_service
  | ServicePaymentSelectionReq auth_enum "(int \<times> int option) list"
  | ServicePaymentSelectionRes response_code
  | ContractAuthenticationReq "string option" "string option"
  | ContractAuthenticationRes response_code "evse_processing option"
  | ChargeParameterDiscoveryReq energy_mode dc_ev_charge_parameter
  | ChargeParameterDiscoveryRes response_code evse_processing "sa_schedule_tuple list option"
      "dc_evse_charge_parameter option"
  | PowerDeliveryReq bool "(int \<times> (int \<times> int) list) option" "dc_ev_power_delivery_parameter option"
  | PowerDeliveryRes response_code dc_evse_status
  | CableCheckReq dc_ev_status
  | CableCheckRes response_code dc_evse_status evse_processing
  | PreChargeReq dc_ev_status physical_value physical_value
  | PreChargeRes response_code dc_evse_status physical_value
  | CurrentDemandReq current_demand_req
  | CurrentDemandRes response_code current_demand_res
  | WeldingDetectionReq dc_ev_status
  | WeldingDetectionRes response_code dc_evse_status physical_value
  | SessionStopReq
  | SessionStopRes response_code

text \<open>
  The classes the state machine tests a message body against: those of ISO 15118-2 first, with all its
  responses as one.
\<close>

datatype v2_type =
    SessionSetupT | ServiceDiscoveryT | ServiceDetailT | PaymentServiceSelectionT
  | CertificateInstallationT | CertificateUpdateT | PaymentDetailsT | AuthorizationT
  | ChargeParameterDiscoveryT | PowerDeliveryT | ChargingStatusT | CurrentDemandT
  | MeteringReceiptT | CableCheckT | PreChargeT | WeldingDetectionT | SessionStopT | V2ResponseT

datatype msg_type =
    SupportedAppProtocolReqT | SessionSetupReqT | ServiceDiscoveryReqT | ServicePaymentSelectionReqT
  | ContractAuthenticationReqT | ChargeParameterDiscoveryReqT | PowerDeliveryReqT | CableCheckReqT
  | PreChargeReqT | CurrentDemandReqT | WeldingDetectionReqT | SessionStopReqT
  | ResponseT
  | V2T v2_type

fun body_type :: "din_body \<Rightarrow> msg_type" where
  "body_type (SessionSetupReq _) = SessionSetupReqT"
| "body_type (ServiceDiscoveryReq _ _) = ServiceDiscoveryReqT"
| "body_type (ServicePaymentSelectionReq _ _) = ServicePaymentSelectionReqT"
| "body_type (ContractAuthenticationReq _ _) = ContractAuthenticationReqT"
| "body_type (ChargeParameterDiscoveryReq _ _) = ChargeParameterDiscoveryReqT"
| "body_type (PowerDeliveryReq _ _ _) = PowerDeliveryReqT"
| "body_type (CableCheckReq _) = CableCheckReqT"
| "body_type (PreChargeReq _ _ _) = PreChargeReqT"
| "body_type (CurrentDemandReq _) = CurrentDemandReqT"
| "body_type (WeldingDetectionReq _) = WeldingDetectionReqT"
| "body_type SessionStopReq = SessionStopReqT"
| "body_type _ = ResponseT"

fun message_name :: "din_body \<Rightarrow> string" where
  "message_name (SessionSetupReq _) = ''SessionSetupReq''"
| "message_name (SessionSetupRes _ _ _) = ''SessionSetupRes''"
| "message_name (ServiceDiscoveryReq _ _) = ''ServiceDiscoveryReq''"
| "message_name (ServiceDiscoveryRes _ _ _) = ''ServiceDiscoveryRes''"
| "message_name (ServicePaymentSelectionReq _ _) = ''ServicePaymentSelectionReq''"
| "message_name (ServicePaymentSelectionRes _) = ''ServicePaymentSelectionRes''"
| "message_name (ContractAuthenticationReq _ _) = ''ContractAuthenticationReq''"
| "message_name (ContractAuthenticationRes _ _) = ''ContractAuthenticationRes''"
| "message_name (ChargeParameterDiscoveryReq _ _) = ''ChargeParameterDiscoveryReq''"
| "message_name (ChargeParameterDiscoveryRes _ _ _ _) = ''ChargeParameterDiscoveryRes''"
| "message_name (PowerDeliveryReq _ _ _) = ''PowerDeliveryReq''"
| "message_name (PowerDeliveryRes _ _) = ''PowerDeliveryRes''"
| "message_name (CableCheckReq _) = ''CableCheckReq''"
| "message_name (CableCheckRes _ _ _) = ''CableCheckRes''"
| "message_name (PreChargeReq _ _ _) = ''PreChargeReq''"
| "message_name (PreChargeRes _ _ _) = ''PreChargeRes''"
| "message_name (CurrentDemandReq _) = ''CurrentDemandReq''"
| "message_name (CurrentDemandRes _ _) = ''CurrentDemandRes''"
| "message_name (WeldingDetectionReq _) = ''WeldingDetectionReq''"
| "message_name (WeldingDetectionRes _ _ _) = ''WeldingDetectionRes''"
| "message_name SessionStopReq = ''SessionStopReq''"
| "message_name (SessionStopRes _) = ''SessionStopRes''"

record app_protocol =
  protocol_ns :: string
  major_version :: int
  minor_version :: int
  schema_id :: int
  priority :: int

datatype fault_code = PARSING_ERROR | NO_TLS_ROOT_CERTIFICATE_AVAILABLE | UNKNOWN_ERROR

text \<open>No DIN message is ever signed, so the header's optional signature is left out.\<close>

record din_header =
  header_session_id :: string
  notification :: "(fault_code \<times> string) option"

section \<open>Validators\<close>

text \<open>
  \<open>int(value, 16)\<close>: surrounding white space, a sign and a \<open>0x\<close> prefix are allowed, and single
  underscores between digits.
\<close>

definition is_space :: "char \<Rightarrow> bool" where
  "is_space c \<longleftrightarrow> c \<in> set [CHR '' '', CHR 0x09, CHR 0x0A, CHR 0x0B, CHR 0x0C, CHR 0x0D]"

definition is_hex :: "char \<Rightarrow> bool" where
  "is_hex c \<longleftrightarrow> c \<in> set ''0123456789abcdefABCDEF''"

fun hex_digits :: "string \<Rightarrow> bool" where
  "hex_digits [] = False"
| "hex_digits [c] = is_hex c"
| "hex_digits (c # d # s) =
     (is_hex c \<and> (if d = CHR ''_'' then hex_digits s else hex_digits (d # s)))"

fun hex_prefixed :: "string \<Rightarrow> bool" where
  "hex_prefixed (a # b # s) =
     (if a = CHR ''0'' \<and> b \<in> set ''xX''
      then hex_digits (case s of c # s' \<Rightarrow> if c = CHR ''_'' then s' else s | [] \<Rightarrow> s)
      else hex_digits (a # b # s))"
| "hex_prefixed s = hex_digits s"

definition int_base_16_ok :: "string \<Rightarrow> bool" where
  "int_base_16_ok s =
     (let t = rev (dropWhile is_space (rev (dropWhile is_space s)))
      in hex_prefixed (case t of c # t' \<Rightarrow> if c \<in> set ''+-'' then t' else t | [] \<Rightarrow> t))"

definition MessageHeader ::
  "string \<Rightarrow> (fault_code \<times> string) option \<Rightarrow> din_header result" where
  "MessageHeader sid note =
     (if length sid \<le> 16 \<and> int_base_16_ok sid
      then Inr \<lparr>header_session_id = sid, notification = note\<rparr> else Inl ValidationError)"

definition Notification :: "fault_code \<Rightarrow> string \<Rightarrow> (fault_code \<times> string) result" where
  "Notification c m = (if length m \<le> 64 then Inr (c, m) else Inl ValidationError)"

definition charge_parameter_req_ok :: "din_body \<Rightarrow> bool" where
  "charge_parameter_req_ok b =
     (case b of ChargeParameterDiscoveryReq m _ \<Rightarrow> m \<in> set [DC_EXTENDED, DC_CORE] | _ \<Rightarrow> True)"

section \<open>Prepared error responses\<close>

definition pv_zero :: "unit_symbol \<Rightarrow> physical_value" where
  "pv_zero u = \<lparr>pv_value = 0, multiplier = 0, pv_unit = Some u\<rparr>"

definition failed_evse_status :: dc_evse_status where
  "failed_evse_status =
     \<lparr>notification_max_delay = 1000, evse_notification = STOP_CHARGING,
      evse_isolation_status = Some INVALID, evse_status_code = EVSE_NOT_READY\<rparr>"

text \<open>The entry for a request class, with the response code the caller assigns to it.\<close>

fun failed_response :: "msg_type \<Rightarrow> response_code \<Rightarrow> din_body option" where
  "failed_response SessionSetupReqT rc = Some (SessionSetupRes rc ''1234567'' None)"
| "failed_response ServiceDiscoveryReqT rc =
     Some (ServiceDiscoveryRes rc [EIM_V2]
       \<lparr>service_id = 1, service_category = CHARGING, free_service = False,
        energy_transfer_type = DC_EXTENDED\<rparr>)"
| "failed_response ServicePaymentSelectionReqT rc = Some (ServicePaymentSelectionRes rc)"
| "failed_response ContractAuthenticationReqT rc = Some (ContractAuthenticationRes rc (Some FINISHED))"
| "failed_response ChargeParameterDiscoveryReqT rc =
     Some (ChargeParameterDiscoveryRes rc FINISHED None
       (Some \<lparr>cpe_dc_evse_status = failed_evse_status,
              evse_maximum_current_limit = pv_zero AMPERE, evse_maximum_power_limit = pv_zero WATT,
              evse_maximum_voltage_limit = pv_zero VOLTAGE, evse_minimum_current_limit = pv_zero AMPERE,
              evse_minimum_voltage_limit = pv_zero VOLTAGE,
              evse_current_regulation_tolerance = Some (pv_zero AMPERE),
              evse_peak_current_ripple = pv_zero AMPERE,
              evse_energy_to_be_delivered = Some (pv_zero WATT_HOURS)\<rparr>))"
| "failed_response CableCheckReqT rc = Some (CableCheckRes rc failed_evse_status FINISHED)"
| "failed_response PreChargeReqT rc = Some (PreChargeRes rc failed_evse_status (pv_zero VOLTAGE))"
| "failed_response PowerDeliveryReqT rc = Some (PowerDeliveryRes rc failed_evse_status)"
| "failed_response CurrentDemandReqT rc =
     Some (CurrentDemandRes rc
       \<lparr>cd_dc_evse_status = failed_evse_status, cd_evse_present_voltage = pv_zero VOLTAGE,
        cd_evse_present_current = pv_zero AMPERE, evse_current_limit_achieved = False,
        evse_voltage_limit_achieved = False, evse_power_limit_achieved = False,
        evse_max_voltage_limit = Some (pv_zero VOLTAGE), evse_max_current_limit = Some (pv_zero AMPERE),
        evse_max_power_limit = Some (pv_zero WATT)\<rparr>)"
| "failed_response WeldingDetectionReqT rc =
     Some (WeldingDetectionRes rc failed_evse_status (pv_zero VOLTAGE))"
| "failed_response SessionStopReqT rc = Some (SessionStopRes rc)"
| "failed_response _ rc = None"

section \<open>Vehicle data\<close>

record dc_limits =
  max_voltage :: "rat option"
  max_charge_current :: "rat option"
  max_charge_power :: "rat option"

record ac_limits =
  ac_max_charge_current :: "rat option"
  ac_min_charge_current :: "rat option"
  ac_max_voltage :: "rat option"
  ac_max_charge_power :: "rat option"
  ac_min_charge_power :: "rat option"

text \<open>
  Of the limits of an AC session only the two charge powers of the first phase are ever set; the class
  has no currents and no voltage.
\<close>

record ev_data_context =
  ev_evcc_id :: "string option"
  rated_dc_limits :: dc_limits
  session_dc_limits :: dc_limits
  target_energy_request :: "rat option"
  total_battery_capacity :: "rat option"
  max_soc :: "int option"
  bulk_soc :: "int option"
  present_soc :: "int option"
  remaining_time_to_max_soc :: "rat option"
  remaining_time_to_bulk_soc :: "rat option"
  target_current :: rat
  target_voltage :: rat
  selected_energy_mode :: "energy_mode option"
  departure_time :: "int option"
  rated_ac_limits :: ac_limits
  session_ac_power :: "rat option \<times> rat option"

text \<open>
  The other limits of the two limit classes keep the constructor's value, which is copied from the
  rated to the session limits together with the three that are set here.
\<close>

definition update_dc_charge_parameters :: "dc_ev_charge_parameter \<Rightarrow> ev_data_context \<Rightarrow> ev_data_context" where
  "update_dc_charge_parameters p ev =
     (let rated = \<lparr>max_voltage = Some (get_decimal_value (ev_maximum_voltage_limit p)),
                   max_charge_current = Some (get_decimal_value (ev_maximum_current_limit p)),
                   max_charge_power = map_option get_decimal_value (ev_maximum_power_limit p)\<rparr>
      in ev\<lparr>present_soc := Some (ev_ress_soc (cp_dc_ev_status p)),
            target_energy_request := map_option get_decimal_value (ev_energy_request p),
            rated_dc_limits := rated,
            total_battery_capacity := map_option get_decimal_value (ev_energy_capacity p),
            max_soc := full_soc p, bulk_soc := cp_bulk_soc p,
            session_dc_limits := rated\<rparr>)"

definition update_pre_charge_parameters ::
  "dc_ev_status \<Rightarrow> physical_value \<Rightarrow> physical_value \<Rightarrow> ev_data_context \<Rightarrow> ev_data_context" where
  "update_pre_charge_parameters st voltage current ev =
     ev\<lparr>present_soc := Some (ev_ress_soc st), target_current := get_decimal_value current,
        target_voltage := get_decimal_value voltage\<rparr>"

text \<open>\<open>if v is not None: target = v.get_decimal_value()\<close>.\<close>

definition override :: "physical_value option \<Rightarrow> rat option \<Rightarrow> rat option" where
  "override v old = (case v of None \<Rightarrow> old | Some pv \<Rightarrow> Some (get_decimal_value pv))"

definition update_charge_loop_parameters :: "current_demand_req \<Rightarrow> ev_data_context \<Rightarrow> ev_data_context" where
  "update_charge_loop_parameters q ev =
     (let lim = session_dc_limits ev
      in ev\<lparr>present_soc := Some (ev_ress_soc (cd_dc_ev_status q)),
            target_current := get_decimal_value (cd_ev_target_current q),
            target_voltage := get_decimal_value (cd_ev_target_voltage q),
            remaining_time_to_max_soc :=
              override (remaining_time_to_full_soc q) (remaining_time_to_max_soc ev),
            remaining_time_to_bulk_soc :=
              override (cd_remaining_time_to_bulk_soc q) (remaining_time_to_bulk_soc ev),
            session_dc_limits :=
              \<lparr>max_voltage = override (ev_max_voltage_limit q) (max_voltage lim),
               max_charge_current = override (ev_max_current_limit q) (max_charge_current lim),
               max_charge_power = override (ev_max_power_limit q) (max_charge_power lim)\<rparr>\<rparr>)"

section \<open>Facts\<close>

text \<open>Every request class has an error response; what is not a request has none.\<close>

lemma failed_response_some:
  "failed_response t rc = None \<longleftrightarrow> t \<in> {ResponseT, SupportedAppProtocolReqT} \<union> range V2T"
  by (cases t) auto

fun response_code_of :: "din_body \<Rightarrow> response_code option" where
  "response_code_of (SessionSetupRes rc _ _) = Some rc"
| "response_code_of (ServiceDiscoveryRes rc _ _) = Some rc"
| "response_code_of (ServicePaymentSelectionRes rc) = Some rc"
| "response_code_of (ContractAuthenticationRes rc _) = Some rc"
| "response_code_of (ChargeParameterDiscoveryRes rc _ _ _) = Some rc"
| "response_code_of (PowerDeliveryRes rc _) = Some rc"
| "response_code_of (CableCheckRes rc _ _) = Some rc"
| "response_code_of (PreChargeRes rc _ _) = Some rc"
| "response_code_of (CurrentDemandRes rc _) = Some rc"
| "response_code_of (WeldingDetectionRes rc _ _) = Some rc"
| "response_code_of (SessionStopRes rc) = Some rc"
| "response_code_of _ = None"

lemma failed_response_code:
  "failed_response t rc = Some b \<Longrightarrow> response_code_of b = Some rc \<and> body_type b = ResponseT"
  by (cases t) auto

text \<open>The response class that answers a request class.\<close>

fun answers :: "din_body \<Rightarrow> msg_type" where
  "answers (SessionSetupRes _ _ _) = SessionSetupReqT"
| "answers (ServiceDiscoveryRes _ _ _) = ServiceDiscoveryReqT"
| "answers (ServicePaymentSelectionRes _) = ServicePaymentSelectionReqT"
| "answers (ContractAuthenticationRes _ _) = ContractAuthenticationReqT"
| "answers (ChargeParameterDiscoveryRes _ _ _ _) = ChargeParameterDiscoveryReqT"
| "answers (PowerDeliveryRes _ _) = PowerDeliveryReqT"
| "answers (CableCheckRes _ _ _) = CableCheckReqT"
| "answers (PreChargeRes _ _ _) = PreChargeReqT"
| "answers (CurrentDemandRes _ _) = CurrentDemandReqT"
| "answers (WeldingDetectionRes _ _ _) = WeldingDetectionReqT"
| "answers (SessionStopRes _) = SessionStopReqT"
| "answers _ = ResponseT"

lemma failed_response_answers: "failed_response t rc = Some b \<Longrightarrow> answers b = t"
  by (cases t) auto

lemma hex_digits_plain: "s \<noteq> [] \<Longrightarrow> list_all is_hex s \<Longrightarrow> hex_digits s"
proof (induction s rule: hex_digits.induct)
  case (3 c d s)
  then have "d \<noteq> CHR ''_''" by (auto simp: is_hex_def)
  with 3 show ?case by simp
qed simp_all

lemma hex_char:
  assumes "is_hex c"
  shows "\<not> is_space c" "c \<noteq> CHR ''+''" "c \<noteq> CHR ''-''" "c \<noteq> CHR ''x''" "c \<noteq> CHR ''X''"
  using assms by (auto simp: is_hex_def is_space_def)

lemma dropWhile_hex: "list_all is_hex s \<Longrightarrow> dropWhile is_space s = s"
  by (cases s) (auto simp: hex_char)

text \<open>What the random session identifiers look like is accepted by the header.\<close>

lemma int_base_16_ok_hex:
  assumes "s \<noteq> []" "list_all is_hex s"
  shows "int_base_16_ok s"
proof -
  have "list_all is_hex (rev s)" using assms(2) by (simp add: list_all_iff)
  then have strip: "rev (dropWhile is_space (rev (dropWhile is_space s))) = s"
    using assms(2) by (simp add: dropWhile_hex)
  obtain c t where s: "s = c # t" using assms(1) by (cases s) auto
  then have "hex_prefixed s"
    using hex_digits_plain [OF assms] assms(2) by (cases t) (auto dest: hex_char)
  then show ?thesis
    using strip s assms(2) by (auto simp: int_base_16_ok_def Let_def dest: hex_char)
qed

lemma int_base_16_empty: "\<not> int_base_16_ok []"
  by (simp add: int_base_16_ok_def)

end
