(* ===== verification/V2_Messages.thy ===== *)
theory V2_Messages
  imports Din_Messages
begin

text \<open>
  The ISO 15118-2 messages (\<open>iso15118/shared/messages/iso15118_2\<close>, with the signature element of
  \<open>xmldsig.py\<close>), their validators, and the error responses prepared for them
  (\<open>secc/failed_responses.py\<close>). The data types both standards share are those of \<open>Din_Messages\<close>; the
  vehicle status of ISO 15118-2 is the one of DIN SPEC 70121 without its two conditioning flags, which
  are \<open>None\<close> here. Powers are rational numbers, exact for the multipliers from 0 to 3; the code computes
  them as floats when a multiplier is negative.
\<close>

section \<open>Data types\<close>

datatype charge_progress = START | STOP | RENEGOTIATE

datatype charging_session = CS_TERMINATE | CS_PAUSE

datatype service_name = NAME_CHARGING | NAME_CERTIFICATE | NAME_INTERNET | NAME_CUSTOM

record ac_ev_charge_parameter =
  ac_departure_time :: "int option"
  e_amount :: physical_value
  ev_max_voltage :: physical_value
  ev_max_current :: physical_value
  ev_min_current :: physical_value

record dc_ev_charge_parameter_v2 =
  dc_departure_time :: "int option"
  dc_parameter :: dc_ev_charge_parameter

record ac_evse_status =
  ac_notification_max_delay :: int
  ac_evse_notification :: evse_notification
  rcd :: bool

record ac_evse_charge_parameter =
  cp_ac_evse_status :: ac_evse_status
  evse_nominal_voltage :: physical_value
  ac_evse_max_current :: physical_value

record certificate_chain =
  chain_id :: "string option"
  certificate :: bytes
  sub_certificates :: "bytes list option"

record service_details =
  sd_service_id :: int
  sd_service_name :: "service_name option"
  sd_service_category :: service_category
  sd_service_scope :: "string option"
  sd_free_service :: bool

record charge_service_v2 = service_details +
  supported_energy_transfer_mode :: "energy_mode list"

datatype param_value =
    BoolValue bool | ByteValue int | ShortValue int | IntValue int | PhysValue physical_value | StrValue string

record parameter_set =
  parameter_set_id :: int
  parameters :: "(string \<times> param_value) list"

record meter_info =
  meter_id :: string
  meter_reading :: "int option"
  sig_meter_reading :: "bytes option"
  meter_status :: "int option"
  t_meter :: "int option"

record profile_entry =
  pe_start :: int
  pe_max_power :: physical_value
  pe_max_phases :: "int option"

record p_max_entry =
  p_max :: physical_value
  interval_start :: int
  interval_duration :: "int option"

text \<open>A price: kind, amount and multiplier.\<close>

datatype cost_kind = RELATIVE_PRICE_PERCENTAGE | RENEWABLE_GENERATION_PERCENTAGE | CARBON_DIOXIDE_EMISSION

record sales_tariff_entry =
  e_price_level :: "int option"
  te_start :: int
  te_duration :: "int option"
  consumption_cost :: "(physical_value \<times> (cost_kind \<times> int \<times> int option) list) list option"

record sales_tariff =
  tariff_xml_id :: "string option"
  sales_tariff_id :: int
  sales_tariff_description :: "string option"
  num_e_price_levels :: "int option"
  sales_tariff_entries :: "sales_tariff_entry list"

record sa_schedule =
  schedule_tuple_id :: int
  schedule_entries :: "p_max_entry list"
  schedule_tariff :: "sales_tariff option"

section \<open>Signatures\<close>

record reference =
  ref_id :: "string option"
  ref_uri :: "string option"
  ref_transforms :: "string list"
  digest_method :: string
  digest_value :: bytes

record signed_info =
  canonicalization_method :: string
  signature_method :: string
  references :: "reference list"

record signature =
  sig_signed_info :: signed_info
  signature_value :: bytes

section \<open>Messages\<close>

datatype v2_body =
    SessionSetupReqV2 string
  | SessionSetupResV2 response_code string "int option"
  | ServiceDiscoveryReqV2 "string option" "service_category option"
  | ServiceDiscoveryResV2 response_code "auth_enum list" charge_service_v2 "service_details list option"
  | ServiceDetailReqV2 int
  | ServiceDetailResV2 response_code int "parameter_set list option"
  | PaymentServiceSelectionReqV2 auth_enum "(int \<times> int option) list"
  | PaymentServiceSelectionResV2 response_code
  | CertificateInstallationReqV2 string bytes "(string \<times> int) list"
  | CertificateInstallationResV2 response_code certificate_chain certificate_chain
      "string \<times> bytes" "string \<times> bytes" "string \<times> string"
  | CertificateUpdateReqV2 string certificate_chain "string \<times> string" "(string \<times> int) list"
  | CertificateUpdateResV2 response_code certificate_chain certificate_chain
      "string \<times> bytes" "string \<times> bytes" "string \<times> string" "int option"
  | PaymentDetailsReqV2 string certificate_chain
  | PaymentDetailsResV2 response_code bytes int
  | AuthorizationReqV2 "string option" "bytes option"
  | AuthorizationResV2 response_code evse_processing
  | ChargeParameterDiscoveryReqV2 "int option" energy_mode "ac_ev_charge_parameter option"
      "dc_ev_charge_parameter_v2 option"
  | ChargeParameterDiscoveryResV2 response_code evse_processing "sa_schedule list option"
      "ac_evse_charge_parameter option" "dc_evse_charge_parameter option"
  | PowerDeliveryReqV2 charge_progress int "profile_entry list option"
      "dc_ev_power_delivery_parameter option"
  | PowerDeliveryResV2 response_code "ac_evse_status option" "dc_evse_status option"
  | ChargingStatusReqV2
  | ChargingStatusResV2 response_code string "int option" "physical_value option" "meter_info option"
      "bool option" ac_evse_status
  | CurrentDemandReqV2 current_demand_req
  | CurrentDemandResV2 response_code current_demand_res string "int option" "meter_info option" "bool option"
  | MeteringReceiptReqV2 "string option" string "int option" meter_info
  | MeteringReceiptResV2 response_code "ac_evse_status option" "dc_evse_status option"
  | CableCheckReqV2 dc_ev_status
  | CableCheckResV2 response_code dc_evse_status evse_processing
  | PreChargeReqV2 dc_ev_status physical_value physical_value
  | PreChargeResV2 response_code dc_evse_status physical_value
  | WeldingDetectionReqV2 dc_ev_status
  | WeldingDetectionResV2 response_code dc_evse_status physical_value
  | SessionStopReqV2 charging_session
  | SessionStopResV2 response_code

fun v2_body_type :: "v2_body \<Rightarrow> v2_type" where
  "v2_body_type (SessionSetupReqV2 _) = SessionSetupT"
| "v2_body_type (ServiceDiscoveryReqV2 _ _) = ServiceDiscoveryT"
| "v2_body_type (ServiceDetailReqV2 _) = ServiceDetailT"
| "v2_body_type (PaymentServiceSelectionReqV2 _ _) = PaymentServiceSelectionT"
| "v2_body_type (CertificateInstallationReqV2 _ _ _) = CertificateInstallationT"
| "v2_body_type (CertificateUpdateReqV2 _ _ _ _) = CertificateUpdateT"
| "v2_body_type (PaymentDetailsReqV2 _ _) = PaymentDetailsT"
| "v2_body_type (AuthorizationReqV2 _ _) = AuthorizationT"
| "v2_body_type (ChargeParameterDiscoveryReqV2 _ _ _ _) = ChargeParameterDiscoveryT"
| "v2_body_type (PowerDeliveryReqV2 _ _ _ _) = PowerDeliveryT"
| "v2_body_type ChargingStatusReqV2 = ChargingStatusT"
| "v2_body_type (CurrentDemandReqV2 _) = CurrentDemandT"
| "v2_body_type (MeteringReceiptReqV2 _ _ _ _) = MeteringReceiptT"
| "v2_body_type (CableCheckReqV2 _) = CableCheckT"
| "v2_body_type (PreChargeReqV2 _ _ _) = PreChargeT"
| "v2_body_type (WeldingDetectionReqV2 _) = WeldingDetectionT"
| "v2_body_type (SessionStopReqV2 _) = SessionStopT"
| "v2_body_type _ = V2ResponseT"

fun v2_message_name :: "v2_body \<Rightarrow> string" where
  "v2_message_name (SessionSetupReqV2 _) = ''SessionSetupReq''"
| "v2_message_name (SessionSetupResV2 _ _ _) = ''SessionSetupRes''"
| "v2_message_name (ServiceDiscoveryReqV2 _ _) = ''ServiceDiscoveryReq''"
| "v2_message_name (ServiceDiscoveryResV2 _ _ _ _) = ''ServiceDiscoveryRes''"
| "v2_message_name (ServiceDetailReqV2 _) = ''ServiceDetailReq''"
| "v2_message_name (ServiceDetailResV2 _ _ _) = ''ServiceDetailRes''"
| "v2_message_name (PaymentServiceSelectionReqV2 _ _) = ''PaymentServiceSelectionReq''"
| "v2_message_name (PaymentServiceSelectionResV2 _) = ''PaymentServiceSelectionRes''"
| "v2_message_name (CertificateInstallationReqV2 _ _ _) = ''CertificateInstallationReq''"
| "v2_message_name (CertificateInstallationResV2 _ _ _ _ _ _) = ''CertificateInstallationRes''"
| "v2_message_name (CertificateUpdateReqV2 _ _ _ _) = ''CertificateUpdateReq''"
| "v2_message_name (CertificateUpdateResV2 _ _ _ _ _ _ _) = ''CertificateUpdateRes''"
| "v2_message_name (PaymentDetailsReqV2 _ _) = ''PaymentDetailsReq''"
| "v2_message_name (PaymentDetailsResV2 _ _ _) = ''PaymentDetailsRes''"
| "v2_message_name (AuthorizationReqV2 _ _) = ''AuthorizationReq''"
| "v2_message_name (AuthorizationResV2 _ _) = ''AuthorizationRes''"
| "v2_message_name (ChargeParameterDiscoveryReqV2 _ _ _ _) = ''ChargeParameterDiscoveryReq''"
| "v2_message_name (ChargeParameterDiscoveryResV2 _ _ _ _ _) = ''ChargeParameterDiscoveryRes''"
| "v2_message_name (PowerDeliveryReqV2 _ _ _ _) = ''PowerDeliveryReq''"
| "v2_message_name (PowerDeliveryResV2 _ _ _) = ''PowerDeliveryRes''"
| "v2_message_name ChargingStatusReqV2 = ''ChargingStatusReq''"
| "v2_message_name (ChargingStatusResV2 _ _ _ _ _ _ _) = ''ChargingStatusRes''"
| "v2_message_name (CurrentDemandReqV2 _) = ''CurrentDemandReq''"
| "v2_message_name (CurrentDemandResV2 _ _ _ _ _ _) = ''CurrentDemandRes''"
| "v2_message_name (MeteringReceiptReqV2 _ _ _ _) = ''MeteringReceiptReq''"
| "v2_message_name (MeteringReceiptResV2 _ _ _) = ''MeteringReceiptRes''"
| "v2_message_name (CableCheckReqV2 _) = ''CableCheckReq''"
| "v2_message_name (CableCheckResV2 _ _ _) = ''CableCheckRes''"
| "v2_message_name (PreChargeReqV2 _ _ _) = ''PreChargeReq''"
| "v2_message_name (PreChargeResV2 _ _ _) = ''PreChargeRes''"
| "v2_message_name (WeldingDetectionReqV2 _) = ''WeldingDetectionReq''"
| "v2_message_name (WeldingDetectionResV2 _ _ _) = ''WeldingDetectionRes''"
| "v2_message_name (SessionStopReqV2 _) = ''SessionStopReq''"
| "v2_message_name (SessionStopResV2 _) = ''SessionStopRes''"

text \<open>
  \<open>get_msg_type\<close>: the dictionary from message names to classes. It has no entry for the certificate
  update messages.
\<close>

definition get_msg_type :: "string \<Rightarrow> v2_type option" where
  "get_msg_type = map_of
     [(''SessionSetupReq'', SessionSetupT), (''SessionSetupRes'', V2ResponseT),
      (''ServiceDiscoveryReq'', ServiceDiscoveryT), (''ServiceDiscoveryRes'', V2ResponseT),
      (''ServiceDetailReq'', ServiceDetailT), (''ServiceDetailRes'', V2ResponseT),
      (''PaymentServiceSelectionReq'', PaymentServiceSelectionT),
      (''PaymentServiceSelectionRes'', V2ResponseT),
      (''CertificateInstallationReq'', CertificateInstallationT),
      (''CertificateInstallationRes'', V2ResponseT),
      (''PaymentDetailsReq'', PaymentDetailsT), (''PaymentDetailsRes'', V2ResponseT),
      (''AuthorizationReq'', AuthorizationT), (''AuthorizationRes'', V2ResponseT),
      (''CableCheckReq'', CableCheckT), (''CableCheckRes'', V2ResponseT),
      (''PreChargeReq'', PreChargeT), (''PreChargeRes'', V2ResponseT),
      (''ChargeParameterDiscoveryReq'', ChargeParameterDiscoveryT),
      (''ChargeParameterDiscoveryRes'', V2ResponseT),
      (''PowerDeliveryReq'', PowerDeliveryT), (''PowerDeliveryRes'', V2ResponseT),
      (''ChargingStatusReq'', ChargingStatusT), (''ChargingStatusRes'', V2ResponseT),
      (''CurrentDemandReq'', CurrentDemandT), (''CurrentDemandRes'', V2ResponseT),
      (''MeteringReceiptReq'', MeteringReceiptT), (''MeteringReceiptRes'', V2ResponseT),
      (''WeldingDetectionReq'', WeldingDetectionT), (''WeldingDetectionRes'', V2ResponseT),
      (''SessionStopReq'', SessionStopT), (''SessionStopRes'', V2ResponseT)]"

record v2_header =
  v2_session_id :: string
  v2_notification :: "(fault_code \<times> string) option"
  v2_signature :: "signature option"

text \<open>
  What a decoded payload can be in this part of the system. A \<open>V2GMessage\<close> has a body with at most
  one message set; \<open>None\<close> is the empty body. \<open>Base64\<close> is a response that a backend has already encoded,
  as what decoding its text gives; it is only ever sent.
\<close>

datatype v2g_message =
    SAPReq "app_protocol list"
  | SAPRes sap_code "int option"
  | DinMessage din_header "din_body option"
  | V2Message v2_header "v2_body option"
  | Base64 "bytes result"

text \<open>The parts of messages that are encoded on their own, for a signature.\<close>

datatype v2_fragment =
    BodyPart v2_body
  | ChainPart certificate_chain
  | PrivateKeyPart "string \<times> bytes"
  | DhPart "string \<times> bytes"
  | EmaidPart "string \<times> string"
  | TariffPart sales_tariff

section \<open>Validators\<close>

definition MessageHeaderV2 ::
  "string \<Rightarrow> (fault_code \<times> string) option \<Rightarrow> signature option \<Rightarrow> v2_header result" where
  "MessageHeaderV2 sid note sig =
     (if length sid \<le> 16 \<and> int_base_16_ok sid
      then Inr \<lparr>v2_session_id = sid, v2_notification = note, v2_signature = sig\<rparr> else Inl ValidationError)"

text \<open>The value ranges of the fields of each class, which its constructor checks.\<close>

definition opt_in :: "int \<Rightarrow> int \<Rightarrow> int option \<Rightarrow> bool" where
  "opt_in lo hi v \<longleftrightarrow> (case v of None \<Rightarrow> True | Some x \<Rightarrow> lo \<le> x \<and> x \<le> hi)"

definition len_in :: "nat \<Rightarrow> nat \<Rightarrow> 'a list \<Rightarrow> bool" where
  "len_in lo hi xs \<longleftrightarrow> lo \<le> length xs \<and> length xs \<le> hi"

definition opt_len :: "nat \<Rightarrow> 'a list option \<Rightarrow> bool" where
  "opt_len hi v \<longleftrightarrow> (case v of None \<Rightarrow> True | Some xs \<Rightarrow> length xs \<le> hi)"

definition chain_ok :: "certificate_chain \<Rightarrow> bool" where
  "chain_ok c \<longleftrightarrow> length (certificate c) \<le> 800 \<and>
     (case sub_certificates c of None \<Rightarrow> True
      | Some cs \<Rightarrow> length cs \<le> 2 \<and> list_all (\<lambda>x. length x \<le> 800) cs)"

definition is_ac_mode :: "energy_mode \<Rightarrow> bool" where
  "is_ac_mode m \<longleftrightarrow> m \<in> set [AC_SINGLE_PHASE_CORE, AC_THREE_PHASE_CORE]"

definition meter_info_ok :: "meter_info \<Rightarrow> bool" where
  "meter_info_ok i \<longleftrightarrow> length (meter_id i) \<le> 32 \<and> opt_in 0 999999999 (meter_reading i) \<and>
     opt_len 64 (sig_meter_reading i) \<and> opt_in (- 32768) 32767 (meter_status i)"

text \<open>
  Exactly one of the two charge parameters, and the one that fits the mode: the two root validators of
  \<open>ChargeParameterDiscoveryReq\<close>.
\<close>

definition charge_parameters_match ::
  "energy_mode \<Rightarrow> ac_ev_charge_parameter option \<Rightarrow> dc_ev_charge_parameter_v2 option \<Rightarrow> bool" where
  "charge_parameters_match m ac dc \<longleftrightarrow> (ac = None) \<noteq> (dc = None) \<and>
     \<not> (is_ac_mode m \<and> dc \<noteq> None) \<and> \<not> (\<not> is_ac_mode m \<and> ac \<noteq> None)"

fun message_ok :: "v2_body \<Rightarrow> bool" where
  "message_ok (SessionSetupReqV2 evcc) = (length evcc \<le> 12 \<and> int_base_16_ok evcc)"
| "message_ok (SessionSetupResV2 _ evse _) = len_in 7 37 evse"
| "message_ok (ServiceDiscoveryReqV2 scope _) = opt_len 64 scope"
| "message_ok (ServiceDiscoveryResV2 _ auth cs services) =
     (len_in 1 2 auth \<and> length (supported_energy_transfer_mode cs) \<le> 6 \<and> opt_len 8 services)"
| "message_ok (ServiceDetailReqV2 i) = (0 \<le> i \<and> i \<le> 65535)"
| "message_ok (ServiceDetailResV2 _ i sets) = (0 \<le> i \<and> i \<le> 65535 \<and> opt_len 255 sets)"
| "message_ok (PaymentServiceSelectionReqV2 _ services) =
     (length services \<le> 16 \<and>
      list_all (\<lambda>(i, p). 0 \<le> i \<and> i \<le> 65535 \<and> opt_in 0 65535 p) services)"
| "message_ok (CertificateInstallationReqV2 _ cert roots) = (length cert \<le> 800 \<and> length roots \<le> 20)"
| "message_ok (CertificateInstallationResV2 _ cps contract key dh emaid) =
     (chain_ok cps \<and> chain_ok contract \<and> length (snd key) \<le> 48 \<and> length (snd dh) \<le> 65 \<and>
      len_in 14 15 (snd emaid))"
| "message_ok (CertificateUpdateReqV2 _ chain emaid roots) =
     (chain_ok chain \<and> len_in 14 15 (snd emaid) \<and> length roots \<le> 20)"
| "message_ok (CertificateUpdateResV2 _ cps contract key dh emaid retry) =
     (chain_ok cps \<and> chain_ok contract \<and> length (snd key) \<le> 48 \<and> length (snd dh) \<le> 65 \<and>
      len_in 14 15 (snd emaid) \<and> opt_in (- 1) 32767 retry)"
| "message_ok (PaymentDetailsReqV2 emaid chain) = (len_in 14 15 emaid \<and> chain_ok chain)"
| "message_ok (PaymentDetailsResV2 _ challenge _) = len_in 16 16 challenge"
| "message_ok (AuthorizationReqV2 _ challenge) =
     (case challenge of None \<Rightarrow> True | Some c \<Rightarrow> len_in 16 16 c)"
| "message_ok (ChargeParameterDiscoveryReqV2 n mode ac dc) =
     (opt_in 0 65535 n \<and> charge_parameters_match mode ac dc \<and>
      opt_in 0 4294967295 (Option.bind ac ac_departure_time) \<and>
      opt_in 0 4294967295 (Option.bind dc dc_departure_time))"
| "message_ok (ChargeParameterDiscoveryResV2 _ _ schedules _ _) = opt_len 3 schedules"
| "message_ok (PowerDeliveryReqV2 _ i profile _) =
     (1 \<le> i \<and> i \<le> 255 \<and> opt_len 24 profile \<and>
      (case profile of None \<Rightarrow> True | Some es \<Rightarrow> list_all (\<lambda>e. opt_in 1 3 (pe_max_phases e)) es))"
| "message_ok (ChargingStatusResV2 _ evse i _ _ _ _) = (len_in 7 37 evse \<and> i \<noteq> None \<and> opt_in 1 255 i)"
| "message_ok (CurrentDemandResV2 _ _ evse i _ _) = (len_in 7 37 evse \<and> i \<noteq> None \<and> opt_in 1 255 i)"
| "message_ok (MeteringReceiptReqV2 _ sid i info) =
     (length sid \<le> 16 \<and> int_base_16_ok sid \<and> opt_in 1 255 i \<and> meter_info_ok info)"
| "message_ok _ = True"

text \<open>
  The validator of \<open>AuthorizationReq\<close>, which runs before the aliases are resolved: it looks up the
  names of the fields in the dictionary the class is made from. A value is its list of codes.
\<close>

definition both_fields_set_or_unset :: "(string \<Rightarrow> int list option) \<Rightarrow> unit result" where
  "both_fields_set_or_unset values =
     (let truthy = (\<lambda>v. v \<noteq> None \<and> v \<noteq> Some []);
          id = truthy (values ''id''); challenge = truthy (values ''gen_challenge'')
      in if id \<and> \<not> challenge \<or> \<not> id \<and> challenge then Inl ValueError else Inr ())"

section \<open>Prepared error responses\<close>

definition failed_ac_status :: ac_evse_status where
  "failed_ac_status =
     \<lparr>ac_notification_max_delay = 0, ac_evse_notification = NO_NOTIFICATION, rcd = False\<rparr>"

definition failed_dc_status_v2 :: dc_evse_status where
  "failed_dc_status_v2 =
     \<lparr>notification_max_delay = 0, evse_notification = NO_NOTIFICATION,
      evse_isolation_status = Some VALID, evse_status_code = EVSE_READY\<rparr>"

definition one_byte_chain :: certificate_chain where
  "one_byte_chain = \<lparr>chain_id = None, certificate = [0], sub_certificates = None\<rparr>"

definition pv_of :: "int \<Rightarrow> unit_symbol \<Rightarrow> physical_value" where
  "pv_of n u = \<lparr>pv_value = n, multiplier = 0, pv_unit = Some u\<rparr>"

fun failed_response_v2 :: "v2_type \<Rightarrow> response_code \<Rightarrow> v2_body option" where
  "failed_response_v2 SessionSetupT rc = Some (SessionSetupResV2 rc ''1234567'' None)"
| "failed_response_v2 ServiceDiscoveryT rc =
     Some (ServiceDiscoveryResV2 rc [EIM_V2]
       \<lparr>sd_service_id = 1, sd_service_name = None, sd_service_category = CHARGING,
        sd_service_scope = None, sd_free_service = False,
        supported_energy_transfer_mode = [DC_CORE]\<rparr> None)"
| "failed_response_v2 ServiceDetailT rc = Some (ServiceDetailResV2 rc 0 None)"
| "failed_response_v2 PaymentServiceSelectionT rc = Some (PaymentServiceSelectionResV2 rc)"
| "failed_response_v2 CertificateInstallationT rc =
     Some (CertificateInstallationResV2 rc one_byte_chain one_byte_chain (''1'', [0]) (''1'', [0])
       (''1'', ''123456789ABCDE''))"
| "failed_response_v2 CertificateUpdateT rc =
     Some (CertificateUpdateResV2 rc one_byte_chain one_byte_chain ('''', [0]) (''1'', [0])
       (''1'', ''123456789ABCDE'') None)"
| "failed_response_v2 PaymentDetailsT rc = Some (PaymentDetailsResV2 rc (replicate 16 0) 0)"
| "failed_response_v2 AuthorizationT rc = Some (AuthorizationResV2 rc FINISHED)"
| "failed_response_v2 ChargeParameterDiscoveryT rc =
     Some (ChargeParameterDiscoveryResV2 rc FINISHED None
       (Some \<lparr>cp_ac_evse_status = failed_ac_status, evse_nominal_voltage = pv_of 0 VOLTAGE,
              ac_evse_max_current = pv_of 0 AMPERE\<rparr>) None)"
| "failed_response_v2 PowerDeliveryT rc = Some (PowerDeliveryResV2 rc (Some failed_ac_status) None)"
| "failed_response_v2 ChargingStatusT rc =
     Some (ChargingStatusResV2 rc ''1234567'' (Some 1) None None None failed_ac_status)"
| "failed_response_v2 CableCheckT rc = Some (CableCheckResV2 rc failed_dc_status_v2 FINISHED)"
| "failed_response_v2 PreChargeT rc = Some (PreChargeResV2 rc failed_dc_status_v2 (pv_of 230 VOLTAGE))"
| "failed_response_v2 CurrentDemandT rc =
     Some (CurrentDemandResV2 rc
       \<lparr>cd_dc_evse_status = failed_dc_status_v2, cd_evse_present_voltage = pv_of 230 VOLTAGE,
        cd_evse_present_current = pv_of 10 AMPERE, evse_current_limit_achieved = False,
        evse_voltage_limit_achieved = False, evse_power_limit_achieved = False,
        evse_max_voltage_limit = None, evse_max_current_limit = None, evse_max_power_limit = None\<rparr>
       ''1234567'' (Some 1) None None)"
| "failed_response_v2 MeteringReceiptT rc = Some (MeteringReceiptResV2 rc None None)"
| "failed_response_v2 WeldingDetectionT rc =
     Some (WeldingDetectionResV2 rc failed_dc_status_v2 (pv_of 230 VOLTAGE))"
| "failed_response_v2 SessionStopT rc = Some (SessionStopResV2 rc)"
| "failed_response_v2 V2ResponseT rc = None"

section \<open>Vehicle data\<close>

definition update_ac_charge_parameters_v2 :: "ac_ev_charge_parameter \<Rightarrow> ev_data_context \<Rightarrow> ev_data_context" where
  "update_ac_charge_parameters_v2 p ev =
     (let rated = \<lparr>ac_max_charge_current = Some (get_decimal_value (ev_max_current p)),
                   ac_min_charge_current = Some (get_decimal_value (ev_min_current p)),
                   ac_max_voltage = Some (get_decimal_value (ev_max_voltage p)),
                   ac_max_charge_power = Some 0, ac_min_charge_power = Some 0\<rparr>
      in ev\<lparr>departure_time := ac_departure_time p,
            target_energy_request := Some (get_decimal_value (e_amount p)),
            rated_ac_limits := rated,
            session_ac_power := (ac_max_charge_power rated, ac_min_charge_power rated)\<rparr>)"

definition update_dc_charge_parameters_v2 :: "dc_ev_charge_parameter_v2 \<Rightarrow> ev_data_context \<Rightarrow> ev_data_context" where
  "update_dc_charge_parameters_v2 p ev =
     update_dc_charge_parameters (dc_parameter p) (ev\<lparr>departure_time := dc_departure_time p\<rparr>)"

section \<open>Facts\<close>

fun v2_response_code :: "v2_body \<Rightarrow> response_code option" where
  "v2_response_code (SessionSetupResV2 rc _ _) = Some rc"
| "v2_response_code (ServiceDiscoveryResV2 rc _ _ _) = Some rc"
| "v2_response_code (ServiceDetailResV2 rc _ _) = Some rc"
| "v2_response_code (PaymentServiceSelectionResV2 rc) = Some rc"
| "v2_response_code (CertificateInstallationResV2 rc _ _ _ _ _) = Some rc"
| "v2_response_code (CertificateUpdateResV2 rc _ _ _ _ _ _) = Some rc"
| "v2_response_code (PaymentDetailsResV2 rc _ _) = Some rc"
| "v2_response_code (AuthorizationResV2 rc _) = Some rc"
| "v2_response_code (ChargeParameterDiscoveryResV2 rc _ _ _ _) = Some rc"
| "v2_response_code (PowerDeliveryResV2 rc _ _) = Some rc"
| "v2_response_code (ChargingStatusResV2 rc _ _ _ _ _ _) = Some rc"
| "v2_response_code (CurrentDemandResV2 rc _ _ _ _ _) = Some rc"
| "v2_response_code (MeteringReceiptResV2 rc _ _) = Some rc"
| "v2_response_code (CableCheckResV2 rc _ _) = Some rc"
| "v2_response_code (PreChargeResV2 rc _ _) = Some rc"
| "v2_response_code (WeldingDetectionResV2 rc _ _) = Some rc"
| "v2_response_code (SessionStopResV2 rc) = Some rc"
| "v2_response_code _ = None"

text \<open>The request class a response class answers.\<close>

fun v2_answers :: "v2_body \<Rightarrow> v2_type" where
  "v2_answers (SessionSetupResV2 _ _ _) = SessionSetupT"
| "v2_answers (ServiceDiscoveryResV2 _ _ _ _) = ServiceDiscoveryT"
| "v2_answers (ServiceDetailResV2 _ _ _) = ServiceDetailT"
| "v2_answers (PaymentServiceSelectionResV2 _) = PaymentServiceSelectionT"
| "v2_answers (CertificateInstallationResV2 _ _ _ _ _ _) = CertificateInstallationT"
| "v2_answers (CertificateUpdateResV2 _ _ _ _ _ _ _) = CertificateUpdateT"
| "v2_answers (PaymentDetailsResV2 _ _ _) = PaymentDetailsT"
| "v2_answers (AuthorizationResV2 _ _) = AuthorizationT"
| "v2_answers (ChargeParameterDiscoveryResV2 _ _ _ _ _) = ChargeParameterDiscoveryT"
| "v2_answers (PowerDeliveryResV2 _ _ _) = PowerDeliveryT"
| "v2_answers (ChargingStatusResV2 _ _ _ _ _ _ _) = ChargingStatusT"
| "v2_answers (CurrentDemandResV2 _ _ _ _ _ _) = CurrentDemandT"
| "v2_answers (MeteringReceiptResV2 _ _ _) = MeteringReceiptT"
| "v2_answers (CableCheckResV2 _ _ _) = CableCheckT"
| "v2_answers (PreChargeResV2 _ _ _) = PreChargeT"
| "v2_answers (WeldingDetectionResV2 _ _ _) = WeldingDetectionT"
| "v2_answers (SessionStopResV2 _) = SessionStopT"
| "v2_answers _ = V2ResponseT"

lemma failed_response_v2_some: "failed_response_v2 t rc = None \<longleftrightarrow> t = V2ResponseT"
  by (cases t) simp_all

lemma failed_response_v2_ok:
  assumes "failed_response_v2 t rc = Some b"
  shows "v2_response_code b = Some rc" "v2_answers b = t" "message_ok b" "v2_body_type b = V2ResponseT"
  using assms
  by (cases t; auto simp: one_byte_chain_def chain_ok_def len_in_def opt_len_def opt_in_def)+

text \<open>The class a name stands for is the class of the message, except for the certificate update.\<close>

lemma get_msg_type_name:
  "get_msg_type (v2_message_name b) =
     (if v2_body_type b = CertificateUpdateT \<or> v2_answers b = CertificateUpdateT then None
      else Some (v2_body_type b))"
  by (cases b; simp only: v2_message_name.simps v2_body_type.simps v2_answers.simps; code_simp)

end
