(* ===== verification/Session_State.thy ===== *)
theory Session_State
  imports V2_Messages
begin

text \<open>
  What the vehicle's and the charger's state machines share (\<open>iso15118/shared/states.py\<close>, and the session
  variables of \<open>iso15118/shared/comm_session.py\<close> they use): the state objects, and \<open>create_next_message\<close>,
  which builds the next message of a session and wraps it for sending. The messages of ISO 15118-20
  are not among the modelled ones, so the branch for them does not occur here. The EXI codec
  and the name of the peer are given by the surroundings: the record \<open>codec_env\<close>, which each side
  extends by its own hardware interface.
\<close>

section \<open>State objects and sessions\<close>

datatype session_stop_action = TERMINATE | PAUSE

datatype state_kind =
    SupportedAppProtocol | SessionSetup | ServiceDiscovery | ServicePaymentSelection
  | ContractAuthentication | ChargeParameterDiscovery | CableCheck | PreCharge | PowerDelivery
  | CurrentDemand | WeldingDetection | SessionStop
  | SessionSetupV2 | ServiceDiscoveryV2 | ServiceDetailV2 | PaymentServiceSelectionV2
  | CertificateInstallationV2 | PaymentDetailsV2 | AuthorizationV2 | ChargeParameterDiscoveryV2
  | PowerDeliveryV2 | MeteringReceiptV2 | SessionStopV2 | ChargingStatusV2 | CableCheckV2
  | PreChargeV2 | CurrentDemandV2 | WeldingDetectionV2
  | SessionSetupV20 | Terminate | Pause

record stop_notification =
  successful :: bool
  reason :: string
  peer_ip_address :: string
  stop_action :: session_stop_action

record state_obj =
  kind :: state_kind
  next_state :: "state_kind option"
  state_message :: "v2g_message option"
  next_v2gtp_msg :: "v2gtp_message option"
  next_msg_timeout :: rat
  expect_first :: bool
  contactors_closed :: bool
  cable_check_started :: bool
  signature_verified_once :: bool
  authorization_complete :: bool

text \<open>
  Encoding a message, and the decoding that \<open>create_next_message\<close> does of a message from a backend for
  its log.
\<close>

record codec_env =
  peername :: string
  to_exi :: "v2g_message \<Rightarrow> string \<Rightarrow> bytes result"
  log_decode :: "bytes \<Rightarrow> unit result"

record v2g_session =
  session_protocol :: protocol
  session_id :: string
  stop_reason :: "stop_notification option"
  current_state :: state_obj

text \<open>
  The constructor of a state class makes the new object the session's current state. The flags
  named \<open>expecting_...\<close> in the classes that have one are the field \<open>expect_first\<close>.
\<close>

definition new_state :: "state_kind \<Rightarrow> state_obj" where
  "new_state k =
     \<lparr>kind = k, next_state = None, state_message = None, next_v2gtp_msg = None, next_msg_timeout = 0,
      expect_first = True, contactors_closed = False, cable_check_started = False,
      signature_verified_once = False, authorization_complete = False\<rparr>"

definition enter :: "state_kind \<Rightarrow> 's v2g_session_scheme \<Rightarrow> 's v2g_session_scheme" where
  "enter k s = s\<lparr>current_state := new_state k\<rparr>"

definition update_state :: "(state_obj \<Rightarrow> state_obj) \<Rightarrow> 's v2g_session_scheme \<Rightarrow> 's v2g_session_scheme" where
  "update_state f s = s\<lparr>current_state := f (current_state s)\<rparr>"

abbreviation (input) "EXI_ENCODED \<equiv> (0x8001 :: int)"

section \<open>Creating the next message\<close>

text \<open>A message from a backend comes as a base64 text, which stands here for what decoding it gives.\<close>

datatype next_msg =
    NextDin din_body
  | NextSap sap_code "int option"
  | NextV2 v2_body "signature option"
  | NextBase64 "bytes result"

definition fault_msg :: "string \<Rightarrow> string" where
  "fault_msg r = (if length r > 64 then take 62 r @ ''..'' else r)"

definition fault_note :: "'s v2g_session_scheme \<Rightarrow> (fault_code \<times> string) option result" where
  "fault_note s =
     (case stop_reason s of
        Some n \<Rightarrow>
          if \<not> successful n
          then rbind (Notification PARSING_ERROR (fault_msg (reason n))) (\<lambda>x. Inr (Some x))
          else Inr None
      | None \<Rightarrow> Inr None)"

definition build_message :: "next_msg \<Rightarrow> 's v2g_session_scheme \<Rightarrow> v2g_message result" where
  "build_message m s =
     (case m of
        NextDin b \<Rightarrow>
          rbind (fault_note s) (\<lambda>note.
          rbind (MessageHeader (session_id s) note) (\<lambda>h. Inr (DinMessage h (Some b))))
      | NextV2 b sig \<Rightarrow>
          rbind (fault_note s) (\<lambda>note.
          rbind (MessageHeaderV2 (session_id s) note sig) (\<lambda>h. Inr (V2Message h (Some b))))
      | NextSap c sid \<Rightarrow> Inr (SAPRes c sid)
      | NextBase64 r \<Rightarrow> Inr (Base64 r))"

definition base64_payload :: "'e codec_env_scheme \<Rightarrow> bytes result \<Rightarrow> bytes result" where
  "base64_payload env r =
     rbind r (\<lambda>exi. if exi = [] then Inr exi else rbind (log_decode env exi) (\<lambda>_. Inr exi))"

definition wrap_message :: "bytes \<Rightarrow> int \<Rightarrow> 's v2g_session_scheme \<Rightarrow> 's v2g_session_scheme" where
  "wrap_message exi_payload t s =
     (case V2GTPMessage (session_protocol s) t exi_payload of
        Inr m \<Rightarrow> update_state (\<lambda>x. x\<lparr>next_v2gtp_msg := Some m\<rparr>) s
      | Inl _ \<Rightarrow> s)"

definition create_next_message ::
  "'e codec_env_scheme \<Rightarrow> state_kind option \<Rightarrow> next_msg \<Rightarrow> rat \<Rightarrow> string \<Rightarrow> int \<Rightarrow> 's v2g_session_scheme \<Rightarrow> 's v2g_session_scheme outcome" where
  "create_next_message env nxt m timeout namespace t s =
     (let s = update_state (\<lambda>x. x\<lparr>next_state := nxt, next_msg_timeout := timeout\<rparr>) s
      in (case build_message m s of
            Inl e \<Rightarrow> raises e s
          | Inr v \<Rightarrow>
              let s = update_state (\<lambda>x. x\<lparr>state_message := Some v\<rparr>) s
              in (case v of
                    Base64 r \<Rightarrow>
                      (case base64_payload env r of
                         Inl e \<Rightarrow> raises e s
                       | Inr exi_payload \<Rightarrow> done_with (wrap_message exi_payload t s))
                  | _ \<Rightarrow>
                      (case to_exi env v namespace of
                         Inl e \<Rightarrow>
                           if e = EXIEncodingError
                           then raises e (update_state (\<lambda>x. x\<lparr>next_state := Some Terminate\<rparr>) s)
                           else raises e s
                       | Inr exi_payload \<Rightarrow> done_with (wrap_message exi_payload t s)))))"

section \<open>Running a state\<close>

text \<open>
  The last part of the session's \<open>process_message\<close>: the current state handles the decoded message, and
  must have prepared a message unless the session ends; then the move to the next state.
\<close>

definition run_state ::
  "('s v2g_session_scheme \<Rightarrow> 's v2g_session_scheme outcome) \<Rightarrow> 's v2g_session_scheme \<Rightarrow> 's v2g_session_scheme outcome" where
  "run_state process s =
     andthen (process s) (\<lambda>s.
       if next_v2gtp_msg (current_state s) = None \<and> next_state (current_state s) \<noteq> Some Terminate
       then raises FaultyStateImplementationError s else done_with s)"

definition go_to_next_state :: "'s v2g_session_scheme \<Rightarrow> 's v2g_session_scheme" where
  "go_to_next_state s =
     (case next_state (current_state s) of Some k \<Rightarrow> enter k s | None \<Rightarrow> s)"

text \<open>The message that is sent after a state has run.\<close>

definition outgoing :: "'s v2g_session_scheme \<Rightarrow> v2g_message option" where
  "outgoing s = (if next_v2gtp_msg (current_state s) = None then None else state_message (current_state s))"

section \<open>Texts\<close>

fun message_text :: "v2g_message \<Rightarrow> string" where
  "message_text (SAPReq _) = ''supportedAppProtocolReq''"
| "message_text (SAPRes _ _) = ''supportedAppProtocolRes''"
| "message_text (DinMessage _ body) = (case body of None \<Rightarrow> [] | Some b \<Rightarrow> message_name b)"
| "message_text (V2Message _ body) = (case body of None \<Rightarrow> [] | Some b \<Rightarrow> v2_message_name b)"
| "message_text (Base64 _) = ''CertificateInstallationRes''"

fun state_text :: "state_kind \<Rightarrow> string" where
  "state_text SupportedAppProtocol = ''SupportedAppProtocol''"
| "state_text SessionSetup = ''SessionSetup''"
| "state_text ServiceDiscovery = ''ServiceDiscovery''"
| "state_text ServicePaymentSelection = ''ServicePaymentSelection''"
| "state_text ContractAuthentication = ''ContractAuthentication''"
| "state_text ChargeParameterDiscovery = ''ChargeParameterDiscovery''"
| "state_text CableCheck = ''CableCheck''"
| "state_text PreCharge = ''PreCharge''"
| "state_text PowerDelivery = ''PowerDelivery''"
| "state_text CurrentDemand = ''CurrentDemand''"
| "state_text WeldingDetection = ''WeldingDetection''"
| "state_text SessionStop = ''SessionStop''"
| "state_text SessionSetupV2 = ''SessionSetup''"
| "state_text ServiceDiscoveryV2 = ''ServiceDiscovery''"
| "state_text ServiceDetailV2 = ''ServiceDetail''"
| "state_text PaymentServiceSelectionV2 = ''PaymentServiceSelection''"
| "state_text CertificateInstallationV2 = ''CertificateInstallation''"
| "state_text PaymentDetailsV2 = ''PaymentDetails''"
| "state_text AuthorizationV2 = ''Authorization''"
| "state_text ChargeParameterDiscoveryV2 = ''ChargeParameterDiscovery''"
| "state_text PowerDeliveryV2 = ''PowerDelivery''"
| "state_text MeteringReceiptV2 = ''MeteringReceipt''"
| "state_text SessionStopV2 = ''SessionStop''"
| "state_text ChargingStatusV2 = ''ChargingStatus''"
| "state_text CableCheckV2 = ''CableCheck''"
| "state_text PreChargeV2 = ''PreCharge''"
| "state_text CurrentDemandV2 = ''CurrentDemand''"
| "state_text WeldingDetectionV2 = ''WeldingDetection''"
| "state_text SessionSetupV20 = ''SessionSetup''"
| "state_text Terminate = ''Terminate''"
| "state_text Pause = ''Pause''"

definition session_text :: "v2g_message \<Rightarrow> 's v2g_session_scheme \<Rightarrow> string" where
  "session_text m s =
     message_text m @ CHR 0x27 # ''s session ID '' @
     (case m of DinMessage h _ \<Rightarrow> header_session_id h | V2Message h _ \<Rightarrow> v2_session_id h | _ \<Rightarrow> []) @
     '' does not match session ID '' @ session_id s"

section \<open>What the shared operations do\<close>

definition hex_id :: "string \<Rightarrow> bool" where
  "hex_id i \<longleftrightarrow> length i = 16 \<and> list_all is_hex i"

lemma fault_msg_bound: "length (fault_msg r) \<le> 64"
  by (simp add: fault_msg_def)

lemma fault_note_ok: "\<exists>n. fault_note s = Inr n"
  by (auto simp: fault_note_def Notification_def fault_msg_bound split: option.splits)

lemma header_ok: "hex_id i \<Longrightarrow> MessageHeader i n = Inr \<lparr>header_session_id = i, notification = n\<rparr>"
  by (auto simp: MessageHeader_def hex_id_def intro!: int_base_16_ok_hex)

lemma session_update_state [simp]:
  "session_protocol (update_state f s) = session_protocol s" "session_id (update_state f s) = session_id s"
  "stop_reason (update_state f s) = stop_reason s" "current_state (update_state f s) = f (current_state s)"
  "fault_note (update_state f s) = fault_note s"
  by (simp_all add: update_state_def fault_note_def)

lemma update_state_twice [simp]: "update_state f (update_state g s) = update_state (\<lambda>x. f (g x)) s"
  by (simp add: update_state_def)

lemma session_enter [simp]:
  "session_protocol (enter k s) = session_protocol s" "session_id (enter k s) = session_id s"
  "stop_reason (enter k s) = stop_reason s" "current_state (enter k s) = new_state k"
  by (simp_all add: enter_def)

text \<open>
  Creating a DIN message in a session with an identifier always succeeds, and this is the state it
  leaves.
\<close>

definition din_message :: "din_body \<Rightarrow> 's v2g_session_scheme \<Rightarrow> v2g_message" where
  "din_message b s =
     DinMessage \<lparr>header_session_id = session_id s, notification = projr (fault_note s)\<rparr> (Some b)"

definition prepared :: "'e codec_env_scheme \<Rightarrow> state_kind option \<Rightarrow> rat \<Rightarrow> din_body \<Rightarrow> 's v2g_session_scheme \<Rightarrow> 's v2g_session_scheme" where
  "prepared env nxt t b s =
     update_state (\<lambda>x. x\<lparr>next_state := nxt, next_msg_timeout := t,
       state_message := Some (din_message b s),
       next_v2gtp_msg := Some (message_of DIN_SPEC_70121 EXI_ENCODED
         (projr (to_exi env (din_message b s) DIN_MSG_DEF)))\<rparr>) s"

lemma create_next_message_prepared:
  assumes "\<not> isl (to_exi env (din_message b s) DIN_MSG_DEF)" "session_protocol s = DIN_SPEC_70121"
    and "length (session_id s) \<le> 16" "int_base_16_ok (session_id s)"
  shows "create_next_message env nxt (NextDin b) t DIN_MSG_DEF EXI_ENCODED s =
    done_with (prepared env nxt t b s)"
proof -
  obtain n where n: "fault_note s = Inr n" using fault_note_ok [of s] by blast
  obtain exi where "to_exi env (din_message b s) DIN_MSG_DEF = Inr exi"
    using assms(1) by (cases "to_exi env (din_message b s) DIN_MSG_DEF") auto
  then show ?thesis
    using n assms(2-4)
    by (simp add: create_next_message_def build_message_def MessageHeader_def Let_def
        wrap_message_def V2GTPMessage_eq is_payload_type_valid_def prepared_def din_message_def)
qed

lemma prepared_simps [simp]:
  "stop_reason (prepared env nxt t b s) = stop_reason s"
  "session_id (prepared env nxt t b s) = session_id s"
  "session_protocol (prepared env nxt t b s) = session_protocol s"
  "next_state (current_state (prepared env nxt t b s)) = nxt"
  "state_message (current_state (prepared env nxt t b s)) = Some (din_message b s)"
  "kind (current_state (prepared env nxt t b s)) = kind (current_state s)"
  "expect_first (current_state (prepared env nxt t b s)) = expect_first (current_state s)"
  "contactors_closed (current_state (prepared env nxt t b s)) = contactors_closed (current_state s)"
  by (simp_all add: prepared_def)

text \<open>The same for the messages of ISO 15118-2, which may carry a signature.\<close>

definition v2_message :: "v2_body \<Rightarrow> signature option \<Rightarrow> 's v2g_session_scheme \<Rightarrow> v2g_message" where
  "v2_message b sig s =
     V2Message \<lparr>v2_session_id = session_id s, v2_notification = projr (fault_note s), v2_signature = sig\<rparr> (Some b)"

definition v2_prepared ::
  "'e codec_env_scheme \<Rightarrow> state_kind option \<Rightarrow> rat \<Rightarrow> v2_body \<Rightarrow> signature option \<Rightarrow> 's v2g_session_scheme \<Rightarrow>
    's v2g_session_scheme" where
  "v2_prepared env nxt t b sig s =
     update_state (\<lambda>x. x\<lparr>next_state := nxt, next_msg_timeout := t, state_message := Some (v2_message b sig s),
       next_v2gtp_msg := Some (message_of ISO_15118_2 EXI_ENCODED
         (projr (to_exi env (v2_message b sig s) ISO_V2_MSG_DEF)))\<rparr>) s"

lemma create_next_message_v2_prepared:
  assumes "\<forall>m n. \<not> isl (to_exi env m n)" "session_protocol s = ISO_15118_2" "hex_id (session_id s)"
  shows "create_next_message env nxt (NextV2 b sig) t ISO_V2_MSG_DEF EXI_ENCODED s =
    done_with (v2_prepared env nxt t b sig s)"
proof -
  obtain n where n: "fault_note s = Inr n" using fault_note_ok [of s] by blast
  obtain exi where "to_exi env (v2_message b sig s) ISO_V2_MSG_DEF = Inr exi"
    using assms(1) by (cases "to_exi env (v2_message b sig s) ISO_V2_MSG_DEF") (metis sum.disc(1))+
  moreover have "length (session_id s) \<le> 16" "int_base_16_ok (session_id s)"
    using assms(3) by (auto simp: hex_id_def intro!: int_base_16_ok_hex)
  ultimately show ?thesis
    using n assms(2)
    by (simp add: create_next_message_def build_message_def MessageHeaderV2_def Let_def
        wrap_message_def V2GTPMessage_eq is_payload_type_valid_def ISOV2PayloadTypes_def v2_prepared_def v2_message_def)
qed

lemma v2_prepared_simps [simp]:
  "stop_reason (v2_prepared env nxt t b sig s) = stop_reason s"
  "session_id (v2_prepared env nxt t b sig s) = session_id s"
  "session_protocol (v2_prepared env nxt t b sig s) = session_protocol s"
  "next_state (current_state (v2_prepared env nxt t b sig s)) = nxt"
  "state_message (current_state (v2_prepared env nxt t b sig s)) = Some (v2_message b sig s)"
  "next_v2gtp_msg (current_state (v2_prepared env nxt t b sig s)) \<noteq> None"
  "kind (current_state (v2_prepared env nxt t b sig s)) = kind (current_state s)"
  by (simp_all add: v2_prepared_def)

text \<open>A message that has been created, however it was wrapped.\<close>

lemma create_next_message_frame:
  fixes s :: "'b v2g_session_scheme"
  assumes "create_next_message env nxt m t n p s = (s', None)"
  obtains x obj where
    "build_message m (update_state (\<lambda>y. y\<lparr>next_state := nxt, next_msg_timeout := t\<rparr>) s) = Inr x"
    "s' = update_state (\<lambda>_. obj) s" "state_message obj = Some x" "next_state obj = nxt"
    "kind obj = kind (current_state s)"
proof -
  let ?s = "update_state (\<lambda>y. y\<lparr>next_state := nxt, next_msg_timeout := t\<rparr>) s"
  have w: "\<exists>f. wrap_message q p z = update_state f z \<and> (\<forall>o'. state_message (f o') = state_message o' \<and>
      next_state (f o') = next_state o' \<and> kind (f o') = kind o')" for q and z :: "'b v2g_session_scheme"
    by (cases "V2GTPMessage (session_protocol z) p q")
      (force simp: wrap_message_def update_state_def)+
  obtain x where x: "build_message m ?s = Inr x"
    using assms by (auto simp: create_next_message_def Let_def raises_def split: sum.splits)
  obtain q where "s' = wrap_message q p (update_state (\<lambda>y. y\<lparr>state_message := Some x\<rparr>) ?s)"
    using assms x
    by (auto simp: create_next_message_def Let_def raises_def done_with_def split: sum.splits v2g_message.splits if_splits)
  moreover obtain f where f: "wrap_message q p (update_state (\<lambda>y. y\<lparr>state_message := Some x\<rparr>) ?s) =
      update_state f (update_state (\<lambda>y. y\<lparr>state_message := Some x\<rparr>) ?s)"
    "\<forall>o'. state_message (f o') = state_message o' \<and> next_state (f o') = next_state o' \<and> kind (f o') = kind o'"
    using w [of q "update_state (\<lambda>y. y\<lparr>state_message := Some x\<rparr>) ?s"] by blast
  ultimately show thesis
    by (intro that [OF x, of "f ((current_state s)\<lparr>next_state := nxt, next_msg_timeout := t, state_message := Some x\<rparr>)"])
      (simp_all add: update_state_def)
qed

end
