(* ===== verification/Security.thy ===== *)
theory Security
  imports V2_Messages
begin

text \<open>
  Certificate chains and XML signatures (\<open>iso15118/shared/security.py\<close>): \<open>verify_certs\<close>,
  \<open>check_validity\<close>, \<open>create_signature\<close>, \<open>verify_signature\<close> and the certificate lists for the backend.
  The primitives of the \<open>cryptography\<close> package (parsing a certificate, ECDSA, SHA-256, the DSS
  encoding), the EXI codec and the file system are the record \<open>crypto\<close>.
\<close>

section \<open>Certificates and primitives\<close>

datatype public_key = ECKey bytes | OtherKey bytes

text \<open>The extension may be absent, and its path length unset.\<close>

datatype basic_constraints = NoExtension | OtherExtension | PathLength "int option"

record x509 =
  cert_subject :: string
  not_valid_before :: int
  not_valid_after :: int
  constraints :: basic_constraints
  cert_key :: public_key
  cert_signature :: bytes
  tbs_certificate :: bytes

text \<open>What \<open>public_key.verify\<close> does: it returns, or raises one of the exceptions told apart below.\<close>

datatype verify_answer = Verified | InvalidSignature | Unsupported | Raised py_error

record crypto =
  load_der :: "bytes \<Rightarrow> x509 result"
  key_verify :: "bytes \<Rightarrow> bytes \<Rightarrow> bytes \<Rightarrow> verify_answer"
  sha256 :: "bytes \<Rightarrow> bytes"
  encode_dss :: "int \<Rightarrow> int \<Rightarrow> bytes"
  sign :: "bytes \<Rightarrow> bytes \<Rightarrow> int \<times> int"
  signed_info_exi :: "signed_info \<Rightarrow> bytes result"
  utcnow :: int
  derive_certificate_hash_data :: "bytes \<Rightarrow> bytes \<Rightarrow> (string \<times> string) list result"
  der_to_pem :: "bytes \<Rightarrow> string"

section \<open>Certificate chains\<close>

fun check_validity :: "int \<Rightarrow> x509 list \<Rightarrow> unit result" where
  "check_validity now [] = Inr ()"
| "check_validity now (c # cs) =
     (if not_valid_before c > now then Inl CertNotYetValidError
      else if not_valid_after c < now then Inl CertExpiredError
      else check_validity now cs)"

text \<open>The loop that tells the sub-CA certificates apart by their path length.\<close>

fun sort_sub_cas :: "x509 list \<Rightarrow> x509 option \<Rightarrow> x509 option \<Rightarrow> (x509 option \<times> x509 option) result" where
  "sort_sub_cas [] ca2 ca1 = Inr (ca2, ca1)"
| "sort_sub_cas (c # cs) ca2 ca1 =
     (case constraints c of
        NoExtension \<Rightarrow> Inl CertAttributeError
      | OtherExtension \<Rightarrow>
          if ca2 \<noteq> None then Inl CertAttributeError else sort_sub_cas cs (Some c) ca1
      | PathLength n \<Rightarrow>
          if n = Some 0 then
            (if ca2 \<noteq> None then Inl CertAttributeError else sort_sub_cas cs (Some c) ca1)
          else if n = Some 1 then
            (if ca1 \<noteq> None then Inl CertAttributeError else sort_sub_cas cs ca2 (Some c))
          else Inl CertChainLengthError)"

text \<open>One check of a certificate with the key of its issuer; a key of another type raises.\<close>

definition check_issued :: "crypto \<Rightarrow> x509 \<Rightarrow> x509 \<Rightarrow> verify_answer" where
  "check_issued cr issuer c =
     (case cert_key issuer of
        ECKey k \<Rightarrow> key_verify cr k (cert_signature c) (tbs_certificate c)
      | OtherKey _ \<Rightarrow> Raised KeyTypeError)"

text \<open>The body of the \<open>try\<close> and its handlers: the last one logs any other exception and goes on.\<close>

fun check_links :: "crypto \<Rightarrow> (x509 \<times> x509) list \<Rightarrow> unit result" where
  "check_links cr [] = Inr ()"
| "check_links cr ((issuer, c) # links) =
     (case check_issued cr issuer c of
        Verified \<Rightarrow> check_links cr links
      | InvalidSignature \<Rightarrow> Inl CertSignatureError
      | Unsupported \<Rightarrow> Inl CertSignatureError
      | Raised _ \<Rightarrow> Inr ())"

fun load_all :: "crypto \<Rightarrow> bytes list \<Rightarrow> x509 list result" where
  "load_all cr [] = Inr []"
| "load_all cr (b # bs) = rbind (load_der cr b) (\<lambda>c. rbind (load_all cr bs) (\<lambda>cs. Inr (c # cs)))"

definition load_root :: "crypto \<Rightarrow> bytes option \<Rightarrow> x509 option result" where
  "load_root cr root_cert =
     (case root_cert of
        None \<Rightarrow> Inr None
      | Some b \<Rightarrow> if b = [] then Inr None else rbind (load_der cr b) (\<lambda>c. Inr (Some c)))"

definition chain_links :: "bool \<Rightarrow> x509 \<Rightarrow> x509 option \<Rightarrow> x509 option \<Rightarrow> x509 \<Rightarrow> (x509 \<times> x509) list" where
  "chain_links private_environment leaf ca2 ca1 root_cert =
     (if private_environment then [(root_cert, leaf)]
      else (case ca2 of
              None \<Rightarrow> []
            | Some s2 \<Rightarrow>
                (s2, leaf) # (case ca1 of Some s1 \<Rightarrow> [(s1, s2), (root_cert, s1)] | None \<Rightarrow> [(root_cert, s2)])))"

definition verify_certs :: "crypto \<Rightarrow> bytes \<Rightarrow> bytes list \<Rightarrow> bytes option \<Rightarrow> bool \<Rightarrow> unit result" where
  "verify_certs cr leaf_bytes sub_bytes root_bytes private_environment =
     rbind (load_der cr leaf_bytes) (\<lambda>leaf.
     rbind (load_root cr root_bytes) (\<lambda>root_cert.
     rbind (load_all cr sub_bytes) (\<lambda>subs.
     rbind (check_validity (utcnow cr) (leaf # subs)) (\<lambda>_.
       case root_cert of
         None \<Rightarrow> Inr ()
       | Some root_cert \<Rightarrow>
           rbind (sort_sub_cas subs None None) (\<lambda>(ca2, ca1).
             if ca2 = None \<and> \<not> private_environment then Inl CertChainLengthError
             else if (ca2 \<noteq> None \<or> ca1 \<noteq> None) \<and> private_environment then Inl CertChainLengthError
             else check_links cr (chain_links private_environment leaf ca2 ca1 root_cert))))))"

section \<open>Signatures\<close>

text \<open>
  The elements are pairs of an \<open>Id\<close> and an encoding. Looking for a reference concatenates the \<open>Id\<close> to
  a hash sign as soon as some reference has a URI, which raises when there is no \<open>Id\<close>.
\<close>

definition find_reference :: "string option \<Rightarrow> bytes \<Rightarrow> reference list \<Rightarrow> bool result" where
  "find_reference id_attr digest refs =
     (let named = filter (\<lambda>r. ref_uri r \<noteq> None \<and> ref_uri r \<noteq> Some []) refs
      in case id_attr of
           None \<Rightarrow> if named = [] then Inr False else Inl TypeError
         | Some i \<Rightarrow>
             Inr (list_ex (\<lambda>r. ref_uri r = Some (CHR ''#'' # i) \<and> digest_value r = digest) named))"

fun check_digests :: "crypto \<Rightarrow> reference list \<Rightarrow> (string option \<times> bytes) list \<Rightarrow> bool result" where
  "check_digests cr refs [] = Inr True"
| "check_digests cr refs ((i, exi) # els) =
     rbind (find_reference i (sha256 cr exi) refs) (\<lambda>found.
       if found then check_digests cr refs els else Inr False)"

definition chain_error :: "py_error \<Rightarrow> bool" where
  "chain_error e \<longleftrightarrow> e \<in> set [CertSignatureError, CertNotYetValidError, CertExpiredError,
     CertRevokedError, CertAttributeError, CertChainLengthError]"

definition verify_signature ::
  "crypto \<Rightarrow> signature option \<Rightarrow> (string option \<times> bytes) list \<Rightarrow> bytes \<Rightarrow> bytes list option \<Rightarrow> bytes option \<Rightarrow>
   bool result" where
  "verify_signature cr sig elements leaf_cert sub_ca_certs root_ca_cert =
     (case sig of
        None \<Rightarrow> Inl AttributeError
      | Some sg \<Rightarrow>
          rbind (check_digests cr (references (sig_signed_info sg)) elements) (\<lambda>digests_equal.
            if \<not> digests_equal then Inr False
            else
              rbind (load_der cr leaf_cert) (\<lambda>leaf.
              rbind (signed_info_exi cr (sig_signed_info sg)) (\<lambda>data.
                let ec_r = int_from_bytes (take 32 (signature_value sg));
                    ec_s = int_from_bytes (drop 32 (signature_value sg));
                    answer = (case cert_key leaf of
                                ECKey k \<Rightarrow> key_verify cr k (encode_dss cr ec_r ec_s) data
                              | OtherKey _ \<Rightarrow> Raised KeyTypeError)
                in (case answer of
                      InvalidSignature \<Rightarrow> Inr False
                    | Unsupported \<Rightarrow> Inl UnsupportedAlgorithm
                    | Raised e \<Rightarrow> Inl e
                    | Verified \<Rightarrow>
                        if sub_ca_certs \<noteq> None \<and> sub_ca_certs \<noteq> Some [] \<and>
                           root_ca_cert \<noteq> None \<and> root_ca_cert \<noteq> Some [] then
                          (case verify_certs cr leaf_cert (the sub_ca_certs) root_ca_cert False of
                             Inr _ \<Rightarrow> Inr True
                           | Inl e \<Rightarrow> if chain_error e then Inr False else Inl e)
                        else Inr True)))))"

fun make_references :: "crypto \<Rightarrow> (string option \<times> bytes) list \<Rightarrow> reference list result" where
  "make_references cr [] = Inr []"
| "make_references cr ((i, exi) # els) =
     (case i of
        None \<Rightarrow> Inl TypeError
      | Some i \<Rightarrow>
          rbind (make_references cr els) (\<lambda>rs.
            Inr (\<lparr>ref_id = None, ref_uri = Some (CHR ''#'' # i),
                  ref_transforms = [''http://www.w3.org/TR/canonical-exi/''],
                  digest_method = ''http://www.w3.org/2001/04/xmlenc#sha256'',
                  digest_value = sha256 cr exi\<rparr> # rs)))"

definition create_signature :: "crypto \<Rightarrow> (string option \<times> bytes) list \<Rightarrow> bytes \<Rightarrow> signature result" where
  "create_signature cr elements key =
     rbind (make_references cr elements) (\<lambda>refs.
       if length refs > 4 then Inl ValidationError
       else
         let si = \<lparr>canonicalization_method = ''http://www.w3.org/TR/canonical-exi/'',
                   signature_method = ''http://www.w3.org/2001/04/xmldsig-more#ecdsa-sha256'',
                   references = refs\<rparr>
         in rbind (signed_info_exi cr si) (\<lambda>data.
              let (ec_r, ec_s) = sign cr key data
              in rbind (int_to_bytes 32 ec_r) (\<lambda>r.
                 rbind (int_to_bytes 32 ec_s) (\<lambda>s.
                   Inr \<lparr>sig_signed_info = si, signature_value = r @ s\<rparr>))))"

section \<open>What the backend is given\<close>

definition all_certificates_from_chain :: "certificate_chain \<Rightarrow> bytes option \<Rightarrow> bytes list result" where
  "all_certificates_from_chain chain root_cert =
     (case sub_certificates chain of
        None \<Rightarrow> Inl AttributeError
      | Some subs \<Rightarrow> Inr (certificate chain # subs @ (case root_cert of None \<Rightarrow> [] | Some r \<Rightarrow> [r])))"

text \<open>Each certificate with its successor as issuer, the last one with the root itself.\<close>

fun hash_data_loop :: "crypto \<Rightarrow> bytes \<Rightarrow> bytes list \<Rightarrow> (string \<times> string) list list result" where
  "hash_data_loop cr root_cert [] = Inr []"
| "hash_data_loop cr root_cert [c] = rbind (derive_certificate_hash_data cr root_cert root_cert) (\<lambda>h. Inr [h])"
| "hash_data_loop cr root_cert (c # d # cs) =
     rbind (derive_certificate_hash_data cr c d) (\<lambda>h.
     rbind (hash_data_loop cr root_cert (d # cs)) (\<lambda>hs. Inr (h # hs)))"

definition get_certificate_hash_data ::
  "crypto \<Rightarrow> certificate_chain option \<Rightarrow> bytes option \<Rightarrow> (string \<times> string) list list option result" where
  "get_certificate_hash_data cr chain root_cert =
     (case (chain, root_cert) of
        (Some ch, Some r) \<Rightarrow>
          rbind (all_certificates_from_chain ch (Some r)) (\<lambda>certs.
            case hash_data_loop cr r certs of
              Inr hs \<Rightarrow> Inr (Some hs)
            | Inl e \<Rightarrow> if e \<in> set [ExtensionNotFound, OCSPServerNotFoundError] then Inr None else Inl e)
      | _ \<Rightarrow> Inr None)"

definition build_pem_certificate_chain ::
  "crypto \<Rightarrow> certificate_chain option \<Rightarrow> bytes option \<Rightarrow> string option result" where
  "build_pem_certificate_chain cr chain root_cert =
     (case chain of
        None \<Rightarrow> Inr None
      | Some ch \<Rightarrow> rbind (all_certificates_from_chain ch root_cert) (\<lambda>certs. Inr (Some (concat (map (der_to_pem cr) certs)))))"

text \<open>
  \<open>log_certs_details\<close> parses every certificate, which is where an unreadable one is noticed; the
  formatting of the fields of one that can be read is taken to succeed.
\<close>

definition log_certs_details :: "crypto \<Rightarrow> bytes list \<Rightarrow> unit result" where
  "log_certs_details cr certs = rbind (load_all cr certs) (\<lambda>_. Inr ())"

section \<open>What an accepted chain is\<close>

definition issued :: "crypto \<Rightarrow> x509 \<Rightarrow> x509 \<Rightarrow> bool" where
  "issued cr issuer c \<longleftrightarrow> check_issued cr issuer c = Verified"

definition valid_at :: "int \<Rightarrow> x509 \<Rightarrow> bool" where
  "valid_at now c \<longleftrightarrow> not_valid_before c \<le> now \<and> now \<le> not_valid_after c"

definition sub_ca_2 :: "x509 \<Rightarrow> bool" where
  "sub_ca_2 c \<longleftrightarrow> constraints c \<in> {OtherExtension, PathLength (Some 0)}"

definition sub_ca_1 :: "x509 \<Rightarrow> bool" where
  "sub_ca_1 c \<longleftrightarrow> constraints c = PathLength (Some 1)"

text \<open>
  The chain the standard asks for: every certificate but the root within its validity, one sub-CA of
  path length 0 that issued the leaf, at most one of path length 1 above it, and the root on top.
\<close>

definition trusted_chain :: "crypto \<Rightarrow> x509 \<Rightarrow> x509 list \<Rightarrow> x509 \<Rightarrow> bool" where
  "trusted_chain cr leaf subs anchor \<longleftrightarrow>
     list_all (valid_at (utcnow cr)) (leaf # subs) \<and> list_all (\<lambda>c. sub_ca_2 c \<or> sub_ca_1 c) subs \<and>
     (\<exists>s2. filter sub_ca_2 subs = [s2] \<and> issued cr s2 leaf \<and>
        (filter sub_ca_1 subs = [] \<and> issued cr anchor s2 \<or>
         (\<exists>s1. filter sub_ca_1 subs = [s1] \<and> issued cr s1 s2 \<and> issued cr anchor s1)))"

text \<open>A certificate whose key answers every verification without any other exception.\<close>

definition regular_key :: "crypto \<Rightarrow> x509 \<Rightarrow> bool" where
  "regular_key cr c \<longleftrightarrow> (\<exists>k. cert_key c = ECKey k \<and> (\<forall>s d e. key_verify cr k s d \<noteq> Raised e))"

lemma check_validity_iff: "check_validity now cs = Inr () \<longleftrightarrow> list_all (valid_at now) cs"
  by (induction cs) (auto simp: valid_at_def)

lemma sort_sub_cas_iff:
  "sort_sub_cas cs ca2 ca1 = Inr (a, b) \<longleftrightarrow>
     list_all (\<lambda>c. sub_ca_2 c \<or> sub_ca_1 c) cs \<and>
     (case ca2 of None \<Rightarrow> [] | Some c \<Rightarrow> [c]) @ filter sub_ca_2 cs = (case a of None \<Rightarrow> [] | Some c \<Rightarrow> [c]) \<and>
     (case ca1 of None \<Rightarrow> [] | Some c \<Rightarrow> [c]) @ filter sub_ca_1 cs = (case b of None \<Rightarrow> [] | Some c \<Rightarrow> [c])"
  by (induction cs arbitrary: ca2 ca1)
    (auto simp: sub_ca_2_def sub_ca_1_def split: option.splits basic_constraints.splits)

lemma check_links_iff:
  "list_all (regular_key cr \<circ> fst) links \<Longrightarrow>
     check_links cr links = Inr () \<longleftrightarrow> list_all (\<lambda>(i, c). issued cr i c) links"
proof (induction links)
  case (Cons l links)
  obtain i c where l: "l = (i, c)" by fastforce
  with Cons.prems have "\<And>e. check_issued cr i c \<noteq> Raised e"
    by (auto simp: regular_key_def check_issued_def)
  with Cons l show ?case by (cases "check_issued cr i c") (auto simp: issued_def)
qed simp

lemma verify_certs_loaded:
  assumes "load_der cr leaf_bytes = Inr leaf" "load_all cr sub_bytes = Inr subs"
    and "load_der cr root_bytes = Inr anchor" "root_bytes \<noteq> []"
  shows "verify_certs cr leaf_bytes sub_bytes (Some root_bytes) False =
    rbind (check_validity (utcnow cr) (leaf # subs)) (\<lambda>_.
    rbind (sort_sub_cas subs None None) (\<lambda>(ca2, ca1).
      if ca2 = None then Inl CertChainLengthError
      else check_links cr (chain_links False leaf ca2 ca1 anchor)))"
  using assms by (simp add: verify_certs_def load_root_def del: check_validity.simps cong: if_cong)

lemma filter_sub_ca: "filter P subs = [s] \<Longrightarrow> s \<in> set subs"
  using filter_is_subset [of P subs] by simp

text \<open>What is left of a chain check once the dates are right and the sub-CAs are told apart.\<close>

lemma chain_accepted:
  assumes "\<forall>c \<in> set (anchor # subs). regular_key cr c"
  shows "rbind (sort_sub_cas subs None None) (\<lambda>(ca2, ca1).
      if ca2 = None then Inl CertChainLengthError
      else check_links cr (chain_links False leaf ca2 ca1 anchor)) = Inr () \<longleftrightarrow>
    list_all (\<lambda>c. sub_ca_2 c \<or> sub_ca_1 c) subs \<and>
    (\<exists>s2. filter sub_ca_2 subs = [s2] \<and> issued cr s2 leaf \<and>
       (filter sub_ca_1 subs = [] \<and> issued cr anchor s2 \<or>
        (\<exists>s1. filter sub_ca_1 subs = [s1] \<and> issued cr s1 s2 \<and> issued cr anchor s1)))"
proof (cases "sort_sub_cas subs None None")
  case (Inl e)
  then have "\<nexists>a b. sort_sub_cas subs None None = Inr (a, b)" by simp
  then have no: "\<not> (list_all (\<lambda>c. sub_ca_2 c \<or> sub_ca_1 c) subs \<and>
      filter sub_ca_2 subs = (case a of None \<Rightarrow> [] | Some c \<Rightarrow> [c]) \<and>
      filter sub_ca_1 subs = (case b of None \<Rightarrow> [] | Some c \<Rightarrow> [c]))" for a b
    using sort_sub_cas_iff [of subs None None a b] by auto
  show ?thesis
    using Inl no [of "Some _" None] no [of "Some _" "Some _"] by auto
next
  case (Inr ab)
  obtain a b where ab: "ab = (a, b)" by fastforce
  with Inr have f: "list_all (\<lambda>c. sub_ca_2 c \<or> sub_ca_1 c) subs"
    "filter sub_ca_2 subs = (case a of None \<Rightarrow> [] | Some c \<Rightarrow> [c])"
    "filter sub_ca_1 subs = (case b of None \<Rightarrow> [] | Some c \<Rightarrow> [c])"
    by (simp_all add: sort_sub_cas_iff)
  have reg: "list_all (regular_key cr \<circ> fst) (chain_links False leaf a b anchor)"
  proof -
    have "regular_key cr x" if "a = Some x \<or> b = Some x" for x
      using that assms f(2,3) filter_sub_ca [of sub_ca_2 subs x] filter_sub_ca [of sub_ca_1 subs x] by auto
    then show ?thesis using assms by (cases a; cases b) (simp_all add: chain_links_def)
  qed
  show ?thesis
    using Inr ab f check_links_iff [OF reg] by (auto simp: chain_links_def split: option.splits)
qed

text \<open>
  C16: among certificates with elliptic-curve keys the chain check is exactly the chain the standard
  describes. It accepts a leaf, a set of sub-CA certificates in any order and a root if and only if the
  leaf and the sub-CAs are within their validity, one of the sub-CAs has path length 0 and issued the
  leaf, and the root issued it, directly or through the one sub-CA of path length 1.
\<close>

theorem verify_certs_accepts_trusted_chains:
  assumes "load_der cr leaf_bytes = Inr leaf" "load_all cr sub_bytes = Inr subs"
    and "load_der cr root_bytes = Inr anchor" "root_bytes \<noteq> []"
    and "\<forall>c \<in> set (anchor # subs). regular_key cr c"
  shows "verify_certs cr leaf_bytes sub_bytes (Some root_bytes) False = Inr () \<longleftrightarrow>
    trusted_chain cr leaf subs anchor"
proof -
  have "verify_certs cr leaf_bytes sub_bytes (Some root_bytes) False = Inr () \<longleftrightarrow>
      check_validity (utcnow cr) (leaf # subs) = Inr () \<and>
      rbind (sort_sub_cas subs None None) (\<lambda>(ca2, ca1).
        if ca2 = None then Inl CertChainLengthError
        else check_links cr (chain_links False leaf ca2 ca1 anchor)) = Inr ()"
    unfolding verify_certs_loaded [OF assms(1-4)] by (simp add: rbind_Inr_iff [of "check_validity _ _"])
  then show ?thesis
    unfolding chain_accepted [OF assms(5)] check_validity_iff trusted_chain_def by blast
qed

text \<open>Certificates that name themselves by their bytes, signed by whoever's key is in the signature.\<close>

definition example_cert :: "int \<Rightarrow> basic_constraints \<Rightarrow> public_key \<Rightarrow> bytes \<Rightarrow> x509" where
  "example_cert n bc key sig =
     \<lparr>cert_subject = [], not_valid_before = 0, not_valid_after = 100, constraints = bc, cert_key = key,
      cert_signature = sig, tbs_certificate = [n]\<rparr>"

definition example_load :: "bytes \<Rightarrow> x509 result" where
  "example_load bs =
     (if bs = [1] then Inr (example_cert 1 NoExtension (ECKey [11]) [12])
      else if bs = [2] then Inr (example_cert 2 (PathLength (Some 0)) (ECKey [12]) [13])
      else if bs = [3] then Inr (example_cert 3 (PathLength None) (ECKey [13]) [13])
      else if bs = [4] then Inr (example_cert 4 (PathLength (Some 0)) (OtherKey [14]) [99])
      else if bs = [5] then Inr (example_cert 5 (PathLength (Some 1)) (ECKey [13]) [13])
      else Inl ValueError)"

definition example_crypto :: crypto where
  "example_crypto =
     \<lparr>load_der = example_load,
      key_verify = (\<lambda>k s d. if s = k then Verified else InvalidSignature),
      sha256 = (\<lambda>bs. [int (length bs)]), encode_dss = (\<lambda>r s. [r]), sign = (\<lambda>k d. (hd k, 0)),
      signed_info_exi = (\<lambda>i. Inr []), utcnow = 50,
      derive_certificate_hash_data = (\<lambda>_ _. Inr []), der_to_pem = (\<lambda>_. [])\<rparr>"

theorem verify_certs_accepts_trusted_chains_witness:
  "verify_certs example_crypto [1] [[2]] (Some [3]) False = Inr () \<longleftrightarrow>
     trusted_chain example_crypto (projr (example_load [1])) [projr (example_load [2])] (projr (example_load [3]))"
  by (rule verify_certs_accepts_trusted_chains)
    (auto simp: example_crypto_def example_load_def example_cert_def regular_key_def)

lemma example_chain_accepted: "verify_certs example_crypto [1] [[2]] (Some [3]) False = Inr ()"
  by code_simp

text \<open>
  C37: the chain check can be passed with a key it cannot use. If the one sub-CA certificate of a chain
  carries a key that is not an elliptic-curve key, the exception this raises is caught together with all
  others and only logged, and the chain is accepted: nothing is asked of the signatures of the leaf and
  of the sub-CA, only that both are within their validity.
\<close>

theorem chain_with_foreign_key_accepted:
  assumes "load_der cr leaf_bytes = Inr leaf" "load_der cr sub_bytes = Inr sub"
    and "load_der cr root_bytes = Inr anchor" "root_bytes \<noteq> []"
    and "valid_at (utcnow cr) leaf" "valid_at (utcnow cr) sub"
    and "constraints sub = PathLength (Some 0)" "cert_key sub = OtherKey k"
  shows "verify_certs cr leaf_bytes [sub_bytes] (Some root_bytes) False = Inr ()"
proof -
  have "check_validity (utcnow cr) [leaf, sub] = Inr ()"
    using assms(5,6) by (auto simp: valid_at_def)
  then show ?thesis
    using assms verify_certs_loaded [of cr leaf_bytes leaf "[sub_bytes]" "[sub]" root_bytes anchor]
    by (simp add: chain_links_def check_issued_def)
qed

theorem chain_with_foreign_key_accepted_witness:
  "verify_certs example_crypto [1] [[4]] (Some [3]) False = Inr () \<and>
   \<not> trusted_chain example_crypto (projr (example_load [1])) [projr (example_load [4])] (projr (example_load [3]))"
proof -
  have "verify_certs example_crypto [1] [[4]] (Some [3]) False = Inr ()"
    by (rule chain_with_foreign_key_accepted)
      (auto simp: example_crypto_def example_load_def example_cert_def valid_at_def)
  moreover have "\<not> issued example_crypto (projr (example_load [4])) c" for c
    by (simp add: issued_def check_issued_def example_load_def example_cert_def)
  ultimately show ?thesis
    by (simp add: trusted_chain_def sub_ca_2_def)
qed

section \<open>What a verified signature is\<close>

text \<open>An element is covered when some reference names it and carries the digest of its encoding.\<close>

definition covers :: "crypto \<Rightarrow> signature \<Rightarrow> string option \<times> bytes \<Rightarrow> bool" where
  "covers cr sg el \<longleftrightarrow>
     (\<exists>i. fst el = Some i \<and>
        (\<exists>r \<in> set (references (sig_signed_info sg)).
           ref_uri r = Some (CHR ''#'' # i) \<and> digest_value r = sha256 cr (snd el)))"

definition signed_by :: "crypto \<Rightarrow> signature \<Rightarrow> bytes \<Rightarrow> bool" where
  "signed_by cr sg leaf_cert \<longleftrightarrow>
     (\<exists>leaf k data. load_der cr leaf_cert = Inr leaf \<and> cert_key leaf = ECKey k \<and>
        signed_info_exi cr (sig_signed_info sg) = Inr data \<and>
        key_verify cr k (encode_dss cr (be_num (take 32 (signature_value sg)))
          (be_num (drop 32 (signature_value sg)))) data = Verified)"

lemma find_reference_True:
  "find_reference i (sha256 cr exi) (references (sig_signed_info sg)) = Inr True \<longleftrightarrow> covers cr sg (i, exi)"
  by (auto simp: find_reference_def covers_def Let_def list_ex_iff filter_empty_conv split: option.splits)

lemma check_digests_True:
  "check_digests cr (references (sig_signed_info sg)) els = Inr True \<longleftrightarrow> list_all (covers cr sg) els"
proof (induction els)
  case (Cons el els)
  obtain i exi where el: "el = (i, exi)" by fastforce
  show ?case
  proof (cases "find_reference i (sha256 cr exi) (references (sig_signed_info sg))")
    case (Inr b)
    then show ?thesis
      using Cons el find_reference_True [of i cr exi sg] by (cases b) auto
  qed (use el find_reference_True [of i cr exi sg] in auto)
qed simp

lemma verify_signature_sound:
  assumes "verify_signature cr sig els leaf_cert subs root_cert = Inr True"
  obtains sg where "sig = Some sg" "list_all (covers cr sg) els" "signed_by cr sg leaf_cert"
    "\<And>cs r. subs = Some cs \<Longrightarrow> cs \<noteq> [] \<Longrightarrow> root_cert = Some r \<Longrightarrow> r \<noteq> [] \<Longrightarrow>
       verify_certs cr leaf_cert cs root_cert False = Inr ()"
proof -
  obtain sg where sg: "sig = Some sg" using assms by (cases sig) (auto simp: verify_signature_def)
  have digests: "check_digests cr (references (sig_signed_info sg)) els = Inr True"
    using assms sg by (auto simp: verify_signature_def rbind_Inr_iff split: if_splits)
  then obtain leaf data where ld: "load_der cr leaf_cert = Inr leaf"
    "signed_info_exi cr (sig_signed_info sg) = Inr data"
    using assms sg by (auto simp: verify_signature_def rbind_Inr_iff)
  then obtain k where k: "cert_key leaf = ECKey k"
    using assms sg digests by (cases "cert_key leaf") (auto simp: verify_signature_def Let_def)
  let ?v = "key_verify cr k (encode_dss cr (be_num (take 32 (signature_value sg)))
    (be_num (drop 32 (signature_value sg)))) data"
  have v: "?v = Verified"
    using assms sg digests ld k by (cases ?v) (auto simp: verify_signature_def Let_def int_from_bytes_def)
  show thesis
  proof (rule that [OF sg])
    show "list_all (covers cr sg) els" using digests by (simp add: check_digests_True)
    show "signed_by cr sg leaf_cert" using ld k v by (auto simp: signed_by_def)
    show "verify_certs cr leaf_cert cs root_cert False = Inr ()"
      if "subs = Some cs" "cs \<noteq> []" "root_cert = Some r" "r \<noteq> []" for cs r
      using assms sg that digests ld k v
      by (cases "verify_certs cr leaf_cert cs root_cert False")
        (auto simp: verify_signature_def Let_def int_from_bytes_def split: if_splits)
  qed
qed

lemma verify_signature_complete:
  assumes "list_all (covers cr sg) els" "signed_by cr sg leaf_cert"
    and "subs = None \<or> root_cert = None \<or> verify_certs cr leaf_cert (the subs) root_cert False = Inr ()"
  shows "verify_signature cr (Some sg) els leaf_cert subs root_cert = Inr True"
  using assms check_digests_True [of cr sg els]
  by (auto simp: verify_signature_def signed_by_def Let_def int_from_bytes_def)

text \<open>What a created signature consists of.\<close>

lemma make_references_covers:
  assumes "make_references cr els = Inr refs" "(i, exi) \<in> set els"
  shows "\<exists>n. i = Some n \<and> (\<exists>r \<in> set refs. ref_uri r = Some (CHR ''#'' # n) \<and> digest_value r = sha256 cr exi)"
  using assms
proof (induction els arbitrary: refs)
  case (Cons el els)
  obtain j e where el: "el = (j, e)" by fastforce
  with Cons.prems(1) obtain n rs where j: "j = Some n" and rs: "make_references cr els = Inr rs"
    and refs: "set rs \<subseteq> set refs" "\<exists>r \<in> set refs. ref_uri r = Some (CHR ''#'' # n) \<and> digest_value r = sha256 cr e"
    by (cases j) (force simp: rbind_Inr_iff)+
  show ?case
  proof (cases "(i, exi) = el")
    case False
    then have "(i, exi) \<in> set els" using Cons.prems(2) by auto
    from Cons.IH [OF rs this] show ?thesis using refs(1) by blast
  qed (use el j refs in auto)
qed simp

lemma create_signature_parts:
  assumes "create_signature cr els key = Inr sg"
  obtains data r s where "list_all (covers cr sg) els"
    "signed_info_exi cr (sig_signed_info sg) = Inr data" "sign cr key data = (r, s)"
    "be_num (take 32 (signature_value sg)) = r" "be_num (drop 32 (signature_value sg)) = s"
proof -
  let ?si = "\<lambda>refs. \<lparr>canonicalization_method = ''http://www.w3.org/TR/canonical-exi/'',
      signature_method = ''http://www.w3.org/2001/04/xmldsig-more#ecdsa-sha256'', references = refs\<rparr>"
  obtain refs where refs: "make_references cr els = Inr refs"
    using assms by (auto simp: create_signature_def rbind_Inr_iff)
  then obtain data where data: "signed_info_exi cr (?si refs) = Inr data"
    using assms by (auto simp: create_signature_def rbind_Inr_iff Let_def split: if_splits)
  obtain r s where rs: "sign cr key data = (r, s)" by fastforce
  have sg: "sg = \<lparr>sig_signed_info = ?si refs, signature_value = be_bytes 32 r @ be_bytes 32 s\<rparr>"
    and bounds: "0 \<le> r" "r < 256 ^ 32" "0 \<le> s" "s < 256 ^ 32"
    using assms refs data rs
    by (auto simp: create_signature_def Let_def int_to_bytes_def split: if_splits)
  have "list_all (covers cr sg) els"
    using make_references_covers [OF refs] sg by (auto simp: covers_def list_all_iff)
  then show thesis
    by (rule that) (use sg data rs bounds be_num_be_bytes_id in auto)
qed

text \<open>
  What is signed here verifies there: a signature created over some elements with a private key is
  accepted by the verification of the same elements with a certificate that carries the matching
  elliptic-curve key, if ECDSA itself verifies what it has signed and the chain, where one is given, holds.
\<close>

lemma created_signature_verifies:
  assumes "create_signature cr els key = Inr sg"
    and "load_der cr leaf_cert = Inr leaf" "cert_key leaf = ECKey k"
    and "\<forall>data. key_verify cr k (encode_dss cr (fst (sign cr key data)) (snd (sign cr key data))) data = Verified"
    and "subs = None \<or> root_cert = None \<or> verify_certs cr leaf_cert (the subs) root_cert False = Inr ()"
  shows "verify_signature cr (Some sg) els leaf_cert subs root_cert = Inr True"
proof -
  obtain data r s where p: "list_all (covers cr sg) els"
    "signed_info_exi cr (sig_signed_info sg) = Inr data" "sign cr key data = (r, s)"
    "be_num (take 32 (signature_value sg)) = r" "be_num (drop 32 (signature_value sg)) = s"
    by (rule create_signature_parts [OF assms(1)])
  have "key_verify cr k (encode_dss cr r s) data = Verified"
    using assms(4) p(3) by (metis fst_conv snd_conv)
  then have "signed_by cr sg leaf_cert"
    using assms(2,3) p by (auto simp: signed_by_def)
  with p(1) show ?thesis using assms(5) by (rule verify_signature_complete)
qed

end
