(* ===== verification/Contract_Key.thy ===== *)
theory Contract_Key
  imports Security
begin

text \<open>
  Key and certificate files, and the transport of the contract's private key
  (\<open>load_priv_key\<close>, \<open>load_cert_chain\<close>, \<open>encrypt_priv_key\<close>, \<open>decrypt_priv_key\<close> and their helpers in
  \<open>iso15118/shared/security.py\<close>). The file system and the primitives of the \<open>cryptography\<close> package they call
  are the record \<open>key_store\<close>; a path is the name of its constant in \<open>CertPath\<close>, \<open>KeyPath\<close> or
  \<open>KeyPasswordPath\<close>.
\<close>

section \<open>Files\<close>

text \<open>
  \<open>password_line\<close> is the first line of a text file without the white space at its end, encoded;
  \<open>load_private_key\<close> parses a key in PEM or DER, \<open>None\<close> for one that is not an elliptic-curve key. The list of
  common names of a certificate is in the order of its subject.
\<close>

datatype key_encoding = PEM | DER

record key_store =
  read_file :: "string \<Rightarrow> bytes result"
  password_line :: "string \<Rightarrow> bytes result"
  load_private_key :: "key_encoding \<Rightarrow> bytes \<Rightarrow> bytes option \<Rightarrow> bytes option result"
  common_names :: "bytes \<Rightarrow> string list result"
  issuer_and_serial :: "bytes \<Rightarrow> (string \<times> int) result"
  ephemeral_key :: bytes
  public_point :: "bytes \<Rightarrow> bytes"
  from_encoded_point :: "bytes \<Rightarrow> bytes result"
  private_value :: "bytes \<Rightarrow> int"
  ecdh :: "bytes \<Rightarrow> bytes \<Rightarrow> bytes result"
  concat_kdf :: "bytes \<Rightarrow> bytes \<Rightarrow> bytes"
  random_vector :: bytes
  aes_encrypt :: "bytes \<Rightarrow> bytes \<Rightarrow> bytes \<Rightarrow> bytes result"
  aes_decrypt :: "bytes \<Rightarrow> bytes \<Rightarrow> bytes \<Rightarrow> bytes result"

definition load_priv_key_pass :: "key_store \<Rightarrow> string \<Rightarrow> bytes option result" where
  "load_priv_key_pass ks password_path =
     (if password_path = [] then Inr (Some [0x31, 0x32, 0x33, 0x34, 0x35])
      else rbind (password_line ks password_path) (\<lambda>password.
             Inr (if password = [] then None else Some password)))"

text \<open>The handlers turn the exceptions of the inner and of the outer \<open>try\<close> into one kind of error.\<close>

definition key_read_error :: "py_error \<Rightarrow> bool" where
  "key_read_error e \<longleftrightarrow> e \<in> set [ValueError, TypeError, UnsupportedAlgorithm, FileNotFoundError, OSError]"

definition load_priv_key :: "key_store \<Rightarrow> string \<Rightarrow> key_encoding \<Rightarrow> string \<Rightarrow> bytes result" where
  "load_priv_key ks key_path encoding password_path =
     (case rbind (read_file ks key_path) (\<lambda>data.
           rbind (load_priv_key_pass ks password_path) (\<lambda>password.
             load_private_key ks encoding data password)) of
        Inl e \<Rightarrow> Inl (if key_read_error e then PrivateKeyReadError else e)
      | Inr None \<Rightarrow> Inl PrivateKeyReadError
      | Inr (Some k) \<Rightarrow> Inr k)"

definition load_cert :: "key_store \<Rightarrow> string \<Rightarrow> bytes result" where
  "load_cert ks cert_path = read_file ks cert_path"

text \<open>
  For ISO 15118-2. The models of a chain and of its list of sub-CA certificates limit the lengths; the
  list is made with one certificate, and the second one is appended without being checked.
\<close>

definition load_cert_chain :: "key_store \<Rightarrow> string \<Rightarrow> string \<Rightarrow> string option \<Rightarrow> certificate_chain result" where
  "load_cert_chain ks leaf_path sub_ca2_path sub_ca1_path =
     rbind (load_cert ks leaf_path) (\<lambda>leaf.
     rbind (load_cert ks sub_ca2_path) (\<lambda>sub_ca2.
     rbind (case sub_ca1_path of None \<Rightarrow> Inr [] | Some p \<Rightarrow> if p = [] then Inr [] else load_cert ks p) (\<lambda>sub_ca1.
       if length sub_ca2 > 800 \<or> length leaf > 800 then Inl ValidationError
       else Inr \<lparr>chain_id = None, certificate = leaf,
                 sub_certificates = Some (sub_ca2 # (if sub_ca1 = [] then [] else [sub_ca1]))\<rparr>)))"

definition get_cert_cn :: "key_store \<Rightarrow> bytes \<Rightarrow> string result" where
  "get_cert_cn ks der_cert =
     rbind (common_names ks der_cert) (\<lambda>names. if names = [] then Inl IndexError else Inr (last names))"

definition get_cert_issuer_serial :: "key_store \<Rightarrow> string \<Rightarrow> (string \<times> int) result" where
  "get_cert_issuer_serial ks cert_path = rbind (load_cert ks cert_path) (issuer_and_serial ks)"

definition to_ec_pub_key :: "key_store \<Rightarrow> bytes \<Rightarrow> bytes result" where
  "to_ec_pub_key ks public_key_bytes = from_encoded_point ks public_key_bytes"

section \<open>Transport of a private key\<close>

definition other_info :: bytes where
  "other_info = [0x01, 0x55, 0x56]"

definition encrypt_priv_key :: "crypto \<Rightarrow> key_store \<Rightarrow> bytes \<Rightarrow> bytes \<Rightarrow> (bytes \<times> bytes) result" where
  "encrypt_priv_key cr ks oem_prov_cert priv_key_to_encrypt =
     rbind (load_der cr oem_prov_cert) (\<lambda>cert.
     rbind (case cert_key cert of ECKey k \<Rightarrow> ecdh ks (ephemeral_key ks) k | OtherKey _ \<Rightarrow> Inr []) (\<lambda>shared_secret.
       if shared_secret = [] then Inl EncryptionError
       else
         let symmetric_key = concat_kdf ks other_info shared_secret;
             init_vector = random_vector ks
         in (case rbind (int_to_bytes 32 (private_value ks priv_key_to_encrypt)) (aes_encrypt ks symmetric_key init_vector) of
               Inl _ \<Rightarrow> Inl EncryptionError
             | Inr encrypted_priv_key \<Rightarrow>
                 Inr (public_point ks (ephemeral_key ks), init_vector @ encrypted_priv_key))))"

definition decrypt_priv_key :: "key_store \<Rightarrow> bytes \<Rightarrow> bytes \<Rightarrow> bytes \<Rightarrow> bytes result" where
  "decrypt_priv_key ks encrypted_priv_key_with_iv ecdh_priv_key ecdh_pub_key =
     (let init_vector = take 16 encrypted_priv_key_with_iv;
          encrypted_priv_key = drop 16 encrypted_priv_key_with_iv
      in rbind (ecdh ks ecdh_priv_key ecdh_pub_key) (\<lambda>shared_secret.
           if shared_secret = [] then Inl DecryptionError
           else aes_decrypt ks (concat_kdf ks other_info shared_secret) init_vector encrypted_priv_key))"

section \<open>What is encrypted is what is decrypted\<close>

text \<open>
  What the key exchange and the cipher promise: the two sides of an exchange compute the same secret, a
  point is read back as it was written, and decrypting with the same key and vector undoes encrypting.
\<close>

definition agreement :: "key_store \<Rightarrow> key_store \<Rightarrow> bool" where
  "agreement ks ks' \<longleftrightarrow>
     (\<forall>a b. ecdh ks a (public_point ks' b) = ecdh ks' b (public_point ks a)) \<and>
     (\<forall>a. from_encoded_point ks' (public_point ks a) = Inr (public_point ks a)) \<and>
     concat_kdf ks' = concat_kdf ks \<and> length (random_vector ks) = 16 \<and>
     (\<forall>k v x c. aes_encrypt ks k v x = Inr c \<longrightarrow> aes_decrypt ks' k v c = Inr x)"

lemma encrypted_key_decrypts:
  assumes "agreement ks ks'" "encrypt_priv_key cr ks oem_cert key = Inr (dh, encrypted)"
    and "load_der cr oem_cert = Inr cert" "cert_key cert = ECKey (public_point ks' oem_key)"
  shows "rbind (to_ec_pub_key ks' dh) (decrypt_priv_key ks' encrypted oem_key) =
    Inr (be_bytes 32 (private_value ks key))"
proof -
  obtain secret where secret: "ecdh ks (ephemeral_key ks) (public_point ks' oem_key) = Inr secret" "secret \<noteq> []"
    using assms(2-4) by (auto simp: encrypt_priv_key_def rbind_Inr_iff Let_def split: if_splits)
  then obtain c where c: "rbind (int_to_bytes 32 (private_value ks key))
      (aes_encrypt ks (concat_kdf ks other_info secret) (random_vector ks)) = Inr c"
    "dh = public_point ks (ephemeral_key ks)" "encrypted = random_vector ks @ c"
    using assms(2-4) by (auto simp: encrypt_priv_key_def Let_def split: sum.splits)
  then obtain x where x: "int_to_bytes 32 (private_value ks key) = Inr x"
    "aes_encrypt ks (concat_kdf ks other_info secret) (random_vector ks) x = Inr c"
    by (auto simp: rbind_Inr_iff)
  moreover have "ecdh ks' oem_key dh = Inr secret"
    using assms(1) secret(1) c(2) by (auto simp: agreement_def)
  ultimately show ?thesis
    using assms(1) c secret(2)
    by (auto simp: decrypt_priv_key_def to_ec_pub_key_def agreement_def int_to_bytes_def split: if_splits)
qed

text \<open>Errors of reading a key: a missing file of either kind, a wrong password, a key of another kind.\<close>

lemma load_priv_key_errors:
  assumes "load_priv_key ks path enc pw = Inl e"
    and "\<And>p e. read_file ks p = Inl e \<Longrightarrow> key_read_error e" "\<And>p e. password_line ks p = Inl e \<Longrightarrow> key_read_error e"
    and "\<And>n d p e. load_private_key ks n d p = Inl e \<Longrightarrow> key_read_error e"
  shows "e = PrivateKeyReadError"
  using assms
  by (auto simp: load_priv_key_def load_priv_key_pass_def rbind_def split: sum.splits option.splits if_splits)

text \<open>A store whose keys are their own public points and whose cipher leaves everything as it is.\<close>

definition example_keys :: key_store where
  "example_keys =
     \<lparr>read_file = (\<lambda>p. Inr
        (if p = ''CPS_LEAF_DER'' then [1] else if p = ''CPS_SUB_CA2_DER'' then [2] else if p = ''CPS_SUB_CA1_DER'' then [5]
         else if p = ''CPS_LEAF_PEM'' then [11] else if p = ''OEM_LEAF_PEM'' then [13] else [3])),
      password_line = (\<lambda>_. Inr []), load_private_key = (\<lambda>_ data _. Inr (Some data)),
      common_names = (\<lambda>_. Inr [''DE1ABCD2EF357A'']), issuer_and_serial = (\<lambda>_. Inr (''V2GRoot'', 1)),
      ephemeral_key = [4], public_point = (\<lambda>k. k), from_encoded_point = Inr, private_value = (\<lambda>_. 7),
      ecdh = (\<lambda>a b. Inr [hd a + hd b]), concat_kdf = (\<lambda>_ s. s), random_vector = replicate 16 0,
      aes_encrypt = (\<lambda>_ _ x. Inr x), aes_decrypt = (\<lambda>_ _ c. Inr c)\<rparr>"

lemma example_agreement: "agreement example_keys example_keys"
  by (simp add: agreement_def example_keys_def add.commute)

end
