(* ===== verification/Secc_State.thy ===== *)
theory Secc_State
  imports Session_State Contract_Key
begin

text \<open>
  The charger's communication session and the operations every state of its state machine shares:
  \<open>check_msg\<close> and \<open>stop_state_machine\<close> of \<open>iso15118/secc/states/secc_state.py\<close>.
  The charger hardware behind \<open>EVSEControllerInterface\<close> and the random generator are
  not part of the state machine: what they answer while one message is handled is the record
  \<open>env\<close>, and the commands given to the controller are logged in order. A present current of a class
  other than \<open>PVEVSEPresentCurrent\<close> is \<open>Inl\<close> the text of its type.
\<close>

section \<open>Environment\<close>

datatype evse_call =
    SetSelectedProtocol protocol
  | SendRatedLimits
  | StartCableCheck
  | SendChargingCommand rat rat bool
  | SetHlcCharging bool
  | StopCharger
  | SendDisplayParams
  | SetPresentProtocolState state_kind
  | UpdateDataLink session_stop_action
  | SessionEnded state_kind string

text \<open>
  What only the states of ISO 15118-2 ask for: settings, the certificate and key files and the
  primitives of \<open>Security\<close> and \<open>Contract_Key\<close>, the encodings of message parts that are signed, the
  charging station's backend and the answers of the hardware.
\<close>

record v2_env =
  supported_auth_options :: "auth_enum list"
  is_eim_authorized :: bool
  allow_cert_install_service :: bool
  free_cert_install_service :: bool
  use_cpo_backend :: bool
  get_15118_ev_certificate :: "bytes \<Rightarrow> bytes result result"
  crypt :: crypto
  fragment_exi :: "v2_fragment \<Rightarrow> bytes result"
  keys :: key_store
  random_challenge :: bytes
  certificate_response_status :: "response_code option"
  is_ready_to_charge :: bool
  get_ac_charge_params_v2 :: ac_evse_charge_parameter
  get_dc_charge_parameters_v2 :: dc_evse_charge_parameter
  get_sa_schedule_list :: "int option \<Rightarrow> int \<Rightarrow> sa_schedule list option"
  get_ac_evse_status :: ac_evse_status
  current_limit_achieved :: bool
  exception_text :: "py_error \<Rightarrow> string"

record env = codec_env +
  supported_protocols :: "protocol list"
  free_charging_service :: bool
  random_session_id :: string
  time_now :: int
  get_evse_id :: string
  supported_energy_transfer_modes :: "energy_mode list"
  is_authorized :: authorization_status
  dc_charge_parameters :: dc_evse_charge_parameter
  sa_schedule_list :: "sa_schedule_tuple list"
  is_contactor_closed :: "bool option"
  is_contactor_opened :: bool
  cable_check_status :: "isolation_level option"
  get_dc_evse_status :: dc_evse_status
  evse_present_voltage :: physical_value
  evse_present_current :: "string + physical_value"
  charging_command_times_out :: bool
  voltage_limit_achieved :: bool
  power_limit_achieved :: bool
  max_current_limit :: physical_value
  max_voltage_limit :: physical_value
  max_power_limit :: physical_value
  status_text :: "dc_ev_status \<Rightarrow> string"
  mode_text :: "energy_mode \<Rightarrow> string"
  auth_text :: "auth_enum \<Rightarrow> string"
  isolation_text :: "isolation_level option \<Rightarrow> string"
  type_text :: "v2g_message \<Rightarrow> string"
  iso2_env :: v2_env

section \<open>Session\<close>

datatype current_type = AC | DC

text \<open>
  What a paused session leaves for its resumption, and the variables of the session that only the
  states of ISO 15118-2 use.
\<close>

record session_context =
  ctx_session_id :: "string option"
  ctx_auth_options :: "auth_enum list option"
  ctx_charge_service :: "charge_service_v2 option"
  ctx_sa_schedule_tuple_id :: "int option"

record v2_vars =
  is_tls :: bool
  ev_session_context :: "session_context option"
  offered_services :: "service_details list"
  gen_challenge :: "bytes option"
  offered_schedules :: "sa_schedule list"
  contract_cert_chain :: "certificate_chain option"
  emaid :: "string option"
  sent_meter_info :: "meter_info option"
  selected_schedule :: "int option"

record secc = v2g_session +
  selected_charging_type_is_ac :: bool
  evcc_id :: "string option"
  offered_auth_options :: "auth_enum list"
  selected_auth_option :: "auth_enum option"
  charge_progress_started :: bool
  ev_data :: ev_data_context
  current_type :: "current_type option"
  iso2 :: v2_vars
  calls :: "evse_call list"

text \<open>A command to the controller.\<close>

definition call :: "evse_call \<Rightarrow> secc \<Rightarrow> secc" where
  "call c s = s\<lparr>calls := calls s @ [c]\<rparr>"

abbreviation (input) "V2G_SECC_SEQUENCE_TIMEOUT \<equiv> (60 :: rat)"

definition next_din :: "env \<Rightarrow> state_kind option \<Rightarrow> din_body \<Rightarrow> secc \<Rightarrow> secc outcome" where
  "next_din env nxt b s =
     create_next_message env nxt (NextDin b) V2G_SECC_SEQUENCE_TIMEOUT DIN_MSG_DEF EXI_ENCODED s"

definition next_v2 :: "env \<Rightarrow> state_kind option \<Rightarrow> v2_body \<Rightarrow> signature option \<Rightarrow> secc \<Rightarrow> secc outcome" where
  "next_v2 env nxt b sig s =
     create_next_message env nxt (NextV2 b sig) V2G_SECC_SEQUENCE_TIMEOUT ISO_V2_MSG_DEF EXI_ENCODED s"

section \<open>Stopping the state machine\<close>

datatype any_code = DinCode response_code | SapCode sap_code

text \<open>
  Assigning a response code to a prepared response, or passing it to the constructor of the
  negotiation response, is validated: a code of the other family is a \<open>ValidationError\<close>, and so is, in
  a response of ISO 15118-2, the one code only DIN SPEC 70121 has (the states of DIN SPEC 70121 pass
  only codes of their own standard). A request without a prepared response is looked up as \<open>None\<close>, and
  so is a response received as a request. A code that both standards or only one of them has is
  \<open>DinCode\<close>.
\<close>

definition stop_state_machine :: "env \<Rightarrow> string \<Rightarrow> v2g_message \<Rightarrow> any_code \<Rightarrow> secc \<Rightarrow> secc outcome" where
  "stop_state_machine env r faulty_request code s =
     (let s = s\<lparr>stop_reason := Some \<lparr>successful = False, reason = r, peer_ip_address = peername env,
                                     stop_action = TERMINATE\<rparr>\<rparr>
      in (case faulty_request of
            DinMessage _ body \<Rightarrow>
              (case code of
                 DinCode rc \<Rightarrow>
                   (case Option.bind body (\<lambda>b. failed_response (body_type b) rc) of
                      None \<Rightarrow> raises AttributeError s
                    | Some error_res \<Rightarrow>
                        create_next_message env (Some Terminate) (NextDin error_res) 0 DIN_MSG_DEF
                          EXI_ENCODED s)
               | SapCode _ \<Rightarrow>
                   (if Option.bind body (\<lambda>b. failed_response (body_type b) OK) = None
                    then raises AttributeError s else raises ValidationError s))
          | SAPReq _ \<Rightarrow>
              (case code of
                 SapCode c \<Rightarrow>
                   create_next_message env (Some Terminate) (NextSap c None) 0 SAP_NS EXI_ENCODED s
               | DinCode _ \<Rightarrow> raises ValidationError s)
          | V2Message _ body \<Rightarrow>
              (let entry = Option.bind (get_msg_type (message_text faulty_request))
                             (\<lambda>t. failed_response_v2 t (case code of DinCode rc \<Rightarrow> rc | SapCode _ \<Rightarrow> OK))
               in case entry of
                    None \<Rightarrow> raises AttributeError s
                  | Some error_res \<Rightarrow>
                      if code \<in> {SapCode NEGOTIATION_OK, SapCode MINOR_DEVIATION, SapCode NEGOTIATION_FAILED,
                                  DinCode FAILED_EVSE_PRESENT_VOLTAGE_TO_LOW}
                      then raises ValidationError s
                      else create_next_message env (Some Terminate) (NextV2 error_res None) 0 ISO_V2_MSG_DEF
                             EXI_ENCODED s)
          | SAPRes _ _ \<Rightarrow> raises AttributeError s
          | Base64 _ \<Rightarrow> raises AttributeError s))"

section \<open>Checking an incoming message\<close>

datatype family = SAPFamily | DINFamily | V2Family

fun in_family :: "family \<Rightarrow> v2g_message \<Rightarrow> bool" where
  "in_family SAPFamily (SAPReq _) = True"
| "in_family DINFamily (DinMessage _ _) = True"
| "in_family V2Family (V2Message _ _) = True"
| "in_family _ _ = False"

fun message_type :: "v2g_message \<Rightarrow> msg_type option" where
  "message_type (SAPReq _) = Some SupportedAppProtocolReqT"
| "message_type (SAPRes _ _) = Some ResponseT"
| "message_type (DinMessage _ body) = map_option body_type body"
| "message_type (V2Message _ body) = map_option (V2T \<circ> v2_body_type) body"
| "message_type (Base64 _) = None"

text \<open>The loop over the expected types: \<open>None\<close> is the stop inside the loop.\<close>

fun match_types :: "bool \<Rightarrow> nat \<Rightarrow> msg_type option \<Rightarrow> msg_type list \<Rightarrow> bool option" where
  "match_types first idx t [] = Some False"
| "match_types first idx t (e # es) =
     (if idx = 0 \<and> first \<and> t \<noteq> Some e then None
      else if t = Some e then Some True
      else match_types first (Suc idx) t es)"

fun session_mismatch :: "v2g_message \<Rightarrow> secc \<Rightarrow> bool" where
  "session_mismatch (DinMessage h body) s =
     (map_option body_type body \<noteq> Some SessionSetupReqT \<and> header_session_id h \<noteq> session_id s)"
| "session_mismatch (V2Message h body) s =
     (map_option v2_body_type body \<noteq> Some SessionSetupT \<and> v2_session_id h \<noteq> session_id s)"
| "session_mismatch _ s = False"

text \<open>
  The check is followed, where it passes, by the rest of the handler; where it fails the session has
  been stopped and the handler returns.
\<close>

definition check_msg ::
  "env \<Rightarrow> family \<Rightarrow> msg_type list \<Rightarrow> bool \<Rightarrow> v2g_message \<Rightarrow> (secc \<Rightarrow> secc outcome) \<Rightarrow> secc \<Rightarrow> secc outcome" where
  "check_msg env fam expected first m k s =
     (if \<not> in_family fam m then
        stop_state_machine env
          (type_text env m @ CHR 0x27 # '' not a valid message type in state '' @
            state_text (kind (current_state s))) m
          (DinCode FAILED_SEQUENCE_ERROR) s
      else if match_types first 0 (message_type m) expected \<noteq> Some True then
        stop_state_machine env
          (message_text m @ CHR 0x27 # '' not accepted in state '' @ state_text (kind (current_state s))) m
          (DinCode FAILED_SEQUENCE_ERROR) s
      else if session_mismatch m s then
        stop_state_machine env (session_text m s) m (DinCode FAILED_UNKNOWN_SESSION) s
      else k s)"

definition check_msg_dinspec ::
  "env \<Rightarrow> msg_type list \<Rightarrow> bool \<Rightarrow> v2g_message \<Rightarrow> (secc \<Rightarrow> secc outcome) \<Rightarrow> secc \<Rightarrow> secc outcome" where
  "check_msg_dinspec env expected first m k s = check_msg env DINFamily expected first m k s"

definition check_msg_v2 ::
  "env \<Rightarrow> v2_type list \<Rightarrow> bool \<Rightarrow> v2g_message \<Rightarrow> (secc \<Rightarrow> secc outcome) \<Rightarrow> secc \<Rightarrow> secc outcome" where
  "check_msg_v2 env expected first m k s = check_msg env V2Family (map V2T expected) first m k s"

end
