(* ===== verification/Secc_Handler.thy ===== *)
theory Secc_Handler
  imports Sdp Secc_State
begin

text \<open>
  The charger's session handler (\<open>iso15118/secc/comm_session_handler.py\<close>) with the TCP and UDP servers
  it drives (\<open>iso15118/secc/transport\<close>): discovery requests, new TCP clients, the end of sessions, and
  the forced close. The sockets, the certificate store and the random ports are arguments.
\<close>

section \<open>TCP server\<close>

text \<open>
  \<open>_refresh_port\<close> draws ports until the loop condition fails; \<open>None\<close> says that the draws given were
  all used up and the loop still runs.
\<close>

fun refresh_port :: "int \<Rightarrow> int list \<Rightarrow> int option" where
  "refresh_port port [] = None"
| "refresh_port port (random_port # draws) =
     (if random_port \<noteq> port then refresh_port port draws else Some random_port)"

text \<open>
  What the network does while a server starts: which bind attempts succeed, the ports drawn after each
  failed attempt, and whether a TLS context can be made.
\<close>

record net =
  bind_ok :: "nat \<Rightarrow> int \<Rightarrow> bool"
  draws :: "nat \<Rightarrow> int list"
  ssl_context :: bool
  host_bytes :: bytes

abbreviation (input) "MAX_RETRIES \<equiv> (3 :: nat)"

text \<open>
  The attempts from number \<open>i\<close> on: the ports tried, the last of which is the server's port from then
  on, and whether the last attempt succeeded (if not, the server task ends with \<open>OSError\<close>); \<open>None\<close> if
  a refresh does not return.
\<close>

function bind_loop :: "net \<Rightarrow> nat \<Rightarrow> int \<Rightarrow> (int list \<times> bool) option" where
  "bind_loop net i port =
     (if bind_ok net i port then Some ([port], True)
      else if i \<ge> MAX_RETRIES - 1 then Some ([port], False)
      else (case refresh_port port (draws net i) of
              None \<Rightarrow> None
            | Some p \<Rightarrow> map_option (\<lambda>(ps, ok). (port # ps, ok)) (bind_loop net (Suc i) p)))"
  by pat_completeness auto
termination
  by (relation "measure (\<lambda>(net, i, port). MAX_RETRIES - i)") auto

declare bind_loop.simps [simp del]

section \<open>Handler state\<close>

type_synonym address = "string \<times> int"

text \<open>A key of the session dictionary: a host string, or a whole socket address.\<close>

datatype py_key = KStr string | KTuple address

record session_ref =
  session_no :: nat
  ev_session_context :: nat

datatype service_status = READY | ERROR

record handler =
  comm_sessions :: "py_key \<rightharpoonup> session_ref"
  current_peer_ip :: "address option"
  tcp_server_handler :: "bool option"
  tcp_port :: int
  is_tls_enabled :: bool
  enforce_tls :: bool
  pause_server :: "bool option"
  datagrams :: "(bytes \<times> address) list"
  statuses :: "service_status list"
  next_session :: nat
  cancelled :: "nat list"
  eof_fed :: "nat list"

definition CommunicationSessionHandler :: "int \<Rightarrow> bool \<Rightarrow> bool \<Rightarrow> handler" where
  "CommunicationSessionHandler port enforce udp =
     \<lparr>comm_sessions = Map.empty, current_peer_ip = None, tcp_server_handler = None, tcp_port = port,
      is_tls_enabled = False, enforce_tls = enforce, pause_server = (if udp then Some False else None),
      datagrams = [], statuses = [], next_session = 0, cancelled = [], eof_fed = []\<rparr>"

section \<open>Discovery\<close>

text \<open>
  Starting a server: the task runs \<open>server_factory\<close>; the handler waits until it is listening, and
  reports an error and goes on if it is not within ten seconds. The refresh of the port does not
  yield, so if it does not return (\<open>None\<close>) nothing else in the process runs either.
\<close>

definition start_tcp_server :: "net \<Rightarrow> bool \<Rightarrow> handler \<Rightarrow> handler option" where
  "start_tcp_server net with_tls h =
     map_option (\<lambda>(ports, ok).
         h\<lparr>tcp_server_handler := Some with_tls, is_tls_enabled := with_tls \<and> ssl_context net,
           tcp_port := last ports, statuses := statuses h @ (if ok then [] else [ERROR])\<rparr>)
       (bind_loop net 0 (tcp_port h))"

definition process_sdp_request ::
    "net \<Rightarrow> sdp_request \<Rightarrow> handler \<Rightarrow> (handler \<times> sdp_response option) option" where
  "process_sdp_request net q h =
     map_option (\<lambda>h. (h, create_sdp_response q (host_bytes net) (tcp_port h) (is_tls_enabled h)))
       (start_tcp_server net (enforce_tls h \<or> req_security q = TLS) h)"

definition udp_send :: "v2gtp_message \<Rightarrow> address \<Rightarrow> handler \<Rightarrow> handler outcome" where
  "udp_send m addr h =
     (case pause_server h of
        None \<Rightarrow> raises AttributeError h
      | Some _ \<Rightarrow>
          (case to_bytes m of
             Inl e \<Rightarrow> raises e h
           | Inr bs \<Rightarrow> done_with (h\<lparr>datagrams := datagrams h @ [(bs, addr)]\<rparr>)))"

definition send_sdp_response :: "sdp_response option \<Rightarrow> address \<Rightarrow> handler \<Rightarrow> handler outcome" where
  "send_sdp_response res addr h =
     (case response_to_payload res of
        Inl e \<Rightarrow> raises e h
      | Inr pl \<Rightarrow>
          (case V2GTPMessage ISO_15118_2 0x9001 pl of
             Inl e \<Rightarrow> raises e h
           | Inr reply \<Rightarrow> udp_send reply addr h))"

definition process_incoming_udp_packet ::
    "net \<Rightarrow> bytes \<Rightarrow> address \<Rightarrow> handler \<Rightarrow> handler outcome option" where
  "process_incoming_udp_packet net d addr h =
     (case from_bytes UNKNOWN d of
        Inl e \<Rightarrow> Some (if e = InvalidV2GTPMessageError then done_with h else raises e h)
      | Inr m \<Rightarrow>
          if payload_type m = 0x9000 then
            (case request_from_payload (payload m) of
               Inl e \<Rightarrow> Some (if e = InvalidSDPRequestError then done_with h else raises e h)
             | Inr q \<Rightarrow> map_option (\<lambda>(h, res). send_sdp_response res addr h) (process_sdp_request net q h))
          else if payload_type m = 0x9002 then Some (raises NotImplementedError h)
          else Some (done_with h))"

section \<open>Sessions\<close>

definition end_current_session :: "address \<Rightarrow> session_stop_action \<Rightarrow> handler \<Rightarrow> handler outcome" where
  "end_current_session peer action h =
     (let key = KStr (fst peer);
          h = (case tcp_server_handler h of
                 None \<Rightarrow> h
               | Some _ \<Rightarrow>
                   (case comm_sessions h key of
                      None \<Rightarrow> h
                    | Some s \<Rightarrow> h\<lparr>cancelled := cancelled h @ [session_no s]\<rparr>))
      in (case comm_sessions h key of
            None \<Rightarrow> raises KeyError h
          | Some _ \<Rightarrow>
              let h = (if action = TERMINATE then h\<lparr>comm_sessions := (comm_sessions h)(key := None)\<rparr> else h)
              in done_with (h\<lparr>tcp_server_handler := None, current_peer_ip := None,
                             pause_server := map_option (\<lambda>_. False) (pause_server h)\<rparr>)))"

text \<open>A new session object, with the context of the previous one or a new context.\<close>

definition new_session_ref :: "nat option \<Rightarrow> handler \<Rightarrow> session_ref" where
  "new_session_ref context h =
     \<lparr>session_no = next_session h,
      ev_session_context = (case context of Some c \<Rightarrow> c | None \<Rightarrow> next_session h)\<rparr>"

definition open_session :: "address \<Rightarrow> nat option \<Rightarrow> handler \<Rightarrow> handler" where
  "open_session addr context h =
     h\<lparr>comm_sessions := (comm_sessions h)(KStr (fst addr) \<mapsto> new_session_ref context h),
       next_session := next_session h + 1, current_peer_ip := Some addr\<rparr>"

text \<open>
  A TCP client. \<open>reset\<close> says that resuming fails with a connection reset, in which case the old
  session is ended first.
\<close>

definition tcp_client :: "bool \<Rightarrow> address \<Rightarrow> handler \<Rightarrow> handler outcome" where
  "tcp_client reset addr h =
     (let h = h\<lparr>pause_server := map_option (\<lambda>_. True) (pause_server h)\<rparr>
      in (case comm_sessions h (KStr (fst addr)) of
            None \<Rightarrow> done_with (open_session addr None h)
          | Some s \<Rightarrow>
              if reset
              then andthen (end_current_session addr TERMINATE h) (\<lambda>h. done_with (open_session addr None h))
              else done_with (open_session addr (Some (ev_session_context s)) h)))"

datatype notification =
    UDPPacketNotification net bytes address
  | TCPClientNotification bool address
  | StopNotification address session_stop_action

definition handle :: "notification \<Rightarrow> handler \<Rightarrow> handler outcome option" where
  "handle n h =
     (case n of
        UDPPacketNotification net d addr \<Rightarrow> process_incoming_udp_packet net d addr h
      | TCPClientNotification reset addr \<Rightarrow> Some (tcp_client reset addr h)
      | StopNotification peer action \<Rightarrow>
          Some (case end_current_session peer action h of
                  (h, Some e) \<Rightarrow> if e = KeyError then done_with h else raises e h
                | (h, None) \<Rightarrow> done_with h))"

text \<open>The queue loop ends with the first exception that is not caught.\<close>

fun get_from_rcv_queue :: "notification list \<Rightarrow> handler \<Rightarrow> handler outcome option" where
  "get_from_rcv_queue [] h = Some (done_with h)"
| "get_from_rcv_queue (n # rest) h =
     (case handle n h of
        None \<Rightarrow> None
      | Some (h, None) \<Rightarrow> get_from_rcv_queue rest h
      | Some (h, Some e) \<Rightarrow> Some (h, Some e))"

definition close_session :: "handler \<Rightarrow> handler" where
  "close_session h =
     (case current_peer_ip h of
        None \<Rightarrow> h
      | Some peer \<Rightarrow>
          (case comm_sessions h (KTuple peer) of
             None \<Rightarrow> h
           | Some s \<Rightarrow> h\<lparr>eof_fed := eof_fed h @ [session_no s]\<rparr>))"

section \<open>The port\<close>

lemma refresh_port_eq: "refresh_port port ds = (if port \<in> set ds then Some port else None)"
  by (induction ds) auto

lemma bind_loop_step:
  "bind_loop net i port =
     (if bind_ok net i port then Some ([port], True)
      else if i \<ge> MAX_RETRIES - 1 then Some ([port], False)
      else if port \<in> set (draws net i)
        then map_option (\<lambda>(ps, ok). (port # ps, ok)) (bind_loop net (Suc i) port)
      else None)"
  by (subst bind_loop.simps) (simp add: refresh_port_eq)

lemma bind_loop_ports: "bind_loop net i port = Some (ps, ok) \<Longrightarrow> ps \<noteq> [] \<and> set ps = {port}"
proof (induction "MAX_RETRIES - i" arbitrary: i ps ok)
  case 0
  then show ?case by (subst (asm) bind_loop_step) (auto split: if_splits)
next
  case (Suc n)
  then have "n = MAX_RETRIES - Suc i" by simp
  from Suc(1) [OF this] Suc(3) show ?case
    by (subst (asm) (2) bind_loop_step) (fastforce split: if_splits)
qed

lemma last_in_singleton: "ps \<noteq> [] \<Longrightarrow> set ps = {x} \<Longrightarrow> last ps = x"
  using last_in_set [of ps] by simp

text \<open>
  Retrying never changes the port. Every bind attempt of a server start uses the port the
  server was created with: the refresh loop draws ports until it draws that very port again (and does
  not return if it never does), so a port in use makes all three attempts fail alike.
\<close>

lemma retries_use_the_same_port:
  assumes "bind_loop net 0 port = Some (ps, ok)" and "\<And>i. \<not> bind_ok net i port"
  shows "ps = [port, port, port] \<and> \<not> ok"
proof -
  have two: "bind_loop net (Suc (Suc 0)) port = Some ([port], False)"
    using assms(2) [of "Suc (Suc 0)"] by (subst bind_loop_step) simp
  have "bind_loop net i port \<in> {None, map_option (\<lambda>(ps, ok). (port # ps, ok)) (bind_loop net (Suc i) port)}"
    if "i < 2" for i
    using assms(2) [of i] that by (subst bind_loop_step) simp
  from this [of 0] this [of "Suc 0"] two assms(1) show ?thesis
    by auto
qed

section \<open>Discovery\<close>

text \<open>What a discovery request looks like on the wire.\<close>

definition discovery_request :: "bytes \<Rightarrow> sdp_request option" where
  "discovery_request d =
     (if length d = 10 \<and> take 4 d = [0x01, 0xFE, 0x90, 0x00] \<and> d ! 8 \<in> {0x00, 0x10} \<and> d ! 9 \<in> {0x00, 0x10}
      then Some \<lparr>req_security = (if d ! 8 = 0x00 then TLS else NO_TLS),
                 req_transport = (if d ! 9 = 0x00 then TCP else UDP)\<rparr>
      else None)"



lemma start_tcp_server_eq:
  assumes "bind_loop net 0 (tcp_port h) = Some (ps, ok)"
  shows "start_tcp_server net tls h =
    Some (h\<lparr>tcp_server_handler := Some tls, is_tls_enabled := tls \<and> ssl_context net,
            statuses := statuses h @ (if ok then [] else [ERROR])\<rparr>)"
  using bind_loop_ports [OF assms] assms by (simp add: start_tcp_server_def last_in_singleton)

lemma send_sdp_response_eq:
  assumes "pause_server h \<noteq> None" "length ip = 16" "MIN_TCP_PORT \<le> p" "p \<le> MAX_TCP_PORT"
  shows "send_sdp_response (create_sdp_response q ip p tls) addr h =
    done_with (h\<lparr>datagrams := datagrams h @
      [(header_of 0x9001 20 @ ip @ be_bytes 2 p @ [security_value (if tls then TLS else NO_TLS), 0], addr)]\<rparr>)"
proof -
  have "is_payload_type_valid ISO_15118_2 0x9001"
    by (simp add: is_payload_type_valid_def ISOV2PayloadTypes_def)
  with assms show ?thesis
    using to_bytes_message_of [of "0x9001" "ip @ be_bytes 2 p @ [security_value (if tls then TLS else NO_TLS), 0]" ISO_15118_2]
    by (auto simp: send_sdp_response_def create_sdp_response_payload V2GTPMessage_eq udp_send_def
        UINT_32_MAX_def split: option.splits)
qed

lemma get_payload_type_eq:
  assumes "10 \<le> length d"
  shows "get_payload_type (take 8 d) = d ! 2 * 256 + d ! 3"
proof -
  have "pyslice 2 4 (take 8 d) = [d ! 2, d ! 3]"
    using assms by (auto simp: pyslice_def list_eq_iff_nth_eq less_Suc_eq numeral_2_eq_2 numeral_3_eq_3)
  with assms show ?thesis
    by (simp add: get_payload_type_def int_from_bytes_def be_num_def)
qed

lemma request_from_payload_iff:
  "request_from_payload p = Inr q \<longleftrightarrow>
     length p = 2 \<and> p ! 0 = security_value (req_security q) \<and> p ! 1 = transport_value (req_transport q)"
proof (cases "length p = 2")
  case True
  then obtain x y where "p = [x, y]" by (auto simp: length_Suc_conv numeral_2_eq_2)
  then show ?thesis
    by (cases q; cases "req_security q"; cases "req_transport q")
      (auto simp: request_from_payload_def security_from_byte_def transport_from_byte_def
        int_from_bytes_def be_num_singleton)
qed (simp add: request_from_payload_def)


lemma take_4_eq: "4 \<le> length d \<Longrightarrow> take 4 d = [a, b, c, e] \<longleftrightarrow> d ! 0 = a \<and> d ! 1 = b \<and> d ! 2 = c \<and> d ! 3 = e"
  by (auto simp: list_eq_iff_nth_eq nth_Cons' less_Suc_eq numeral_eq_Suc)

lemma discovery_request_iff:
  assumes "bytes_ok d"
  shows "discovery_request d = Some q \<longleftrightarrow>
    (\<exists>m. from_bytes UNKNOWN d = Inr m \<and> payload_type m = 0x9000 \<and> request_from_payload (payload m) = Inr q)"
    (is "?l \<longleftrightarrow> ?r")
proof -
  have r: "?r \<longleftrightarrow> 10 \<le> length d \<and> d ! 0 = 1 \<and> d ! 1 = 0xFE \<and> d ! 2 * 256 + d ! 3 = 0x9000 \<and>
      length (drop 8 d) = 2 \<and> drop 8 d ! 0 = security_value (req_security q) \<and>
      drop 8 d ! 1 = transport_value (req_transport q)"
    using get_payload_type_eq [of d]
    by (auto simp: from_bytes_eq [OF assms] message_of_def payload_types_def is_payload_type_valid_def
        ISOV2PayloadTypes_def request_from_payload_iff split: if_splits)
  show ?thesis
  proof (cases "length d = 10")
    case True
    then have "byte_ok (d ! 2)" "byte_ok (d ! 3)" using assms by (auto intro: bytes_ok_nth)
    then have "d ! 2 * 256 + d ! 3 = 0x9000 \<longleftrightarrow> d ! 2 = 0x90 \<and> d ! 3 = 0"
      unfolding byte_ok_def by presburger
    with True show ?thesis
      unfolding r
      by (cases q; cases "req_security q"; cases "req_transport q")
        (auto simp: discovery_request_def take_4_eq)
  qed (use r in \<open>auto simp: discovery_request_def\<close>)
qed




definition quiet_net :: net where
  "quiet_net = \<lparr>bind_ok = (\<lambda>_ _. True), draws = (\<lambda>_. []), ssl_context = True, host_bytes = replicate 16 1\<rparr>"


section \<open>Sessions\<close>

lemma udp_packet_frame:
  assumes "process_incoming_udp_packet net d addr h = Some (h', e)"
  shows "comm_sessions h' = comm_sessions h \<and> current_peer_ip h' = current_peer_ip h \<and>
    next_session h' = next_session h"
proof -
  have "comm_sessions h'' = comm_sessions h1 \<and> current_peer_ip h'' = current_peer_ip h1 \<and>
      next_session h'' = next_session h1" if "send_sdp_response res addr h1 = (h'', e')" for res h1 h'' e'
    using that by (auto simp: send_sdp_response_def udp_send_def raises_def done_with_def
        split: sum.splits option.splits)
  moreover have "comm_sessions h1 = comm_sessions h \<and> current_peer_ip h1 = current_peer_ip h \<and>
      next_session h1 = next_session h" if "process_sdp_request net q h = Some (h1, res)" for q h1 res
    using that by (auto simp: process_sdp_request_def start_tcp_server_def)
  ultimately show ?thesis
    using assms unfolding process_incoming_udp_packet_def
    by (fastforce simp: raises_def done_with_def split: sum.splits if_splits)
qed

lemma end_current_session_frame:
  assumes "end_current_session peer a h = (h', e)"
  shows "next_session h' = next_session h \<and>
    comm_sessions h' = (if a = TERMINATE then (comm_sessions h)(KStr (fst peer) := None) else comm_sessions h)"
  using assms
  by (auto simp: end_current_session_def Let_def raises_def done_with_def split: option.splits if_splits)

text \<open>Every key of the session dictionary is a host string.\<close>

definition keyed_by_host :: "handler \<Rightarrow> bool" where
  "keyed_by_host h \<longleftrightarrow> (\<forall>peer. comm_sessions h (KTuple peer) = None)"

lemma open_session_keyed [simp]: "keyed_by_host (open_session addr c h) \<longleftrightarrow> keyed_by_host h"
  by (simp add: keyed_by_host_def open_session_def)

lemma end_current_session_keyed:
  assumes "keyed_by_host h" "end_current_session peer a h = (h', e)"
  shows "keyed_by_host h'"
  using assms end_current_session_frame [OF assms(2)] by (auto simp: keyed_by_host_def)

lemma handle_keyed:
  assumes "keyed_by_host h" "handle n h = Some (h', e)"
  shows "keyed_by_host h'"
proof (cases n)
  case (UDPPacketNotification net d addr)
  then show ?thesis
    using assms udp_packet_frame [of net d addr h h' e] by (simp add: handle_def keyed_by_host_def)
next
  case (TCPClientNotification reset addr)
  have pause: "keyed_by_host (h\<lparr>pause_server := p\<rparr>)" for p
    using assms(1) by (simp add: keyed_by_host_def)
  obtain h1 e1 where end1: "end_current_session addr TERMINATE
      (h\<lparr>pause_server := map_option (\<lambda>_. True) (pause_server h)\<rparr>) = (h1, e1)" by fastforce
  then have "keyed_by_host h1" by (rule end_current_session_keyed [OF pause])
  with TCPClientNotification assms(2) end1 pause show ?thesis
    by (auto simp: handle_def tcp_client_def Let_def andthen_def done_with_def split: option.splits if_splits)
next
  case (StopNotification peer a)
  obtain h1 e1 where "end_current_session peer a h = (h1, e1)" by fastforce
  with end_current_session_keyed [OF assms(1) this] StopNotification assms(2) show ?thesis
    by (auto simp: handle_def done_with_def raises_def split: option.splits if_splits)
qed

lemma queue_keyed:
  "get_from_rcv_queue queue h = Some (h', e) \<Longrightarrow> keyed_by_host h \<Longrightarrow> keyed_by_host h'"
proof (induction queue arbitrary: h)
  case (Cons n rest)
  then show ?case
    by (auto dest: handle_keyed split: option.splits prod.splits)
qed (simp add: done_with_def)

text \<open>
  The forced close never works. In every state the handler can reach, \<open>close_session\<close> changes
  nothing: it looks the current session up under the whole socket address, while sessions are stored
  under the host, so end of file is never fed to any reader.
\<close>

lemma close_session_never_feeds_eof:
  assumes "get_from_rcv_queue queue (CommunicationSessionHandler port enforce udp) = Some (h, e)"
  shows "close_session h = h"
proof -
  have "keyed_by_host (CommunicationSessionHandler port enforce udp)"
    by (simp add: keyed_by_host_def CommunicationSessionHandler_def)
  from queue_keyed [OF assms this] show ?thesis
    by (simp add: close_session_def keyed_by_host_def split: option.split)
qed

text \<open>A notification that does not concern a host.\<close>

fun foreign :: "string \<Rightarrow> notification \<Rightarrow> bool" where
  "foreign host (UDPPacketNotification _ _ _) \<longleftrightarrow> True"
| "foreign host (TCPClientNotification _ addr) \<longleftrightarrow> fst addr \<noteq> host"
| "foreign host (StopNotification peer _) \<longleftrightarrow> fst peer \<noteq> host"

lemma tcp_client_frame:
  assumes "tcp_client reset addr h = (h', e)"
  shows "next_session h \<le> next_session h' \<and>
    (fst addr \<noteq> host \<longrightarrow> comm_sessions h' (KStr host) = comm_sessions h (KStr host))"
proof -
  let ?h = "h\<lparr>pause_server := map_option (\<lambda>_. True) (pause_server h)\<rparr>"
  obtain h1 e1 where end1: "end_current_session addr TERMINATE ?h = (h1, e1)" by fastforce
  with end_current_session_frame [OF end1] assms show ?thesis
    by (auto simp: tcp_client_def Let_def andthen_def done_with_def open_session_def
        split: option.splits if_splits)
qed

lemma handle_foreign:
  assumes "foreign host n" "handle n h = Some (h', e)"
  shows "comm_sessions h' (KStr host) = comm_sessions h (KStr host) \<and> next_session h \<le> next_session h'"
proof (cases n)
  case (UDPPacketNotification net d addr)
  then show ?thesis using assms udp_packet_frame [of net d addr h h' e] by (simp add: handle_def)
next
  case (TCPClientNotification reset addr)
  then show ?thesis using assms tcp_client_frame [of reset addr h h' e host] by (simp add: handle_def)
next
  case (StopNotification peer a)
  obtain h1 e1 where "end_current_session peer a h = (h1, e1)" by fastforce
  with end_current_session_frame [OF this] StopNotification assms show ?thesis
    by (auto simp: handle_def done_with_def raises_def split: option.splits if_splits)
qed

lemma queue_foreign:
  "get_from_rcv_queue queue h = Some (h', e) \<Longrightarrow> list_all (foreign host) queue \<Longrightarrow>
     comm_sessions h' (KStr host) = comm_sessions h (KStr host) \<and> next_session h \<le> next_session h'"
proof (induction queue arbitrary: h)
  case (Cons n rest)
  from Cons.prems(1) obtain h1 e1 where step: "handle n h = Some (h1, e1)"
    by (auto split: option.splits)
  note frame = handle_foreign [OF _ step, of host]
  show ?case
  proof (cases e1)
    case None
    then have "get_from_rcv_queue rest h1 = Some (h', e)" using Cons.prems(1) step by simp
    from Cons.IH [OF this] frame Cons.prems(2) show ?thesis by simp
  next
    case (Some x)
    then show ?thesis using Cons.prems step frame by simp
  qed
qed (simp add: done_with_def)

lemma queue_Cons:
  "get_from_rcv_queue (n # rest) h = Some (h', None) \<longleftrightarrow>
     (\<exists>h1. handle n h = Some (h1, None) \<and> get_from_rcv_queue rest h1 = Some (h', None))"
  by (auto split: option.splits)

lemma queue_append:
  "get_from_rcv_queue (xs @ ys) h = Some (h', None) \<longleftrightarrow>
     (\<exists>h1. get_from_rcv_queue xs h = Some (h1, None) \<and> get_from_rcv_queue ys h1 = Some (h', None))"
  by (induction xs arbitrary: h) (auto simp: done_with_def split: option.splits)

lemma connect_eq:
  "handle (TCPClientNotification False addr) h =
     Some (done_with (open_session addr (map_option ev_session_context (comm_sessions h (KStr (fst addr))))
       (h\<lparr>pause_server := map_option (\<lambda>_. True) (pause_server h)\<rparr>)))"
  by (simp add: handle_def tcp_client_def Let_def split: option.split)

text \<open>
  Pausing keeps a vehicle's data, terminating drops it. A vehicle connects, its session ends, and
  it connects again from the same host, with anything from other hosts and any datagrams in
  between. If the session was paused, the new session continues with the data context of the old one;
  if it was terminated, the new session has a context of its own, made for it.
\<close>

lemma pause_keeps_the_context:
  assumes "get_from_rcv_queue (TCPClientNotification False addr # xs @ StopNotification addr a # ys @
      [TCPClientNotification False addr']) h = Some (h', None)"
    and "list_all (foreign (fst addr)) xs" and "list_all (foreign (fst addr)) ys" and "fst addr' = fst addr"
  shows "\<exists>s. comm_sessions h' (KStr (fst addr)) = Some s \<and> next_session h < session_no s \<and>
    current_peer_ip h' = Some addr' \<and>
    ev_session_context s =
      (if a = PAUSE then
         (case comm_sessions h (KStr (fst addr)) of
            Some old \<Rightarrow> ev_session_context old | None \<Rightarrow> next_session h)
       else session_no s)"
proof -
  let ?c = "map_option ev_session_context (comm_sessions h (KStr (fst addr)))"
  let ?h1 = "open_session addr ?c (h\<lparr>pause_server := map_option (\<lambda>_. True) (pause_server h)\<rparr>)"
  from assms(1) obtain h2 h3 h4 where
    xs: "get_from_rcv_queue xs ?h1 = Some (h2, None)" and
    stop: "handle (StopNotification addr a) h2 = Some (h3, None)" and
    ys: "get_from_rcv_queue ys h3 = Some (h4, None)" and
    last: "handle (TCPClientNotification False addr') h4 = Some (h', None)"
    by (auto simp: connect_eq queue_Cons queue_append done_with_def simp del: get_from_rcv_queue.simps(2))
  have h2: "comm_sessions h2 (KStr (fst addr)) = comm_sessions ?h1 (KStr (fst addr))" "next_session ?h1 \<le> next_session h2"
    using queue_foreign [OF xs assms(2)] by auto
  obtain h3' e where e: "end_current_session addr a h2 = (h3', e)" by fastforce
  have h3: "comm_sessions h3 (KStr (fst addr)) =
      (if a = TERMINATE then None else comm_sessions h2 (KStr (fst addr)))" "next_session h3 = next_session h2"
    using end_current_session_frame [OF e] stop e
    by (auto simp: handle_def done_with_def raises_def split: option.splits if_splits)
  have h4: "comm_sessions h4 (KStr (fst addr)) = comm_sessions h3 (KStr (fst addr))" "next_session h3 \<le> next_session h4"
    using queue_foreign [OF ys assms(3)] by auto
  show ?thesis
    using last h2 h3 h4 assms(4)
    by (cases a) (auto simp: connect_eq done_with_def open_session_def new_session_ref_def split: option.splits)
qed

end
