(* ===== verification/Din_States.thy ===== *)
theory Din_States
  imports Secc_State
begin

text \<open>
  The eleven states of \<open>iso15118/secc/states/din_spec_states.py\<close>, from session set-up to session stop,
  each with the whole of its \<open>process_message\<close>. A state that hands a message over to another one
  (\<open>PowerDelivery(self.comm_session).process_message(...)\<close>) enters that state first.
\<close>

section \<open>Handlers\<close>

text \<open>\<open>msg.body.x\<close> after the check has passed; the default branches are not reached.\<close>

definition the_body :: "v2g_message \<Rightarrow> din_body option" where
  "the_body m = (case m of DinMessage _ b \<Rightarrow> b | _ \<Rightarrow> None)"

definition the_header_id :: "v2g_message \<Rightarrow> string" where
  "the_header_id m = (case m of DinMessage h _ \<Rightarrow> header_session_id h | _ \<Rightarrow> [])"

definition SessionSetup_process :: "env \<Rightarrow> v2g_message \<Rightarrow> secc \<Rightarrow> secc outcome" where
  "SessionSetup_process env m s =
     check_msg_dinspec env [SessionSetupReqT] True m (\<lambda>s.
       case the_body m of
         Some (SessionSetupReq evcc) \<Rightarrow>
           let (sid, code) =
             (if the_header_id m = ''00'' then (random_session_id env, OK_NEW_SESSION_ESTABLISHED)
              else if the_header_id m = session_id s then (session_id s, OK_OLD_SESSION_JOINED)
              else (random_session_id env, OK_NEW_SESSION_ESTABLISHED));
               s = s\<lparr>evcc_id := Some evcc, ev_data := (ev_data s)\<lparr>ev_evcc_id := Some evcc\<rparr>,
                     session_id := sid\<rparr>
           in next_din env (Some ServiceDiscovery)
                (SessionSetupRes code (get_evse_id env) (Some (time_now env))) s
       | _ \<Rightarrow> done_with s) s"

definition build_service_discovery_res :: "env \<Rightarrow> secc \<Rightarrow> (secc \<times> din_body result)" where
  "build_service_discovery_res env s =
     (let s = s\<lparr>offered_auth_options := [EIM_V2]\<rparr>
      in (s, rbind (py_get (supported_energy_transfer_modes env) 0) (\<lambda>energy_mode.
               Inr (ServiceDiscoveryRes OK (offered_auth_options s)
                 \<lparr>service_id = 1, service_category = CHARGING,
                  free_service = free_charging_service env, energy_transfer_type = energy_mode\<rparr>))))"

definition ServiceDiscovery_process :: "env \<Rightarrow> v2g_message \<Rightarrow> secc \<Rightarrow> secc outcome" where
  "ServiceDiscovery_process env m s =
     check_msg_dinspec env [ServiceDiscoveryReqT] True m (\<lambda>s.
       case build_service_discovery_res env s of
         (s, Inl e) \<Rightarrow> raises e s
       | (s, Inr res) \<Rightarrow> next_din env (Some ServicePaymentSelection) res s) s"

definition ServicePaymentSelection_process :: "env \<Rightarrow> v2g_message \<Rightarrow> secc \<Rightarrow> secc outcome" where
  "ServicePaymentSelection_process env m s =
     check_msg_dinspec env [ServicePaymentSelectionReqT] True m (\<lambda>s.
       case the_body m of
         Some (ServicePaymentSelectionReq option services) \<Rightarrow>
           if option \<noteq> EIM_V2 then
             stop_state_machine env
               (''Offered payment option  '' @ auth_text env option @ '' not accepted.'') m
               (DinCode FAILED_PAYMENT_SELECTION_INVALID) s
           else
             let s = s\<lparr>selected_auth_option := Some EIM_V2\<rparr>
             in if length services = 0 then
                  stop_state_machine env ''No service was selected'' m
                    (DinCode FAILED_SERVICE_SELECTION_INVALID) s
                else next_din env (Some ContractAuthentication) (ServicePaymentSelectionRes OK) s
       | _ \<Rightarrow> done_with s) s"

definition ContractAuthentication_process :: "env \<Rightarrow> v2g_message \<Rightarrow> secc \<Rightarrow> secc outcome" where
  "ContractAuthentication_process env m s =
     check_msg_dinspec env [ContractAuthenticationReqT] True m (\<lambda>s.
       let (processing, nxt) =
         (if is_authorized env = ACCEPTED then (FINISHED, Some ChargeParameterDiscovery)
          else (ONGOING, None))
       in next_din env nxt (ContractAuthenticationRes OK (Some processing)) s) s"

definition ChargeParameterDiscovery_process :: "env \<Rightarrow> v2g_message \<Rightarrow> secc \<Rightarrow> secc outcome" where
  "ChargeParameterDiscovery_process env m s =
     check_msg_dinspec env [ChargeParameterDiscoveryReqT] True m (\<lambda>s.
       case the_body m of
         Some (ChargeParameterDiscoveryReq mode params) \<Rightarrow>
           if mode \<notin> set (supported_energy_transfer_modes env) then
             stop_state_machine env (mode_text env mode @ '' not offered as energy transfer mode'') m
               (DinCode FAILED_WRONG_ENERGY_TRANSFER_MODE) s
           else
             let s = s\<lparr>ev_data := (ev_data s)\<lparr>selected_energy_mode := Some mode\<rparr>\<rparr>;
                 s = s\<lparr>ev_data := update_dc_charge_parameters params (ev_data s)\<rparr>;
                 s = call SendRatedLimits s;
                 s = s\<lparr>current_type := Some DC\<rparr>;
                 (processing, nxt, schedules) =
                   (if sa_schedule_list env \<noteq> []
                    then (FINISHED, Some CableCheck, Some (sa_schedule_list env))
                    else (ONGOING, None, None))
             in next_din env nxt
                  (ChargeParameterDiscoveryRes OK processing schedules (Some (dc_charge_parameters env))) s
       | _ \<Rightarrow> done_with s) s"

definition CableCheck_process :: "env \<Rightarrow> v2g_message \<Rightarrow> secc \<Rightarrow> secc outcome" where
  "CableCheck_process env m s =
     check_msg_dinspec env [CableCheckReqT] True m (\<lambda>s.
       case the_body m of
         Some (CableCheckReq status) \<Rightarrow>
           if ev_error_code status \<noteq> NO_ERROR then
             stop_state_machine env (status_text env status @ '' has Error'' @ status_text env status) m
               (DinCode FAILED) s
           else
             let s = (if \<not> cable_check_started (current_state s)
                      then update_state (\<lambda>x. x\<lparr>cable_check_started := True\<rparr>) (call StartCableCheck s)
                      else s);
                 reply = (\<lambda>nxt processing s.
                   let s = s\<lparr>ev_data := (ev_data s)\<lparr>present_soc := Some (ev_ress_soc status)\<rparr>\<rparr>
                   in next_din env nxt (CableCheckRes OK (get_dc_evse_status env) processing) s)
             in if contactors_closed (current_state s) then
                  if cable_check_status env \<in> set [Some VALID, Some WARNING] then
                    reply (Some PreCharge) FINISHED s
                  else if cable_check_status env \<in> set [Some FAULT, Some INVALID] then
                    stop_state_machine env
                      (''Isolation Failure: '' @ isolation_text env (cable_check_status env)) m
                      (DinCode FAILED) s
                  else reply None ONGOING s
                else
                  (case is_contactor_closed env of
                     Some True \<Rightarrow>
                       reply None ONGOING (update_state (\<lambda>x. x\<lparr>contactors_closed := True\<rparr>) s)
                   | Some False \<Rightarrow>
                       stop_state_machine env ''Contactor didnt close for Cable Check'' m
                         (DinCode FAILED) s
                   | None \<Rightarrow> reply None ONGOING s)
       | _ \<Rightarrow> done_with s) s"

definition SessionStop_process :: "env \<Rightarrow> v2g_message \<Rightarrow> secc \<Rightarrow> secc outcome" where
  "SessionStop_process env m s =
     check_msg_dinspec env [SessionStopReqT] True m (\<lambda>s.
       let s = s\<lparr>stop_reason :=
                   Some \<lparr>successful = True, reason = ''Communication session stopped successfully'',
                         peer_ip_address = peername env, stop_action = TERMINATE\<rparr>\<rparr>
       in next_din env (Some Terminate) (SessionStopRes OK) s) s"

definition WeldingDetection_process :: "env \<Rightarrow> v2g_message \<Rightarrow> secc \<Rightarrow> secc outcome" where
  "WeldingDetection_process env m s =
     check_msg_dinspec env [WeldingDetectionReqT, SessionStopReqT] (expect_first (current_state s)) m (\<lambda>s.
       if the_body m = Some SessionStopReq then SessionStop_process env m (enter SessionStop s)
       else
         let s = update_state (\<lambda>x. x\<lparr>expect_first := False\<rparr>) s
         in next_din env None
              (WeldingDetectionRes OK (get_dc_evse_status env) (evse_present_voltage env)) s) s"

definition PowerDelivery_process :: "env \<Rightarrow> v2g_message \<Rightarrow> secc \<Rightarrow> secc outcome" where
  "PowerDelivery_process env m s =
     check_msg_dinspec env [PowerDeliveryReqT, SessionStopReqT, WeldingDetectionReqT]
       (expect_first (current_state s)) m (\<lambda>s.
       case the_body m of
         Some SessionStopReq \<Rightarrow> SessionStop_process env m (enter SessionStop s)
       | Some (WeldingDetectionReq _) \<Rightarrow> WeldingDetection_process env m (enter WeldingDetection s)
       | Some (PowerDeliveryReq ready_to_charge profile param) \<Rightarrow>
           (case param of
              None \<Rightarrow> raises AttributeError s
            | Some param \<Rightarrow>
                let s = s\<lparr>ev_data := (ev_data s)\<lparr>present_soc := Some (ev_ress_soc (pd_dc_ev_status param))\<rparr>\<rparr>;
                    reply = (\<lambda>nxt s.
                      andthen (next_din env nxt (PowerDeliveryRes OK (get_dc_evse_status env)) s)
                        (\<lambda>s. done_with (update_state (\<lambda>x. x\<lparr>expect_first := False\<rparr>) s)))
                in if ready_to_charge then
                     reply (Some CurrentDemand)
                       ((call (SetHlcCharging True) s)\<lparr>charge_progress_started := True\<rparr>)
                   else
                     let s = call StopCharger (call (SetHlcCharging False) s)
                     in if \<not> is_contactor_opened env
                        then stop_state_machine env ''Contactor didnt open'' m (DinCode FAILED) s
                        else reply None s)
       | _ \<Rightarrow> done_with s) s"

definition PreCharge_process :: "env \<Rightarrow> v2g_message \<Rightarrow> secc \<Rightarrow> secc outcome" where
  "PreCharge_process env m s =
     check_msg_dinspec env [PreChargeReqT, PowerDeliveryReqT] (expect_first (current_state s)) m (\<lambda>s.
       case the_body m of
         Some (PowerDeliveryReq _ _ _) \<Rightarrow> PowerDelivery_process env m (enter PowerDelivery s)
       | Some (PreChargeReq status voltage current) \<Rightarrow>
           if ev_error_code status \<noteq> NO_ERROR then
             stop_state_machine env (status_text env status @ '' has Error'' @ status_text env status) m
               (DinCode FAILED) s
           else
             let s = s\<lparr>ev_data := update_pre_charge_parameters status voltage current (ev_data s)\<rparr>
             in (case evse_present_current env of
                   Inl ty \<Rightarrow>
                     stop_state_machine env (''Error reading EVSE Present Current.Wrong type: '' @ ty) m
                       (DinCode FAILED) s
                 | Inr present_current \<Rightarrow>
                     if get_decimal_value present_current > 2 \<or> target_current (ev_data s) > 2 then
                       stop_state_machine env
                         ''Target current or present current too high in state Precharge'' m
                         (DinCode FAILED) s
                     else
                       let s = call (SendChargingCommand (target_voltage (ev_data s))
                                       (target_current (ev_data s)) True) s
                       in if charging_command_times_out env then
                            stop_state_machine env
                              ''Error sending targets to charging station in charging loop.'' m
                              (DinCode FAILED) s
                          else
                            andthen (next_din env None
                                (PreChargeRes OK (get_dc_evse_status env) (evse_present_voltage env)) s)
                              (\<lambda>s. done_with (update_state (\<lambda>x. x\<lparr>expect_first := False\<rparr>) s)))
       | _ \<Rightarrow> done_with s) s"

definition CurrentDemand_process :: "env \<Rightarrow> v2g_message \<Rightarrow> secc \<Rightarrow> secc outcome" where
  "CurrentDemand_process env m s =
     check_msg_dinspec env [CurrentDemandReqT, PowerDeliveryReqT] (expect_first (current_state s)) m (\<lambda>s.
       case the_body m of
         Some (PowerDeliveryReq _ _ _) \<Rightarrow> PowerDelivery_process env m (enter PowerDelivery s)
       | Some (CurrentDemandReq q) \<Rightarrow>
           let s = s\<lparr>ev_data := update_charge_loop_parameters q (ev_data s)\<rparr>;
               s = call (SendChargingCommand (target_voltage (ev_data s)) (target_current (ev_data s)) False) s
           in if charging_command_times_out env then
                stop_state_machine env ''Error sending targets to charging station in charging loop.'' m
                  (DinCode FAILED) s
              else
                (case evse_present_current env of
                   Inl _ \<Rightarrow> raises ValidationError s
                 | Inr present_current \<Rightarrow>
                     let res = \<lparr>cd_dc_evse_status = get_dc_evse_status env,
                                cd_evse_present_voltage = evse_present_voltage env,
                                cd_evse_present_current = present_current,
                                evse_current_limit_achieved = charging_complete q,
                                evse_voltage_limit_achieved = voltage_limit_achieved env,
                                evse_power_limit_achieved = power_limit_achieved env,
                                evse_max_voltage_limit = Some (max_voltage_limit env),
                                evse_max_current_limit = Some (max_current_limit env),
                                evse_max_power_limit = Some (max_power_limit env)\<rparr>;
                         s = call SendDisplayParams s
                     in andthen (next_din env None (CurrentDemandRes OK res) s)
                          (\<lambda>s. done_with (update_state (\<lambda>x. x\<lparr>expect_first := False\<rparr>) s)))
       | _ \<Rightarrow> done_with s) s"

text \<open>
  The method the current state's class provides. \<open>Terminate\<close> and \<open>Pause\<close> do nothing; the negotiation
  state and those of ISO 15118-2 and -20 are not DIN states.
\<close>

fun din_process :: "state_kind \<Rightarrow> env \<Rightarrow> v2g_message \<Rightarrow> secc \<Rightarrow> secc outcome" where
  "din_process SessionSetup = SessionSetup_process"
| "din_process ServiceDiscovery = ServiceDiscovery_process"
| "din_process ServicePaymentSelection = ServicePaymentSelection_process"
| "din_process ContractAuthentication = ContractAuthentication_process"
| "din_process ChargeParameterDiscovery = ChargeParameterDiscovery_process"
| "din_process CableCheck = CableCheck_process"
| "din_process PreCharge = PreCharge_process"
| "din_process PowerDelivery = PowerDelivery_process"
| "din_process CurrentDemand = CurrentDemand_process"
| "din_process WeldingDetection = WeldingDetection_process"
| "din_process SessionStop = SessionStop_process"
| "din_process _ = (\<lambda>env m s. done_with s)"

section \<open>What the shared operations do\<close>

text \<open>
  The codec encodes whatever it is given, the random identifiers are eight bytes in hexadecimal, and
  the charger offers some energy transfer mode and reads its current as the right class.
\<close>

definition env_ok :: "env \<Rightarrow> bool" where
  "env_ok env \<longleftrightarrow> (\<forall>m n. \<not> isl (to_exi env m n)) \<and> hex_id (random_session_id env) \<and>
     supported_energy_transfer_modes env \<noteq> [] \<and> \<not> isl (evse_present_current env)"

definition session_ok :: "secc \<Rightarrow> bool" where
  "session_ok s \<longleftrightarrow> session_protocol s = DIN_SPEC_70121 \<and> hex_id (session_id s)"

text \<open>The response that is ready to be sent, and where the machine goes after it.\<close>

definition responds :: "din_body \<Rightarrow> state_kind option \<Rightarrow> secc \<Rightarrow> bool" where
  "responds b nxt s \<longleftrightarrow> next_state (current_state s) = nxt \<and>
     (\<exists>h exi. header_session_id h = session_id s \<and>
        state_message (current_state s) = Some (DinMessage h (Some b)) \<and>
        next_v2gtp_msg (current_state s) = Some (message_of DIN_SPEC_70121 EXI_ENCODED exi))"

lemma secc_update_state [simp]:
  "calls (update_state f s) = calls s" "ev_data (update_state f s) = ev_data s"
  "charge_progress_started (update_state f s) = charge_progress_started s"
  by (simp_all add: update_state_def)

lemma secc_call [simp]:
  "session_protocol (call c s) = session_protocol s" "session_id (call c s) = session_id s"
  "stop_reason (call c s) = stop_reason s" "calls (call c s) = calls s @ [c]"
  "ev_data (call c s) = ev_data s" "current_state (call c s) = current_state s"
  "charge_progress_started (call c s) = charge_progress_started s"
  "session_ok (call c s) = session_ok s"
  by (simp_all add: call_def session_ok_def)

lemma secc_enter [simp]:
  "calls (enter k s) = calls s" "ev_data (enter k s) = ev_data s"
  "charge_progress_started (enter k s) = charge_progress_started s"
  by (simp_all add: enter_def)

lemma session_ok_state [simp]:
  "session_ok (update_state f s) = session_ok s" "session_ok (enter k s) = session_ok s"
  by (simp_all add: session_ok_def)

lemma session_ok_updates [simp]:
  "session_ok (s\<lparr>ev_data := d\<rparr>) = session_ok s" "session_ok (s\<lparr>stop_reason := r\<rparr>) = session_ok s"
  "session_ok (s\<lparr>evcc_id := e\<rparr>) = session_ok s" "session_ok (s\<lparr>charge_progress_started := b\<rparr>) = session_ok s"
  "session_ok (s\<lparr>current_type := c\<rparr>) = session_ok s" "session_ok (s\<lparr>selected_auth_option := a\<rparr>) = session_ok s"
  "session_ok (s\<lparr>offered_auth_options := l\<rparr>) = session_ok s"
  by (simp_all add: session_ok_def)

lemma create_next_message_din:
  assumes "env_ok env" "session_ok s"
  shows "create_next_message env nxt (NextDin b) t DIN_MSG_DEF EXI_ENCODED s =
    done_with (prepared env nxt t b s)"
  using assms by (intro create_next_message_prepared)
    (auto simp: env_ok_def session_ok_def hex_id_def intro!: int_base_16_ok_hex)

lemma next_din_ok [simp]:
  "env_ok env \<Longrightarrow> session_ok s \<Longrightarrow>
     next_din env nxt b s = done_with (prepared env nxt V2G_SECC_SEQUENCE_TIMEOUT b s)"
  by (simp add: next_din_def create_next_message_din)

lemma secc_prepared [simp]:
  "calls (prepared env nxt t b s) = calls s" "ev_data (prepared env nxt t b s) = ev_data s"
  "charge_progress_started (prepared env nxt t b s) = charge_progress_started s"
  by (simp_all add: prepared_def)

lemma session_ok_prepared [simp]: "session_ok (prepared env nxt t b s) = session_ok s"
  by (simp add: session_ok_def)

lemma responds_prepared [simp]: "responds b' nxt' (prepared env nxt t b s) \<longleftrightarrow> b' = b \<and> nxt' = nxt"
  by (auto simp: responds_def prepared_def din_message_def)

lemma responds_expect [simp]:
  "responds b nxt (update_state (\<lambda>x. x\<lparr>expect_first := e\<rparr>) s) = responds b nxt s"
  by (simp add: responds_def)

definition error_response :: "din_body \<Rightarrow> response_code \<Rightarrow> din_body" where
  "error_response b rc = the (failed_response (body_type b) rc)"

definition stopped :: "env \<Rightarrow> string \<Rightarrow> response_code \<Rightarrow> din_body \<Rightarrow> secc \<Rightarrow> secc" where
  "stopped env r rc b s = prepared env (Some Terminate) 0 (error_response b rc)
     (s\<lparr>stop_reason := Some \<lparr>successful = False, reason = r, peer_ip_address = peername env,
                            stop_action = TERMINATE\<rparr>\<rparr>)"

definition is_request :: "din_body \<Rightarrow> bool" where
  "is_request b \<longleftrightarrow> body_type b \<noteq> ResponseT"

lemma body_type_not_sap [simp]: "body_type b \<noteq> SupportedAppProtocolReqT" "body_type b \<noteq> V2T t"
  by (cases b; simp)+

lemma error_response_some:
  "is_request b \<Longrightarrow> failed_response (body_type b) rc = Some (error_response b rc)"
  using failed_response_some [of "body_type b" rc] by (auto simp: is_request_def error_response_def)

lemma error_response_simps [simp]:
  "is_request b \<Longrightarrow> response_code_of (error_response b rc) = Some rc"
  "is_request b \<Longrightarrow> answers (error_response b rc) = body_type b"
  using error_response_some [of b rc] failed_response_code failed_response_answers by blast+

lemma stop_state_machine_ok [simp]:
  "env_ok env \<Longrightarrow> session_ok s \<Longrightarrow> is_request b \<Longrightarrow>
     stop_state_machine env r (DinMessage h (Some b)) (DinCode rc) s = done_with (stopped env r rc b s)"
  by (simp add: stop_state_machine_def error_response_some create_next_message_din stopped_def Let_def)

lemma stopped_simps [simp]:
  "session_ok (stopped env r rc b s) = session_ok s" "calls (stopped env r rc b s) = calls s"
  "ev_data (stopped env r rc b s) = ev_data s" "session_id (stopped env r rc b s) = session_id s"
  "charge_progress_started (stopped env r rc b s) = charge_progress_started s"
  "next_state (current_state (stopped env r rc b s)) = Some Terminate"
  "kind (current_state (stopped env r rc b s)) = kind (current_state s)"
  "responds b' nxt (stopped env r rc b s) \<longleftrightarrow> b' = error_response b rc \<and> nxt = Some Terminate"
  "stop_reason (stopped env r rc b s) = Some \<lparr>successful = False, reason = r,
     peer_ip_address = peername env, stop_action = TERMINATE\<rparr>"
  by (simp_all add: stopped_def)

text \<open>What a check amounts to for a request in a session with an identifier.\<close>

definition accepted :: "msg_type list \<Rightarrow> bool \<Rightarrow> din_body \<Rightarrow> bool" where
  "accepted expected first b \<longleftrightarrow>
     body_type b \<in> set (if first then take 1 expected else expected)"

lemma match_types_later:
  "0 < idx \<Longrightarrow> match_types first idx (Some t) es = Some (t \<in> set es)"
  by (induction es arbitrary: idx) auto

lemma match_types_accepted:
  "match_types first 0 (Some (body_type b)) es = Some True \<longleftrightarrow> accepted es first b"
  by (cases es) (auto simp: accepted_def match_types_later)

definition same_session :: "din_header \<Rightarrow> din_body \<Rightarrow> secc \<Rightarrow> bool" where
  "same_session h b s \<longleftrightarrow> body_type b = SessionSetupReqT \<or> header_session_id h = session_id s"

definition rejected :: "env \<Rightarrow> din_header \<Rightarrow> msg_type list \<Rightarrow> bool \<Rightarrow> din_body \<Rightarrow> secc \<Rightarrow> secc" where
  "rejected env h expected first b s =
     (if \<not> accepted expected first b
      then stopped env (message_text (DinMessage h (Some b)) @ CHR 0x27 # '' not accepted in state '' @
             state_text (kind (current_state s))) FAILED_SEQUENCE_ERROR b s
      else stopped env (session_text (DinMessage h (Some b)) s) FAILED_UNKNOWN_SESSION b s)"

lemma check_msg_dinspec_ok:
  assumes "env_ok env" "session_ok s" "is_request b"
  shows "check_msg_dinspec env expected first (DinMessage h (Some b)) k s =
    (if accepted expected first b \<and> same_session h b s then k s
     else done_with (rejected env h expected first b s))"
  using assms
  by (auto simp: check_msg_dinspec_def check_msg_def match_types_accepted same_session_def rejected_def)

section \<open>The contract of a state\<close>

text \<open>The message sequence of DIN SPEC 70121: where a positive answer to a request may lead.\<close>

definition din_edges :: "(state_kind \<times> msg_type \<times> state_kind) list" where
  "din_edges =
     [(SessionSetup, SessionSetupReqT, ServiceDiscovery),
      (ServiceDiscovery, ServiceDiscoveryReqT, ServicePaymentSelection),
      (ServicePaymentSelection, ServicePaymentSelectionReqT, ContractAuthentication),
      (ContractAuthentication, ContractAuthenticationReqT, ContractAuthentication),
      (ContractAuthentication, ContractAuthenticationReqT, ChargeParameterDiscovery),
      (ChargeParameterDiscovery, ChargeParameterDiscoveryReqT, ChargeParameterDiscovery),
      (ChargeParameterDiscovery, ChargeParameterDiscoveryReqT, CableCheck),
      (CableCheck, CableCheckReqT, CableCheck),
      (CableCheck, CableCheckReqT, PreCharge),
      (PreCharge, PreChargeReqT, PreCharge),
      (PreCharge, PowerDeliveryReqT, CurrentDemand),
      (PreCharge, PowerDeliveryReqT, PowerDelivery),
      (CurrentDemand, CurrentDemandReqT, CurrentDemand),
      (CurrentDemand, PowerDeliveryReqT, CurrentDemand),
      (CurrentDemand, PowerDeliveryReqT, PowerDelivery),
      (PowerDelivery, PowerDeliveryReqT, CurrentDemand),
      (PowerDelivery, PowerDeliveryReqT, PowerDelivery),
      (PowerDelivery, WeldingDetectionReqT, WeldingDetection),
      (PowerDelivery, SessionStopReqT, Terminate),
      (WeldingDetection, WeldingDetectionReqT, WeldingDetection),
      (WeldingDetection, SessionStopReqT, Terminate),
      (SessionStop, SessionStopReqT, Terminate)]"

definition din_edge :: "state_kind \<Rightarrow> msg_type \<Rightarrow> state_kind \<Rightarrow> bool" where
  "din_edge k t k' \<longleftrightarrow> (k, t, k') \<in> set din_edges"

definition arrives :: "secc \<Rightarrow> state_kind" where
  "arrives s = (case next_state (current_state s) of Some k \<Rightarrow> k | None \<Rightarrow> kind (current_state s))"

definition positive :: "din_body \<Rightarrow> bool" where
  "positive r \<longleftrightarrow> response_code_of r \<in>
     set [Some OK, Some OK_NEW_SESSION_ESTABLISHED, Some OK_OLD_SESSION_JOINED]"

text \<open>The two ways a request is answered: with the machine moving on, or with the session ended.\<close>

definition proceeds :: "state_kind \<Rightarrow> din_body \<Rightarrow> secc \<Rightarrow> bool" where
  "proceeds k b s' \<longleftrightarrow>
     (\<exists>r. responds r (next_state (current_state s')) s' \<and> answers r = body_type b \<and> positive r) \<and>
     din_edge k (body_type b) (arrives s')"

definition refuses :: "din_body \<Rightarrow> secc \<Rightarrow> bool" where
  "refuses b s' \<longleftrightarrow>
     (\<exists>r. responds r (Some Terminate) s' \<and> answers r = body_type b \<and> \<not> positive r) \<and>
     (\<exists>n. stop_reason s' = Some n \<and> \<not> successful n)"

text \<open>
  A request the handlers can read: the power delivery parameter, optional in the message, is
  dereferenced without a test.
\<close>

definition readable :: "din_body \<Rightarrow> bool" where
  "readable b \<longleftrightarrow> is_request b \<and> (\<forall>r p. b \<noteq> PowerDeliveryReq r p None)"

lemma readable_request: "readable b \<Longrightarrow> is_request b"
  by (simp add: readable_def)

text \<open>What a handler owes for a request: no exception, a session in order, and an answer.\<close>

definition answered :: "state_kind \<Rightarrow> din_body \<Rightarrow> secc outcome \<Rightarrow> bool" where
  "answered k b r \<longleftrightarrow> snd r = None \<and> session_ok (fst r) \<and> (proceeds k b (fst r) \<or> refuses b (fst r))"

lemma answered_stopped:
  assumes "is_request b" "rc \<notin> {OK, OK_NEW_SESSION_ESTABLISHED, OK_OLD_SESSION_JOINED}" "session_ok s"
  shows "answered k b (done_with (stopped env r rc b s))"
  using assms unfolding answered_def refuses_def
  by (auto simp: positive_def intro!: exI [of _ "error_response b rc"])

lemma answered_rejected:
  "is_request b \<Longrightarrow> session_ok s \<Longrightarrow> answered k b (done_with (rejected env h es first b s))"
  by (simp add: rejected_def answered_stopped)

lemma rejected_calls [simp]: "calls (rejected env h es first b s) = calls s"
  by (simp add: rejected_def)

lemma answered_prepared:
  assumes "session_ok s" "answers r = body_type b" "positive r"
    and "din_edge k (body_type b) (case nxt of Some k' \<Rightarrow> k' | None \<Rightarrow> kind (current_state s))"
  shows "answered k b (done_with (prepared env nxt t r s))"
  using assms unfolding answered_def proceeds_def arrives_def by (auto split: option.splits)

lemma answered_prepared_expect:
  assumes "session_ok s" "answers r = body_type b" "positive r"
    and "din_edge k (body_type b) (case nxt of Some k' \<Rightarrow> k' | None \<Rightarrow> kind (current_state s))"
  shows "answered k b (done_with (update_state (\<lambda>x. x\<lparr>expect_first := e\<rparr>) (prepared env nxt t r s)))"
  using assms unfolding answered_def proceeds_def arrives_def by (auto split: option.splits)

lemmas answered_intros = answered_stopped answered_rejected answered_prepared answered_prepared_expect

locale din_state =
  fixes k :: state_kind
    and process :: "env \<Rightarrow> v2g_message \<Rightarrow> secc \<Rightarrow> secc outcome"
    and expected :: "msg_type list"
    and first :: "secc \<Rightarrow> bool"
  assumes rejects: "env_ok env \<Longrightarrow> session_ok s \<Longrightarrow> is_request b \<Longrightarrow>
      \<not> (accepted expected (first s) b \<and> same_session h b s) \<Longrightarrow>
      process env (DinMessage h (Some b)) s = done_with (rejected env h expected (first s) b s)"
    and handles: "env_ok env \<Longrightarrow> session_ok s \<Longrightarrow> kind (current_state s) = k \<Longrightarrow> readable b \<Longrightarrow>
      accepted expected (first s) b \<Longrightarrow> same_session h b s \<Longrightarrow>
      answered k b (process env (DinMessage h (Some b)) s)"
begin

lemma every_request_answered:
  assumes "env_ok env" "session_ok s" "kind (current_state s) = k" "readable b"
  shows "answered k b (process env (DinMessage h (Some b)) s)"
proof (cases "accepted expected (first s) b \<and> same_session h b s")
  case True
  then show ?thesis using handles assms by blast
next
  case False
  then show ?thesis
    using rejects [OF assms(1,2) readable_request [OF assms(4)] False] assms(2,4)
    by (simp add: answered_rejected readable_request)
qed

lemma out_of_order:
  assumes "env_ok env" "session_ok s" "is_request b" "\<not> accepted expected (first s) b"
  shows "let r = process env (DinMessage h (Some b)) s
    in snd r = None \<and> calls (fst r) = calls s \<and>
       responds (error_response b FAILED_SEQUENCE_ERROR) (Some Terminate) (fst r)"
  using rejects [OF assms(1-3), of h] assms(4) by (simp add: rejected_def)

lemma foreign_session:
  assumes "env_ok env" "session_ok s" "is_request b" "accepted expected (first s) b"
    "\<not> same_session h b s"
  shows "let r = process env (DinMessage h (Some b)) s
    in snd r = None \<and> calls (fst r) = calls s \<and>
       responds (error_response b FAILED_UNKNOWN_SESSION) (Some Terminate) (fst r)"
  using rejects [OF assms(1-3), of h] assms(4,5) by (simp add: rejected_def)

end

section \<open>Every state keeps the contract\<close>

lemma body_type_cases:
  "body_type b = SessionSetupReqT \<longleftrightarrow> (\<exists>e. b = SessionSetupReq e)"
  "body_type b = ServiceDiscoveryReqT \<longleftrightarrow> (\<exists>x y. b = ServiceDiscoveryReq x y)"
  "body_type b = ServicePaymentSelectionReqT \<longleftrightarrow> (\<exists>x y. b = ServicePaymentSelectionReq x y)"
  "body_type b = ContractAuthenticationReqT \<longleftrightarrow> (\<exists>x y. b = ContractAuthenticationReq x y)"
  "body_type b = ChargeParameterDiscoveryReqT \<longleftrightarrow> (\<exists>x y. b = ChargeParameterDiscoveryReq x y)"
  "body_type b = PowerDeliveryReqT \<longleftrightarrow> (\<exists>x y z. b = PowerDeliveryReq x y z)"
  "body_type b = CableCheckReqT \<longleftrightarrow> (\<exists>x. b = CableCheckReq x)"
  "body_type b = PreChargeReqT \<longleftrightarrow> (\<exists>x y z. b = PreChargeReq x y z)"
  "body_type b = CurrentDemandReqT \<longleftrightarrow> (\<exists>x. b = CurrentDemandReq x)"
  "body_type b = WeldingDetectionReqT \<longleftrightarrow> (\<exists>x. b = WeldingDetectionReq x)"
  "body_type b = SessionStopReqT \<longleftrightarrow> b = SessionStopReq"
  by (cases b; simp)+

lemma accepted_simps [simp]:
  "accepted (t # ts) True b \<longleftrightarrow> body_type b = t"
  "accepted (t # ts) False b \<longleftrightarrow> body_type b = t \<or> body_type b \<in> set ts"
  by (simp_all add: accepted_def)

lemma is_request_simps [simp]:
  "is_request (SessionSetupReq e)" "is_request (ServiceDiscoveryReq a c)"
  "is_request (ServicePaymentSelectionReq o' l)" "is_request (ContractAuthenticationReq g i)"
  "is_request (ChargeParameterDiscoveryReq m p)" "is_request (PowerDeliveryReq x y z)"
  "is_request (CableCheckReq st)" "is_request (PreChargeReq st v v2)" "is_request (CurrentDemandReq q)"
  "is_request (WeldingDetectionReq st)" "is_request SessionStopReq"
  by (simp_all add: is_request_def)

lemma session_ok_new_id [simp]:
  "session_ok (s\<lparr>session_id := i\<rparr>) \<longleftrightarrow> session_protocol s = DIN_SPEC_70121 \<and> hex_id i"
  by (simp add: session_ok_def)

lemma session_ok_parts:
  "session_ok s \<Longrightarrow> session_protocol s = DIN_SPEC_70121 \<and> hex_id (session_id s)"
  by (simp add: session_ok_def)

lemma hex_random: "env_ok env \<Longrightarrow> hex_id (random_session_id env)"
  by (simp add: env_ok_def)

lemma readable_simps [simp]: "\<not> readable (PowerDeliveryReq x y None)"
  by (simp add: readable_def)

lemmas handler_simps = check_msg_dinspec_ok the_body_def the_header_id_def Let_def positive_def
  din_edge_def din_edges_def

interpretation session_setup: din_state SessionSetup SessionSetup_process "[SessionSetupReqT]" "\<lambda>_. True"
proof
  fix env s b h
  assume *: "env_ok env" "session_ok s" "same_session h b s" "accepted [SessionSetupReqT] True b"
  then show "answered SessionSetup b (SessionSetup_process env (DinMessage h (Some b)) s)"
    using session_ok_parts [OF *(2)]
    by (auto simp: SessionSetup_process_def handler_simps hex_random body_type_cases
        intro!: answered_intros)
qed (auto simp: SessionSetup_process_def check_msg_dinspec_ok)

interpretation service_discovery:
  din_state ServiceDiscovery ServiceDiscovery_process "[ServiceDiscoveryReqT]" "\<lambda>_. True"
proof
  fix env s b h
  assume *: "env_ok env" "session_ok s" "same_session h b s" "accepted [ServiceDiscoveryReqT] True b"
  obtain m ms where "supported_energy_transfer_modes env = m # ms"
    using *(1) by (cases "supported_energy_transfer_modes env") (auto simp: env_ok_def)
  with * show "answered ServiceDiscovery b (ServiceDiscovery_process env (DinMessage h (Some b)) s)"
    by (auto simp: ServiceDiscovery_process_def handler_simps build_service_discovery_res_def
        body_type_cases intro!: answered_intros)
qed (auto simp: ServiceDiscovery_process_def check_msg_dinspec_ok)

interpretation service_payment_selection: din_state ServicePaymentSelection
  ServicePaymentSelection_process "[ServicePaymentSelectionReqT]" "\<lambda>_. True"
  by unfold_locales
    (auto simp: ServicePaymentSelection_process_def handler_simps body_type_cases
      intro!: answered_intros)

interpretation contract_authentication: din_state ContractAuthentication
  ContractAuthentication_process "[ContractAuthenticationReqT]" "\<lambda>_. True"
  by unfold_locales
    (auto simp: ContractAuthentication_process_def handler_simps body_type_cases
      intro!: answered_intros)

interpretation charge_parameter_discovery: din_state ChargeParameterDiscovery
  ChargeParameterDiscovery_process "[ChargeParameterDiscoveryReqT]" "\<lambda>_. True"
  by unfold_locales
    (auto simp: ChargeParameterDiscovery_process_def handler_simps body_type_cases
      intro!: answered_intros)

interpretation session_stop: din_state SessionStop SessionStop_process "[SessionStopReqT]" "\<lambda>_. True"
  by unfold_locales
    (auto simp: SessionStop_process_def handler_simps body_type_cases intro!: answered_intros)

interpretation cable_check: din_state CableCheck CableCheck_process "[CableCheckReqT]" "\<lambda>_. True"
proof
  fix env s b h
  assume *: "env_ok env" "session_ok s" "same_session h b s" "accepted [CableCheckReqT] True b"
    "kind (current_state s) = CableCheck"
  then obtain st where b: "b = CableCheckReq st" by (auto simp: body_type_cases)
  show "answered CableCheck b (CableCheck_process env (DinMessage h (Some b)) s)"
    using * unfolding b CableCheck_process_def
    by (auto simp: handler_simps split: option.splits bool.splits intro!: answered_intros)
qed (auto simp: CableCheck_process_def check_msg_dinspec_ok)

lemma same_session_enter [simp]:
  "same_session h b (enter k s) = same_session h b s"
  by (simp add: same_session_def)

lemma new_state_simps [simp]:
  "expect_first (new_state k)" "kind (new_state k) = k" "\<not> contactors_closed (new_state k)"
  by (simp_all add: new_state_def)

text \<open>Handing a message over enters the other state first; the edges of the graph take that into account.\<close>

lemma delegated_stop:
  assumes "env_ok env" "session_ok s" "same_session h SessionStopReq s"
    and "din_edge k SessionStopReqT Terminate"
  shows "answered k SessionStopReq (SessionStop_process env (DinMessage h (Some SessionStopReq)) (enter SessionStop s))"
  using assms unfolding SessionStop_process_def
  by (auto simp: handler_simps intro!: answered_intros)

interpretation welding_detection: din_state WeldingDetection WeldingDetection_process
  "[WeldingDetectionReqT, SessionStopReqT]" "\<lambda>s. expect_first (current_state s)"
proof
  fix env s b h
  assume *: "env_ok env" "session_ok s" "same_session h b s" "kind (current_state s) = WeldingDetection"
    "accepted [WeldingDetectionReqT, SessionStopReqT] (expect_first (current_state s)) b"
  then consider st where "b = WeldingDetectionReq st" | "b = SessionStopReq"
    by (cases "expect_first (current_state s)") (auto simp: body_type_cases)
  then show "answered WeldingDetection b (WeldingDetection_process env (DinMessage h (Some b)) s)"
  proof cases
    case 1
    then show ?thesis
      using * by (auto simp: WeldingDetection_process_def handler_simps intro!: answered_intros)
  next
    case 2
    then have "WeldingDetection_process env (DinMessage h (Some b)) s =
        SessionStop_process env (DinMessage h (Some b)) (enter SessionStop s)"
      using * by (simp add: WeldingDetection_process_def check_msg_dinspec_ok the_body_def)
    then show ?thesis
      using * 2 delegated_stop by (simp add: din_edge_def din_edges_def)
  qed
qed (auto simp: WeldingDetection_process_def check_msg_dinspec_ok)

lemma delegated_welding:
  assumes "env_ok env" "session_ok s" "same_session h (WeldingDetectionReq st) s"
    and "din_edge k WeldingDetectionReqT WeldingDetection"
  shows "answered k (WeldingDetectionReq st)
    (WeldingDetection_process env (DinMessage h (Some (WeldingDetectionReq st))) (enter WeldingDetection s))"
proof -
  have "accepted [WeldingDetectionReqT, SessionStopReqT] True (WeldingDetectionReq st)" by simp
  with assms show ?thesis unfolding WeldingDetection_process_def
    by (auto simp: check_msg_dinspec_ok the_body_def Let_def positive_def intro!: answered_intros)
qed

text \<open>The body of the power delivery handler, for a session that is in or enters that state.\<close>

lemma power_delivery_answered:
  assumes "env_ok env" "session_ok s" "readable (PowerDeliveryReq x y z)"
    and "same_session h (PowerDeliveryReq x y z) s" "kind (current_state s) = PowerDelivery"
    and "din_edge k PowerDeliveryReqT CurrentDemand" "din_edge k PowerDeliveryReqT PowerDelivery"
  shows "answered k (PowerDeliveryReq x y z)
    (PowerDelivery_process env (DinMessage h (Some (PowerDeliveryReq x y z))) s)"
proof -
  obtain p where z: "z = Some p" using assms(3) by (cases z) auto
  have acc: "accepted [PowerDeliveryReqT, SessionStopReqT, WeldingDetectionReqT]
      (expect_first (current_state s)) (PowerDeliveryReq x y z)"
    by (cases "expect_first (current_state s)") simp_all
  show ?thesis
    using assms acc unfolding PowerDelivery_process_def z
    by (auto simp: check_msg_dinspec_ok the_body_def Let_def positive_def intro!: answered_intros)
qed

interpretation power_delivery: din_state PowerDelivery PowerDelivery_process
  "[PowerDeliveryReqT, SessionStopReqT, WeldingDetectionReqT]" "\<lambda>s. expect_first (current_state s)"
proof
  fix env s b h
  let ?es = "[PowerDeliveryReqT, SessionStopReqT, WeldingDetectionReqT]"
  assume *: "env_ok env" "session_ok s" "same_session h b s" "kind (current_state s) = PowerDelivery"
    "readable b" "accepted ?es (expect_first (current_state s)) b"
  then consider x y z where "b = PowerDeliveryReq x y z" | "b = SessionStopReq"
    | st where "b = WeldingDetectionReq st"
    by (cases "expect_first (current_state s)") (auto simp: body_type_cases)
  then show "answered PowerDelivery b (PowerDelivery_process env (DinMessage h (Some b)) s)"
  proof cases
    case 1
    then show ?thesis
      using * power_delivery_answered by (simp add: din_edge_def din_edges_def)
  next
    case 2
    then have "PowerDelivery_process env (DinMessage h (Some b)) s =
        SessionStop_process env (DinMessage h (Some b)) (enter SessionStop s)"
      using * by (simp add: PowerDelivery_process_def check_msg_dinspec_ok the_body_def)
    then show ?thesis
      using * 2 delegated_stop by (simp add: din_edge_def din_edges_def)
  next
    case 3
    then have "PowerDelivery_process env (DinMessage h (Some b)) s =
        WeldingDetection_process env (DinMessage h (Some b)) (enter WeldingDetection s)"
      using * by (simp add: PowerDelivery_process_def check_msg_dinspec_ok the_body_def)
    then show ?thesis
      using * 3 delegated_welding by (simp add: din_edge_def din_edges_def)
  qed
qed (auto simp: PowerDelivery_process_def check_msg_dinspec_ok)

lemma delegated_power_delivery:
  assumes "env_ok env" "session_ok s" "readable (PowerDeliveryReq x y z)"
    and "same_session h (PowerDeliveryReq x y z) s" "k \<in> {PreCharge, CurrentDemand}"
  shows "answered k (PowerDeliveryReq x y z)
    (PowerDelivery_process env (DinMessage h (Some (PowerDeliveryReq x y z))) (enter PowerDelivery s))"
  by (rule power_delivery_answered) (use assms in \<open>auto simp: din_edge_def din_edges_def\<close>)

interpretation pre_charge: din_state PreCharge PreCharge_process "[PreChargeReqT, PowerDeliveryReqT]"
  "\<lambda>s. expect_first (current_state s)"
proof
  fix env s b h
  assume *: "env_ok env" "session_ok s" "same_session h b s" "kind (current_state s) = PreCharge"
    "readable b" "accepted [PreChargeReqT, PowerDeliveryReqT] (expect_first (current_state s)) b"
  then consider x y z where "b = PowerDeliveryReq x y z" | st v c where "b = PreChargeReq st v c"
    by (cases "expect_first (current_state s)") (auto simp: body_type_cases)
  then show "answered PreCharge b (PreCharge_process env (DinMessage h (Some b)) s)"
  proof cases
    case 1
    then have "PreCharge_process env (DinMessage h (Some b)) s =
        PowerDelivery_process env (DinMessage h (Some b)) (enter PowerDelivery s)"
      using * by (simp add: PreCharge_process_def check_msg_dinspec_ok the_body_def)
    then show ?thesis
      using * 1 delegated_power_delivery by simp
  next
    case 2
    then show ?thesis
      using * unfolding PreCharge_process_def
      by (auto simp: handler_simps split: sum.splits intro!: answered_intros)
  qed
qed (auto simp: PreCharge_process_def check_msg_dinspec_ok)

interpretation current_demand: din_state CurrentDemand CurrentDemand_process
  "[CurrentDemandReqT, PowerDeliveryReqT]" "\<lambda>s. expect_first (current_state s)"
proof
  fix env s b h
  assume *: "env_ok env" "session_ok s" "same_session h b s" "kind (current_state s) = CurrentDemand"
    "readable b" "accepted [CurrentDemandReqT, PowerDeliveryReqT] (expect_first (current_state s)) b"
  then consider x y z where "b = PowerDeliveryReq x y z" | q where "b = CurrentDemandReq q"
    by (cases "expect_first (current_state s)") (auto simp: body_type_cases)
  then show "answered CurrentDemand b (CurrentDemand_process env (DinMessage h (Some b)) s)"
  proof cases
    case 1
    then have "CurrentDemand_process env (DinMessage h (Some b)) s =
        PowerDelivery_process env (DinMessage h (Some b)) (enter PowerDelivery s)"
      using * by (simp add: CurrentDemand_process_def check_msg_dinspec_ok the_body_def)
    then show ?thesis
      using * 1 delegated_power_delivery by simp
  next
    case 2
    obtain c where "evse_present_current env = Inr c"
      using *(1) by (cases "evse_present_current env") (auto simp: env_ok_def)
    then show ?thesis
      using * 2 unfolding CurrentDemand_process_def
      by (auto simp: handler_simps intro!: answered_intros)
  qed
qed (auto simp: CurrentDemand_process_def check_msg_dinspec_ok)

end
