(* ===== verification/Din_Properties.thy ===== *)
theory Din_Properties
  imports Din_States
begin

text \<open>
  What the DIN SPEC 70121 state machine of the charger guarantees, over all eleven states: that every
  request is answered along the message sequence of the standard, how requests out of order and from
  other sessions end, and which commands the charger can be given.
\<close>

section \<open>Effects of one step, whatever the environment answers\<close>

text \<open>How a handler's last action leaves the machine.\<close>

definition ends :: "state_kind option \<Rightarrow> state_kind \<Rightarrow> evse_call list \<Rightarrow> secc outcome \<Rightarrow> bool" where
  "ends nxt k cs r \<longleftrightarrow> next_state (current_state (fst r)) \<in> {nxt, Some Terminate} \<and>
     kind (current_state (fst r)) = k \<and> calls (fst r) = cs"

lemma wrap_message_simps [simp]:
  "next_state (current_state (wrap_message p t s)) = next_state (current_state s)"
  "kind (current_state (wrap_message p t s)) = kind (current_state s)"
  "calls (wrap_message p t s) = calls s"
  by (auto simp: wrap_message_def split: sum.splits)

lemma ends_create:
  "ends nxt (kind (current_state s)) (calls s) (create_next_message env nxt m t n p s)"
  by (auto simp: ends_def create_next_message_def Let_def split: sum.splits v2g_message.splits)

lemma ends_next_din: "ends nxt (kind (current_state s)) (calls s) (next_din env nxt b s)"
  by (simp add: next_din_def ends_create)

lemma ends_expect:
  "ends nxt k cs r \<Longrightarrow>
     ends nxt k cs (andthen r (\<lambda>s. done_with (update_state (\<lambda>x. x\<lparr>expect_first := e\<rparr>) s)))"
  by (cases r) (auto simp: ends_def andthen_def done_with_def split: option.splits)

lemma ends_mono: "ends (Some Terminate) k cs r \<Longrightarrow> ends nxt k cs r"
  by (simp add: ends_def)

lemma ends_stop:
  "ends (next_state (current_state s)) (kind (current_state s)) (calls s) (stop_state_machine env r m c s)"
proof -
  let ?s = "s\<lparr>stop_reason := Some \<lparr>successful = False, reason = r, peer_ip_address = peername env,
    stop_action = TERMINATE\<rparr>\<rparr>"
  have create: "ends nxt (kind (current_state s)) (calls s)
      (create_next_message env (Some Terminate) x 0 n p ?s)" for nxt x n p
    using ends_mono [OF ends_create [of "Some Terminate" ?s]] by simp
  have raise: "ends (next_state (current_state s)) (kind (current_state s)) (calls s) (raises e ?s)" for e
    by (simp add: ends_def)
  show ?thesis
    by (auto simp: stop_state_machine_def Let_def create raise split: v2g_message.splits any_code.splits
        option.splits if_splits)
qed

lemma check_msg_dinspec_cases:
  obtains r c where "check_msg_dinspec env es first m k s = stop_state_machine env r m c s"
  | "check_msg_dinspec env es first m k s = k s" "\<exists>h b. m = DinMessage h (Some b) \<and> body_type b \<in> set es"
proof -
  have matched: "match_types f n t l = Some True \<Longrightarrow> \<exists>x \<in> set l. t = Some x" for f n t l
    by (induction l arbitrary: n) (auto split: if_splits)
  show ?thesis
  proof (cases "in_family DINFamily m \<and> match_types first 0 (message_type m) es = Some True \<and>
      \<not> session_mismatch m s")
    case True
    then have "check_msg_dinspec env es first m k s = k s"
      by (simp add: check_msg_dinspec_def check_msg_def)
    moreover have "\<exists>h b. m = DinMessage h (Some b) \<and> body_type b \<in> set es"
      using True matched [of first 0 "message_type m" es] by (cases m) auto
    ultimately show ?thesis by (rule that(2))
  next
    case False
    then have "\<exists>r c. check_msg_dinspec env es first m k s = stop_state_machine env r m c s"
      unfolding check_msg_dinspec_def check_msg_def by (simp split: if_split) blast
    then show ?thesis using that(1) by blast
  qed
qed

text \<open>
  One step of the state machine keeps to the message sequence, and leaves the authorisation and the
  insulation test only when they have succeeded. The charging commands of the step, if any, come from
  the pre-charge or the charging loop.
\<close>

definition isolation_ok :: "env \<Rightarrow> bool" where
  "isolation_ok env \<longleftrightarrow> cable_check_status env \<in> {Some VALID, Some WARNING}"

definition step_ok :: "state_kind \<Rightarrow> env \<Rightarrow> state_kind \<Rightarrow> bool" where
  "step_ok k env k' \<longleftrightarrow> k' = k \<or> k' = Terminate \<or>
     (\<exists>t. din_edge k t k') \<and> (k' = ChargeParameterDiscovery \<longrightarrow> is_authorized env = ACCEPTED) \<and>
     (k' = PreCharge \<longrightarrow> isolation_ok env)"

fun is_charging_command :: "evse_call \<Rightarrow> bool" where
  "is_charging_command (SendChargingCommand _ _ _) = True"
| "is_charging_command _ = False"

definition summary :: "state_kind \<Rightarrow> env \<Rightarrow> secc \<Rightarrow> secc outcome \<Rightarrow> bool" where
  "summary k env s r \<longleftrightarrow> step_ok k env (arrives (fst r)) \<and>
     kind (current_state (fst r)) \<in> {k, PowerDelivery, WeldingDetection, SessionStop} \<and>
     (\<exists>cs. calls (fst r) = calls s @ cs \<and>
        (k \<notin> {PreCharge, CurrentDemand} \<longrightarrow> \<not> list_ex is_charging_command cs))"

lemma summary_ends:
  assumes "ends nxt k' (calls s @ cs) r"
    and "step_ok k env (case nxt of Some x \<Rightarrow> x | None \<Rightarrow> k')"
    and "k' \<in> {k, PowerDelivery, WeldingDetection, SessionStop}"
    and "k \<notin> {PreCharge, CurrentDemand} \<Longrightarrow> \<not> list_ex is_charging_command cs"
  shows "summary k env s r"
proof -
  have "arrives (fst r) \<in> {case nxt of Some x \<Rightarrow> x | None \<Rightarrow> k', Terminate}"
    using assms(1) by (cases nxt) (auto simp: ends_def arrives_def)
  then have "step_ok k env (arrives (fst r))" using assms(2) by (auto simp: step_ok_def)
  then show ?thesis using assms(1,3,4) by (simp add: summary_def ends_def)
qed

lemma step_ok_edge:
  "din_edge k t k' \<Longrightarrow> k' \<notin> {ChargeParameterDiscovery, PreCharge} \<Longrightarrow> step_ok k env k'"
  by (auto simp: step_ok_def)

lemma step_ok_refl [simp]: "step_ok k env k" "step_ok k env Terminate"
  by (simp_all add: step_ok_def)

text \<open>A handler is summarised by summarising what follows its check.\<close>

lemma summary_check:
  assumes "kind (current_state s) = k" "next_state (current_state s) = None"
    and "\<And>h b. m = DinMessage h (Some b) \<Longrightarrow> body_type b \<in> set es \<Longrightarrow> summary k env s (c s)"
  shows "summary k env s (check_msg_dinspec env es first m c s)"
proof (rule check_msg_dinspec_cases [of env es first m c s])
  fix r code
  assume "check_msg_dinspec env es first m c s = stop_state_machine env r m code s"
  then show ?thesis
    using summary_ends [of None k s "[]" "stop_state_machine env r m code s" k env]
      ends_stop [of s env r m code] assms(1,2) by simp
qed (use assms(3) in auto)

section \<open>The summary holds of every state\<close>

lemma summary_stop:
  assumes "kind (current_state s') = k" "next_state (current_state s') = None"
    and "calls s' = calls s @ cs" "k \<notin> {PreCharge, CurrentDemand} \<Longrightarrow> \<not> list_ex is_charging_command cs"
  shows "summary k env s (stop_state_machine env r m c s')"
  using ends_stop [of s' env r m c] assms
  by (auto intro!: summary_ends [of None k s cs] simp: step_ok_def)

lemma summary_stop_delegated:
  assumes "next_state (current_state s') = None" "step_ok k env (kind (current_state s'))"
    and "kind (current_state s') \<in> {k, PowerDelivery, WeldingDetection, SessionStop}"
    and "calls s' = calls s @ cs" "k \<notin> {PreCharge, CurrentDemand} \<Longrightarrow> \<not> list_ex is_charging_command cs"
  shows "summary k env s (stop_state_machine env r m c s')"
  using ends_stop [of s' env r m c] assms
  by (auto intro!: summary_ends [of None "kind (current_state s')" s cs])

lemma summary_next:
  assumes "step_ok k env (case nxt of Some x \<Rightarrow> x | None \<Rightarrow> kind (current_state s'))"
    and "kind (current_state s') \<in> {k, PowerDelivery, WeldingDetection, SessionStop}"
    and "calls s' = calls s @ cs" "k \<notin> {PreCharge, CurrentDemand} \<Longrightarrow> \<not> list_ex is_charging_command cs"
  shows "summary k env s (next_din env nxt b s')"
    "summary k env s (andthen (next_din env nxt b s')
       (\<lambda>s. done_with (update_state (\<lambda>x. x\<lparr>expect_first := e\<rparr>) s)))"
  using assms ends_next_din [of nxt s' env b] ends_expect [OF ends_next_din [of nxt s' env b]]
  by (auto intro!: summary_ends [of nxt "kind (current_state s')" s cs])

lemma summary_raise:
  assumes "next_state (current_state s') = None" "step_ok k env (kind (current_state s'))"
    and "kind (current_state s') \<in> {k, PowerDelivery, WeldingDetection, SessionStop}"
    and "calls s' = calls s @ cs" "k \<notin> {PreCharge, CurrentDemand} \<Longrightarrow> \<not> list_ex is_charging_command cs"
  shows "summary k env s (raises e s')" "summary k env s (done_with s')"
  using assms by (auto simp: summary_def arrives_def)

lemmas summary_intros = summary_next summary_stop_delegated summary_raise

lemma next_new_state [simp]: "next_state (new_state k) = None"
  by (simp add: new_state_def)

lemmas edge_defs = step_ok_def din_edge_def din_edges_def isolation_ok_def

lemma SessionSetup_summary:
  assumes "kind (current_state s) = SessionSetup" "next_state (current_state s) = None"
  shows "summary SessionSetup env s (SessionSetup_process env m s)"
  unfolding SessionSetup_process_def
  by (rule summary_check)
    (use assms in \<open>auto simp: Let_def the_body_def edge_defs body_type_cases intro!: summary_intros\<close>)

lemma ServiceDiscovery_summary:
  assumes "kind (current_state s) = ServiceDiscovery" "next_state (current_state s) = None"
  shows "summary ServiceDiscovery env s (ServiceDiscovery_process env m s)"
  unfolding ServiceDiscovery_process_def
  by (rule summary_check)
    (use assms in \<open>auto simp: Let_def build_service_discovery_res_def edge_defs
      split: sum.splits intro!: summary_intros\<close>)

lemma ServicePaymentSelection_summary:
  assumes "kind (current_state s) = ServicePaymentSelection" "next_state (current_state s) = None"
  shows "summary ServicePaymentSelection env s (ServicePaymentSelection_process env m s)"
  unfolding ServicePaymentSelection_process_def
  by (rule summary_check)
    (use assms in \<open>auto simp: Let_def the_body_def edge_defs body_type_cases intro!: summary_intros\<close>)

lemma ContractAuthentication_summary:
  assumes "kind (current_state s) = ContractAuthentication" "next_state (current_state s) = None"
  shows "summary ContractAuthentication env s (ContractAuthentication_process env m s)"
  unfolding ContractAuthentication_process_def
  by (rule summary_check)
    (use assms in \<open>auto simp: Let_def edge_defs intro!: summary_intros\<close>)

lemma ChargeParameterDiscovery_summary:
  assumes "kind (current_state s) = ChargeParameterDiscovery" "next_state (current_state s) = None"
  shows "summary ChargeParameterDiscovery env s (ChargeParameterDiscovery_process env m s)"
  unfolding ChargeParameterDiscovery_process_def
  by (rule summary_check)
    (use assms in \<open>auto simp: Let_def the_body_def edge_defs body_type_cases intro!: summary_intros\<close>)

lemma CableCheck_summary:
  assumes "kind (current_state s) = CableCheck" "next_state (current_state s) = None"
  shows "summary CableCheck env s (CableCheck_process env m s)"
  unfolding CableCheck_process_def
  by (rule summary_check)
    (use assms in \<open>auto simp: Let_def the_body_def edge_defs body_type_cases
      split: option.splits bool.splits intro!: summary_intros\<close>)

text \<open>
  The states another state hands messages to are summarised for the state that started the step.
\<close>

lemma SessionStop_summary:
  assumes "kind (current_state s) = SessionStop" "next_state (current_state s) = None"
  shows "summary SessionStop env s (SessionStop_process env m s)"
  unfolding SessionStop_process_def
  by (rule summary_check) (use assms in \<open>auto simp: Let_def intro!: summary_intros\<close>)

lemma delegated_stop_summary:
  assumes "\<not> session_mismatch m s" "m = DinMessage h (Some SessionStopReq)"
  shows "summary k env s (SessionStop_process env m (enter SessionStop s))"
proof -
  let ?s = "(enter SessionStop s)\<lparr>stop_reason :=
    Some \<lparr>successful = True, reason = ''Communication session stopped successfully'',
      peer_ip_address = peername env, stop_action = TERMINATE\<rparr>\<rparr>"
  have "SessionStop_process env m (enter SessionStop s) = next_din env (Some Terminate) (SessionStopRes OK) ?s"
    using assms by (simp add: SessionStop_process_def check_msg_dinspec_def check_msg_def Let_def)
  then show ?thesis
    by (auto intro!: summary_next(1) [where cs = "[]"])
qed

lemma check_passed:
  assumes "m = DinMessage h (Some b)" "\<not> session_mismatch m s" "body_type b = hd es" "es \<noteq> []"
  shows "check_msg_dinspec env es first m c s = c s"
  using assms by (cases es) (auto simp: check_msg_dinspec_def check_msg_def)

lemma session_mismatch_enter [simp]: "session_mismatch m (enter k s) = session_mismatch m s"
  by (cases m) simp_all

lemma delegated_welding_summary:
  assumes "\<not> session_mismatch m s" "m = DinMessage h (Some (WeldingDetectionReq st))"
    and "step_ok k env WeldingDetection"
  shows "summary k env s (WeldingDetection_process env m (enter WeldingDetection s))"
  unfolding WeldingDetection_process_def
  using assms
  by (subst check_passed) (auto simp: Let_def the_body_def intro!: summary_next(1) [where cs = "[]"])

lemma delegated_power_delivery_summary:
  assumes "\<not> session_mismatch m s" "m = DinMessage h (Some (PowerDeliveryReq x y z))"
    and "step_ok k env PowerDelivery" "step_ok k env CurrentDemand"
  shows "summary k env s (PowerDelivery_process env m (enter PowerDelivery s))"
  unfolding PowerDelivery_process_def
  using assms
  by (subst check_passed)
    (auto simp: Let_def the_body_def split: option.splits intro!: summary_intros)

text \<open>A check that passes tells more: the message is of this session.\<close>

lemma summary_check':
  assumes "kind (current_state s) = k" "next_state (current_state s) = None"
    and "\<And>h b. m = DinMessage h (Some b) \<Longrightarrow> body_type b \<in> set es \<Longrightarrow> \<not> session_mismatch m s \<Longrightarrow>
      summary k env s (c s)"
  shows "summary k env s (check_msg_dinspec env es first m c s)"
proof (cases "session_mismatch m s")
  case True
  have "check_msg_dinspec env es first m c s = check_msg_dinspec env es first m done_with s"
    using True by (simp add: check_msg_dinspec_def check_msg_def)
  moreover have "summary k env s (check_msg_dinspec env es first m done_with s)"
    by (rule summary_check)
      (use assms(1,2) in \<open>auto intro!: summary_raise(2) [where cs = "[]"]\<close>)
  ultimately show ?thesis by simp
next
  case False
  then show ?thesis using summary_check [OF assms(1,2)] assms(3) by blast
qed

lemma WeldingDetection_summary:
  assumes "kind (current_state s) = WeldingDetection" "next_state (current_state s) = None"
  shows "summary WeldingDetection env s (WeldingDetection_process env m s)"
  unfolding WeldingDetection_process_def
  by (rule summary_check')
    (use assms in \<open>auto simp: Let_def the_body_def intro!: summary_next delegated_stop_summary\<close>)

lemma PowerDelivery_summary:
  assumes "kind (current_state s) = PowerDelivery" "next_state (current_state s) = None"
  shows "summary PowerDelivery env s (PowerDelivery_process env m s)"
  unfolding PowerDelivery_process_def
  by (rule summary_check')
    (use assms in \<open>auto simp: Let_def the_body_def edge_defs body_type_cases split: option.splits
      intro!: summary_intros delegated_stop_summary delegated_welding_summary\<close>)

lemma PreCharge_summary:
  assumes "kind (current_state s) = PreCharge" "next_state (current_state s) = None"
  shows "summary PreCharge env s (PreCharge_process env m s)"
  unfolding PreCharge_process_def
  by (rule summary_check')
    (use assms in \<open>auto simp: Let_def the_body_def edge_defs body_type_cases split: sum.splits
      intro!: summary_intros delegated_power_delivery_summary\<close>)

lemma CurrentDemand_summary:
  assumes "kind (current_state s) = CurrentDemand" "next_state (current_state s) = None"
  shows "summary CurrentDemand env s (CurrentDemand_process env m s)"
  unfolding CurrentDemand_process_def
  by (rule summary_check')
    (use assms in \<open>auto simp: Let_def the_body_def edge_defs body_type_cases split: sum.splits
      intro!: summary_intros delegated_power_delivery_summary\<close>)

lemma din_process_summary:
  assumes "kind (current_state s) = k" "next_state (current_state s) = None"
  shows "summary k env s (din_process k env m s)"
  using assms
  by (cases k) (simp_all add: SessionSetup_summary ServiceDiscovery_summary
      ServicePaymentSelection_summary ContractAuthentication_summary ChargeParameterDiscovery_summary
      CableCheck_summary PreCharge_summary PowerDelivery_summary CurrentDemand_summary
      WeldingDetection_summary SessionStop_summary summary_raise(2) [where cs = "[]"])

section \<open>Properties\<close>

definition din_states :: "state_kind list" where
  "din_states = [SessionSetup, ServiceDiscovery, ServicePaymentSelection, ContractAuthentication,
     ChargeParameterDiscovery, CableCheck, PreCharge, PowerDelivery, CurrentDemand, WeldingDetection,
     SessionStop]"

text \<open>The types each state expects, and whether only the first of them is accepted at the moment.\<close>

fun expected_types :: "state_kind \<Rightarrow> msg_type list" where
  "expected_types SessionSetup = [SessionSetupReqT]"
| "expected_types ServiceDiscovery = [ServiceDiscoveryReqT]"
| "expected_types ServicePaymentSelection = [ServicePaymentSelectionReqT]"
| "expected_types ContractAuthentication = [ContractAuthenticationReqT]"
| "expected_types ChargeParameterDiscovery = [ChargeParameterDiscoveryReqT]"
| "expected_types CableCheck = [CableCheckReqT]"
| "expected_types PreCharge = [PreChargeReqT, PowerDeliveryReqT]"
| "expected_types PowerDelivery = [PowerDeliveryReqT, SessionStopReqT, WeldingDetectionReqT]"
| "expected_types CurrentDemand = [CurrentDemandReqT, PowerDeliveryReqT]"
| "expected_types WeldingDetection = [WeldingDetectionReqT, SessionStopReqT]"
| "expected_types SessionStop = [SessionStopReqT]"
| "expected_types _ = []"

definition awaits_first :: "secc \<Rightarrow> bool" where
  "awaits_first s \<longleftrightarrow> kind (current_state s) \<notin> {PreCharge, PowerDelivery, CurrentDemand, WeldingDetection} \<or>
     expect_first (current_state s)"

text \<open>A concrete charger for the examples: everything is in order and the codec emits two bytes.\<close>

definition pv :: "int \<Rightarrow> unit_symbol \<Rightarrow> physical_value" where
  "pv v u = \<lparr>pv_value = v, multiplier = 0, pv_unit = Some u\<rparr>"

definition example_v2_env :: v2_env where
  "example_v2_env =
     \<lparr>supported_auth_options = [EIM, PNC], is_eim_authorized = False, allow_cert_install_service = True,
      free_cert_install_service = True, use_cpo_backend = False,
      get_15118_ev_certificate = (\<lambda>_. Inr (Inr [0x80, 0x9A])), crypt = example_crypto,
      fragment_exi = (\<lambda>_. Inr [0x80]), keys = example_keys,
      random_challenge = replicate 16 7, certificate_response_status = None, is_ready_to_charge = True,
      get_ac_charge_params_v2 = \<lparr>cp_ac_evse_status = failed_ac_status,
        evse_nominal_voltage = pv 230 VOLTAGE, ac_evse_max_current = pv 32 AMPERE\<rparr>,
      get_dc_charge_parameters_v2 = \<lparr>cpe_dc_evse_status = failed_dc_status_v2,
        evse_maximum_current_limit = pv 300 AMPERE, evse_maximum_power_limit = pv 1000 WATT,
        evse_maximum_voltage_limit = pv 900 VOLTAGE, evse_minimum_current_limit = pv 2 AMPERE,
        evse_minimum_voltage_limit = pv 4 VOLTAGE, evse_current_regulation_tolerance = None,
        evse_peak_current_ripple = pv 4 AMPERE, evse_energy_to_be_delivered = None\<rparr>,
      get_sa_schedule_list = (\<lambda>_ _. Some [\<lparr>schedule_tuple_id = 1,
        schedule_entries = [\<lparr>p_max = pv 11000 WATT, interval_start = 0, interval_duration = Some 86400\<rparr>],
        schedule_tariff = None\<rparr>]),
      get_ac_evse_status = failed_ac_status, current_limit_achieved = False,
      exception_text = (\<lambda>_. [])\<rparr>"

definition example_env :: env where
  "example_env =
     \<lparr>peername = ''fe80::1'', to_exi = (\<lambda>_ _. Inr [0x80, 0x9A]), log_decode = (\<lambda>_. Inr ()),
      supported_protocols = [DIN_SPEC_70121], free_charging_service = False,
      random_session_id = ''0123456789ABCDEF'', time_now = 0, get_evse_id = ''49A80737A45678'',
      supported_energy_transfer_modes = [DC_EXTENDED], is_authorized = ACCEPTED,
      dc_charge_parameters = \<lparr>cpe_dc_evse_status = failed_evse_status,
        evse_maximum_current_limit = pv 300 AMPERE, evse_maximum_power_limit = pv 1000 WATT,
        evse_maximum_voltage_limit = pv 900 VOLTAGE, evse_minimum_current_limit = pv 2 AMPERE,
        evse_minimum_voltage_limit = pv 4 VOLTAGE, evse_current_regulation_tolerance = None,
        evse_peak_current_ripple = pv 4 AMPERE, evse_energy_to_be_delivered = None\<rparr>,
      sa_schedule_list = [\<lparr>sa_schedule_tuple_id = 1, p_max_schedule_id = 0, p_max_entries = [(0, None, 11000)]\<rparr>],
      is_contactor_closed = Some True, is_contactor_opened = True, cable_check_status = Some VALID,
      get_dc_evse_status = failed_evse_status, evse_present_voltage = pv 230 VOLTAGE,
      evse_present_current = Inr (pv 1 AMPERE), charging_command_times_out = False,
      voltage_limit_achieved = False, power_limit_achieved = False,
      max_current_limit = pv 300 AMPERE, max_voltage_limit = pv 600 VOLTAGE, max_power_limit = pv 1000 WATT,
      status_text = (\<lambda>_. []), mode_text = (\<lambda>_. []), auth_text = (\<lambda>_. []), isolation_text = (\<lambda>_. []),
      type_text = (\<lambda>_. []), iso2_env = example_v2_env\<rparr>"

definition new_v2_vars :: v2_vars where
  "new_v2_vars =
     \<lparr>is_tls = False,
      ev_session_context = Some \<lparr>ctx_session_id = None, ctx_auth_options = None, ctx_charge_service = None,
        ctx_sa_schedule_tuple_id = None\<rparr>,
      offered_services = [], gen_challenge = None, offered_schedules = [], contract_cert_chain = None,
      emaid = None, sent_meter_info = None, selected_schedule = None\<rparr>"

definition new_session :: "protocol \<Rightarrow> string \<Rightarrow> state_kind \<Rightarrow> secc" where
  "new_session p sid k =
     \<lparr>session_protocol = p, session_id = sid, stop_reason = None, current_state = new_state k, selected_charging_type_is_ac = True,
      evcc_id = None, offered_auth_options = [], selected_auth_option = None, charge_progress_started = False,
      ev_data = \<lparr>ev_evcc_id = None, rated_dc_limits = \<lparr>max_voltage = None, max_charge_current = None,
        max_charge_power = Some 0\<rparr>, session_dc_limits = \<lparr>max_voltage = None, max_charge_current = None,
        max_charge_power = None\<rparr>, target_energy_request = None, total_battery_capacity = None,
        max_soc = None, bulk_soc = None, present_soc = None, remaining_time_to_max_soc = None,
        remaining_time_to_bulk_soc = None, target_current = 0, target_voltage = 0,
        selected_energy_mode = None, departure_time = None,
        rated_ac_limits = \<lparr>ac_max_charge_current = None, ac_min_charge_current = None, ac_max_voltage = None,
          ac_max_charge_power = Some 0, ac_min_charge_power = Some 0\<rparr>,
        session_ac_power = (None, None)\<rparr>,
      current_type = None, iso2 = new_v2_vars, calls = []\<rparr>"

lemma new_session_simps [simp]:
  "current_state (new_session p i k) = new_state k" "session_id (new_session p i k) = i"
  "session_protocol (new_session p i k) = p" "calls (new_session p i k) = []"
  "stop_reason (new_session p i k) = None"
  by (simp_all add: new_session_def)

lemma example_env_ok: "env_ok example_env"
  by (simp add: env_ok_def example_env_def hex_id_def is_hex_def)

lemma new_session_ok: "session_ok (new_session DIN_SPEC_70121 ''0123456789ABCDEF'' k)"
  by (simp add: session_ok_def new_session_def hex_id_def is_hex_def)



text \<open>
  A request the current state does not expect is refused. It is answered by the error response of
  its own class with \<open>FAILED_SequenceError\<close> and the session's end; no command reaches the charger.
\<close>

lemma din_sequence_error:
  assumes "env_ok env" "session_ok s" "is_request b"
    and "\<not> accepted (expected_types (kind (current_state s))) (awaits_first s) b"
    and "kind (current_state s) \<in> set din_states"
  shows "let r = din_process (kind (current_state s)) env (DinMessage h (Some b)) s
    in snd r = None \<and> calls (fst r) = calls s \<and>
       responds (error_response b FAILED_SEQUENCE_ERROR) (Some Terminate) (fst r)"
  using assms
  by (auto simp: din_states_def awaits_first_def session_setup.out_of_order service_discovery.out_of_order
      service_payment_selection.out_of_order contract_authentication.out_of_order
      charge_parameter_discovery.out_of_order cable_check.out_of_order pre_charge.out_of_order
      power_delivery.out_of_order current_demand.out_of_order welding_detection.out_of_order
      session_stop.out_of_order simp del: accepted_simps)

text \<open>
  Before a session identifier exists the promise to answer is broken. A request other than
  session set-up, sent first, is refused, but building the refusal fails on the empty session
  identifier: the handler raises a \<open>ValidationError\<close> and no response is prepared.
\<close>

lemma early_request_unanswered:
  assumes "session_id s = []" "kind (current_state s) = SessionSetup"
    and "is_request b" "body_type b \<noteq> SessionSetupReqT" "next_v2gtp_msg (current_state s) = None"
  shows "let r = din_process SessionSetup env (DinMessage h (Some b)) s
    in snd r = Some ValidationError \<and> next_v2gtp_msg (current_state (fst r)) = None"
proof -
  have header: "MessageHeader [] n = Inl ValidationError" for n
    by (simp add: MessageHeader_def int_base_16_empty)
  have create: "create_next_message env nxt (NextDin r) t ns p x =
      raises ValidationError (update_state (\<lambda>y. y\<lparr>next_state := nxt, next_msg_timeout := t\<rparr>) x)"
    if "session_id x = []" for nxt r t ns p x
    using that fault_note_ok [of x] by (auto simp: create_next_message_def build_message_def header Let_def)
  show ?thesis
    using assms
    by (simp add: SessionSetup_process_def check_msg_dinspec_def check_msg_def stop_state_machine_def
        error_response_some create Let_def)
qed

text \<open>
  The power delivery parameter, optional in the message model, is dereferenced without a test: a
  power delivery request without it ends in an \<open>AttributeError\<close> after the check has passed.
\<close>

lemma power_delivery_needs_parameter:
  assumes "session_id s = header_session_id h" "kind (current_state s) = PowerDelivery"
  shows "snd (din_process PowerDelivery env (DinMessage h (Some (PowerDeliveryReq ready profile None))) s) =
    Some AttributeError"
proof -
  let ?m = "DinMessage h (Some (PowerDeliveryReq ready profile None))"
  have "PowerDelivery_process env ?m s = raises AttributeError s"
    unfolding PowerDelivery_process_def
    by (subst check_passed [OF refl]) (use assms in \<open>simp_all add: the_body_def\<close>)
  then show ?thesis by simp
qed

text \<open>
  Pre-charging is limited. Whatever message arrives and whatever the hardware answers, a
  pre-charge step gives the charger a command only for a request without a reported vehicle error,
  with the requested voltage and current, and only if both the requested and the measured current
  are at most two amperes.
\<close>

lemma pre_charge_command_limited:
  "\<exists>cs. calls (fst (PreCharge_process env (DinMessage h (Some (PreChargeReq st voltage current))) s)) =
      calls s @ cs \<and>
    cs \<in> {[], [SendChargingCommand (get_decimal_value voltage) (get_decimal_value current) True]} \<and>
    (cs = [] \<or> ev_error_code st = NO_ERROR \<and> get_decimal_value current \<le> 2 \<and>
       (\<exists>measured. evse_present_current env = Inr measured \<and> get_decimal_value measured \<le> 2))"
proof -
  have stop: "calls (fst (stop_state_machine env r m c x)) = calls x" for r m c x
    using ends_stop [of x env r m c] by (simp add: ends_def)
  have nextd: "calls (fst (andthen (next_din env nxt b x)
      (\<lambda>s. done_with (update_state (\<lambda>y. y\<lparr>expect_first := e\<rparr>) s)))) = calls x" for nxt b x e
    using ends_expect [OF ends_next_din [of nxt x env b]] by (simp add: ends_def)
  let ?m = "DinMessage h (Some (PreChargeReq st voltage current))"
  let ?ev = "update_pre_charge_parameters st voltage current (ev_data s)"
  have target: "target_current ?ev = get_decimal_value current" "target_voltage ?ev = get_decimal_value voltage"
    by (simp_all add: update_pre_charge_parameters_def)
  show ?thesis
  proof (cases "accepted [PreChargeReqT, PowerDeliveryReqT] (expect_first (current_state s))
      (PreChargeReq st voltage current) \<and> header_session_id h = session_id s")
    case True
    then have "check_msg_dinspec env [PreChargeReqT, PowerDeliveryReqT] (expect_first (current_state s)) ?m k s = k s"
      for k
      by (intro check_passed [OF refl]) simp_all
    then show ?thesis
      unfolding PreCharge_process_def
      by (cases "evse_present_current env") (simp_all add: the_body_def Let_def stop nextd target not_less)
  next
    case False
    then obtain r c where
      "check_msg_dinspec env [PreChargeReqT, PowerDeliveryReqT] (expect_first (current_state s)) ?m k s =
         stop_state_machine env r ?m c s" for k
      by (cases "expect_first (current_state s)") (auto simp: check_msg_dinspec_def check_msg_def)
    then show ?thesis
      unfolding PreCharge_process_def by (simp add: stop)
  qed
qed

end
