(* ===== verification/Sap_State.thy ===== *)
theory Sap_State
  imports Din_Properties
begin

text \<open>
  The first state of the charger's state machine (\<open>iso15118/secc/states/sap_states.py\<close>): the protocol
  is negotiated from the vehicle's prioritised list.
\<close>

definition minor_code :: "app_protocol \<Rightarrow> sap_code" where
  "minor_code p = (if minor_version p = 0 then NEGOTIATION_OK else MINOR_DEVIATION)"

text \<open>
  The loop over the sorted list: the selected protocol, the next state and the response. An entry
  whose namespace is supported but whose version does not fit is passed over.
\<close>

fun sap_loop ::
  "string list \<Rightarrow> app_protocol list \<Rightarrow> (protocol \<times> state_kind \<times> sap_code \<times> int) option" where
  "sap_loop supported_ns_list [] = None"
| "sap_loop supported_ns_list (p # ps) =
     (if protocol_ns p \<in> set supported_ns_list then
        if protocol_ns p = ns ISO_15118_2 \<and> major_version p = 2
          then Some (get_by_ns (protocol_ns p), SessionSetupV2, minor_code p, schema_id p)
        else if protocol_ns p = ns DIN_SPEC_70121 \<and> major_version p = 2
          then Some (get_by_ns (protocol_ns p), SessionSetup, minor_code p, schema_id p)
        else if starts_with (protocol_ns p) ISO_V20_BASE \<and> major_version p = 1
          then Some (get_by_ns (protocol_ns p), SessionSetupV20, minor_code p, schema_id p)
        else sap_loop supported_ns_list ps
      else sap_loop supported_ns_list ps)"

definition SupportedAppProtocol_process :: "env \<Rightarrow> v2g_message \<Rightarrow> secc \<Rightarrow> secc outcome" where
  "SupportedAppProtocol_process env m s =
     check_msg env SAPFamily [SupportedAppProtocolReqT] True m (\<lambda>s.
       case m of
         SAPReq app_protocols \<Rightarrow>
           (case sap_loop (map ns (supported_protocols env)) (sort_key priority app_protocols) of
              None \<Rightarrow>
                stop_state_machine env ''SupportedAppProtocol negotiation failed. '' m
                  (SapCode NEGOTIATION_FAILED) s
            | Some (p, nxt, code, schema) \<Rightarrow>
                let s = (if nxt = SessionSetup then s\<lparr>selected_charging_type_is_ac := False\<rparr> else s)
                in andthen
                     (create_next_message env (Some nxt) (NextSap code (Some schema))
                        V2G_SECC_SEQUENCE_TIMEOUT SAP_NS EXI_ENCODED s)
                     (\<lambda>s. done_with (call (SetSelectedProtocol p) (s\<lparr>session_protocol := p\<rparr>))))
       | _ \<Rightarrow> done_with s) s"

section \<open>What is negotiated\<close>

text \<open>What the charger can agree to, and the state each protocol starts in.\<close>

definition acceptable :: "protocol list \<Rightarrow> app_protocol \<Rightarrow> bool" where
  "acceptable supported p \<longleftrightarrow>
     (\<exists>q \<in> set supported. protocol_ns p = ns q \<and>
        (q \<in> {ISO_15118_2, DIN_SPEC_70121} \<and> major_version p = 2 \<or> is_v20 q \<and> major_version p = 1))"

fun setup_state :: "protocol \<Rightarrow> state_kind" where
  "setup_state ISO_15118_2 = SessionSetupV2"
| "setup_state DIN_SPEC_70121 = SessionSetup"
| "setup_state _ = SessionSetupV20"

definition agreed :: "app_protocol \<Rightarrow> protocol \<times> state_kind \<times> sap_code \<times> int" where
  "agreed p = (get_by_ns (protocol_ns p), setup_state (get_by_ns (protocol_ns p)), minor_code p, schema_id p)"

lemma sap_step:
  assumes "q \<in> set supported" "protocol_ns p = ns q"
  shows "sap_loop (map ns supported) (p # ps) =
    (if acceptable supported p then Some (agreed p) else sap_loop (map ns supported) ps)"
proof -
  have "acceptable supported p \<longleftrightarrow>
      q \<in> {ISO_15118_2, DIN_SPEC_70121} \<and> major_version p = 2 \<or> is_v20 q \<and> major_version p = 1"
    using assms by (auto simp: acceptable_def)
  moreover have "protocol_ns p \<in> set (map ns supported)" using assms by auto
  moreover have "starts_with (protocol_ns p) ISO_V20_BASE = is_v20 q"
    using assms by (simp add: is_v20_def)
  ultimately show ?thesis
    using assms(2) by (cases q) (simp_all add: agreed_def del: ns.simps)
qed

lemma sap_loop_find:
  "sap_loop (map ns supported) ps = map_option agreed (find (acceptable supported) ps)"
proof (induction ps)
  case (Cons p ps)
  show ?case
  proof (cases "protocol_ns p \<in> set (map ns supported)")
    case True
    then obtain q where "q \<in> set supported" "protocol_ns p = ns q" by auto
    then show ?thesis using Cons sap_step by simp
  next
    case False
    then have "\<not> acceptable supported p" by (auto simp: acceptable_def)
    then show ?thesis using Cons False by simp
  qed
qed simp

lemma find_sorted:
  assumes "find P xs = Some x" "sorted (map f xs)" "y \<in> set xs" "P y"
  shows "f x \<le> f y"
  using assms by (induction xs) (auto split: if_splits)

lemma find_SomeD: "find P xs = Some x \<Longrightarrow> x \<in> set xs \<and> P x"
  by (induction xs) (auto split: if_splits)

lemma find_Some_ex: "y \<in> set xs \<Longrightarrow> P y \<Longrightarrow> \<exists>x. find P xs = Some x"
  by (induction xs) auto

lemma acceptable_supported:
  "acceptable supported p \<Longrightarrow> get_by_ns (protocol_ns p) \<in> set supported"
  by (auto simp: acceptable_def simp del: ns.simps)

text \<open>The state that creating a negotiation response leaves, and the whole step.\<close>

definition sap_prepared :: "env \<Rightarrow> state_kind option \<Rightarrow> rat \<Rightarrow> sap_code \<Rightarrow> int option \<Rightarrow> secc \<Rightarrow> secc" where
  "sap_prepared env nxt t c i s =
     update_state (\<lambda>y. y\<lparr>next_state := nxt, next_msg_timeout := t, state_message := Some (SAPRes c i),
       next_v2gtp_msg := Some (message_of UNKNOWN EXI_ENCODED (projr (to_exi env (SAPRes c i) SAP_NS)))\<rparr>) s"

lemma create_sap_response:
  assumes "\<forall>m n. \<not> isl (to_exi env m n)" "session_protocol s = UNKNOWN"
  shows "create_next_message env nxt (NextSap c i) t SAP_NS EXI_ENCODED s = done_with (sap_prepared env nxt t c i s)"
proof -
  obtain exi where "to_exi env (SAPRes c i) SAP_NS = Inr exi"
    using assms(1) by (metis isl_def sum.collapse(2))
  then show ?thesis
    using assms(2) by (simp add: create_next_message_def build_message_def Let_def wrap_message_def
        V2GTPMessage_eq is_payload_type_valid_def ISOV2PayloadTypes_def sap_prepared_def)
qed

definition sap_step_to :: "env \<Rightarrow> app_protocol \<Rightarrow> secc \<Rightarrow> secc" where
  "sap_step_to env p s =
     (let q = get_by_ns (protocol_ns p);
          s = (if setup_state q = SessionSetup then s\<lparr>selected_charging_type_is_ac := False\<rparr> else s)
      in call (SetSelectedProtocol q)
           ((sap_prepared env (Some (setup_state q)) V2G_SECC_SEQUENCE_TIMEOUT (minor_code p)
               (Some (schema_id p)) s)\<lparr>session_protocol := q\<rparr>))"

definition sap_stopped :: "env \<Rightarrow> secc \<Rightarrow> secc" where
  "sap_stopped env s = sap_prepared env (Some Terminate) 0 NEGOTIATION_FAILED None
     (s\<lparr>stop_reason := Some \<lparr>successful = False, reason = ''SupportedAppProtocol negotiation failed. '',
        peer_ip_address = peername env, stop_action = TERMINATE\<rparr>\<rparr>)"

lemma sap_process_eq:
  assumes "\<forall>m n. \<not> isl (to_exi env m n)" "session_protocol s = UNKNOWN"
  shows "SupportedAppProtocol_process env (SAPReq ps) s =
    done_with (case find (acceptable (supported_protocols env)) (sort_key priority ps) of
       None \<Rightarrow> sap_stopped env s | Some p \<Rightarrow> sap_step_to env p s)"
  using assms
  by (auto simp: SupportedAppProtocol_process_def check_msg_def sap_loop_find agreed_def sap_stopped_def
      sap_step_to_def stop_state_machine_def create_sap_response Let_def split: option.splits)

lemma sap_step_to_simps [simp]:
  "session_protocol (sap_step_to env p s) = get_by_ns (protocol_ns p)"
  "next_state (current_state (sap_step_to env p s)) = Some (setup_state (get_by_ns (protocol_ns p)))"
  "state_message (current_state (sap_step_to env p s)) = Some (SAPRes (minor_code p) (Some (schema_id p)))"
  "next_v2gtp_msg (current_state (sap_step_to env p s)) \<noteq> None" "session_id (sap_step_to env p s) = session_id s"
  by (simp_all add: sap_step_to_def sap_prepared_def Let_def)

lemma sap_stopped_simps [simp]:
  "next_state (current_state (sap_stopped env s)) = Some Terminate"
  "state_message (current_state (sap_stopped env s)) = Some (SAPRes NEGOTIATION_FAILED None)"
  "next_v2gtp_msg (current_state (sap_stopped env s)) \<noteq> None"
  by (simp_all add: sap_stopped_def sap_prepared_def)

text \<open>
  Protocol negotiation. For every list the vehicle offers: if it has an entry the charger can
  agree to, the chosen entry is one of least priority number among those, the response carries its
  schema and says whether the minor version deviates, the session continues in that protocol's
  set-up state and the protocol is one the charger supports; if it has none, the response is
  \<open>Failed_NoNegotiation\<close> and the session ends.
\<close>

lemma sap_negotiation:
  assumes "\<forall>m n. \<not> isl (to_exi env m n)" "session_protocol s = UNKNOWN"
  shows "let r = SupportedAppProtocol_process env (SAPReq ps) s; o' = current_state (fst r)
    in snd r = None \<and> next_v2gtp_msg o' \<noteq> None \<and>
       (if \<exists>p \<in> set ps. acceptable (supported_protocols env) p
        then \<exists>p \<in> set ps. acceptable (supported_protocols env) p \<and>
          (\<forall>q \<in> set ps. acceptable (supported_protocols env) q \<longrightarrow> priority p \<le> priority q) \<and>
          state_message o' = Some (SAPRes (minor_code p) (Some (schema_id p))) \<and>
          session_protocol (fst r) = get_by_ns (protocol_ns p) \<and>
          session_protocol (fst r) \<in> set (supported_protocols env) \<and>
          next_state o' = Some (setup_state (session_protocol (fst r)))
        else state_message o' = Some (SAPRes NEGOTIATION_FAILED None) \<and> next_state o' = Some Terminate)"
proof -
  let ?sup = "supported_protocols env" and ?sorted = "sort_key priority ps"
  show ?thesis
  proof (cases "find (acceptable ?sup) ?sorted")
    case None
    then have "\<not> (\<exists>p \<in> set ps. acceptable ?sup p)"
      using find_Some_ex [of _ ?sorted "acceptable ?sup"] by fastforce
    then show ?thesis
      using None by (simp add: sap_process_eq [OF assms] Let_def del: not_None_eq)
  next
    case (Some p)
    then have p: "p \<in> set ps" "acceptable ?sup p" using find_SomeD [OF Some] by auto
    have least: "\<forall>q \<in> set ps. acceptable ?sup q \<longrightarrow> priority p \<le> priority q"
      using find_sorted [OF Some, of priority] by simp
    show ?thesis
      using p least Some acceptable_supported [OF p(2)]
      by (auto simp: sap_process_eq [OF assms] Let_def simp del: not_None_eq intro!: bexI [of _ p])
  qed
qed

end
