(* ===== verification/Evcc_State.thy ===== *)
theory Evcc_State
  imports Session_State
begin

text \<open>
  The vehicle's communication session (\<open>EVCCCommunicationSession\<close> of \<open>iso15118/evcc/comm_session_handler.py\<close>)
  and the operations its states share, \<open>check_msg\<close> and \<open>stop_state_machine\<close> of
  \<open>iso15118/evcc/states/evcc_state.py\<close>. What the vehicle behind \<open>EVControllerInterface\<close> and the clock answer
  while one message is handled is the record \<open>ev_env\<close>; the commands given to the vehicle are logged.
\<close>

section \<open>Environment and session\<close>

record dc_ev_charge_params =
  dc_max_current_limit :: physical_value
  dc_max_power_limit :: physical_value
  dc_max_voltage_limit :: physical_value
  dc_energy_capacity :: physical_value
  dc_target_current :: physical_value
  dc_target_voltage :: physical_value

text \<open>
  The last four fields are the interpreter's formatting of values that end up in a stop reason. The
  power delivery parameter is what the message model makes of the controller's answer.
\<close>

record ev_env = codec_env +
  get_evcc_id :: "protocol \<Rightarrow> string result"
  clock :: rat
  get_dc_ev_status_dinspec :: dc_ev_status
  get_dc_charge_params :: dc_ev_charge_params
  get_energy_transfer_mode :: energy_mode
  process_sa_schedules_dinspec :: "sa_schedule_tuple list \<Rightarrow> int result"
  is_precharged :: "physical_value \<Rightarrow> bool"
  continue_charging :: bool
  is_bulk_charging_complete :: bool
  is_charging_complete :: bool
  get_remaining_time_to_full_soc :: physical_value
  get_remaining_time_to_bulk_soc :: physical_value
  get_dc_ev_power_delivery_parameter :: dc_ev_power_delivery_parameter
  welding_detection_has_finished :: bool
  ev_type_text :: "v2g_message \<Rightarrow> string"
  code_text :: "response_code option \<Rightarrow> string"
  options_text :: "auth_enum list \<Rightarrow> string"
  modes_text :: "energy_mode list \<Rightarrow> energy_mode option \<Rightarrow> string"

datatype ev_call = EnableCharging bool | StopCharging | StoreContract bytes bytes

record evcc = v2g_session +
  supported_app_protocols :: "app_protocol list"
  resume_session_id :: "string option"
  ev_selected_auth_option :: "auth_enum option"
  selected_services :: "(int \<times> int option) list"
  ev_selected_energy_mode :: "energy_mode option"
  resume_requested_energy_mode :: "energy_mode option"
  ongoing_timer :: rat
  selected_schedule :: "int option"
  evse_id :: string
  ev_calls :: "ev_call list"

definition ev_call :: "ev_call \<Rightarrow> 's evcc_scheme \<Rightarrow> 's evcc_scheme" where
  "ev_call c s = s\<lparr>ev_calls := ev_calls s @ [c]\<rparr>"

section \<open>Stopping and checking\<close>

definition ev_stop_state_machine :: "'e ev_env_scheme \<Rightarrow> string \<Rightarrow> 's evcc_scheme \<Rightarrow> 's evcc_scheme outcome" where
  "ev_stop_state_machine env r s =
     (let s = s\<lparr>stop_reason := Some \<lparr>successful = False, reason = r, peer_ip_address = peername env,
                                     stop_action = TERMINATE\<rparr>\<rparr>
      in done_with (update_state (\<lambda>x. x\<lparr>next_state := Some Terminate\<rparr>) s))"

text \<open>The classes of responses the vehicle's states test a message body against.\<close>

datatype res_type =
    SessionSetupResT | ServiceDiscoveryResT | ServicePaymentSelectionResT | ContractAuthenticationResT
  | ChargeParameterDiscoveryResT | CableCheckResT | PreChargeResT | PowerDeliveryResT
  | CurrentDemandResT | WeldingDetectionResT | SessionStopResT

fun response_type :: "din_body \<Rightarrow> res_type option" where
  "response_type (SessionSetupRes _ _ _) = Some SessionSetupResT"
| "response_type (ServiceDiscoveryRes _ _ _) = Some ServiceDiscoveryResT"
| "response_type (ServicePaymentSelectionRes _) = Some ServicePaymentSelectionResT"
| "response_type (ContractAuthenticationRes _ _) = Some ContractAuthenticationResT"
| "response_type (ChargeParameterDiscoveryRes _ _ _ _) = Some ChargeParameterDiscoveryResT"
| "response_type (CableCheckRes _ _ _) = Some CableCheckResT"
| "response_type (PreChargeRes _ _ _) = Some PreChargeResT"
| "response_type (PowerDeliveryRes _ _) = Some PowerDeliveryResT"
| "response_type (CurrentDemandRes _ _) = Some CurrentDemandResT"
| "response_type (WeldingDetectionRes _ _ _) = Some WeldingDetectionResT"
| "response_type (SessionStopRes _) = Some SessionStopResT"
| "response_type _ = None"

text \<open>\<open>"FAILED" in response_code\<close>.\<close>

definition failed_code :: "response_code \<Rightarrow> bool" where
  "failed_code rc \<longleftrightarrow>
     rc \<notin> set [OK, OK_NEW_SESSION_ESTABLISHED, OK_OLD_SESSION_JOINED, OK_CERTIFICATE_EXPIRES_SOON]"

definition check_msg_din_spec ::
  "ev_env \<Rightarrow> res_type \<Rightarrow> v2g_message \<Rightarrow> (din_header \<Rightarrow> din_body \<Rightarrow> evcc \<Rightarrow> evcc outcome) \<Rightarrow> evcc \<Rightarrow> evcc outcome" where
  "check_msg_din_spec env expected m k s =
     (case m of
        DinMessage h body \<Rightarrow>
          (case body of
             None \<Rightarrow>
               ev_stop_state_machine env
                 (message_text m @ CHR 0x27 # '' not accepted in state '' @ state_text (kind (current_state s))) s
           | Some b \<Rightarrow>
               if response_type b \<noteq> Some expected then
                 ev_stop_state_machine env
                   (message_text m @ CHR 0x27 # '' not accepted in state '' @ state_text (kind (current_state s))) s
               else if (case response_code_of b of Some rc \<Rightarrow> failed_code rc | None \<Rightarrow> False) then
                 ev_stop_state_machine env
                   (''Negative response code '' @ code_text env (response_code_of b) @
                     '' received with message '' @ message_text m) s
               else if expected \<noteq> SessionSetupResT \<and> header_session_id h \<noteq> session_id s then
                 ev_stop_state_machine env (session_text m s) s
               else k h b s)
      | _ \<Rightarrow>
          ev_stop_state_machine env
            (ev_type_text env m @ CHR 0x27 # '' not a valid message type in state '' @
              state_text (kind (current_state s))) s)"

definition ev_next :: "ev_env \<Rightarrow> state_kind option \<Rightarrow> din_body \<Rightarrow> rat \<Rightarrow> evcc \<Rightarrow> evcc outcome" where
  "ev_next env nxt b timeout s = create_next_message env nxt (NextDin b) timeout DIN_MSG_DEF EXI_ENCODED s"

end
