(* ===== verification/Evcc_Sap.thy ===== *)
theory Evcc_Sap
  imports Evcc_State
begin

text \<open>
  How the vehicle negotiates the protocol: the request it offers (\<open>create_sap\<close> of
  \<open>EVCCCommunicationSession\<close>, \<open>iso15118/evcc/comm_session_handler.py\<close>) and the state that processes the
  charger's choice (\<open>iso15118/evcc/states/sap_states.py\<close>). The set-up requests of ISO 15118-2 and -20 are
  messages outside the model: creating one is the argument \<open>iso_setup\<close>.
\<close>

section \<open>The offer\<close>

definition AppProtocol :: "string \<Rightarrow> int \<Rightarrow> int \<Rightarrow> int \<Rightarrow> int \<Rightarrow> app_protocol result" where
  "AppProtocol n major minor schema prio =
     (if length n \<le> 100 \<and> 0 \<le> schema \<and> schema \<le> 255 \<and> 1 \<le> prio \<and> prio \<le> 20
      then Inr \<lparr>protocol_ns = n, major_version = major, minor_version = minor, schema_id = schema,
                priority = prio\<rparr>
      else Inl ValidationError)"

text \<open>The loop over the protocols, with the two counters as they are before an entry is made.\<close>

fun sap_entries :: "int \<Rightarrow> int \<Rightarrow> protocol list \<Rightarrow> app_protocol list result" where
  "sap_entries schema prio [] = Inr []"
| "sap_entries schema prio (p # ps) =
     rbind (AppProtocol (ns p) (if p \<in> set [ISO_15118_2, DIN_SPEC_70121] then 2 else 1) 0
              (schema + 1) (prio + 1)) (\<lambda>entry.
     rbind (sap_entries (schema + 1) (prio + 1) ps) (\<lambda>entries. Inr (entry # entries)))"

text \<open>
  The list of protocols is the one of the configuration object, so removing a protocol from it is seen by
  every later session. It is \<open>None\<close> when the configuration could not be read and the defaults are used.
  The result is the configuration's list afterwards, and the entries of the request.
\<close>

definition create_sap :: "bool \<Rightarrow> protocol list option \<Rightarrow> protocol list option \<times> app_protocol list result" where
  "create_sap is_tls config_protocols =
     (case config_protocols of
        None \<Rightarrow> (None, Inl (if is_tls then AttributeError else TypeError))
      | Some supported_protocols \<Rightarrow>
          let supported_protocols =
            (if is_tls then remove1 DIN_SPEC_70121 supported_protocols else supported_protocols)
          in (Some supported_protocols, sap_entries 0 0 supported_protocols))"

section \<open>The charger's choice\<close>

definition get_session_id :: "nat \<Rightarrow> evcc \<Rightarrow> evcc" where
  "get_session_id len s =
     (case resume_session_id s of
        Some (c # cs) \<Rightarrow> s\<lparr>session_id := c # cs, resume_session_id := None\<rparr>
      | _ \<Rightarrow> s\<lparr>session_id := replicate (2 * len) CHR ''0''\<rparr>)"

text \<open>The model of a set-up request with an identifier of at most so many characters.\<close>

definition evcc_id_ok :: "nat \<Rightarrow> string \<Rightarrow> bool" where
  "evcc_id_ok n i \<longleftrightarrow> length i \<le> n \<and> int_base_16_ok i"

definition din_setup_req :: "ev_env \<Rightarrow> din_body result" where
  "din_setup_req env =
     rbind (get_evcc_id env DIN_SPEC_70121) (\<lambda>i.
       if evcc_id_ok 16 i then Inr (SessionSetupReq i) else Inl ValidationError)"

text \<open>Whether the default message, a set-up request of ISO 15118-2, can be made.\<close>

definition v2_setup_req :: "ev_env \<Rightarrow> unit result" where
  "v2_setup_req env =
     rbind (get_evcc_id env ISO_15118_2) (\<lambda>i. if evcc_id_ok 12 i then Inr () else Inl ValidationError)"

abbreviation (input) "SESSION_SETUP_REQ \<equiv> (2 :: rat)"

definition sap_chosen ::
  "(state_kind \<Rightarrow> evcc \<Rightarrow> evcc outcome) \<Rightarrow> ev_env \<Rightarrow> app_protocol \<Rightarrow> evcc \<Rightarrow> evcc outcome" where
  "sap_chosen iso_setup env p s =
     (if protocol_ns p = ns ISO_15118_2 then
        iso_setup SessionSetupV2 (get_session_id 1 (s\<lparr>session_protocol := ISO_15118_2\<rparr>))
      else if protocol_ns p = ns DIN_SPEC_70121 then
        let s = get_session_id 1 (s\<lparr>session_protocol := DIN_SPEC_70121\<rparr>)
        in (case din_setup_req env of
              Inl e \<Rightarrow> raises e s
            | Inr req \<Rightarrow> ev_next env (Some SessionSetup) req SESSION_SETUP_REQ s)
      else if starts_with (protocol_ns p) ISO_V20_BASE then
        iso_setup SessionSetupV20 (get_session_id 8 (s\<lparr>session_protocol := get_by_ns (protocol_ns p)\<rparr>))
      else raises MessageProcessingError s)"

text \<open>
  The check before it looks for \<open>FAILED\<close> in the response code. The failure code of the negotiation is
  \<open>Failed_NoNegotiation\<close>, which does not contain it. The last argument of the reason is the interpreter's
  formatting of the response.
\<close>

definition ev_SupportedAppProtocol_process ::
  "(state_kind \<Rightarrow> evcc \<Rightarrow> evcc outcome) \<Rightarrow> (sap_code \<Rightarrow> int option \<Rightarrow> string) \<Rightarrow> ev_env \<Rightarrow> v2g_message \<Rightarrow>
    evcc \<Rightarrow> evcc outcome" where
  "ev_SupportedAppProtocol_process iso_setup res_text env m s =
     (case m of
        SAPRes code schema \<Rightarrow>
          (case v2_setup_req env of
             Inl e \<Rightarrow> raises e s
           | Inr _ \<Rightarrow>
               (case find (\<lambda>p. Some (schema_id p) = schema) (supported_app_protocols s) of
                  Some p \<Rightarrow> sap_chosen iso_setup env p s
                | None \<Rightarrow>
                    ev_stop_state_machine env
                      (''SupportedAppProtocolRes with positive response '' @ res_text code schema) s))
      | _ \<Rightarrow>
          ev_stop_state_machine env
            (ev_type_text env m @ CHR 0x27 # '' not a valid message type in state '' @
              state_text (kind (current_state s))) s)"

section \<open>What the offer looks like\<close>

definition sap_entry :: "int \<Rightarrow> protocol \<Rightarrow> app_protocol" where
  "sap_entry i p = \<lparr>protocol_ns = ns p, major_version = (if p \<in> {ISO_15118_2, DIN_SPEC_70121} then 2 else 1),
     minor_version = 0, schema_id = i, priority = i\<rparr>"

lemma ns_length: "length (ns p) \<le> 100"
  by (cases p) (simp_all add: DIN_MSG_DEF_def ISO_V2_MSG_DEF_def ISO_V20_BASE_def)

lemma sap_entries_eq:
  assumes "0 \<le> k"
  shows "sap_entries k k ps =
    (if k + int (length ps) \<le> 20 \<or> ps = [] then Inr (map (\<lambda>i. sap_entry (k + 1 + int i) (ps ! i)) [0..<length ps])
     else Inl ValidationError)"
  using assms
proof (induction ps arbitrary: k)
  case (Cons p ps)
  have "map (\<lambda>i. sap_entry (k + 1 + int i) ((p # ps) ! i)) [0..<length (p # ps)] =
      sap_entry (k + 1) p # map (\<lambda>i. sap_entry (k + 1 + 1 + int i) (ps ! i)) [0..<length ps]"
    by (simp add: upt_conv_Cons map_Suc_upt [symmetric] algebra_simps del: upt_Suc)
  with Cons show ?case
    by (auto simp: AppProtocol_def ns_length sap_entry_def simp del: ns.simps)
qed simp

end
