(* ===== verification/Evcc_Din_States.thy ===== *)
theory Evcc_Din_States
  imports Evcc_State
begin

text \<open>
  The eleven states of \<open>iso15118/evcc/states/din_spec_states.py\<close>: in each the vehicle processes the response
  to its last request and prepares the next request.
\<close>

section \<open>Requests\<close>

abbreviation (input) "V2G_SECC_SEQUENCE_TIMEOUT \<equiv> (60 :: rat)"
abbreviation (input) "V2G_EVCC_CABLE_CHECK_TIMEOUT \<equiv> (40 :: rat)"
abbreviation (input) "V2G_EVCC_PRE_CHARGE_TIMEOUT \<equiv> (7 :: rat)"
abbreviation (input) "DIN_REQ \<equiv> (2 :: rat)"
abbreviation (input) "CURRENT_DEMAND_REQ \<equiv> (1 / 4 :: rat)"

text \<open>The two methods of this name build the same request.\<close>

definition build_charge_parameter_discovery_req :: "ev_env \<Rightarrow> din_body result" where
  "build_charge_parameter_discovery_req env =
     (let req = ChargeParameterDiscoveryReq (get_energy_transfer_mode env)
        \<lparr>cp_dc_ev_status = get_dc_ev_status_dinspec env,
         ev_maximum_current_limit = dc_max_current_limit (get_dc_charge_params env),
         ev_maximum_power_limit = None,
         ev_maximum_voltage_limit = dc_max_voltage_limit (get_dc_charge_params env),
         ev_energy_capacity = None, ev_energy_request = None, full_soc = None, cp_bulk_soc = None\<rparr>
      in if charge_parameter_req_ok req then Inr req else Inl ValidationError)"

definition build_pre_charge_req :: "ev_env \<Rightarrow> din_body" where
  "build_pre_charge_req env =
     PreChargeReq (get_dc_ev_status_dinspec env) (dc_target_voltage (get_dc_charge_params env))
       (dc_target_current (get_dc_charge_params env))"

definition build_cable_check_req :: "ev_env \<Rightarrow> din_body" where
  "build_cable_check_req env = CableCheckReq (get_dc_ev_status_dinspec env)"

definition build_power_delivery_req :: "ev_env \<Rightarrow> din_body" where
  "build_power_delivery_req env =
     PowerDeliveryReq True None (Some (get_dc_ev_power_delivery_parameter env))"

definition build_current_demand_req :: "ev_env \<Rightarrow> din_body" where
  "build_current_demand_req env =
     (let p = get_dc_charge_params env
      in CurrentDemandReq
           \<lparr>cd_dc_ev_status = get_dc_ev_status_dinspec env, cd_ev_target_current = dc_target_current p,
            ev_max_voltage_limit = Some (dc_max_voltage_limit p),
            ev_max_current_limit = Some (dc_max_current_limit p),
            ev_max_power_limit = Some (dc_max_power_limit p),
            bulk_charging_complete = Some (is_bulk_charging_complete env),
            charging_complete = is_charging_complete env,
            remaining_time_to_full_soc = Some (get_remaining_time_to_full_soc env),
            cd_remaining_time_to_bulk_soc = Some (get_remaining_time_to_bulk_soc env),
            cd_ev_target_voltage = dc_target_voltage p\<rparr>)"

definition build_welding_detection_req :: "ev_env \<Rightarrow> din_body" where
  "build_welding_detection_req env = WeldingDetectionReq (get_dc_ev_status_dinspec env)"

section \<open>Handlers\<close>

definition ev_SessionSetup_process :: "ev_env \<Rightarrow> v2g_message \<Rightarrow> evcc \<Rightarrow> evcc outcome" where
  "ev_SessionSetup_process env m s =
     check_msg_din_spec env SessionSetupResT m (\<lambda>h b s.
       case b of
         SessionSetupRes _ evse _ \<Rightarrow>
           ev_next env (Some ServiceDiscovery) (ServiceDiscoveryReq None None) DIN_REQ
             (s\<lparr>session_id := header_session_id h, evse_id := evse\<rparr>)
       | _ \<Rightarrow> done_with s) s"

definition select_auth_mode :: "auth_enum list \<Rightarrow> evcc \<Rightarrow> evcc" where
  "select_auth_mode auth_option_list s =
     (let s = s\<lparr>ev_selected_auth_option := None\<rparr>
      in if EIM_V2 \<in> set auth_option_list then s\<lparr>ev_selected_auth_option := Some EIM_V2\<rparr> else s)"

definition select_services :: "charge_service \<Rightarrow> evcc \<Rightarrow> evcc" where
  "select_services cs s = s\<lparr>selected_services := selected_services s @ [(service_id cs, None)]\<rparr>"

definition select_energy_transfer_mode :: "ev_env \<Rightarrow> evcc \<Rightarrow> evcc" where
  "select_energy_transfer_mode env s =
     (case resume_requested_energy_mode s of
        Some m \<Rightarrow> s\<lparr>ev_selected_energy_mode := Some m, resume_requested_energy_mode := None\<rparr>
      | None \<Rightarrow> s\<lparr>ev_selected_energy_mode := Some (get_energy_transfer_mode env)\<rparr>)"

text \<open>
  The charge service is a mandatory field of the response, so the test that it is offered never fails;
  a list of more than sixteen services is refused by the message model.
\<close>

definition ev_ServiceDiscovery_process :: "ev_env \<Rightarrow> v2g_message \<Rightarrow> evcc \<Rightarrow> evcc outcome" where
  "ev_ServiceDiscovery_process env m s =
     check_msg_din_spec env ServiceDiscoveryResT m (\<lambda>h b s.
       case b of
         ServiceDiscoveryRes _ auth_options cs \<Rightarrow>
           let s = select_energy_transfer_mode env (select_services cs (select_auth_mode auth_options s));
               offered_energy_modes = [energy_transfer_type cs]
           in (case ev_selected_auth_option s of
                 None \<Rightarrow>
                   ev_stop_state_machine env
                     (''Offered payment option(s) ['' @ options_text env auth_options @ ''] are not valid'') s
               | Some auth \<Rightarrow>
                   if ev_selected_energy_mode s \<notin> Some ` set offered_energy_modes then
                     ev_stop_state_machine env
                       (''Offered energy transfer modes '' @
                         modes_text env offered_energy_modes (ev_selected_energy_mode s)) s
                   else if length (selected_services s) > 16 then raises ValidationError s
                   else
                     ev_next env (Some ServicePaymentSelection)
                       (ServicePaymentSelectionReq auth (selected_services s)) DIN_REQ s)
       | _ \<Rightarrow> done_with s) s"

definition ev_ServicePaymentSelection_process :: "ev_env \<Rightarrow> v2g_message \<Rightarrow> evcc \<Rightarrow> evcc outcome" where
  "ev_ServicePaymentSelection_process env m s =
     check_msg_din_spec env ServicePaymentSelectionResT m (\<lambda>h b s.
       ev_next env (Some ContractAuthentication) (ContractAuthenticationReq None None) DIN_REQ s) s"

text \<open>The timer of a request that is repeated while the charger is busy.\<close>

definition ongoing_check ::
  "'e ev_env_scheme \<Rightarrow> string \<Rightarrow> ('s evcc_scheme \<Rightarrow> 's evcc_scheme outcome) \<Rightarrow> 's evcc_scheme \<Rightarrow>
    's evcc_scheme outcome" where
  "ongoing_check env name k s =
     (if ongoing_timer s > 0 then
        if clock env - ongoing_timer s > V2G_SECC_SEQUENCE_TIMEOUT
        then ev_stop_state_machine env (''Ongoing timer timed out for '' @ name) s
        else k s
      else if ongoing_timer s = - 1 then k (s\<lparr>ongoing_timer := clock env\<rparr>)
      else k s)"

definition ev_ContractAuthentication_process :: "ev_env \<Rightarrow> v2g_message \<Rightarrow> evcc \<Rightarrow> evcc outcome" where
  "ev_ContractAuthentication_process env m s =
     check_msg_din_spec env ContractAuthenticationResT m (\<lambda>h b s.
       case b of
         ContractAuthenticationRes _ processing \<Rightarrow>
           ongoing_check env ''ContractAuthenticationRes'' (\<lambda>s.
             if processing = Some FINISHED then
               (case build_charge_parameter_discovery_req env of
                  Inl e \<Rightarrow> raises e s
                | Inr req \<Rightarrow> ev_next env (Some ChargeParameterDiscovery) req DIN_REQ s)
             else ev_next env None (ContractAuthenticationReq None None) DIN_REQ s) s
       | _ \<Rightarrow> done_with s) s"

definition ev_ChargeParameterDiscovery_process :: "ev_env \<Rightarrow> v2g_message \<Rightarrow> evcc \<Rightarrow> evcc outcome" where
  "ev_ChargeParameterDiscovery_process env m s =
     check_msg_din_spec env ChargeParameterDiscoveryResT m (\<lambda>h b s.
       case b of
         ChargeParameterDiscoveryRes _ processing schedules _ \<Rightarrow>
           if processing = FINISHED then
             let s = s\<lparr>ongoing_timer := - 1\<rparr>
             in (case schedules of
                   None \<Rightarrow> raises AttributeError s
                 | Some values \<Rightarrow>
                     (case process_sa_schedules_dinspec env values of
                        Inl e \<Rightarrow> raises e s
                      | Inr schedule_id \<Rightarrow>
                          andthen (ev_next env (Some CableCheck) (build_cable_check_req env) DIN_REQ s)
                            (\<lambda>s. done_with (ev_call (EnableCharging True)
                                   (s\<lparr>selected_schedule := Some schedule_id\<rparr>)))))
           else
             ongoing_check env ''ChargeParameterDiscoveryRes'' (\<lambda>s.
               case build_charge_parameter_discovery_req env of
                 Inl e \<Rightarrow> raises e s
               | Inr req \<Rightarrow> ev_next env None req V2G_SECC_SEQUENCE_TIMEOUT s) s
       | _ \<Rightarrow> done_with s) s"

definition ev_CableCheck_process :: "ev_env \<Rightarrow> v2g_message \<Rightarrow> evcc \<Rightarrow> evcc outcome" where
  "ev_CableCheck_process env m s =
     check_msg_din_spec env CableCheckResT m (\<lambda>h b s.
       case b of
         CableCheckRes _ status processing \<Rightarrow>
           if processing = FINISHED then
             let s = s\<lparr>ongoing_timer := - 1\<rparr>
             in if evse_status_code status = EVSE_READY \<and> evse_isolation_status status = Some VALID
                then ev_next env (Some PreCharge) (build_pre_charge_req env) DIN_REQ s
                else ev_stop_state_machine env ''Isolation-Level of EVSE is not Valid'' s
           else
             let again = ev_next env None (build_cable_check_req env) DIN_REQ
             in if ongoing_timer s \<ge> 0 then
                  if clock env - ongoing_timer s > V2G_EVCC_CABLE_CHECK_TIMEOUT
                  then ev_stop_state_machine env ''Ongoing timer timed out for CableCheck'' s
                  else again s
                else if ongoing_timer s = - 1 then again (s\<lparr>ongoing_timer := clock env\<rparr>)
                else again s
       | _ \<Rightarrow> done_with s) s"

definition ev_PreCharge_process :: "ev_env \<Rightarrow> v2g_message \<Rightarrow> evcc \<Rightarrow> evcc outcome" where
  "ev_PreCharge_process env m s =
     check_msg_din_spec env PreChargeResT m (\<lambda>h b s.
       case b of
         PreChargeRes _ _ present_voltage \<Rightarrow>
           if is_precharged env present_voltage then
             ev_next env (Some PowerDelivery) (build_power_delivery_req env) DIN_REQ
               (s\<lparr>ongoing_timer := - 1\<rparr>)
           else
             let again = ev_next env None (build_pre_charge_req env) DIN_REQ
             in if ongoing_timer s \<ge> 0 then
                  if clock env - ongoing_timer s > V2G_EVCC_PRE_CHARGE_TIMEOUT
                  then ev_stop_state_machine env ''Precharge timed out'' s
                  else again s
                else again (s\<lparr>ongoing_timer := clock env\<rparr>)
       | _ \<Rightarrow> done_with s) s"

definition ev_PowerDelivery_process :: "ev_env \<Rightarrow> v2g_message \<Rightarrow> evcc \<Rightarrow> evcc outcome" where
  "ev_PowerDelivery_process env m s =
     check_msg_din_spec env PowerDeliveryResT m (\<lambda>h b s.
       if continue_charging env
       then ev_next env (Some CurrentDemand) (build_current_demand_req env) CURRENT_DEMAND_REQ s
       else ev_next env (Some WeldingDetection) (build_welding_detection_req env) DIN_REQ
              (ev_call (EnableCharging False) s)) s"

definition stop_charging :: "ev_env \<Rightarrow> evcc \<Rightarrow> evcc outcome" where
  "stop_charging env s =
     ev_next env (Some PowerDelivery)
       (PowerDeliveryReq False None (Some (get_dc_ev_power_delivery_parameter env))) DIN_REQ
       (ev_call StopCharging s)"

text \<open>The configured delay before the next request, during which nothing else happens, is left out.\<close>

definition ev_CurrentDemand_process :: "ev_env \<Rightarrow> v2g_message \<Rightarrow> evcc \<Rightarrow> evcc outcome" where
  "ev_CurrentDemand_process env m s =
     check_msg_din_spec env CurrentDemandResT m (\<lambda>h b s.
       case b of
         CurrentDemandRes _ res \<Rightarrow>
           if evse_status_code (cd_dc_evse_status res) \<noteq> EVSE_READY then stop_charging env s
           else if continue_charging env
             then ev_next env None (build_current_demand_req env) CURRENT_DEMAND_REQ s
           else stop_charging env s
       | _ \<Rightarrow> done_with s) s"

definition ev_WeldingDetection_process :: "ev_env \<Rightarrow> v2g_message \<Rightarrow> evcc \<Rightarrow> evcc outcome" where
  "ev_WeldingDetection_process env m s =
     check_msg_din_spec env WeldingDetectionResT m (\<lambda>h b s.
       ongoing_check env ''WeldingDetectionRes'' (\<lambda>s.
         if welding_detection_has_finished env
         then ev_next env (Some SessionStop) SessionStopReq DIN_REQ s
         else ev_next env None (build_welding_detection_req env) DIN_REQ s) s) s"

definition ev_SessionStop_process :: "ev_env \<Rightarrow> v2g_message \<Rightarrow> evcc \<Rightarrow> evcc outcome" where
  "ev_SessionStop_process env m s =
     check_msg_din_spec env SessionStopResT m (\<lambda>h b s.
       let s = s\<lparr>stop_reason :=
                   Some \<lparr>successful = True, reason = ''Communication session stopped successfully'',
                         peer_ip_address = peername env, stop_action = TERMINATE\<rparr>\<rparr>
       in done_with (update_state (\<lambda>x. x\<lparr>next_state := Some Terminate\<rparr>) s)) s"

fun ev_din_process :: "state_kind \<Rightarrow> ev_env \<Rightarrow> v2g_message \<Rightarrow> evcc \<Rightarrow> evcc outcome" where
  "ev_din_process SessionSetup = ev_SessionSetup_process"
| "ev_din_process ServiceDiscovery = ev_ServiceDiscovery_process"
| "ev_din_process ServicePaymentSelection = ev_ServicePaymentSelection_process"
| "ev_din_process ContractAuthentication = ev_ContractAuthentication_process"
| "ev_din_process ChargeParameterDiscovery = ev_ChargeParameterDiscovery_process"
| "ev_din_process CableCheck = ev_CableCheck_process"
| "ev_din_process PreCharge = ev_PreCharge_process"
| "ev_din_process PowerDelivery = ev_PowerDelivery_process"
| "ev_din_process CurrentDemand = ev_CurrentDemand_process"
| "ev_din_process WeldingDetection = ev_WeldingDetection_process"
| "ev_din_process SessionStop = ev_SessionStop_process"
| "ev_din_process _ = (\<lambda>env m s. done_with s)"

section \<open>What every state refuses\<close>

text \<open>A response that belongs to the state, is positive and comes from the session's peer.\<close>

fun genuine :: "res_type \<Rightarrow> v2g_message \<Rightarrow> evcc \<Rightarrow> bool" where
  "genuine expected (DinMessage h (Some b)) s \<longleftrightarrow> response_type b = Some expected \<and>
     (\<forall>rc. response_code_of b = Some rc \<longrightarrow> \<not> failed_code rc) \<and>
     (expected = SessionSetupResT \<or> header_session_id h = session_id s)"
| "genuine expected _ s \<longleftrightarrow> False"

text \<open>The vehicle ends the session without having been told to do anything else.\<close>

definition gives_up :: "'s evcc_scheme \<Rightarrow> 's evcc_scheme outcome \<Rightarrow> bool" where
  "gives_up s r \<longleftrightarrow> snd r = None \<and> next_state (current_state (fst r)) = Some Terminate \<and>
     map_option successful (stop_reason (fst r)) = Some False \<and> ev_calls (fst r) = ev_calls s \<and>
     session_id (fst r) = session_id s \<and> next_v2gtp_msg (current_state (fst r)) = next_v2gtp_msg (current_state s)"

lemma gives_up_stop: "gives_up s (ev_stop_state_machine env r s)"
  by (simp add: gives_up_def ev_stop_state_machine_def Let_def update_state_def)

lemma check_refuses: "\<not> genuine expected m s \<Longrightarrow> gives_up s (check_msg_din_spec env expected m k s)"
proof (cases m)
  case (DinMessage h body)
  then show "\<not> genuine expected m s \<Longrightarrow> ?thesis"
    by (cases body) (auto simp: check_msg_din_spec_def gives_up_stop split: option.split)
qed (simp_all add: check_msg_din_spec_def gives_up_stop)

locale ev_state =
  fixes process :: "ev_env \<Rightarrow> v2g_message \<Rightarrow> evcc \<Rightarrow> evcc outcome" and expected :: res_type
  assumes checks: "\<exists>body. process env m s = check_msg_din_spec env expected m body s"
begin

lemma refuses: "\<not> genuine expected m s \<Longrightarrow> gives_up s (process env m s)"
  using checks [of env m s] check_refuses by auto

lemma negative_response:
  assumes "response_code_of b = Some rc" "failed_code rc"
  shows "gives_up s (process env (DinMessage h (Some b)) s)"
  using assms by (intro refuses) simp

lemma foreign_response:
  assumes "header_session_id h \<noteq> session_id s" "expected \<noteq> SessionSetupResT"
  shows "gives_up s (process env (DinMessage h (Some b)) s)"
  using assms by (intro refuses) simp

end

interpretation ev_session_setup: ev_state ev_SessionSetup_process SessionSetupResT
  by unfold_locales (auto simp: ev_SessionSetup_process_def)

interpretation ev_service_discovery: ev_state ev_ServiceDiscovery_process ServiceDiscoveryResT
  by unfold_locales (auto simp: ev_ServiceDiscovery_process_def)

interpretation ev_service_payment_selection: ev_state ev_ServicePaymentSelection_process ServicePaymentSelectionResT
  by unfold_locales (auto simp: ev_ServicePaymentSelection_process_def)

interpretation ev_contract_authentication: ev_state ev_ContractAuthentication_process ContractAuthenticationResT
  by unfold_locales (auto simp: ev_ContractAuthentication_process_def)

interpretation ev_charge_parameter_discovery: ev_state ev_ChargeParameterDiscovery_process ChargeParameterDiscoveryResT
  by unfold_locales (auto simp: ev_ChargeParameterDiscovery_process_def)

interpretation ev_cable_check: ev_state ev_CableCheck_process CableCheckResT
  by unfold_locales (auto simp: ev_CableCheck_process_def)

interpretation ev_pre_charge: ev_state ev_PreCharge_process PreChargeResT
  by unfold_locales (auto simp: ev_PreCharge_process_def)

interpretation ev_power_delivery: ev_state ev_PowerDelivery_process PowerDeliveryResT
  by unfold_locales (auto simp: ev_PowerDelivery_process_def)

interpretation ev_current_demand: ev_state ev_CurrentDemand_process CurrentDemandResT
  by unfold_locales (auto simp: ev_CurrentDemand_process_def)

interpretation ev_welding_detection: ev_state ev_WeldingDetection_process WeldingDetectionResT
  by unfold_locales (auto simp: ev_WeldingDetection_process_def)

interpretation ev_session_stop: ev_state ev_SessionStop_process SessionStopResT
  by unfold_locales (auto simp: ev_SessionStop_process_def)

fun expected_response :: "state_kind \<Rightarrow> res_type option" where
  "expected_response SessionSetup = Some SessionSetupResT"
| "expected_response ServiceDiscovery = Some ServiceDiscoveryResT"
| "expected_response ServicePaymentSelection = Some ServicePaymentSelectionResT"
| "expected_response ContractAuthentication = Some ContractAuthenticationResT"
| "expected_response ChargeParameterDiscovery = Some ChargeParameterDiscoveryResT"
| "expected_response CableCheck = Some CableCheckResT"
| "expected_response PreCharge = Some PreChargeResT"
| "expected_response PowerDelivery = Some PowerDeliveryResT"
| "expected_response CurrentDemand = Some CurrentDemandResT"
| "expected_response WeldingDetection = Some WeldingDetectionResT"
| "expected_response SessionStop = Some SessionStopResT"
| "expected_response _ = None"

end
