(* ===== verification/Din_Composition.thy ===== *)
theory Din_Composition
  imports Din_Properties Evcc_Din_States
begin

text \<open>
  The vehicle's and the charger's state machines of DIN SPEC 70121 run against each other: the request the
  vehicle has sent is handled by the charger's current state, its response by the vehicle's, and so
  on. Each exchange has its own environment on both sides, so hardware and clocks may answer anything.
\<close>

section \<open>The joint system\<close>

text \<open>
  The message objects pass from one side to the other; \<open>in_flight\<close> is the request under way, \<open>None\<close> once a
  side has ended the session, and \<open>trace\<close> the exchanges so far.
\<close>

record joint =
  charger :: secc
  vehicle :: evcc
  in_flight :: "v2g_message option"
  trace :: "(v2g_message \<times> v2g_message) list"

definition stops :: "'s v2g_session_scheme \<Rightarrow> bool" where
  "stops s \<longleftrightarrow> next_state (current_state s) \<in> set [Some Terminate, Some Pause]"

definition moved_on :: "'s v2g_session_scheme \<Rightarrow> 's v2g_session_scheme" where
  "moved_on s = (if stops s then s else go_to_next_state s)"

definition vehicle_turn :: "ev_env \<Rightarrow> v2g_message \<Rightarrow> joint \<Rightarrow> joint" where
  "vehicle_turn ee res j =
     (let v = vehicle j
      in (case run_state (ev_din_process (kind (current_state v)) ee res) v of
            (v', Some _) \<Rightarrow> j\<lparr>vehicle := v', in_flight := None\<rparr>
          | (v', None) \<Rightarrow>
              j\<lparr>vehicle := moved_on v',
                in_flight := (if stops v' \<or> stops (charger j) then None else outgoing v')\<rparr>))"

definition exchange :: "env \<Rightarrow> ev_env \<Rightarrow> joint \<Rightarrow> joint" where
  "exchange env ee j =
     (case in_flight j of
        None \<Rightarrow> j
      | Some req \<Rightarrow>
          let c = charger j
          in (case run_state (din_process (kind (current_state c)) env req) c of
                (c', Some _) \<Rightarrow> j\<lparr>charger := c', in_flight := None\<rparr>
              | (c', None) \<Rightarrow>
                  (case outgoing c' of
                     None \<Rightarrow> j\<lparr>charger := c', in_flight := None\<rparr>
                   | Some res \<Rightarrow>
                       vehicle_turn ee res
                         (j\<lparr>charger := moved_on c', trace := trace j @ [(req, res)]\<rparr>))))"

section \<open>The vehicle's side\<close>

text \<open>
  The vehicle's codec encodes, its energy transfer mode is one of the DC modes a DIN message may carry,
  and it can process the schedules it is offered.
\<close>

definition ev_env_ok :: "ev_env \<Rightarrow> bool" where
  "ev_env_ok ee \<longleftrightarrow> (\<forall>m n. \<not> isl (to_exi ee m n)) \<and> get_energy_transfer_mode ee \<in> {DC_EXTENDED, DC_CORE} \<and>
     (\<forall>l. \<not> isl (process_sa_schedules_dinspec ee l))"

definition ev_session_ok :: "evcc \<Rightarrow> bool" where
  "ev_session_ok v \<longleftrightarrow> session_protocol v = DIN_SPEC_70121 \<and> hex_id (session_id v)"

lemma ev_next_ok [simp]:
  "ev_env_ok ee \<Longrightarrow> ev_session_ok v \<Longrightarrow> ev_next ee nxt b t v = done_with (prepared ee nxt t b v)"
  unfolding ev_next_def
  by (rule create_next_message_prepared)
    (auto simp: ev_env_ok_def ev_session_ok_def hex_id_def intro!: int_base_16_ok_hex)

lemma ev_session_ok_simps [simp]:
  "ev_session_ok (ev_call c v) = ev_session_ok v" "ev_session_ok (v\<lparr>ongoing_timer := t\<rparr>) = ev_session_ok v"
  "ev_session_ok (update_state f v) = ev_session_ok v" "ev_session_ok (v\<lparr>evse_id := i\<rparr>) = ev_session_ok v"
  "ev_session_ok (enter k v) = ev_session_ok v" "ev_session_ok (prepared ee nxt t b v) = ev_session_ok v"
  "ev_session_ok (v\<lparr>ev_selected_auth_option := a\<rparr>) = ev_session_ok v"
  "ev_session_ok (v\<lparr>selected_services := l\<rparr>) = ev_session_ok v"
  "ev_session_ok (v\<lparr>ev_selected_energy_mode := m\<rparr>) = ev_session_ok v"
  "ev_session_ok (v\<lparr>resume_requested_energy_mode := m\<rparr>) = ev_session_ok v"
  "ev_session_ok (v\<lparr>selected_schedule := i'\<rparr>) = ev_session_ok v"
  "ev_session_ok (v\<lparr>stop_reason := r\<rparr>) = ev_session_ok v"
  by (simp_all add: ev_session_ok_def ev_call_def)

lemma ev_call_simps [simp]:
  "session_id (ev_call c v) = session_id v" "current_state (ev_call c v) = current_state v"
  by (simp_all add: ev_call_def)

section \<open>What a turn leaves behind\<close>

text \<open>A message with this body is sent after the state has run, in the session's name.\<close>

definition sends :: "din_body \<Rightarrow> 's v2g_session_scheme \<Rightarrow> bool" where
  "sends b s \<longleftrightarrow> next_v2gtp_msg (current_state s) \<noteq> None \<and>
     (\<exists>h. header_session_id h = session_id s \<and> state_message (current_state s) = Some (DinMessage h (Some b)))"

lemma sends_prepared [simp]: "sends b' (prepared env nxt t b s) \<longleftrightarrow> b' = b"
  by (auto simp: sends_def prepared_def din_message_def)

lemma sends_expect [simp]: "sends b (update_state (\<lambda>x. x\<lparr>expect_first := e\<rparr>) s) = sends b s"
  by (simp add: sends_def)

lemma run_state_sends: "p s = (s', None) \<Longrightarrow> sends b s' \<Longrightarrow> run_state p s = (s', None)"
  by (auto simp: run_state_def sends_def done_with_def andthen_def)

lemma outgoing_sends: "sends b s \<Longrightarrow> \<exists>h. header_session_id h = session_id s \<and> outgoing s = Some (DinMessage h (Some b))"
  by (auto simp: sends_def outgoing_def)

lemma moved_on_simps [simp]:
  "next_state (current_state s) = Some k \<Longrightarrow> k \<noteq> Terminate \<Longrightarrow> k \<noteq> Pause \<Longrightarrow> moved_on s = enter k s"
  "next_state (current_state s) = None \<Longrightarrow> moved_on s = s"
  "next_state (current_state s) = Some Terminate \<Longrightarrow> moved_on s = s"
  by (simp_all add: moved_on_def go_to_next_state_def stops_def)

text \<open>Where the charger's machine takes a request, and where it is after a positive answer.\<close>

fun accepts :: "din_body \<Rightarrow> state_obj \<Rightarrow> bool" where
  "accepts (SessionSetupReq _) x \<longleftrightarrow> kind x = SessionSetup"
| "accepts (ServiceDiscoveryReq _ _) x \<longleftrightarrow> kind x = ServiceDiscovery"
| "accepts (ServicePaymentSelectionReq _ _) x \<longleftrightarrow> kind x = ServicePaymentSelection"
| "accepts (ContractAuthenticationReq _ _) x \<longleftrightarrow> kind x = ContractAuthentication"
| "accepts (ChargeParameterDiscoveryReq _ _) x \<longleftrightarrow> kind x = ChargeParameterDiscovery"
| "accepts (CableCheckReq _) x \<longleftrightarrow> kind x = CableCheck"
| "accepts (PreChargeReq _ _ _) x \<longleftrightarrow> kind x = PreCharge"
| "accepts (PowerDeliveryReq ready _ param) x \<longleftrightarrow>
     param \<noteq> None \<and> kind x = (if ready then PreCharge else CurrentDemand) \<and> \<not> expect_first x"
| "accepts (CurrentDemandReq _) x \<longleftrightarrow> kind x = CurrentDemand"
| "accepts (WeldingDetectionReq _) x \<longleftrightarrow>
     kind x = WeldingDetection \<or> kind x = PowerDelivery \<and> \<not> expect_first x"
| "accepts SessionStopReq x \<longleftrightarrow> kind x = WeldingDetection \<and> \<not> expect_first x"
| "accepts _ x \<longleftrightarrow> False"

fun settled :: "din_body \<Rightarrow> din_body \<Rightarrow> state_obj \<Rightarrow> bool" where
  "settled (SessionSetupReq _) res x = (case res of SessionSetupRes _ _ _ \<Rightarrow> kind x = ServiceDiscovery | _ \<Rightarrow> False)"
| "settled (ServiceDiscoveryReq _ _) res x = (case res of ServiceDiscoveryRes _ opts _ \<Rightarrow> kind x = ServicePaymentSelection \<and> opts = [EIM_V2] | _ \<Rightarrow> False)"
| "settled (ServicePaymentSelectionReq _ _) res x = (case res of ServicePaymentSelectionRes _ \<Rightarrow> kind x = ContractAuthentication | _ \<Rightarrow> False)"
| "settled (ContractAuthenticationReq _ _) res x = (case res of ContractAuthenticationRes _ p \<Rightarrow> kind x = (if p = Some FINISHED then ChargeParameterDiscovery else ContractAuthentication) | _ \<Rightarrow> False)"
| "settled (ChargeParameterDiscoveryReq _ _) res x = (case res of ChargeParameterDiscoveryRes _ p l _ \<Rightarrow> (if p = FINISHED then l \<noteq> None \<and> kind x = CableCheck else kind x = ChargeParameterDiscovery) | _ \<Rightarrow> False)"
| "settled (CableCheckReq _) res x = (case res of CableCheckRes _ _ p \<Rightarrow> kind x = (if p = FINISHED then PreCharge else CableCheck) | _ \<Rightarrow> False)"
| "settled (PreChargeReq _ _ _) res x = (case res of PreChargeRes _ _ _ \<Rightarrow> kind x = PreCharge \<and> \<not> expect_first x | _ \<Rightarrow> False)"
| "settled (PowerDeliveryReq ready _ _) res x = (case res of PowerDeliveryRes _ _ \<Rightarrow> (if ready then kind x = CurrentDemand else kind x = PowerDelivery \<and> \<not> expect_first x) | _ \<Rightarrow> False)"
| "settled (CurrentDemandReq _) res x = (case res of CurrentDemandRes _ _ \<Rightarrow> kind x = CurrentDemand \<and> \<not> expect_first x | _ \<Rightarrow> False)"
| "settled (WeldingDetectionReq _) res x = (case res of WeldingDetectionRes _ _ _ \<Rightarrow> kind x = WeldingDetection \<and> \<not> expect_first x | _ \<Rightarrow> False)"
| "settled SessionStopReq res x = (case res of SessionStopRes _ \<Rightarrow> next_state x = Some Terminate | _ \<Rightarrow> False)"
| "settled _ res x = False"

section \<open>The charger's side\<close>

text \<open>
  The charger answers an accepted request: either negatively, with a code that does not blame the
  order of messages or the session, and the session ends; or positively, and it is ready for what may
  follow.
\<close>

definition replied :: "string \<Rightarrow> din_body \<Rightarrow> secc outcome \<Rightarrow> bool" where
  "replied i b r \<longleftrightarrow> snd r = None \<and> session_ok (fst r) \<and>
     (body_type b \<noteq> SessionSetupReqT \<longrightarrow> session_id (fst r) = i) \<and>
     (\<exists>res rc. sends res (fst r) \<and> answers res = body_type b \<and> response_code_of res = Some rc \<and>
        (if failed_code rc
         then next_state (current_state (fst r)) = Some Terminate \<and> rc \<notin> {FAILED_SEQUENCE_ERROR, FAILED_UNKNOWN_SESSION}
         else settled b res (current_state (moved_on (fst r))) \<and>
           (next_state (current_state (fst r)) \<in> {Some Terminate, Some Pause} \<longleftrightarrow> b = SessionStopReq)))"

lemma replied_stopped:
  assumes "body_type b \<noteq> SessionSetupReqT \<longrightarrow> session_id s = i" "session_ok s" "is_request b" "failed_code rc" "rc \<notin> {FAILED_SEQUENCE_ERROR, FAILED_UNKNOWN_SESSION}"
  shows "replied i b (done_with (stopped env r rc b s))"
  using assms unfolding replied_def
  by (auto simp: stopped_def done_with_def intro!: exI [of _ "error_response b rc"])

lemma replied_prepared:
  assumes "body_type b \<noteq> SessionSetupReqT \<longrightarrow> session_id s = i" "session_ok s" "answers res = body_type b" "response_code_of res = Some rc" "\<not> failed_code rc"
    and "settled b res (current_state (moved_on (prepared env nxt t res s)))"
    and "nxt \<in> {Some Terminate, Some Pause} \<longleftrightarrow> b = SessionStopReq"
  shows "replied i b (done_with (prepared env nxt t res s))"
  using assms unfolding replied_def by (auto simp: done_with_def intro!: exI [of _ res])

lemma replied_expect:
  assumes "body_type b \<noteq> SessionSetupReqT \<longrightarrow> session_id s = i" "session_ok s" "answers res = body_type b" "response_code_of res = Some rc" "\<not> failed_code rc"
    and "settled b res (current_state (moved_on (update_state (\<lambda>x. x\<lparr>expect_first := e\<rparr>) (prepared env nxt t res s))))"
    and "nxt \<in> {Some Terminate, Some Pause} \<longleftrightarrow> b = SessionStopReq"
  shows "replied i b (done_with (update_state (\<lambda>x. x\<lparr>expect_first := e\<rparr>) (prepared env nxt t res s)))"
  using assms unfolding replied_def by (auto simp: done_with_def intro!: exI [of _ res])

lemmas replied_intros = replied_stopped replied_prepared replied_expect

lemma failed_code_simps [simp]:
  "\<not> failed_code OK" "\<not> failed_code OK_NEW_SESSION_ESTABLISHED" "\<not> failed_code OK_OLD_SESSION_JOINED"
  "failed_code FAILED" "failed_code FAILED_PAYMENT_SELECTION_INVALID" "failed_code FAILED_SERVICE_SELECTION_INVALID"
  "failed_code FAILED_WRONG_ENERGY_TRANSFER_MODE"
  by (simp_all add: failed_code_def)

lemma charger_replies_early:
  assumes env: "env_ok env" and s: "session_ok s" "header_session_id h = session_id s"
  shows "kind (current_state s) = ServiceDiscovery \<Longrightarrow>
      replied (session_id s) (ServiceDiscoveryReq x y) (ServiceDiscovery_process env (DinMessage h (Some (ServiceDiscoveryReq x y))) s)"
    and "kind (current_state s) = ServicePaymentSelection \<Longrightarrow>
      replied (session_id s) (ServicePaymentSelectionReq o' l)
        (ServicePaymentSelection_process env (DinMessage h (Some (ServicePaymentSelectionReq o' l))) s)"
    and "kind (current_state s) = ContractAuthentication \<Longrightarrow>
      replied (session_id s) (ContractAuthenticationReq g i)
        (ContractAuthentication_process env (DinMessage h (Some (ContractAuthenticationReq g i))) s)"
    and "kind (current_state s) = ChargeParameterDiscovery \<Longrightarrow>
      replied (session_id s) (ChargeParameterDiscoveryReq m p)
        (ChargeParameterDiscovery_process env (DinMessage h (Some (ChargeParameterDiscoveryReq m p))) s)"
    and "kind (current_state s) = CableCheck \<Longrightarrow>
      replied (session_id s) (CableCheckReq st) (CableCheck_process env (DinMessage h (Some (CableCheckReq st))) s)"
proof -
  obtain m0 ms where "supported_energy_transfer_modes env = m0 # ms"
    using env by (cases "supported_energy_transfer_modes env") (auto simp: env_ok_def)
  then show "kind (current_state s) = ServiceDiscovery \<Longrightarrow>
      replied (session_id s) (ServiceDiscoveryReq x y) (ServiceDiscovery_process env (DinMessage h (Some (ServiceDiscoveryReq x y))) s)"
    using env s by (auto simp: ServiceDiscovery_process_def handler_simps same_session_def
        build_service_discovery_res_def intro!: replied_intros)
  show "kind (current_state s) = ServicePaymentSelection \<Longrightarrow>
      replied (session_id s) (ServicePaymentSelectionReq o' l)
        (ServicePaymentSelection_process env (DinMessage h (Some (ServicePaymentSelectionReq o' l))) s)"
    using env s by (auto simp: ServicePaymentSelection_process_def handler_simps same_session_def intro!: replied_intros)
  show "kind (current_state s) = ContractAuthentication \<Longrightarrow>
      replied (session_id s) (ContractAuthenticationReq g i)
        (ContractAuthentication_process env (DinMessage h (Some (ContractAuthenticationReq g i))) s)"
    using env s by (auto simp: ContractAuthentication_process_def handler_simps same_session_def intro!: replied_intros)
  show "kind (current_state s) = ChargeParameterDiscovery \<Longrightarrow>
      replied (session_id s) (ChargeParameterDiscoveryReq m p)
        (ChargeParameterDiscovery_process env (DinMessage h (Some (ChargeParameterDiscoveryReq m p))) s)"
    using env s by (auto simp: ChargeParameterDiscovery_process_def handler_simps same_session_def intro!: replied_intros)
  show "kind (current_state s) = CableCheck \<Longrightarrow>
      replied (session_id s) (CableCheckReq st) (CableCheck_process env (DinMessage h (Some (CableCheckReq st))) s)"
    using env s unfolding CableCheck_process_def
    by (auto simp: handler_simps same_session_def split: option.splits bool.splits intro!: replied_intros)
qed


lemma charger_replies_setup:
  assumes "env_ok env" "session_protocol s = DIN_SPEC_70121" "kind (current_state s) = SessionSetup"
    and "header_session_id h = session_id s \<longrightarrow> header_session_id h = ''00'' \<or> hex_id (session_id s)"
  shows "replied (session_id s) (SessionSetupReq e) (SessionSetup_process env (DinMessage h (Some (SessionSetupReq e))) s)"
proof -
  have "check_msg_dinspec env [SessionSetupReqT] True (DinMessage h (Some (SessionSetupReq e))) k s = k s" for k
    by (rule check_passed) auto
  then show ?thesis
    using assms unfolding SessionSetup_process_def
    by (auto simp: Let_def the_body_def the_header_id_def hex_random session_ok_def intro!: replied_intros)
qed

lemma charger_replies_power_delivery:
  assumes "env_ok env" "session_ok s" "header_session_id h = session_id s" "kind (current_state s) = PowerDelivery"
  shows "replied (session_id s) (PowerDeliveryReq r q (Some p))
    (PowerDelivery_process env (DinMessage h (Some (PowerDeliveryReq r q (Some p)))) s)"
proof -
  have "accepted [PowerDeliveryReqT, SessionStopReqT, WeldingDetectionReqT] (expect_first (current_state s))
      (PowerDeliveryReq r q (Some p))"
    by (simp add: accepted_def)
  then show ?thesis
    using assms unfolding PowerDelivery_process_def
    by (auto simp: check_msg_dinspec_ok the_body_def Let_def same_session_def intro!: replied_intros)
qed

lemma charger_replies_charging:
  assumes env: "env_ok env" and s: "session_ok s" "header_session_id h = session_id s"
  shows "kind (current_state s) = PreCharge \<Longrightarrow>
      replied (session_id s) (PreChargeReq st u i) (PreCharge_process env (DinMessage h (Some (PreChargeReq st u i))) s)"
    and "kind (current_state s) = CurrentDemand \<Longrightarrow>
      replied (session_id s) (CurrentDemandReq q) (CurrentDemand_process env (DinMessage h (Some (CurrentDemandReq q))) s)"
    and "\<not> expect_first (current_state s) \<Longrightarrow>
      replied (session_id s) (PowerDeliveryReq r q' (Some p)) (PreCharge_process env (DinMessage h (Some (PowerDeliveryReq r q' (Some p)))) s)"
    and "\<not> expect_first (current_state s) \<Longrightarrow>
      replied (session_id s) (PowerDeliveryReq r q' (Some p)) (CurrentDemand_process env (DinMessage h (Some (PowerDeliveryReq r q' (Some p)))) s)"
proof -
  obtain c where c: "evse_present_current env = Inr c"
    using env by (cases "evse_present_current env") (auto simp: env_ok_def)
  have acc: "accepted [PreChargeReqT, PowerDeliveryReqT] f (PreChargeReq st u i)"
    "accepted [CurrentDemandReqT, PowerDeliveryReqT] f (CurrentDemandReq q)" for f
    by (simp_all add: accepted_def)
  show "kind (current_state s) = PreCharge \<Longrightarrow>
      replied (session_id s) (PreChargeReq st u i) (PreCharge_process env (DinMessage h (Some (PreChargeReq st u i))) s)"
    using env s acc c unfolding PreCharge_process_def
    by (auto simp: check_msg_dinspec_ok the_body_def Let_def same_session_def intro!: replied_intros)
  show "kind (current_state s) = CurrentDemand \<Longrightarrow>
      replied (session_id s) (CurrentDemandReq q) (CurrentDemand_process env (DinMessage h (Some (CurrentDemandReq q))) s)"
    using env s acc c unfolding CurrentDemand_process_def
    by (auto simp: check_msg_dinspec_ok the_body_def Let_def same_session_def intro!: replied_intros)
  show "\<not> expect_first (current_state s) \<Longrightarrow>
      replied (session_id s) (PowerDeliveryReq r q' (Some p)) (PreCharge_process env (DinMessage h (Some (PowerDeliveryReq r q' (Some p)))) s)"
    using env s charger_replies_power_delivery [of env "enter PowerDelivery s" h]
    by (simp add: PreCharge_process_def check_msg_dinspec_ok the_body_def same_session_def)
  show "\<not> expect_first (current_state s) \<Longrightarrow>
      replied (session_id s) (PowerDeliveryReq r q' (Some p)) (CurrentDemand_process env (DinMessage h (Some (PowerDeliveryReq r q' (Some p)))) s)"
    using env s charger_replies_power_delivery [of env "enter PowerDelivery s" h]
    by (simp add: CurrentDemand_process_def check_msg_dinspec_ok the_body_def same_session_def)
qed

lemma charger_replies_late:
  assumes env: "env_ok env" and s: "session_ok s" "header_session_id h = session_id s"
  shows "kind (current_state s) = WeldingDetection \<Longrightarrow>
      replied (session_id s) (WeldingDetectionReq st) (WeldingDetection_process env (DinMessage h (Some (WeldingDetectionReq st))) s)"
    and "\<not> expect_first (current_state s) \<Longrightarrow>
      replied (session_id s) (WeldingDetectionReq st) (PowerDelivery_process env (DinMessage h (Some (WeldingDetectionReq st))) s)"
    and "\<not> expect_first (current_state s) \<Longrightarrow>
      replied (session_id s) SessionStopReq (WeldingDetection_process env (DinMessage h (Some SessionStopReq)) s)"
proof -
  have welding: "replied (session_id s) (WeldingDetectionReq st)
      (WeldingDetection_process env (DinMessage h (Some (WeldingDetectionReq st))) x)"
    if x: "session_ok x" "session_id x = session_id s" "kind (current_state x) = WeldingDetection" for x
  proof -
    have "accepted [WeldingDetectionReqT, SessionStopReqT] f (WeldingDetectionReq st)" for f
      by (simp add: accepted_def)
    with env s x show ?thesis
      unfolding WeldingDetection_process_def
      by (auto simp: check_msg_dinspec_ok the_body_def Let_def same_session_def intro!: replied_intros)
  qed
  show "kind (current_state s) = WeldingDetection \<Longrightarrow>
      replied (session_id s) (WeldingDetectionReq st) (WeldingDetection_process env (DinMessage h (Some (WeldingDetectionReq st))) s)"
    using welding [of s] s by simp
  show "\<not> expect_first (current_state s) \<Longrightarrow>
      replied (session_id s) (WeldingDetectionReq st) (PowerDelivery_process env (DinMessage h (Some (WeldingDetectionReq st))) s)"
    using env s welding [of "enter WeldingDetection s"]
    by (simp add: PowerDelivery_process_def check_msg_dinspec_ok the_body_def same_session_def)
  show "\<not> expect_first (current_state s) \<Longrightarrow>
      replied (session_id s) SessionStopReq (WeldingDetection_process env (DinMessage h (Some SessionStopReq)) s)"
    using env s
    by (auto simp: WeldingDetection_process_def SessionStop_process_def check_msg_dinspec_ok the_body_def
        same_session_def Let_def intro!: replied_intros)
qed

text \<open>The identifier under which the vehicle speaks: its own at set-up, the charger's from then on.\<close>

definition same_id :: "din_header \<Rightarrow> din_body \<Rightarrow> secc \<Rightarrow> bool" where
  "same_id h b c \<longleftrightarrow> session_protocol c = DIN_SPEC_70121 \<and>
     (if body_type b = SessionSetupReqT
      then header_session_id h = ''00'' \<or> header_session_id h \<noteq> session_id c \<or> hex_id (session_id c)
      else hex_id (session_id c) \<and> header_session_id h = session_id c)"

lemma charger_replies:
  assumes "env_ok env" "accepts b (current_state c)" "same_id h b c"
  shows "replied (session_id c) b (din_process (kind (current_state c)) env (DinMessage h (Some b)) c)"
proof (cases "body_type b = SessionSetupReqT")
  case True
  then obtain e where "b = SessionSetupReq e" by (auto simp: body_type_cases)
  then show ?thesis
    using assms charger_replies_setup [of env c h e] by (auto simp: same_id_def)
next
  case False
  then have "session_ok c" "header_session_id h = session_id c"
    using assms(3) by (auto simp: same_id_def session_ok_def)
  note rules = charger_replies_early [OF assms(1) this] charger_replies_charging [OF assms(1) this]
    charger_replies_late [OF assms(1) this]
  show ?thesis
    using False assms(2) by (cases b) (auto simp: rules)
qed


section \<open>The vehicle's turn\<close>

fun request_state :: "din_body \<Rightarrow> state_kind" where
  "request_state (SessionSetupReq _) = SessionSetup"
| "request_state (ServiceDiscoveryReq _ _) = ServiceDiscovery"
| "request_state (ServicePaymentSelectionReq _ _) = ServicePaymentSelection"
| "request_state (ContractAuthenticationReq _ _) = ContractAuthentication"
| "request_state (ChargeParameterDiscoveryReq _ _) = ChargeParameterDiscovery"
| "request_state (CableCheckReq _) = CableCheck"
| "request_state (PreChargeReq _ _ _) = PreCharge"
| "request_state (PowerDeliveryReq _ _ _) = PowerDelivery"
| "request_state (CurrentDemandReq _) = CurrentDemand"
| "request_state (WeldingDetectionReq _) = WeldingDetection"
| "request_state SessionStopReq = SessionStop"
| "request_state _ = Terminate"

text \<open>
  The vehicle either ends the session, or sends a request the charger, being in state \<open>x\<close>, accepts, and
  waits for the answer in the state that belongs to it. There must be room for one more selected
  service when service discovery is under way.
\<close>

definition room :: "din_body \<Rightarrow> evcc \<Rightarrow> bool" where
  "room b v \<longleftrightarrow> (body_type b \<in> {SessionSetupReqT, ServiceDiscoveryReqT} \<longrightarrow> length (selected_services v) < 16)"

definition follows :: "state_obj \<Rightarrow> string \<Rightarrow> evcc outcome \<Rightarrow> bool" where
  "follows x sid r \<longleftrightarrow> snd r = None \<and>
     (next_state (current_state (fst r)) = Some Terminate \<or>
      (\<exists>b'. sends b' (fst r) \<and> next_state (current_state (fst r)) \<notin> {Some Terminate, Some Pause} \<and>
         accepts b' x \<and> body_type b' \<noteq> SessionSetupReqT \<and>
         kind (current_state (moved_on (fst r))) = request_state b' \<and> session_id (fst r) = sid \<and>
         ev_session_ok (fst r) \<and> room b' (fst r)))"

lemma follows_stop: "follows x sid (ev_stop_state_machine ee r v)"
  by (simp add: follows_def ev_stop_state_machine_def done_with_def Let_def)

lemma follows_prepared:
  assumes "nxt \<notin> {Some Terminate, Some Pause}" "accepts b' x" "body_type b' \<noteq> SessionSetupReqT"
    and "kind (current_state (moved_on (prepared ee nxt t b' v))) = request_state b'"
    and "session_id v = sid" "ev_session_ok v" "room b' v"
  shows "follows x sid (done_with (prepared ee nxt t b' v))"
proof -
  have "room b' (prepared ee nxt t b' v)" using assms(7) by (simp add: room_def prepared_def update_state_def)
  with assms show ?thesis
    unfolding follows_def done_with_def by (auto intro!: disjI2 exI [of _ b'])
qed

lemmas follows_intros = follows_stop follows_prepared

lemma check_msg_din_spec_passed:
  assumes "response_type b = Some e" "response_code_of b = Some rc" "\<not> failed_code rc"
    and "e = SessionSetupResT \<or> header_session_id h = session_id v"
  shows "check_msg_din_spec ee e (DinMessage h (Some b)) k v = k h b v"
  using assms by (auto simp: check_msg_din_spec_def)

lemma check_msg_din_spec_failed:
  assumes "response_type b = Some e" "response_code_of b = Some rc" "failed_code rc"
  shows "\<exists>r. check_msg_din_spec ee e (DinMessage h (Some b)) k v = ev_stop_state_machine ee r v"
  using assms by (auto simp: check_msg_din_spec_def)

lemma follows_ongoing:
  assumes "\<And>v'. v' \<in> {v, v\<lparr>ongoing_timer := clock ee\<rparr>} \<Longrightarrow> follows x sid (k v')"
  shows "follows x sid (ongoing_check ee n k v)"
  using assms by (auto simp: ongoing_check_def follows_stop)

lemma charge_parameter_req_built:
  "ev_env_ok ee \<Longrightarrow> \<exists>p. build_charge_parameter_discovery_req ee = Inr (ChargeParameterDiscoveryReq (get_energy_transfer_mode ee) p)"
  by (auto simp: build_charge_parameter_discovery_req_def ev_env_ok_def charge_parameter_req_ok_def Let_def)

lemma selection_simps [simp]:
  "ev_session_ok (select_auth_mode l v) = ev_session_ok v" "ev_session_ok (select_services cs v) = ev_session_ok v"
  "ev_session_ok (select_energy_transfer_mode ee v) = ev_session_ok v"
  "session_id (select_auth_mode l v) = session_id v" "session_id (select_services cs v) = session_id v"
  "session_id (select_energy_transfer_mode ee v) = session_id v"
  "selected_services (select_energy_transfer_mode ee v) = selected_services v"
  "selected_services (select_services cs v) = selected_services v @ [(service_id cs, None)]"
  "selected_services (select_auth_mode l v) = selected_services v"
  "current_state (select_auth_mode l v) = current_state v" "current_state (select_services cs v) = current_state v"
  "current_state (select_energy_transfer_mode ee v) = current_state v"
  by (simp_all add: select_auth_mode_def select_services_def select_energy_transfer_mode_def Let_def
      split: option.split)

lemma room_simps [simp]: "body_type b \<notin> {SessionSetupReqT, ServiceDiscoveryReqT} \<Longrightarrow> room b v"
  by (simp add: room_def)

text \<open>What a vehicle knows when a positive answer to its request arrives.\<close>

definition answer_arrives :: "ev_env \<Rightarrow> din_header \<Rightarrow> din_body \<Rightarrow> din_body \<Rightarrow> state_obj \<Rightarrow> evcc \<Rightarrow> bool" where
  "answer_arrives ee h b res x v \<longleftrightarrow> ev_env_ok ee \<and> session_protocol v = DIN_SPEC_70121 \<and>
     hex_id (header_session_id h) \<and> answers res = body_type b \<and>
     (\<exists>rc. response_code_of res = Some rc \<and> \<not> failed_code rc) \<and> settled b res x \<and>
     kind (current_state v) = request_state b \<and> room b v \<and>
     (body_type b \<noteq> SessionSetupReqT \<longrightarrow> session_id v = header_session_id h)"

lemma vehicle_setup:
  assumes "answer_arrives ee h (SessionSetupReq e) res x v"
  shows "follows x (header_session_id h) (ev_SessionSetup_process ee (DinMessage h (Some res)) v)"
proof -
  obtain rc i t where "res = SessionSetupRes rc i t" "\<not> failed_code rc"
    using assms by (cases res) (auto simp: answer_arrives_def)
  with assms show ?thesis
    by (auto simp: ev_SessionSetup_process_def check_msg_din_spec_passed answer_arrives_def ev_session_ok_def
        room_def intro!: follows_intros)
qed


lemma answer_arrives_session:
  "answer_arrives ee h b res x v \<Longrightarrow> body_type b \<noteq> SessionSetupReqT \<Longrightarrow>
     ev_env_ok ee \<and> ev_session_ok v \<and> session_id v = header_session_id h \<and> kind (current_state v) = request_state b"
  by (auto simp: answer_arrives_def ev_session_ok_def)

lemma vehicle_discovery:
  assumes "answer_arrives ee h (ServiceDiscoveryReq a c) res x v"
  shows "follows x (header_session_id h) (ev_ServiceDiscovery_process ee (DinMessage h (Some res)) v)"
proof -
  obtain rc cs where res: "res = ServiceDiscoveryRes rc [EIM_V2] cs" "\<not> failed_code rc"
    "kind x = ServicePaymentSelection" "length (selected_services v) < 16"
    using assms by (cases res) (auto simp: answer_arrives_def room_def)
  note session = answer_arrives_session [OF assms]
  let ?v = "select_energy_transfer_mode ee (select_services cs (select_auth_mode [EIM_V2] v))"
  have "ev_selected_auth_option ?v = Some EIM_V2"
    by (simp add: select_energy_transfer_mode_def select_services_def select_auth_mode_def split: option.split)
  with res session show ?thesis
    by (auto simp: ev_ServiceDiscovery_process_def check_msg_din_spec_passed Let_def intro!: follows_intros)
qed

lemma vehicle_selection:
  assumes "answer_arrives ee h (ServicePaymentSelectionReq o' l) res x v"
  shows "follows x (header_session_id h) (ev_ServicePaymentSelection_process ee (DinMessage h (Some res)) v)"
proof -
  obtain rc where "res = ServicePaymentSelectionRes rc" "\<not> failed_code rc" "kind x = ContractAuthentication"
    using assms by (cases res) (auto simp: answer_arrives_def)
  with answer_arrives_session [OF assms] show ?thesis
    by (auto simp: ev_ServicePaymentSelection_process_def check_msg_din_spec_passed intro!: follows_intros)
qed

lemma vehicle_authentication:
  assumes "answer_arrives ee h (ContractAuthenticationReq g i) res x v"
  shows "follows x (header_session_id h) (ev_ContractAuthentication_process ee (DinMessage h (Some res)) v)"
proof -
  obtain rc p where "res = ContractAuthenticationRes rc p" "\<not> failed_code rc"
    "kind x = (if p = Some FINISHED then ChargeParameterDiscovery else ContractAuthentication)"
    using assms by (cases res) (auto simp: answer_arrives_def)
  with answer_arrives_session [OF assms] charge_parameter_req_built [of ee] show ?thesis
    by (auto simp: ev_ContractAuthentication_process_def check_msg_din_spec_passed
        intro!: follows_ongoing follows_intros)
qed

lemma follows_schedule:
  "follows x sid (done_with v) \<Longrightarrow> follows x sid (done_with (ev_call c (v\<lparr>selected_schedule := i\<rparr>)))"
proof -
  have "sends b (ev_call c (v\<lparr>selected_schedule := i\<rparr>)) = sends b v" "room b (ev_call c (v\<lparr>selected_schedule := i\<rparr>)) = room b v"
    "kind (current_state (moved_on (ev_call c (v\<lparr>selected_schedule := i\<rparr>)))) = kind (current_state (moved_on v))" for b
    by (simp_all add: sends_def room_def ev_call_def moved_on_def go_to_next_state_def stops_def enter_def split: option.split)
  then show "follows x sid (done_with v) \<Longrightarrow> ?thesis"
    by (simp add: follows_def done_with_def)
qed

lemma vehicle_parameters:
  assumes "answer_arrives ee h (ChargeParameterDiscoveryReq m p) res x v"
  shows "follows x (header_session_id h) (ev_ChargeParameterDiscovery_process ee (DinMessage h (Some res)) v)"
proof -
  obtain rc pr l d where res: "res = ChargeParameterDiscoveryRes rc pr l d" "\<not> failed_code rc"
    "if pr = FINISHED then l \<noteq> None \<and> kind x = CableCheck else kind x = ChargeParameterDiscovery"
    using assms by (cases res) (auto simp: answer_arrives_def)
  note session = answer_arrives_session [OF assms]
  show ?thesis
  proof (cases "pr = FINISHED")
    case True
    then obtain l' i where "l = Some l'" "process_sa_schedules_dinspec ee l' = Inr i" "kind x = CableCheck"
      using res session by (cases "process_sa_schedules_dinspec ee (the l)") (auto simp: ev_env_ok_def isl_def)
    with True res session show ?thesis
      by (auto simp: ev_ChargeParameterDiscovery_process_def check_msg_din_spec_passed build_cable_check_req_def
          intro!: follows_schedule follows_intros)
  next
    case False
    with res session charge_parameter_req_built [of ee] show ?thesis
      by (auto simp: ev_ChargeParameterDiscovery_process_def check_msg_din_spec_passed
          intro!: follows_ongoing follows_intros)
  qed
qed

lemma vehicle_cable_check:
  assumes "answer_arrives ee h (CableCheckReq st) res x v"
  shows "follows x (header_session_id h) (ev_CableCheck_process ee (DinMessage h (Some res)) v)"
proof -
  obtain rc s p where "res = CableCheckRes rc s p" "\<not> failed_code rc"
    "kind x = (if p = FINISHED then PreCharge else CableCheck)"
    using assms by (cases res) (auto simp: answer_arrives_def)
  with answer_arrives_session [OF assms] show ?thesis
    by (auto simp: ev_CableCheck_process_def check_msg_din_spec_passed build_cable_check_req_def
        build_pre_charge_req_def Let_def intro!: follows_intros)
qed

lemma vehicle_pre_charge:
  assumes "answer_arrives ee h (PreChargeReq st u i) res x v"
  shows "follows x (header_session_id h) (ev_PreCharge_process ee (DinMessage h (Some res)) v)"
proof -
  obtain rc s p where "res = PreChargeRes rc s p" "\<not> failed_code rc" "kind x = PreCharge" "\<not> expect_first x"
    using assms by (cases res) (auto simp: answer_arrives_def)
  with answer_arrives_session [OF assms] show ?thesis
    by (auto simp: ev_PreCharge_process_def check_msg_din_spec_passed build_power_delivery_req_def
        build_pre_charge_req_def Let_def intro!: follows_intros)
qed


lemma vehicle_power_delivery:
  assumes "answer_arrives ee h (PowerDeliveryReq r q p) res x v" "continue_charging ee = r"
  shows "follows x (header_session_id h) (ev_PowerDelivery_process ee (DinMessage h (Some res)) v)"
proof -
  obtain rc s where "res = PowerDeliveryRes rc s" "\<not> failed_code rc"
    "if r then kind x = CurrentDemand else kind x = PowerDelivery \<and> \<not> expect_first x"
    using assms by (cases res) (auto simp: answer_arrives_def)
  with answer_arrives_session [OF assms(1)] assms(2) show ?thesis
    by (auto simp: ev_PowerDelivery_process_def check_msg_din_spec_passed build_current_demand_req_def
        build_welding_detection_req_def Let_def intro!: follows_intros)
qed

lemma vehicle_current_demand:
  assumes "answer_arrives ee h (CurrentDemandReq q) res x v"
  shows "follows x (header_session_id h) (ev_CurrentDemand_process ee (DinMessage h (Some res)) v)"
proof -
  obtain rc s where "res = CurrentDemandRes rc s" "\<not> failed_code rc" "kind x = CurrentDemand" "\<not> expect_first x"
    using assms by (cases res) (auto simp: answer_arrives_def)
  with answer_arrives_session [OF assms(1)] show ?thesis
    by (auto simp: ev_CurrentDemand_process_def check_msg_din_spec_passed build_current_demand_req_def
        stop_charging_def Let_def intro!: follows_intros)
qed

lemma vehicle_welding:
  assumes "answer_arrives ee h (WeldingDetectionReq st) res x v"
  shows "follows x (header_session_id h) (ev_WeldingDetection_process ee (DinMessage h (Some res)) v)"
proof -
  obtain rc s u where "res = WeldingDetectionRes rc s u" "\<not> failed_code rc" "kind x = WeldingDetection" "\<not> expect_first x"
    using assms by (cases res) (auto simp: answer_arrives_def)
  with answer_arrives_session [OF assms(1)] show ?thesis
    by (auto simp: ev_WeldingDetection_process_def check_msg_din_spec_passed build_welding_detection_req_def
        intro!: follows_ongoing follows_intros)
qed

lemma vehicle_session_stop:
  assumes "answer_arrives ee h SessionStopReq res x v"
  shows "follows x (header_session_id h) (ev_SessionStop_process ee (DinMessage h (Some res)) v)"
proof -
  obtain rc where "res = SessionStopRes rc" "\<not> failed_code rc"
    using assms by (cases res) (auto simp: answer_arrives_def)
  with answer_arrives_session [OF assms(1)] show ?thesis
    by (auto simp: ev_SessionStop_process_def check_msg_din_spec_passed follows_def done_with_def Let_def)
qed

text \<open>
  After a power delivery the vehicle decides by \<open>continue_charging\<close> what to send next. It is steady if that
  agrees with what it has just told the charger.
\<close>

definition steady :: "ev_env \<Rightarrow> din_body \<Rightarrow> bool" where
  "steady ee b = (case b of PowerDeliveryReq ready _ _ \<Rightarrow> continue_charging ee = ready | _ \<Rightarrow> True)"

lemma vehicle_follows:
  assumes "answer_arrives ee h b res x v" "steady ee b"
  shows "follows x (header_session_id h) (ev_din_process (kind (current_state v)) ee (DinMessage h (Some res)) v)"
proof -
  have "kind (current_state v) = request_state b" "settled b res x" using assms(1) by (simp_all add: answer_arrives_def)
  then show ?thesis
    using assms
    by (cases b) (auto simp: steady_def vehicle_setup vehicle_discovery vehicle_selection vehicle_authentication
        vehicle_parameters vehicle_cable_check vehicle_pre_charge vehicle_power_delivery vehicle_current_demand
        vehicle_welding vehicle_session_stop)
qed

lemma answers_response_type:
  "answers res = body_type b \<Longrightarrow> is_request b \<Longrightarrow> failed_code rc \<Longrightarrow> response_code_of res = Some rc \<Longrightarrow>
     \<exists>r. ev_din_process (request_state b) ee (DinMessage h (Some res)) v = ev_stop_state_machine ee r v"
  by (cases b; cases res)
    (simp_all add: ev_SessionSetup_process_def ev_ServiceDiscovery_process_def ev_ServicePaymentSelection_process_def
      ev_ContractAuthentication_process_def ev_ChargeParameterDiscovery_process_def ev_CableCheck_process_def
      ev_PreCharge_process_def ev_PowerDelivery_process_def ev_CurrentDemand_process_def
      ev_WeldingDetection_process_def ev_SessionStop_process_def is_request_def check_msg_din_spec_failed)

section \<open>The two machines fit together\<close>

text \<open>
  The request under way is one the charger accepts, and the vehicle waits for its answer; if none is under
  way, the vehicle has ended the session.
\<close>

definition linked :: "joint \<Rightarrow> bool" where
  "linked j \<longleftrightarrow>
     (in_flight j = None \<longrightarrow> next_state (current_state (vehicle j)) = Some Terminate) \<and>
     (\<forall>m. in_flight j = Some m \<longrightarrow>
     (\<exists>h b. m = DinMessage h (Some b) \<and> accepts b (current_state (charger j)) \<and> same_id h b (charger j) \<and>
        kind (current_state (vehicle j)) = request_state b \<and> session_protocol (vehicle j) = DIN_SPEC_70121 \<and>
        room b (vehicle j) \<and>
        (body_type b \<noteq> SessionSetupReqT \<longrightarrow> session_id (vehicle j) = session_id (charger j))))"

text \<open>An exchange in order: the response belongs to the request and complains neither about order nor session.\<close>

definition in_order :: "v2g_message \<times> v2g_message \<Rightarrow> bool" where
  "in_order e \<longleftrightarrow> (\<exists>h b h' res rc. e = (DinMessage h (Some b), DinMessage h' (Some res)) \<and>
     answers res = body_type b \<and> response_code_of res = Some rc \<and>
     rc \<notin> {FAILED_SEQUENCE_ERROR, FAILED_UNKNOWN_SESSION})"

definition ready :: "env \<Rightarrow> ev_env \<Rightarrow> joint \<Rightarrow> bool" where
  "ready env ee j \<longleftrightarrow> env_ok env \<and> ev_env_ok ee \<and>
     (\<forall>h b. in_flight j = Some (DinMessage h (Some b)) \<longrightarrow> steady ee b)"

lemma ev_stop_terminates: "next_state (current_state (fst (ev_stop_state_machine ee r v))) = Some Terminate"
  by (simp add: ev_stop_state_machine_def done_with_def Let_def)

lemma session_stop_terminates:
  assumes "answer_arrives ee h SessionStopReq res x v"
  shows "next_state (current_state (fst (ev_SessionStop_process ee (DinMessage h (Some res)) v))) = Some Terminate"
proof -
  obtain rc where "res = SessionStopRes rc" "\<not> failed_code rc"
    using assms by (cases res) (auto simp: answer_arrives_def)
  with answer_arrives_session [OF assms] show ?thesis
    by (auto simp: ev_SessionStop_process_def check_msg_din_spec_passed done_with_def Let_def)
qed

lemma moved_on_stops: "stops (moved_on s) \<longrightarrow> stops s"
  by (auto simp: moved_on_def go_to_next_state_def new_state_def stops_def split: option.splits)

lemma accepts_request: "accepts b x \<Longrightarrow> is_request b"
  by (cases b) simp_all

lemma run_state_follows:
  assumes "follows x sid (p v)"
  shows "run_state p v = p v"
proof -
  obtain v' where v': "p v = (v', None)" using assms by (cases "p v") (auto simp: follows_def)
  with assms show ?thesis
    by (auto simp: follows_def run_state_def done_with_def andthen_def sends_def)
qed

lemma vehicle_turn_linked:
  assumes "follows (current_state (charger j)) sid (ev_din_process (kind (current_state (vehicle j))) ee res (vehicle j))"
    and "session_ok (charger j)" "session_id (charger j) = sid"
    and "stops (charger j) \<Longrightarrow> next_state (current_state (fst (ev_din_process (kind (current_state (vehicle j))) ee res
      (vehicle j)))) = Some Terminate"
  shows "linked (vehicle_turn ee res j) \<and> trace (vehicle_turn ee res j) = trace j"
proof -
  let ?p = "ev_din_process (kind (current_state (vehicle j))) ee res"
  obtain v' where v': "?p (vehicle j) = (v', None)"
    using assms(1) by (cases "?p (vehicle j)") (auto simp: follows_def)
  have run: "run_state ?p (vehicle j) = (v', None)"
    using run_state_follows [of _ _ ?p "vehicle j"] assms(1) v' by simp
  have room: "room b (moved_on v') = room b v'" for b
    by (simp add: room_def moved_on_def go_to_next_state_def enter_def split: option.split)
  have session: "session_id (moved_on v') = session_id v'" "session_protocol (moved_on v') = session_protocol v'"
    by (simp_all add: moved_on_def go_to_next_state_def split: option.split)
  show ?thesis
    using assms v' run room session outgoing_sends [of _ v']
    by (fastforce simp: vehicle_turn_def Let_def linked_def follows_def stops_def same_id_def session_ok_def
        ev_session_ok_def)
qed

lemma exchange_linked:
  assumes "linked j" "ready env ee j"
  shows "linked (exchange env ee j) \<and> (\<exists>es. trace (exchange env ee j) = trace j @ es \<and> list_all in_order es)"
proof (cases "in_flight j")
  case None
  then show ?thesis using assms(1) by (simp add: exchange_def)
next
  case (Some m)
  then obtain h b where m: "m = DinMessage h (Some b)" and acc: "accepts b (current_state (charger j))"
    and id: "same_id h b (charger j)" and v: "kind (current_state (vehicle j)) = request_state b"
      "session_protocol (vehicle j) = DIN_SPEC_70121" "room b (vehicle j)"
      "body_type b \<noteq> SessionSetupReqT \<Longrightarrow> session_id (vehicle j) = session_id (charger j)"
    using assms(1) by (auto simp: linked_def)
  have ok: "env_ok env" "ev_env_ok ee" "steady ee b" using assms(2) Some m by (auto simp: ready_def)
  let ?p = "din_process (kind (current_state (charger j))) env m"
  have rep: "replied (session_id (charger j)) b (?p (charger j))"
    using charger_replies [OF ok(1) acc id] m by simp
  then obtain c' where c': "?p (charger j) = (c', None)"
    by (cases "?p (charger j)") (auto simp: replied_def)
  from rep [unfolded c' replied_def fst_conv snd_conv] obtain res rc where r: "session_ok c'" "sends res c'"
    "answers res = body_type b" "response_code_of res = Some rc"
    "if failed_code rc then next_state (current_state c') = Some Terminate \<and> rc \<notin> {FAILED_SEQUENCE_ERROR, FAILED_UNKNOWN_SESSION}
     else settled b res (current_state (moved_on c')) \<and>
       (next_state (current_state c') \<in> {Some Terminate, Some Pause} \<longleftrightarrow> b = SessionStopReq)"
    "body_type b \<noteq> SessionSetupReqT \<longrightarrow> session_id c' = session_id (charger j)"
    by blast
  from outgoing_sends [OF r(2)] obtain h' where h': "header_session_id h' = session_id c'"
    "outgoing c' = Some (DinMessage h' (Some res))" by blast
  let ?j = "j\<lparr>charger := moved_on c', trace := trace j @ [(m, DinMessage h' (Some res))]\<rparr>"
  have ex: "exchange env ee j = vehicle_turn ee (DinMessage h' (Some res)) ?j"
    using Some m c' run_state_sends [of ?p "charger j" c' res] r(2) h'(2) by (simp add: exchange_def)
  have order: "in_order (m, DinMessage h' (Some res))"
    using r m by (auto simp: in_order_def failed_code_def split: if_splits)
  have c'_id: "session_ok (moved_on c')" "session_id (moved_on c') = session_id c'"
    using r(1) by (simp_all add: moved_on_def go_to_next_state_def split: option.split)
  let ?q = "ev_din_process (kind (current_state (vehicle j))) ee (DinMessage h' (Some res)) (vehicle j)"
  have "follows (current_state (moved_on c')) (header_session_id h') ?q \<and>
      (stops c' \<longrightarrow> next_state (current_state (fst ?q)) = Some Terminate)"
  proof (cases "failed_code rc")
    case True
    then show ?thesis
      using answers_response_type [OF r(3) accepts_request [OF acc] True r(4), of ee h' "vehicle j"] v(1)
      by (auto simp: follows_stop ev_stop_terminates)
  next
    case False
    then have arr: "answer_arrives ee h' b res (current_state (moved_on c')) (vehicle j)"
      using r v ok h'(1) by (auto simp: answer_arrives_def session_ok_def)
    have "next_state (current_state (fst ?q)) = Some Terminate" if "stops c'"
    proof -
      have b: "b = SessionStopReq" using that False r(5) unfolding stops_def by simp
      show ?thesis
        using session_stop_terminates [OF arr [unfolded b]] v(1) [unfolded b] by simp
    qed
    with vehicle_follows [OF arr ok(3)] show ?thesis by blast
  qed
  then have turn: "follows (current_state (charger ?j)) (header_session_id h')
        (ev_din_process (kind (current_state (vehicle ?j))) ee (DinMessage h' (Some res)) (vehicle ?j))"
      "stops (charger ?j) \<Longrightarrow> next_state (current_state (fst (ev_din_process (kind (current_state (vehicle ?j))) ee
        (DinMessage h' (Some res)) (vehicle ?j)))) = Some Terminate"
    using moved_on_stops [of c'] by (simp_all del: moved_on_simps)
  have "linked (vehicle_turn ee (DinMessage h' (Some res)) ?j) \<and>
      trace (vehicle_turn ee (DinMessage h' (Some res)) ?j) = trace ?j"
    by (rule vehicle_turn_linked [OF turn(1) _ _ turn(2)]) (simp_all add: c'_id h'(1))
  with ex order show ?thesis by simp
qed


inductive joint_run :: "joint \<Rightarrow> joint \<Rightarrow> bool" for j0 where
  run_start: "joint_run j0 j0"
| run_exchange: "joint_run j0 j \<Longrightarrow> ready env ee j \<Longrightarrow> joint_run j0 (exchange env ee j)"

definition new_evcc :: "state_kind \<Rightarrow> evcc" where
  "new_evcc k =
     \<lparr>session_protocol = DIN_SPEC_70121, session_id = ''00'', stop_reason = None, current_state = new_state k,
      supported_app_protocols = [], resume_session_id = None, ev_selected_auth_option = None, selected_services = [], ev_selected_energy_mode = None,
      resume_requested_energy_mode = None, ongoing_timer = - 1, selected_schedule = None, evse_id = [],
      ev_calls = []\<rparr>"

text \<open>DIN SPEC 70121 has just been agreed on, and the vehicle has sent its first request.\<close>

definition agreed_on_din :: "string \<Rightarrow> string \<Rightarrow> joint" where
  "agreed_on_din sid evcc =
     \<lparr>charger = new_session DIN_SPEC_70121 sid SessionSetup, vehicle = new_evcc SessionSetup,
      in_flight = Some (DinMessage \<lparr>header_session_id = ''00'', notification = None\<rparr> (Some (SessionSetupReq evcc))),
      trace = []\<rparr>"

lemma joint_run_linked:
  assumes "joint_run j0 j" "linked j0"
  shows "linked j \<and> (\<exists>es. trace j = trace j0 @ es \<and> list_all in_order es)"
  using assms
proof (induction rule: joint_run.induct)
  case run_start
  then show ?case by simp
next
  case (run_exchange j env ee)
  then obtain es where "linked j" "trace j = trace j0 @ es" "list_all in_order es" by blast
  with exchange_linked [OF this(1) run_exchange.hyps(2)] show ?case by auto
qed

end
