(* ===== verification/Din_Run.thy ===== *)
theory Din_Run
  imports Din_Composition
begin

text \<open>
  A DIN SPEC 70121 session of the vehicle and the charger from set-up to its end, with hardware that plays
  along, and what happens when the vehicle changes its mind about charging.
\<close>

section \<open>Hardware that plays along\<close>

definition willing :: "env \<Rightarrow> ev_env \<Rightarrow> bool" where
  "willing env ee \<longleftrightarrow> env_ok env \<and> ev_env_ok ee \<and>
     get_energy_transfer_mode ee \<in> set (supported_energy_transfer_modes env) \<and>
     get_energy_transfer_mode ee = hd (supported_energy_transfer_modes env) \<and>
     is_authorized env = ACCEPTED \<and> sa_schedule_list env \<noteq> [] \<and>
     is_contactor_closed env = Some True \<and> is_contactor_opened env \<and> cable_check_status env = Some VALID \<and>
     evse_status_code (get_dc_evse_status env) = EVSE_READY \<and>
     evse_isolation_status (get_dc_evse_status env) = Some VALID \<and> \<not> charging_command_times_out env \<and>
     ev_error_code (get_dc_ev_status_dinspec ee) = NO_ERROR \<and>
     (\<forall>u. is_precharged ee u) \<and> welding_detection_has_finished ee"

text \<open>What the charger asks for during pre-charge: it refuses more than two amperes.\<close>

definition low_present_current :: "env \<Rightarrow> bool" where
  "low_present_current env = (case evse_present_current env of Inr i \<Rightarrow> get_decimal_value i \<le> 2 | Inl _ \<Rightarrow> False)"

definition low_target_current :: "ev_env \<Rightarrow> bool" where
  "low_target_current ee \<longleftrightarrow> get_decimal_value (dc_target_current (get_dc_charge_params ee)) \<le> 2"

section \<open>One exchange\<close>

text \<open>
  A request is under way, the charger accepts it and the vehicle waits for the answer. The timer of
  repeated requests is off where the flag says so.
\<close>

definition phase :: "bool \<Rightarrow> din_body \<Rightarrow> joint \<Rightarrow> bool" where
  "phase off b j \<longleftrightarrow>
     (\<exists>h. in_flight j = Some (DinMessage h (Some b)) \<and> header_session_id h = session_id (charger j)) \<and>
     session_ok (charger j) \<and> ev_session_ok (vehicle j) \<and> session_id (vehicle j) = session_id (charger j) \<and>
     kind (current_state (vehicle j)) = request_state b \<and> accepts b (current_state (charger j)) \<and>
     (off \<longrightarrow> ongoing_timer (vehicle j) = - 1) \<and> stop_reason (vehicle j) = None"

lemma prepared_msg [simp]: "next_v2gtp_msg (current_state (prepared env nxt t b s)) \<noteq> None"
  by (simp add: prepared_def)

lemma evcc_prepared [simp]:
  "ongoing_timer (prepared ee nxt t b v) = ongoing_timer v" "selected_services (prepared ee nxt t b v) = selected_services v"
  "resume_requested_energy_mode (prepared ee nxt t b v) = resume_requested_energy_mode v"
  by (simp_all add: prepared_def update_state_def)

lemma evcc_call [simp]:
  "ongoing_timer (ev_call c v) = ongoing_timer v" "stop_reason (ev_call c v) = stop_reason v"
  by (simp_all add: ev_call_def)

lemma evcc_enter [simp]:
  "ongoing_timer (enter k v) = ongoing_timer v" "selected_services (enter k v) = selected_services v"
  "resume_requested_energy_mode (enter k v) = resume_requested_energy_mode v"
  by (simp_all add: enter_def)

lemmas run_simps = phase_def exchange_def vehicle_turn_def run_state_def done_with_def andthen_def outgoing_def
  stops_def Let_def check_msg_dinspec_ok the_body_def the_header_id_def same_session_def check_msg_din_spec_passed
  ongoing_check_def willing_def din_message_def

lemma phase_discovery:
  assumes "phase True (ServiceDiscoveryReq None None) j" "willing env ee"
    "selected_services (vehicle j) = []" "resume_requested_energy_mode (vehicle j) = None"
  shows "\<exists>l. l \<noteq> [] \<and> phase True (ServicePaymentSelectionReq EIM_V2 l) (exchange env ee j)"
proof -
  obtain m ms where "supported_energy_transfer_modes env = m # ms"
    using assms(2) by (cases "supported_energy_transfer_modes env") (auto simp: willing_def)
  then show ?thesis
    using assms by (auto simp: run_simps ServiceDiscovery_process_def ev_ServiceDiscovery_process_def
        build_service_discovery_res_def select_auth_mode_def select_services_def select_energy_transfer_mode_def)
qed

lemma phase_selection:
  assumes "phase True (ServicePaymentSelectionReq EIM_V2 l) j" "l \<noteq> []" "willing env ee"
  shows "phase True (ContractAuthenticationReq None None) (exchange env ee j)"
  using assms by (auto simp: run_simps ServicePaymentSelection_process_def ev_ServicePaymentSelection_process_def)

text \<open>The classes of the requests the charger has answered.\<close>

definition requests :: "joint \<Rightarrow> msg_type option list" where
  "requests j = map (\<lambda>e. message_type (fst e)) (trace j)"

lemma phase_requests:
  assumes "phase off b j" "phase off' b' (exchange env ee j)"
  shows "requests (exchange env ee j) = requests j @ [Some (body_type b)]"
  using assms by (auto simp: phase_def exchange_def vehicle_turn_def requests_def Let_def split: option.splits prod.splits)

lemma phase_setup:
  assumes "willing env ee"
  shows "phase True (ServiceDiscoveryReq None None) (exchange env ee (agreed_on_din sid evcc)) \<and>
    selected_services (vehicle (exchange env ee (agreed_on_din sid evcc))) = [] \<and>
    resume_requested_energy_mode (vehicle (exchange env ee (agreed_on_din sid evcc))) = None"
proof -
  have "check_msg_dinspec env [SessionSetupReqT] True (DinMessage h (Some (SessionSetupReq e))) k s = k s" for h e k s
    by (rule check_passed) auto
  then show ?thesis
    using assms hex_random [of env]
    by (auto simp: run_simps agreed_on_din_def SessionSetup_process_def ev_SessionSetup_process_def new_evcc_def
        session_ok_def ev_session_ok_def)
qed

lemma setup_requests:
  "phase off b (exchange env ee (agreed_on_din sid evcc)) \<Longrightarrow>
     requests (exchange env ee (agreed_on_din sid evcc)) = [Some SessionSetupReqT]"
  by (auto simp: phase_def exchange_def vehicle_turn_def requests_def Let_def agreed_on_din_def
      split: option.splits prod.splits)

lemma phase_authentication:
  assumes "phase True (ContractAuthenticationReq None None) j" "willing env ee"
  shows "\<exists>p. phase False (ChargeParameterDiscoveryReq (get_energy_transfer_mode ee) p) (exchange env ee j)"
  using assms charge_parameter_req_built [of ee]
  by (auto simp: run_simps ContractAuthentication_process_def ev_ContractAuthentication_process_def)

lemma phase_parameters:
  assumes "phase False (ChargeParameterDiscoveryReq m p) j" "m \<in> set (supported_energy_transfer_modes env)" "willing env ee"
  shows "phase True (build_cable_check_req ee) (exchange env ee j) \<and>
    \<not> contactors_closed (current_state (charger (exchange env ee j)))"
proof -
  obtain i where "process_sa_schedules_dinspec ee (sa_schedule_list env) = Inr i"
    using assms(3) by (cases "process_sa_schedules_dinspec ee (sa_schedule_list env)") (auto simp: willing_def ev_env_ok_def isl_def)
  with assms show ?thesis
    by (auto simp: run_simps ChargeParameterDiscovery_process_def ev_ChargeParameterDiscovery_process_def
        build_cable_check_req_def)
qed

lemma phase_cable_check:
  assumes "phase True (CableCheckReq st) j" "ev_error_code st = NO_ERROR" "willing env ee"
  shows "\<not> contactors_closed (current_state (charger j)) \<Longrightarrow>
      phase False (build_cable_check_req ee) (exchange env ee j) \<and>
      contactors_closed (current_state (charger (exchange env ee j)))"
  using assms
  by (auto simp: run_simps CableCheck_process_def ev_CableCheck_process_def build_cable_check_req_def)

lemma phase_cable_check_valid:
  assumes "phase False (CableCheckReq st) j" "ev_error_code st = NO_ERROR" "willing env ee"
    and "contactors_closed (current_state (charger j))"
  shows "phase True (build_pre_charge_req ee) (exchange env ee j)"
  using assms
  by (auto simp: run_simps CableCheck_process_def ev_CableCheck_process_def build_pre_charge_req_def)

lemma phase_pre_charge:
  assumes "phase True (PreChargeReq st u i) j" "ev_error_code st = NO_ERROR" "get_decimal_value i \<le> 2"
    and "willing env ee" "low_present_current env"
  shows "phase True (build_power_delivery_req ee) (exchange env ee j)"
proof -
  obtain c where c: "evse_present_current env = Inr c" "\<not> 2 < get_decimal_value c"
    using assms(5) by (auto simp: low_present_current_def split: sum.splits)
  have "accepted [PreChargeReqT, PowerDeliveryReqT] f (PreChargeReq st u i)" for f
    by (simp add: accepted_def)
  with assms c show ?thesis
    by (auto simp: run_simps PreCharge_process_def ev_PreCharge_process_def build_power_delivery_req_def
        update_pre_charge_parameters_def)
qed

lemma phase_power_delivery:
  assumes "phase True (PowerDeliveryReq r q (Some p)) j" "willing env ee" "continue_charging ee = r"
  shows "phase True (if r then build_current_demand_req ee else build_welding_detection_req ee) (exchange env ee j)"
  using assms
  by (cases r) (auto simp: run_simps PreCharge_process_def CurrentDemand_process_def PowerDelivery_process_def
      ev_PowerDelivery_process_def build_current_demand_req_def build_welding_detection_req_def)

lemma phase_current_demand:
  assumes "phase True (CurrentDemandReq q) j" "willing env ee"
  shows "phase True (if continue_charging ee then build_current_demand_req ee
      else PowerDeliveryReq False None (Some (get_dc_ev_power_delivery_parameter ee))) (exchange env ee j)"
proof -
  obtain c where c: "evse_present_current env = Inr c"
    using assms(2) by (cases "evse_present_current env") (auto simp: willing_def env_ok_def)
  have "accepted [CurrentDemandReqT, PowerDeliveryReqT] f (CurrentDemandReq q)" for f
    by (simp add: accepted_def)
  with assms c show ?thesis
    by (auto simp: run_simps CurrentDemand_process_def ev_CurrentDemand_process_def build_current_demand_req_def
        stop_charging_def)
qed

lemma phase_welding:
  assumes "phase True (WeldingDetectionReq st) j" "willing env ee"
  shows "phase False SessionStopReq (exchange env ee j)"
proof -
  have "accepted [WeldingDetectionReqT, SessionStopReqT] f (WeldingDetectionReq st)" for f
    by (simp add: accepted_def)
  with assms show ?thesis
    by (auto simp: run_simps PowerDelivery_process_def WeldingDetection_process_def ev_WeldingDetection_process_def)
qed

text \<open>The last exchange: both sides end the session in agreement.\<close>

definition ended_well :: "joint \<Rightarrow> bool" where
  "ended_well j \<longleftrightarrow> in_flight j = None \<and>
     next_state (current_state (charger j)) = Some Terminate \<and> next_state (current_state (vehicle j)) = Some Terminate \<and>
     map_option successful (stop_reason (charger j)) = Some True \<and>
     map_option successful (stop_reason (vehicle j)) = Some True"

lemma phase_session_stop:
  assumes "phase False SessionStopReq j" "willing env ee"
  shows "ended_well (exchange env ee j) \<and> requests (exchange env ee j) = requests j @ [Some SessionStopReqT]"
  using assms
  by (auto simp: run_simps WeldingDetection_process_def SessionStop_process_def ev_SessionStop_process_def
      ended_well_def requests_def)

section \<open>A whole session\<close>

text \<open>The exchanges of a session, each with what the hardware on both sides answers in it.\<close>

primrec session_run :: "(nat \<Rightarrow> env) \<Rightarrow> (nat \<Rightarrow> ev_env) \<Rightarrow> joint \<Rightarrow> nat \<Rightarrow> joint" where
  "session_run e f j 0 = j"
| "session_run e f j (Suc n) = exchange (e n) (f n) (session_run e f j n)"

lemma run_requests:
  assumes "phase off b (session_run e f j n)" "phase off' b' (session_run e f j m)" "m = Suc n"
  shows "requests (session_run e f j m) = requests (session_run e f j n) @ [Some (body_type b)]"
  using phase_requests [OF assms(1), of off' b'] assms(2,3) by simp

abbreviation "requests_to_charging \<equiv> map Some [SessionSetupReqT, ServiceDiscoveryReqT, ServicePaymentSelectionReqT,
  ContractAuthenticationReqT, ChargeParameterDiscoveryReqT, CableCheckReqT, CableCheckReqT, PreChargeReqT]"

lemma status_no_error: "willing env ee \<Longrightarrow> ev_error_code (get_dc_ev_status_dinspec ee) = NO_ERROR"
  by (simp add: willing_def)

text \<open>From set-up to the first power delivery takes eight exchanges.\<close>

lemma reaches_power_delivery:
  assumes will: "\<And>i. willing (e i) (f i)" and md: "\<And>i. get_energy_transfer_mode (f i) = md"
    and low: "low_target_current (f 6)" "low_present_current (e 7)"
  shows "phase True (build_power_delivery_req (f 7)) (session_run e f (agreed_on_din sid evcc) 8) \<and>
    requests (session_run e f (agreed_on_din sid evcc) 8) = requests_to_charging"
proof -
  let ?j = "session_run e f (agreed_on_din sid evcc)"
  have md_in: "md \<in> set (supported_energy_transfer_modes (e i))" for i
    using will [of i] md [of i] by (auto simp: willing_def)
  have p1: "phase True (ServiceDiscoveryReq None None) (?j 1)" "selected_services (vehicle (?j 1)) = []"
    "resume_requested_energy_mode (vehicle (?j 1)) = None" "requests (?j 1) = [Some SessionSetupReqT]"
    using phase_setup [OF will [of 0], of sid evcc] setup_requests [of _ _ "e 0" "f 0" sid evcc] by auto
  obtain l where p2: "l \<noteq> []" "phase True (ServicePaymentSelectionReq EIM_V2 l) (?j 2)"
    using phase_discovery [OF p1(1) will p1(2,3)] by (auto simp: numeral_2_eq_2)
  have p3: "phase True (ContractAuthenticationReq None None) (?j 3)"
    using phase_selection [OF p2(2,1) will] by (auto simp: eval_nat_numeral)
  obtain p where p4: "phase False (ChargeParameterDiscoveryReq md p) (?j 4)"
    using phase_authentication [OF p3 will, of 3] md by (auto simp: eval_nat_numeral)
  have p5: "phase True (build_cable_check_req (f 4)) (?j 5)" "\<not> contactors_closed (current_state (charger (?j 5)))"
    using phase_parameters [OF p4 md_in will, of 4] by (auto simp: eval_nat_numeral)
  have p6: "phase False (build_cable_check_req (f 5)) (?j 6)" "contactors_closed (current_state (charger (?j 6)))"
    using phase_cable_check [OF p5(1) [unfolded build_cable_check_req_def] status_no_error [OF will] will p5(2), of 5]
    by (auto simp: eval_nat_numeral)
  have p7: "phase True (build_pre_charge_req (f 6)) (?j 7)"
    using phase_cable_check_valid [OF p6(1) [unfolded build_cable_check_req_def] status_no_error [OF will] will p6(2), of 6]
    by (auto simp: eval_nat_numeral)
  have p8: "phase True (build_power_delivery_req (f 7)) (?j 8)"
    using phase_pre_charge [OF p7 [unfolded build_pre_charge_req_def] status_no_error [OF will] _ will low(2)] low(1)
    by (auto simp: eval_nat_numeral low_target_current_def)
  have "requests (?j 8) = requests (?j 1) @ tl requests_to_charging"
    using run_requests [OF p1(1) p2(2)] run_requests [OF p2(2) p3] run_requests [OF p3 p4]
      run_requests [OF p4 p5(1)] run_requests [OF p5(1) p6(1)] run_requests [OF p6(1) p7] run_requests [OF p7 p8]
    by (simp add: build_cable_check_req_def build_pre_charge_req_def)
  with p8 p1(4) show ?thesis by simp
qed

text \<open>Then the vehicle charges for as long as it wants to.\<close>

lemma charges:
  assumes will: "\<And>i. willing (e i) (f i)" and go: "\<And>i. 8 \<le> i \<Longrightarrow> continue_charging (f i) \<longleftrightarrow> i < 9 + n"
    and start: "phase True (build_power_delivery_req (f 7)) (session_run e f j 8)" and "k \<le> n"
  shows "phase True (build_current_demand_req (f (8 + k))) (session_run e f j (9 + k)) \<and>
    requests (session_run e f j (9 + k)) = requests (session_run e f j 8) @ Some PowerDeliveryReqT # replicate k (Some CurrentDemandReqT)"
  using \<open>k \<le> n\<close>
proof (induction k)
  case 0
  have "phase True (build_current_demand_req (f 8)) (session_run e f j 9)"
    using phase_power_delivery [OF start [unfolded build_power_delivery_req_def] will, of 8] go [of 8]
    by (simp add: eval_nat_numeral)
  with run_requests [OF start this] show ?case by (simp add: build_power_delivery_req_def)
next
  case (Suc k)
  then have ih: "phase True (build_current_demand_req (f (8 + k))) (session_run e f j (9 + k))"
    "requests (session_run e f j (9 + k)) = requests (session_run e f j 8) @ Some PowerDeliveryReqT # replicate k (Some CurrentDemandReqT)"
    by simp_all
  have "phase True (build_current_demand_req (f (8 + Suc k))) (session_run e f j (9 + Suc k))"
    using phase_current_demand [OF ih(1) [unfolded build_current_demand_req_def Let_def] will, of "9 + k"] go [of "9 + k"] Suc.prems
      session_run.simps(2) [of e f j "9 + k"] by simp
  with run_requests [OF ih(1) this] ih(2) show ?case
    by (simp add: build_current_demand_req_def Let_def replicate_append_same)
qed

lemma winds_down:
  assumes will: "\<And>i. willing (e i) (f i)" and go: "\<not> continue_charging (f n)" "\<not> continue_charging (f (Suc n))"
    and start: "phase True (build_current_demand_req ee) (session_run e f j n)"
  shows "ended_well (session_run e f j (n + 4)) \<and>
    requests (session_run e f j (n + 4)) = requests (session_run e f j n) @
      map Some [CurrentDemandReqT, PowerDeliveryReqT, WeldingDetectionReqT, SessionStopReqT]"
proof -
  let ?j = "session_run e f j"
  have p1: "phase True (PowerDeliveryReq False None (Some (get_dc_ev_power_delivery_parameter (f n)))) (?j (Suc n))"
    using phase_current_demand [OF start [unfolded build_current_demand_req_def Let_def] will, of n] go(1) by simp
  have p2: "phase True (build_welding_detection_req (f (Suc n))) (?j (Suc (Suc n)))"
    using phase_power_delivery [OF p1 will, of "Suc n"] go(2) by simp
  have p3: "phase False SessionStopReq (?j (Suc (Suc (Suc n))))"
    using phase_welding [OF p2 [unfolded build_welding_detection_req_def] will, of "Suc (Suc n)"] by simp
  have "ended_well (?j (n + 4)) \<and> requests (?j (n + 4)) = requests (?j (Suc (Suc (Suc n)))) @ [Some SessionStopReqT]"
    using phase_session_stop [OF p3 will, of "Suc (Suc (Suc n))"] by (simp add: eval_nat_numeral)
  with run_requests [OF start p1] run_requests [OF p1 p2] run_requests [OF p2 p3] show ?thesis
    by (simp add: build_current_demand_req_def build_welding_detection_req_def Let_def)
qed

text \<open>
  C6: a DIN SPEC 70121 session of the vehicle and the charger runs to its end. With hardware that plays along
  on both sides, the vehicle wanting to charge up to exchange \<open>8 + n\<close> and no longer, and the two currents of
  the pre-charge below two amperes, exactly these requests are made and answered: set-up, discovery,
  selection, authentication, parameters, two cable checks, pre-charge, power delivery, \<open>n + 1\<close> rounds of the
  charging loop, power delivery, welding detection and stop; and both sides then end the session
  with success.
\<close>

theorem din_session_completes:
  assumes "\<And>i. willing (e i) (f i)" and "\<And>i. get_energy_transfer_mode (f i) = md"
    and "low_target_current (f 6)" and "low_present_current (e 7)"
    and "\<And>i. 8 \<le> i \<Longrightarrow> continue_charging (f i) \<longleftrightarrow> i < 9 + n"
  shows "let j = session_run e f (agreed_on_din sid evcc) (n + 13)
    in ended_well j \<and> requests j = map Some ([SessionSetupReqT, ServiceDiscoveryReqT, ServicePaymentSelectionReqT,
         ContractAuthenticationReqT, ChargeParameterDiscoveryReqT, CableCheckReqT, CableCheckReqT, PreChargeReqT,
         PowerDeliveryReqT] @ replicate (Suc n) CurrentDemandReqT @
         [PowerDeliveryReqT, WeldingDetectionReqT, SessionStopReqT])"
proof -
  note start = reaches_power_delivery [OF assms(1-4), of sid evcc]
  note loop = charges [OF assms(1,5) conjunct1 [OF start], of n]
  have "\<not> continue_charging (f (9 + n))" "\<not> continue_charging (f (Suc (9 + n)))"
    using assms(5) [of "9 + n"] assms(5) [of "Suc (9 + n)"] by simp_all
  note fin = winds_down [of e f "9 + n", OF assms(1) this]
  have "9 + n + 4 = n + 13" by simp
  with start loop fin [of "f (8 + n)"] show ?thesis
    by (simp add: Let_def map_replicate replicate_append_same)
qed

text \<open>Concrete hardware: a charger that is ready, and a vehicle that goes on charging up to a given exchange.\<close>

definition ready_evse_status :: dc_evse_status where
  "ready_evse_status = failed_evse_status\<lparr>evse_isolation_status := Some VALID, evse_status_code := EVSE_READY\<rparr>"

definition ready_env :: env where
  "ready_env = example_env\<lparr>get_dc_evse_status := ready_evse_status\<rparr>"

definition example_ev_status :: dc_ev_status where
  "example_ev_status = \<lparr>ev_ready = True, ev_cabin_conditioning = None, ev_ress_conditioning = None,
     ev_error_code = NO_ERROR, ev_ress_soc = 60\<rparr>"

definition example_ev_env :: "bool \<Rightarrow> ev_env" where
  "example_ev_env go =
     \<lparr>peername = ''fe80::2'', to_exi = (\<lambda>_ _. Inr [0x80, 0x9A]), log_decode = (\<lambda>_. Inr ()),
      get_evcc_id = (\<lambda>_. Inr ''010203040506''), clock = 1000,
      get_dc_ev_status_dinspec = example_ev_status,
      get_dc_charge_params = \<lparr>dc_max_current_limit = pv 300 AMPERE, dc_max_power_limit = pv 1000 WATT,
        dc_max_voltage_limit = pv 900 VOLTAGE, dc_energy_capacity = pv 7000 WATT, dc_target_current = pv 1 AMPERE,
        dc_target_voltage = pv 400 VOLTAGE\<rparr>,
      get_energy_transfer_mode = DC_EXTENDED, process_sa_schedules_dinspec = (\<lambda>_. Inr 1),
      is_precharged = (\<lambda>_. True), continue_charging = go, is_bulk_charging_complete = False,
      is_charging_complete = False, get_remaining_time_to_full_soc = pv 100 SECONDS,
      get_remaining_time_to_bulk_soc = pv 80 SECONDS,
      get_dc_ev_power_delivery_parameter = \<lparr>pd_dc_ev_status = example_ev_status, pd_bulk_charging_complete = None,
        pd_charging_complete = False\<rparr>,
      welding_detection_has_finished = True, ev_type_text = (\<lambda>_. []), code_text = (\<lambda>_. []),
      options_text = (\<lambda>_. []), modes_text = (\<lambda>_ _. [])\<rparr>"

lemma example_willing: "willing ready_env (example_ev_env go)"
  by (simp add: willing_def env_ok_def ev_env_ok_def ready_env_def example_env_def example_ev_env_def
      ready_evse_status_def failed_evse_status_def example_ev_status_def hex_id_def is_hex_def)

lemma example_simps:
  "low_present_current ready_env" "low_target_current (example_ev_env go)"
  "get_energy_transfer_mode (example_ev_env go) = DC_EXTENDED" "continue_charging (example_ev_env go) = go"
  by (simp_all add: low_present_current_def low_target_current_def ready_env_def example_env_def example_ev_env_def
      pv_def get_decimal_value_def)

theorem din_session_completes_witness:
  "ended_well (session_run (\<lambda>_. ready_env) (\<lambda>i. example_ev_env (i < 11)) (agreed_on_din ''00'' ''EV'') 15)"
  using din_session_completes [of "\<lambda>_. ready_env" "\<lambda>i. example_ev_env (i < 11)" DC_EXTENDED 2 "''00''" "''EV''"]
  by (simp add: example_willing example_simps Let_def)

section \<open>Where the machines do not fit\<close>

lemma unsteady_turn:
  assumes "phase off (PowerDeliveryReq r q (Some p)) j" "willing env ee" "continue_charging ee \<noteq> r"
  shows "let j' = exchange env ee j; b = (if r then build_welding_detection_req ee else build_current_demand_req ee)
    in (\<exists>h. in_flight j' = Some (DinMessage h (Some b))) \<and> session_ok (charger j') \<and>
       kind (current_state (charger j')) = (if r then CurrentDemand else PowerDelivery) \<and>
       kind (current_state (vehicle j')) = request_state b"
  using assms
  by (cases r) (auto simp: run_simps PreCharge_process_def CurrentDemand_process_def PowerDelivery_process_def
      ev_PowerDelivery_process_def build_current_demand_req_def build_welding_detection_req_def)

lemma out_of_step:
  assumes "in_flight j = Some (DinMessage h (Some b))" "is_request b" "env_ok env" "session_ok (charger j)"
    and "kind (current_state (vehicle j)) = request_state b"
    and "din_process (kind (current_state (charger j))) env (DinMessage h (Some b)) (charger j) =
      done_with (stopped env t FAILED_SEQUENCE_ERROR b (charger j))"
  shows "let j' = exchange env ee j
    in in_flight j' = None \<and> \<not> ended_well j' \<and>
       (\<exists>req h res. last (trace j') = (req, DinMessage h (Some res)) \<and>
          response_code_of res = Some FAILED_SEQUENCE_ERROR)"
proof -
  let ?c = "stopped env t FAILED_SEQUENCE_ERROR b (charger j)" and ?res = "error_response b FAILED_SEQUENCE_ERROR"
  obtain h' where h': "outgoing ?c = Some (DinMessage h' (Some ?res))"
    using outgoing_sends [of ?res ?c] by (auto simp: stopped_def)
  have "failed_code FAILED_SEQUENCE_ERROR" by (simp add: failed_code_def)
  from answers_response_type [OF error_response_simps(2) assms(2) this error_response_simps(1), OF assms(2,2), of ee h' "vehicle j"]
  obtain w where w: "ev_din_process (request_state b) ee (DinMessage h' (Some ?res)) (vehicle j) = ev_stop_state_machine ee w (vehicle j)"
    by blast
  have "run_state (din_process (kind (current_state (charger j))) env (DinMessage h (Some b))) (charger j) = (?c, None)"
    using assms(6) by (intro run_state_sends [of _ _ _ ?res]) (auto simp: done_with_def stopped_def)
  with assms h' w show ?thesis
    by (auto simp: exchange_def vehicle_turn_def run_state_def andthen_def ev_stop_state_machine_def done_with_def
        ended_well_def stops_def Let_def)
qed

text \<open>
  The vehicle asks its battery again once a power delivery request has been answered, instead of going by
  what it requested. If the answer differs (charging ends between the two questions, or the charger asked for the
  stop and the battery is not full), the next request is one the charger refuses with
  \<open>FAILED_SEQUENCE_ERROR\<close>, and the session ends without welding detection and without success.
\<close>

lemma unsteady_vehicle_refused:
  assumes "phase off (PowerDeliveryReq r q (Some p)) j" "willing env ee" "continue_charging ee \<noteq> r"
    and "env_ok env'"
  shows "let j' = exchange env' ee' (exchange env ee j)
    in in_flight j' = None \<and> \<not> ended_well j' \<and>
       (\<exists>req h res. last (trace j') = (req, DinMessage h (Some res)) \<and>
          response_code_of res = Some FAILED_SEQUENCE_ERROR)"
proof -
  let ?j = "exchange env ee j" and ?b = "if r then build_welding_detection_req ee else build_current_demand_req ee"
  from unsteady_turn [OF assms(1-3)] obtain h where j: "in_flight ?j = Some (DinMessage h (Some ?b))"
    "session_ok (charger ?j)" "kind (current_state (charger ?j)) = (if r then CurrentDemand else PowerDelivery)"
    "kind (current_state (vehicle ?j)) = request_state ?b"
    unfolding Let_def by blast
  have b: "is_request ?b" by (simp add: build_welding_detection_req_def build_current_demand_req_def Let_def)
  have "\<not> accepted [CurrentDemandReqT, PowerDeliveryReqT] e (build_welding_detection_req ee)"
    "\<not> accepted [PowerDeliveryReqT, SessionStopReqT, WeldingDetectionReqT] e (build_current_demand_req ee)" for e
    by (simp_all add: accepted_def build_welding_detection_req_def build_current_demand_req_def Let_def)
  then have "\<exists>t. din_process (kind (current_state (charger ?j))) env' (DinMessage h (Some ?b)) (charger ?j) =
      done_with (stopped env' t FAILED_SEQUENCE_ERROR ?b (charger ?j))"
    using assms(4) j(2,3) b
    by (cases r) (simp_all add: CurrentDemand_process_def PowerDelivery_process_def check_msg_dinspec_ok rejected_def, blast+)
  then show ?thesis using out_of_step [OF j(1) b assms(4) j(2,4)] by blast
qed

text \<open>
  A vehicle that gives up while repeating a request sends that request once more. Stopping sets the next
  state and leaves the message of the previous round in place, and the loop of the session sends whatever message
  is in place before it ends. Here the cable check goes on for one round and then finishes with an
  insulation that is not valid: a second cable check request goes out after the vehicle has decided to end.
\<close>

lemma stopping_vehicle_repeats_request:
  assumes "ev_env_ok ee" "ev_session_ok v" "current_state v = new_state CableCheck" "ongoing_timer v = - 1"
    and "header_session_id h = session_id v" "header_session_id h' = session_id v"
    and "evse_isolation_status status' \<noteq> Some VALID"
  shows "let v1 = fst (run_state (ev_CableCheck_process ee (DinMessage h (Some (CableCheckRes OK status ONGOING)))) v);
      v2 = fst (run_state (ev_CableCheck_process ee' (DinMessage h' (Some (CableCheckRes OK status' FINISHED)))) (moved_on v1))
    in outgoing v1 = Some (din_message (build_cable_check_req ee) v) \<and> outgoing v2 = outgoing v1 \<and>
       next_state (current_state v2) = Some Terminate"
  using assms
  by (simp add: Let_def ev_CableCheck_process_def check_msg_din_spec_passed run_state_def andthen_def done_with_def
      outgoing_def ev_stop_state_machine_def din_message_def fault_note_def)

section \<open>Responses the vehicle does not accept\<close>

text \<open>
  C26: in every state the vehicle acts only on the response that state waits for. A message of another
  protocol, a response to another request, a response with a \<open>FAILED\<close> code, or, once the session has an identifier, one
  with a different identifier makes it end the session as unsuccessful: no exception, no command to the vehicle's
  hardware, and the session keeps its identifier.
\<close>

theorem vehicle_refuses_other_responses:
  assumes "expected_response k = Some e" "\<not> genuine e m s"
  shows "gives_up s (ev_din_process k env m s)"
  using assms
  by (cases k) (auto intro: ev_session_setup.refuses ev_service_discovery.refuses ev_service_payment_selection.refuses
      ev_contract_authentication.refuses ev_charge_parameter_discovery.refuses ev_cable_check.refuses
      ev_pre_charge.refuses ev_power_delivery.refuses ev_current_demand.refuses ev_welding_detection.refuses
      ev_session_stop.refuses)

theorem vehicle_refuses_other_responses_witness:
  "gives_up (new_evcc PreCharge) (ev_din_process PreCharge (example_ev_env True)
     (DinMessage \<lparr>header_session_id = ''00'', notification = None\<rparr> (Some (PreChargeRes FAILED ready_evse_status (pv 400 VOLTAGE))))
     (new_evcc PreCharge))"
  by (rule vehicle_refuses_other_responses [of _ PreChargeResT]) (simp_all add: failed_code_def)

end
