(* ===== verification/Negotiation.thy ===== *)
theory Negotiation
  imports Sap_State Evcc_Sap Din_Run
begin

text \<open>
  The protocol negotiation of the vehicle and the charger run against each other: the offer of
  \<open>create_sap\<close>, the charger's choice, and what the vehicle makes of it.
\<close>

section \<open>The vehicle's list, as the charger reads it\<close>

lemma acceptable_entry:
  "acceptable supported (sap_entry i p) \<longleftrightarrow> p \<in> set supported \<and> p \<noteq> UNKNOWN"
proof -
  have "is_v20 p \<or> p \<in> {ISO_15118_2, DIN_SPEC_70121, UNKNOWN}" "\<not> is_v20 UNKNOWN"
    "\<not> is_v20 ISO_15118_2" "\<not> is_v20 DIN_SPEC_70121"
    by (cases p; simp add: is_v20_def DIN_MSG_DEF_def ISO_V2_MSG_DEF_def ISO_V20_BASE_def)+
  then show ?thesis
    by (auto simp: acceptable_def sap_entry_def simp del: ns.simps)
qed

definition offer :: "protocol list \<Rightarrow> app_protocol list" where
  "offer ps = map (\<lambda>i. sap_entry (1 + int i) (ps ! i)) [0..<length ps]"

lemma create_sap_offer:
  "create_sap tls (Some ps) =
     (let ps = (if tls then remove1 DIN_SPEC_70121 ps else ps)
      in (Some ps, if length ps \<le> 20 then Inr (offer ps) else Inl ValidationError))"
  by (auto simp: create_sap_def sap_entries_eq offer_def Let_def)

lemma offer_sorted: "sort_key priority (offer ps) = offer ps"
  by (rule sort_key_id_if_sorted) (simp add: offer_def sap_entry_def comp_def sorted_iff_nth_mono)

text \<open>Finding an element by its place.\<close>

lemma find_map: "find P (map f xs) = map_option f (find (\<lambda>x. P (f x)) xs)"
  by (induction xs) auto

lemma find_nth: "find P xs = map_option (nth xs) (find (\<lambda>i. P (xs ! i)) [0..<length xs])"
  using find_map [of P "nth xs" "[0..<length xs]"] by (simp add: map_nth)

lemma find_unique: "k \<in> set xs \<Longrightarrow> (\<And>x. x \<in> set xs \<Longrightarrow> P x \<longleftrightarrow> x = k) \<Longrightarrow> find P xs = Some k"
  by (induction xs) auto

lemma find_upt_Some: "find P [0..<n] = Some i \<Longrightarrow> i < n"
  using find_SomeD [of P "[0..<n]" i] by simp

abbreviation "common supported p \<equiv> p \<in> set supported \<and> p \<noteq> UNKNOWN"

lemma charger_choice:
  "find (acceptable supported) (sort_key priority (offer ps)) =
     map_option (\<lambda>i. sap_entry (1 + int i) (ps ! i)) (find (\<lambda>i. common supported (ps ! i)) [0..<length ps])"
  unfolding offer_sorted by (simp add: offer_def find_map acceptable_entry)

lemma vehicle_reading:
  "i < length ps \<Longrightarrow>
     find (\<lambda>p. Some (schema_id p) = Some (1 + int i)) (offer ps) = Some (sap_entry (1 + int i) (ps ! i))"
proof -
  assume "i < length ps"
  then have "find (\<lambda>j. (1 + int j) = (1 + int i)) [0..<length ps] = Some i"
    by (intro find_unique) auto
  then show ?thesis by (simp add: offer_def find_map sap_entry_def)
qed

section \<open>Both sides together\<close>

text \<open>The messages of ISO 15118 that are not modelled: creating the first of them ends like every creation.\<close>

definition creates :: "(state_kind \<Rightarrow> evcc \<Rightarrow> evcc outcome) \<Rightarrow> bool" where
  "creates iso_setup \<longleftrightarrow> (\<forall>k v. snd (iso_setup k v) = None \<and>
     session_protocol (fst (iso_setup k v)) = session_protocol v \<and>
     next_state (current_state (fst (iso_setup k v))) = Some k)"

text \<open>The vehicle's surroundings: the codec encodes and the identifiers are valid.\<close>

definition ev_setup_ok :: "ev_env \<Rightarrow> string \<Rightarrow> bool" where
  "ev_setup_ok ee i \<longleftrightarrow> (\<forall>m n. \<not> isl (to_exi ee m n)) \<and> v2_setup_req ee = Inr () \<and> din_setup_req ee = Inr (SessionSetupReq i)"

lemma get_session_id_simps [simp]:
  "session_protocol (get_session_id n v) = session_protocol v" "current_state (get_session_id n v) = current_state v"
  "stop_reason (get_session_id n v) = stop_reason v"
  "selected_services (get_session_id n v) = selected_services v"
  "resume_session_id v = None \<Longrightarrow> session_id (get_session_id n v) = replicate (2 * n) CHR ''0''"
  by (auto simp: get_session_id_def split: option.splits list.splits)

lemma din_chosen:
  assumes "ev_setup_ok ee i" "resume_session_id v = None"
  shows "sap_chosen iso_setup ee (sap_entry k DIN_SPEC_70121) v =
    done_with (prepared ee (Some SessionSetup) 2 (SessionSetupReq i) (get_session_id 1 (v\<lparr>session_protocol := DIN_SPEC_70121\<rparr>)))"
proof -
  let ?v = "get_session_id 1 (v\<lparr>session_protocol := DIN_SPEC_70121\<rparr>)"
  have "session_id ?v = ''00''" using assms(2) by (simp add: numeral_2_eq_2)
  then have "ev_next ee (Some SessionSetup) (SessionSetupReq i) 2 ?v =
      done_with (prepared ee (Some SessionSetup) 2 (SessionSetupReq i) ?v)"
    using assms(1) unfolding ev_next_def
    by (intro create_next_message_prepared) (auto simp: ev_setup_ok_def is_hex_def intro!: int_base_16_ok_hex)
  with assms(1) show ?thesis
    by (simp add: sap_chosen_def sap_entry_def ev_setup_ok_def Let_def del: ns.simps)
qed

lemma chosen_protocol:
  assumes "ev_setup_ok ee i" "resume_session_id v = None" "creates iso_setup" "p \<noteq> UNKNOWN"
  shows "let r = sap_chosen iso_setup ee (sap_entry k p) v
    in snd r = None \<and> session_protocol (fst r) = p \<and> next_state (current_state (fst r)) = Some (setup_state p)"
proof (cases "p = DIN_SPEC_70121")
  case True
  then show ?thesis using din_chosen [OF assms(1,2)] by (simp add: Let_def)
next
  case False
  have "starts_with (ns p) ISO_V20_BASE" if "p \<noteq> ISO_15118_2"
    using that assms(4) False by (cases p) (simp_all add: ISO_V20_BASE_def)
  with False assms(3,4) show ?thesis
    by (cases p) (simp_all add: sap_chosen_def sap_entry_def creates_def Let_def del: ns.simps)
qed

lemma outgoing_sap [simp]:
  "outgoing (sap_step_to env p s) = Some (SAPRes (minor_code p) (Some (schema_id p)))"
  "outgoing (sap_stopped env s) = Some (SAPRes NEGOTIATION_FAILED None)"
  by (simp_all add: outgoing_def)


definition example_setup :: "state_kind \<Rightarrow> evcc \<Rightarrow> evcc outcome" where
  "example_setup k v = done_with (update_state (\<lambda>x. x\<lparr>next_state := Some k\<rparr>) v)"

lemma example_setup_ok: "creates example_setup" "ev_setup_ok (example_ev_env go) ''010203040506''"
  by (simp_all add: creates_def example_setup_def ev_setup_ok_def example_ev_env_def v2_setup_req_def din_setup_req_def
      evcc_id_ok_def is_hex_def int_base_16_ok_hex)


text \<open>
  The vehicle takes a failed negotiation for a successful one when the response carries a schema. The check
  looks for \<open>FAILED\<close> in the response code, and the code of a failed negotiation is spelt
  \<open>Failed_NoNegotiation\<close>: whatever the charger says, a response with the schema of one of the
  vehicle's entries makes it go on with the session set-up of that entry's protocol.
\<close>

lemma failed_negotiation_accepted:
  assumes "k < length ps" "ps ! k \<noteq> UNKNOWN" "supported_app_protocols v = offer ps"
    and "ev_setup_ok ee i" "resume_session_id v = None" "creates iso_setup"
  shows "let r = ev_SupportedAppProtocol_process iso_setup res_text ee (SAPRes NEGOTIATION_FAILED (Some (1 + int k))) v
    in snd r = None \<and> session_protocol (fst r) = ps ! k \<and>
       next_state (current_state (fst r)) = Some (setup_state (ps ! k))"
  using vehicle_reading [OF assms(1)] chosen_protocol [OF assms(4-6,2), of "1 + int k"] assms(3,4)
  by (simp add: ev_SupportedAppProtocol_process_def ev_setup_ok_def Let_def)

section \<open>From the first message on\<close>

text \<open>The exchange of the negotiation messages, and the joint system it leads to.\<close>

definition negotiate ::
  "(state_kind \<Rightarrow> evcc \<Rightarrow> evcc outcome) \<Rightarrow> (sap_code \<Rightarrow> int option \<Rightarrow> string) \<Rightarrow> env \<Rightarrow> ev_env \<Rightarrow>
    secc \<Rightarrow> evcc \<Rightarrow> joint" where
  "negotiate iso_setup res_text env ee c v =
     (let c' = fst (SupportedAppProtocol_process env (SAPReq (supported_app_protocols v)) c);
          v' = (case outgoing c' of
                  Some res \<Rightarrow> fst (ev_SupportedAppProtocol_process iso_setup res_text ee res v) | None \<Rightarrow> v)
      in \<lparr>charger = moved_on c', vehicle = moved_on v', in_flight = (if stops v' then None else outgoing v'), trace = []\<rparr>)"

lemma negotiate_linked:
  assumes "supported_app_protocols v = offer ps" "resume_session_id v = None" "selected_services v = []"
    and "\<forall>m n. \<not> isl (to_exi env m n)" "session_protocol c = UNKNOWN" "ev_setup_ok ee i"
    and "find (\<lambda>p. p \<in> set (supported_protocols env) \<and> p \<noteq> UNKNOWN) ps = Some DIN_SPEC_70121"
  shows "linked (negotiate iso_setup res_text env ee c v) \<and>
    (\<exists>h. in_flight (negotiate iso_setup res_text env ee c v) = Some (DinMessage h (Some (SessionSetupReq i))))"
proof -
  let ?sup = "supported_protocols env"
  obtain k where Some: "find (\<lambda>i. common ?sup (ps ! i)) [0..<length ps] = Some k" and k: "ps ! k = DIN_SPEC_70121"
    using assms(7) find_nth [of "common ?sup" ps] by auto
  note charger = sap_process_eq [OF assms(4,5), of "offer ps", unfolded charger_choice]
  have entry: "schema_id (sap_entry (1 + int k) DIN_SPEC_70121) = 1 + int k"
    "protocol_ns (sap_entry (1 + int k) DIN_SPEC_70121) = ns DIN_SPEC_70121"
    by (simp_all add: sap_entry_def)
  let ?v = "get_session_id 1 (v\<lparr>session_protocol := DIN_SPEC_70121\<rparr>)"
  have "session_id ?v = ''00''" "session_protocol ?v = DIN_SPEC_70121" "selected_services ?v = []"
    using assms(2,3) by (simp_all add: numeral_2_eq_2)
  with charger Some k entry vehicle_reading [OF find_upt_Some [OF Some]] din_chosen [OF assms(6,2), of iso_setup "1 + int k"] assms(1,6)
  show ?thesis
    by (simp add: negotiate_def ev_SupportedAppProtocol_process_def ev_setup_ok_def linked_def same_id_def room_def
        stops_def outgoing_def din_message_def Let_def del: ns.simps)
qed



end
