(* ===== verification/Evcc_Handler.thy ===== *)
theory Evcc_Handler
  imports Sdp Evcc_Sap
begin

text \<open>
  The vehicle's session handler (\<open>CommunicationSessionHandler\<close> of \<open>iso15118/evcc/comm_session_handler.py\<close>): the
  discovery of a charger with its retries, the TCP connection, and the notifications of its queue. The
  network is an argument: what answers each discovery request, in the 250 ms the UDP client waits, which
  connections come about, and what the codec makes of the first request. The UDP socket is up.
\<close>

section \<open>State\<close>

abbreviation (input) "SDP_MAX_REQUEST_COUNTER \<equiv> (50 :: int)"

record ev_config =
  config_protocols :: "protocol list option"
  use_tls :: bool
  ev_enforce_tls :: bool
  sdp_retry_cycles :: int
  auto_restart_on_sdp_failure :: bool
  auto_restart_max_attempts :: "int option"

datatype ev_notification =
    UDPPacket bytes
  | ReceiveTimeout
  | SessionStopped bool

text \<open>\<open>sdp_answer n\<close> is the datagram that answers the \<open>n\<close>-th request, if one arrives in time.\<close>

record ev_net =
  sdp_answer :: "nat \<Rightarrow> bytes option"
  connects :: "bytes \<Rightarrow> int \<Rightarrow> bool \<Rightarrow> bool"
  sap_to_exi :: "v2g_message \<Rightarrow> string \<Rightarrow> bytes result"
  write_ok :: bool

text \<open>
  The attribute \<open>comm_session\<close>: a pair of \<open>None\<close>s at first, then a session with its task; it is deleted when the
  session has stopped.
\<close>

datatype session_slot = NoSession | Running | Deleted

record ev_connection =
  ev_host :: bytes
  ev_port :: int
  ev_tls :: bool
  sap_sent :: "app_protocol list"

record ev_handler =
  ev_config :: ev_config
  sdp_retries_number :: int
  retry_cycles :: int
  auto_restart_attempts :: int
  rcv_queue :: "ev_notification list"
  comm_session :: session_slot
  sdp_sent :: "bytes list"
  connections :: "ev_connection list"

definition EvccSessionHandler :: "ev_config \<Rightarrow> ev_handler" where
  "EvccSessionHandler c =
     \<lparr>ev_config = c, sdp_retries_number = SDP_MAX_REQUEST_COUNTER, retry_cycles = sdp_retry_cycles c,
      auto_restart_attempts = 0, rcv_queue = [], comm_session = NoSession, sdp_sent = [], connections = []\<rparr>"

section \<open>Discovery\<close>

definition ev_receive :: "ev_net \<Rightarrow> ev_handler \<Rightarrow> ev_handler" where
  "ev_receive net h =
     h\<lparr>rcv_queue := rcv_queue h @
         [case sdp_answer net (length (sdp_sent h)) of Some d \<Rightarrow> UDPPacket d | None \<Rightarrow> ReceiveTimeout]\<rparr>"

definition send_sdp :: "ev_net \<Rightarrow> ev_handler \<Rightarrow> ev_handler outcome" where
  "send_sdp net h =
     (let sec = (if use_tls (ev_config h) then TLS else NO_TLS)
      in (case rbind (request_to_payload \<lparr>req_security = sec, req_transport = TCP\<rparr>) (\<lambda>pl.
               rbind (V2GTPMessage UNKNOWN 0x9000 pl) to_bytes) of
            Inl e \<Rightarrow> raises e h
          | Inr bs \<Rightarrow> done_with (ev_receive net (h\<lparr>sdp_sent := sdp_sent h @ [bs]\<rparr>))))"

definition restart_sdp :: "ev_net \<Rightarrow> bool \<Rightarrow> ev_handler \<Rightarrow> ev_handler outcome" where
  "restart_sdp net new_sdp_cycle h =
     (if new_sdp_cycle \<and> retry_cycles h = 0 then raises SDPFailedError h
      else
        let h = (if new_sdp_cycle
                 then h\<lparr>retry_cycles := retry_cycles h - 1, sdp_retries_number := SDP_MAX_REQUEST_COUNTER\<rparr>
                 else h)
        in if sdp_retries_number h > 0 then
             andthen (send_sdp net h) (\<lambda>h. done_with (h\<lparr>sdp_retries_number := sdp_retries_number h - 1\<rparr>))
           else raises SDPFailedError (h\<lparr>sdp_retries_number := SDP_MAX_REQUEST_COUNTER\<rparr>))"

text \<open>A limit of \<open>None\<close> or zero is no limit.\<close>

definition handle_sdp_failed :: "ev_net \<Rightarrow> ev_handler \<Rightarrow> ev_handler outcome" where
  "handle_sdp_failed net h =
     (if \<not> auto_restart_on_sdp_failure (ev_config h) then done_with h
      else if (case auto_restart_max_attempts (ev_config h) of
                 Some m \<Rightarrow> m \<noteq> 0 \<and> auto_restart_attempts h \<ge> m | None \<Rightarrow> False) then done_with h
      else
        restart_sdp net True
          (h\<lparr>auto_restart_attempts := auto_restart_attempts h + 1,
             retry_cycles := sdp_retry_cycles (ev_config h), sdp_retries_number := SDP_MAX_REQUEST_COUNTER\<rparr>))"

text \<open>\<open>try: await self.restart_sdp(...) except SDPFailedError as exc: await self.handle_sdp_failed(exc)\<close>.\<close>

definition try_restart :: "ev_net \<Rightarrow> bool \<Rightarrow> ev_handler \<Rightarrow> ev_handler outcome" where
  "try_restart net new_sdp_cycle h =
     (case restart_sdp net new_sdp_cycle h of
        (h, Some e) \<Rightarrow> if e = SDPFailedError then handle_sdp_failed net h else raises e h
      | (h, None) \<Rightarrow> done_with h)"

section \<open>Connecting\<close>

text \<open>
  The new session offers its protocols and sends the request. An exception of the connection attempt, or
  a request that is not valid, is logged and nothing else happens.
\<close>

definition start_comm_session :: "ev_net \<Rightarrow> bytes \<Rightarrow> int \<Rightarrow> bool \<Rightarrow> ev_handler \<Rightarrow> ev_handler outcome" where
  "start_comm_session net host port is_tls h =
     (if \<not> connects net host port is_tls then done_with h
      else
        let (protocols', sap) = create_sap is_tls (config_protocols (ev_config h));
            h = h\<lparr>ev_config := (ev_config h)\<lparr>config_protocols := protocols'\<rparr>\<rparr>
        in (case sap of
              Inl e \<Rightarrow> if e = ValidationError then done_with h else raises e h
            | Inr entries \<Rightarrow>
                (case rbind (sap_to_exi net (SAPReq entries) SAP_NS) (V2GTPMessage UNKNOWN EXI_ENCODED) of
                   Inl e \<Rightarrow> raises e h
                 | Inr m \<Rightarrow>
                     (case to_bytes m of
                        Inl e \<Rightarrow> raises e h
                      | Inr _ \<Rightarrow>
                          if \<not> write_ok net then raises OSError h
                          else done_with (h\<lparr>comm_session := Running,
                            connections := connections h @
                              [\<lparr>ev_host = host, ev_port = port, ev_tls = is_tls, sap_sent = entries\<rparr>]\<rparr>)))))"

text \<open>
  A response object that could not be built has no fields, and formatting it for the log raises
  \<open>AttributeError\<close>. The payload types of the discovery response are the same in both enumerations.
\<close>

definition ev_process_incoming_udp_packet :: "ev_net \<Rightarrow> bytes \<Rightarrow> ev_handler \<Rightarrow> ev_handler outcome" where
  "ev_process_incoming_udp_packet net d h =
     (case from_bytes UNKNOWN d of
        Inl e \<Rightarrow> if e = InvalidV2GTPMessageError then done_with h else raises e h
      | Inr m \<Rightarrow>
          if payload_type m = 0x9001 then
            (case response_from_payload (payload m) of
               Inl e \<Rightarrow> if e = InvalidSDPResponseError then try_restart net True h else raises e h
             | Inr None \<Rightarrow> raises AttributeError h
             | Inr (Some r) \<Rightarrow>
                 let secc_signals_tls = (resp_security r = TLS)
                 in if \<not> secc_signals_tls \<and> ev_enforce_tls (ev_config h) \<or>
                       secc_signals_tls \<and> \<not> use_tls (ev_config h)
                    then done_with h
                    else start_comm_session net (ip_address r) (resp_port r) secc_signals_tls h)
          else if payload_type m = 0x9003 then raises NotImplementedError h
          else try_restart net True h)"

section \<open>Notifications\<close>

text \<open>The second component says whether the loop goes on.\<close>

definition ev_handle :: "ev_net \<Rightarrow> ev_notification \<Rightarrow> ev_handler \<Rightarrow> ev_handler outcome \<times> bool" where
  "ev_handle net n h =
     (case n of
        UDPPacket d \<Rightarrow> (ev_process_incoming_udp_packet net d h, True)
      | ReceiveTimeout \<Rightarrow> (try_restart net False h, True)
      | SessionStopped success \<Rightarrow>
          (case comm_session h of
             Running \<Rightarrow>
               let h = h\<lparr>comm_session := Deleted\<rparr>
               in if success then (done_with (h\<lparr>auto_restart_attempts := 0\<rparr>), False)
                  else (try_restart net True h, True)
           | _ \<Rightarrow> (raises AttributeError h, True)))"

text \<open>The handler takes one notification from its queue.\<close>

definition ev_serve :: "ev_net \<Rightarrow> ev_handler \<Rightarrow> ev_handler outcome \<times> bool" where
  "ev_serve net h =
     (case rcv_queue h of
        [] \<Rightarrow> (done_with h, True)
      | n # rest \<Rightarrow> ev_handle net n (h\<lparr>rcv_queue := rest\<rparr>))"

section \<open>Discovery without an answer\<close>

definition sdp_request_bytes :: "bool \<Rightarrow> bytes" where
  "sdp_request_bytes tls = [1, 0xFE, 0x90, 0, 0, 0, 0, 2, if tls then 0 else 0x10, 0]"

lemma send_sdp_eq:
  "send_sdp net h = done_with (ev_receive net (h\<lparr>sdp_sent := sdp_sent h @ [sdp_request_bytes (use_tls (ev_config h))]\<rparr>))"
proof -
  have one: "int_to_bytes (Suc 0) n = Inr [n]" if "0 \<le> n" "n < 256" for n
    using that by (simp add: int_to_bytes_def)
  have "V2GTPMessage UNKNOWN 0x9000 pl = Inr (message_of UNKNOWN 0x9000 pl)" for pl
    by (simp add: V2GTPMessage_eq is_payload_type_valid_def ISOV2PayloadTypes_def)
  moreover have "to_bytes (message_of UNKNOWN 0x9000 [x, y]) = Inr [1, 0xFE, 0x90, 0, 0, 0, 0, 2, x, y]" for x y
    by (simp add: to_bytes_message_of UINT_32_MAX_def header_of_def eval_nat_numeral)
  ultimately show ?thesis
    by (simp add: send_sdp_def sdp_request_bytes_def request_to_payload_def one)
qed

text \<open>How often the handler starts the discovery all over again; \<open>None\<close> is without limit.\<close>

definition restarts :: "ev_config \<Rightarrow> nat option" where
  "restarts c =
     (if \<not> auto_restart_on_sdp_failure c then Some 0
      else (case auto_restart_max_attempts c of None \<Rightarrow> None | Some m \<Rightarrow> if m = 0 then None else Some (nat m)))"

definition start_session_handler :: "ev_net \<Rightarrow> ev_config \<Rightarrow> ev_handler outcome" where
  "start_session_handler net c = restart_sdp net True (EvccSessionHandler c)"

primrec serves :: "ev_net \<Rightarrow> nat \<Rightarrow> ev_handler \<Rightarrow> ev_handler outcome" where
  "serves net 0 h = done_with h"
| "serves net (Suc n) h = andthen (serves net n h) (\<lambda>h. fst (ev_serve net h))"

definition silent :: "ev_net \<Rightarrow> bool" where
  "silent net \<longleftrightarrow> (\<forall>n. sdp_answer net n = None)"

text \<open>The state of the handler after so many requests without an answer.\<close>

definition waiting :: "ev_config \<Rightarrow> nat \<Rightarrow> ev_handler" where
  "waiting c n = (EvccSessionHandler c)\<lparr>sdp_retries_number := 49 - int (n mod 50), retry_cycles := sdp_retry_cycles c - 1,
     auto_restart_attempts := int (n div 50), rcv_queue := [ReceiveTimeout],
     sdp_sent := replicate (Suc n) (sdp_request_bytes (use_tls c))\<rparr>"

lemma done_with_inject: "done_with s = done_with s' \<longleftrightarrow> s = s'"
  by (simp add: done_with_def)

lemma restart_sdp_again:
  "sdp_retries_number h > 0 \<Longrightarrow> restart_sdp net False h =
     done_with ((ev_receive net (h\<lparr>sdp_sent := sdp_sent h @ [sdp_request_bytes (use_tls (ev_config h))]\<rparr>))
       \<lparr>sdp_retries_number := sdp_retries_number h - 1\<rparr>)"
  by (simp add: restart_sdp_def send_sdp_eq ev_receive_def)

lemma restart_sdp_new:
  "retry_cycles h \<noteq> 0 \<Longrightarrow> restart_sdp net True h =
     done_with ((ev_receive net (h\<lparr>sdp_sent := sdp_sent h @ [sdp_request_bytes (use_tls (ev_config h))]\<rparr>))
       \<lparr>sdp_retries_number := 49, retry_cycles := retry_cycles h - 1\<rparr>)"
  by (cases h) (simp add: restart_sdp_def send_sdp_eq ev_receive_def)

lemma try_restart_simps:
  "restart_sdp net b h = done_with h' \<Longrightarrow> try_restart net b h = done_with h'"
  "sdp_retries_number h \<le> 0 \<Longrightarrow> try_restart net False h = handle_sdp_failed net (h\<lparr>sdp_retries_number := 50\<rparr>)"
  by (simp_all add: try_restart_def restart_sdp_def done_with_def raises_def)

lemma waiting_start:
  "silent net \<Longrightarrow> sdp_retry_cycles c \<noteq> 0 \<Longrightarrow> start_session_handler net c = done_with (waiting c 0)"
  by (simp add: start_session_handler_def restart_sdp_def send_sdp_eq ev_receive_def waiting_def EvccSessionHandler_def
      silent_def)

lemma fifties: "n = 50 * q + 49 \<Longrightarrow> Suc n < 50 * Suc k \<Longrightarrow> q < k"
  by simp

lemma silent_step:
  assumes "silent net" "sdp_retry_cycles c \<noteq> 0" "\<And>m. restarts c = Some m \<Longrightarrow> Suc n < 50 * Suc m"
  shows "fst (ev_serve net (waiting c n)) = done_with (waiting c (Suc n))"
proof (cases "n mod 50 = 49")
  case False
  then have "Suc n mod 50 = Suc (n mod 50)" "Suc n div 50 = n div 50" "n mod 50 < 49"
    by (auto simp: mod_Suc div_Suc)
  then show ?thesis
    using assms(1)
    by (simp add: ev_serve_def ev_handle_def try_restart_simps(1) [OF restart_sdp_again] ev_receive_def waiting_def
        EvccSessionHandler_def silent_def replicate_append_same)
next
  case True
  then have suc: "Suc n mod 50 = 0" "Suc n div 50 = Suc (n div 50)" by (simp_all add: mod_Suc div_Suc)
  have q: "n = 50 * (n div 50) + 49" using True mult_div_mod_eq [of 50 n] by simp
  have auto: "auto_restart_on_sdp_failure c"
    using assms(3) [of 0] q by (cases "auto_restart_on_sdp_failure c") (auto simp: restarts_def)
  have "\<not> (m \<noteq> 0 \<and> m \<le> int (n div 50))" if "auto_restart_max_attempts c = Some m" for m
  proof
    assume m: "m \<noteq> 0 \<and> m \<le> int (n div 50)"
    then have "Suc n < 50 * Suc (nat m)" using assms(3) [of "nat m"] that auto by (simp add: restarts_def)
    with q have "n div 50 < nat m" by (rule fifties)
    with m show False by linarith
  qed
  then show ?thesis
    using assms(1,2) True auto suc
    by (cases "auto_restart_max_attempts c")
      (auto simp: ev_serve_def ev_handle_def try_restart_simps(2) handle_sdp_failed_def restart_sdp_new ev_receive_def
        waiting_def EvccSessionHandler_def silent_def replicate_append_same add.commute)
qed

lemma silent_end:
  assumes "silent net" "restarts c = Some m" "Suc n = 50 * Suc m" "m = 0 \<longrightarrow> \<not> auto_restart_on_sdp_failure c"
  shows "fst (ev_serve net (waiting c n)) = done_with ((waiting c n)\<lparr>rcv_queue := [], sdp_retries_number := 50\<rparr>)"
proof -
  have "n = 49 + 50 * m" using assms(3) by simp
  then have "n mod 50 = 49" "n div 50 = m" by simp_all
  with assms(2,4) show ?thesis
    by (auto simp: ev_serve_def ev_handle_def try_restart_simps(2) waiting_def EvccSessionHandler_def
        handle_sdp_failed_def restarts_def split: option.splits if_splits)
qed

lemma serves_waiting:
  assumes "silent net" "sdp_retry_cycles c \<noteq> 0" "\<And>m. restarts c = Some m \<Longrightarrow> n < 50 * Suc m"
  shows "serves net n (waiting c 0) = done_with (waiting c n)"
  using assms(3)
proof (induction n)
  case (Suc n)
  then have "serves net n (waiting c 0) = done_with (waiting c n)" by force
  with silent_step [OF assms(1,2) Suc.prems] show ?case by simp
qed simp

text \<open>
  C24: how long the vehicle looks for a charger that does not answer. The first request goes out at the
  start and each timeout sends another, fifty in a row and fifty more for each automatic restart. When these
  are used up the handler waits for nothing any more; without a limit on restarts it goes on for ever.
  The number of retry cycles of the configuration does not matter, as long as there is one.
\<close>

theorem silent_discovery:
  assumes "silent net" "sdp_retry_cycles c \<noteq> 0" "auto_restart_on_sdp_failure c \<longrightarrow> restarts c \<noteq> Some 0"
  shows "\<exists>h. start_session_handler net c = done_with h \<and>
    (case restarts c of
       Some m \<Rightarrow> (\<exists>h'. serves net (50 * Suc m) h = done_with h' \<and> rcv_queue h' = [] \<and>
         length (sdp_sent h') = 50 * Suc m \<and> comm_session h' = NoSession)
     | None \<Rightarrow> (\<forall>n. \<exists>h'. serves net n h = done_with h' \<and> rcv_queue h' = [ReceiveTimeout] \<and>
         length (sdp_sent h') = Suc n))"
proof -
  have waiting: "rcv_queue (waiting c n) = [ReceiveTimeout]" "length (sdp_sent (waiting c n)) = Suc n"
    "comm_session (waiting c n) = NoSession" for n
    by (simp_all add: waiting_def EvccSessionHandler_def)
  show ?thesis
  proof (cases "restarts c")
    case None
    then show ?thesis
      using waiting_start [OF assms(1,2)] serves_waiting [OF assms(1,2)] waiting by (auto simp: done_with_inject)
  next
    case (Some m)
    let ?n = "50 * Suc m - 1"
    have n: "Suc ?n = 50 * Suc m" by simp
    have "serves net ?n (waiting c 0) = done_with (waiting c ?n)"
      using serves_waiting [OF assms(1,2), of ?n] Some by simp
    then have "serves net (50 * Suc m) (waiting c 0) = done_with ((waiting c ?n)\<lparr>rcv_queue := [], sdp_retries_number := 50\<rparr>)"
      using silent_end [OF assms(1) Some n] assms(3) Some serves.simps(2) [of net ?n "waiting c 0", unfolded n] by auto
    with waiting_start [OF assms(1,2)] Some waiting [of ?n] n show ?thesis by (auto simp: done_with_inject simp del: serves.simps)
  qed
qed

definition example_config :: ev_config where
  "example_config = \<lparr>config_protocols = Some [DIN_SPEC_70121, ISO_15118_2], use_tls = True, ev_enforce_tls = False,
     sdp_retry_cycles = 1, auto_restart_on_sdp_failure = True, auto_restart_max_attempts = Some 2\<rparr>"

definition silent_net :: ev_net where
  "silent_net = \<lparr>sdp_answer = (\<lambda>_. None), connects = (\<lambda>_ _ _. True), sap_to_exi = (\<lambda>_ _. Inr [0x80, 0x00]), write_ok = True\<rparr>"

theorem silent_discovery_witness:
  "\<exists>h h'. start_session_handler silent_net example_config = done_with h \<and>
     serves silent_net 150 h = done_with h' \<and> rcv_queue h' = [] \<and> length (sdp_sent h') = 150"
proof -
  have "restarts example_config = Some 2" "silent silent_net" "sdp_retry_cycles example_config \<noteq> 0"
    by (simp_all add: restarts_def example_config_def silent_def silent_net_def)
  then show ?thesis using silent_discovery [of silent_net example_config] by auto
qed

section \<open>What holds of every reachable state\<close>

text \<open>
  The handler serves its queue, and a session that runs reports its end once. Waiting for the answer to a
  request happens while a notification is handled, so the two never overlap unless a session runs while the
  handler looks for a charger, which the invariant excludes.
\<close>

inductive ev_reach :: "ev_net \<Rightarrow> ev_config \<Rightarrow> ev_handler \<Rightarrow> bool" for net c where
  reach_start: "start_session_handler net c = (h, None) \<Longrightarrow> ev_reach net c h"
| reach_serve: "ev_reach net c h \<Longrightarrow> rcv_queue h \<noteq> [] \<Longrightarrow> ev_serve net h = ((h', None), True) \<Longrightarrow> ev_reach net c h'"
| reach_session_ends: "ev_reach net c h \<Longrightarrow> comm_session h = Running \<Longrightarrow> \<forall>b. SessionStopped b \<notin> set (rcv_queue h) \<Longrightarrow>
    ev_reach net c (h\<lparr>rcv_queue := rcv_queue h @ [SessionStopped success]\<rparr>)"

definition policy :: "ev_config \<Rightarrow> ev_connection \<Rightarrow> bool" where
  "policy c k \<longleftrightarrow> (ev_enforce_tls c \<longrightarrow> ev_tls k) \<and>
     (ev_tls k \<longrightarrow> use_tls c \<and> ns DIN_SPEC_70121 \<notin> set (map protocol_ns (sap_sent k)))"

definition queue_ok :: "ev_notification list \<Rightarrow> session_slot \<Rightarrow> bool" where
  "queue_ok q slot = (case q of [] \<Rightarrow> True | [SessionStopped _] \<Rightarrow> slot = Running | [_] \<Rightarrow> slot \<noteq> Running | _ \<Rightarrow> False)"

definition same_config :: "ev_config \<Rightarrow> ev_handler \<Rightarrow> bool" where
  "same_config c h \<longleftrightarrow> use_tls (ev_config h) = use_tls c \<and> ev_enforce_tls (ev_config h) = ev_enforce_tls c \<and>
     (\<forall>ps. config_protocols (ev_config h) = Some ps \<longrightarrow> distinct ps)"

definition ev_inv :: "ev_config \<Rightarrow> ev_handler \<Rightarrow> bool" where
  "ev_inv c h \<longleftrightarrow> queue_ok (rcv_queue h) (comm_session h) \<and> same_config c h \<and> list_all (policy c) (connections h) \<and>
     0 \<le> sdp_retries_number h \<and> sdp_retries_number h \<le> 50"

text \<open>Between sessions: nothing is pending and no session runs.\<close>

definition idle_inv :: "ev_config \<Rightarrow> ev_handler \<Rightarrow> bool" where
  "idle_inv c h \<longleftrightarrow> rcv_queue h = [] \<and> comm_session h \<noteq> Running \<and> ev_inv c h"

lemma ev_receive_inv: "idle_inv c h \<Longrightarrow> ev_inv c (ev_receive net h)"
  by (auto simp: idle_inv_def ev_inv_def ev_receive_def queue_ok_def same_config_def split: option.split)

lemma restart_inv:
  assumes "idle_inv c h"
  shows "ev_inv c (fst (restart_sdp net b h))" "snd (restart_sdp net b h) \<noteq> None \<Longrightarrow> idle_inv c (fst (restart_sdp net b h))"
  using assms
  by (auto simp: restart_sdp_def send_sdp_eq ev_receive_def idle_inv_def ev_inv_def queue_ok_def same_config_def Let_def
      split: option.split if_splits)

lemma try_restart_inv:
  assumes "idle_inv c h"
  shows "ev_inv c (fst (try_restart net b h))"
proof -
  have failed: "ev_inv c (fst (handle_sdp_failed net h'))" if "idle_inv c h'" for h'
  proof -
    have "idle_inv c (h'\<lparr>auto_restart_attempts := a, retry_cycles := k, sdp_retries_number := 50\<rparr>)" for a k
      using that by (auto simp: idle_inv_def ev_inv_def same_config_def)
    with that restart_inv(1) show ?thesis
      by (auto simp: handle_sdp_failed_def idle_inv_def split: option.split)
  qed
  obtain h' e where r: "restart_sdp net b h = (h', e)" by (cases "restart_sdp net b h")
  with restart_inv [OF assms, of net b] failed show ?thesis
    by (auto simp: try_restart_def split: option.split)
qed

lemma sap_entries_ns: "sap_entries i k ps = Inr es \<Longrightarrow> map protocol_ns es = map ns ps"
  by (induction ps arbitrary: i k es) (auto simp: AppProtocol_def rbind_Inr_iff split: if_splits simp del: ns.simps)

lemma create_sap_distinct:
  assumes "create_sap tls (config_protocols cfg) = (ps', Inr es)" "\<And>ps. config_protocols cfg = Some ps \<Longrightarrow> distinct ps"
  shows "tls \<Longrightarrow> ns DIN_SPEC_70121 \<notin> set (map protocol_ns es)"
proof -
  obtain ps where ps: "config_protocols cfg = Some ps" using assms(1) by (cases "config_protocols cfg") (auto simp: create_sap_def)
  then have "sap_entries 0 0 (if tls then remove1 DIN_SPEC_70121 ps else ps) = Inr es" "distinct ps"
    using assms by (auto simp: create_sap_def Let_def)
  then show "tls \<Longrightarrow> ns DIN_SPEC_70121 \<notin> set (map protocol_ns es)"
    using sap_entries_ns by (fastforce simp del: ns.simps)
qed

lemma start_comm_session_inv:
  assumes "idle_inv c h" "\<not> tls \<longrightarrow> \<not> ev_enforce_tls c" "tls \<longrightarrow> use_tls c"
  shows "ev_inv c (fst (start_comm_session net host port tls h))"
proof -
  obtain ps' sap where sap: "create_sap tls (config_protocols (ev_config h)) = (ps', sap)"
    by (cases "create_sap tls (config_protocols (ev_config h))")
  have dist: "\<And>ps. config_protocols (ev_config h) = Some ps \<Longrightarrow> distinct ps"
    using assms(1) by (auto simp: idle_inv_def ev_inv_def same_config_def)
  have ps': "distinct ps" if "ps' = Some ps" for ps
    using sap dist that by (auto simp: create_sap_def Let_def split: option.splits if_splits)
  let ?h = "h\<lparr>ev_config := (ev_config h)\<lparr>config_protocols := ps'\<rparr>\<rparr>"
  have h: "ev_inv c h" "ev_inv c ?h"
    using assms(1) ps' by (auto simp: idle_inv_def ev_inv_def same_config_def)
  moreover have "ev_inv c (?h\<lparr>comm_session := Running,
      connections := connections h @ [\<lparr>ev_host = host, ev_port = port, ev_tls = tls, sap_sent = es\<rparr>]\<rparr>)" if "sap = Inr es" for es
  proof -
    have "policy c \<lparr>ev_host = host, ev_port = port, ev_tls = tls, sap_sent = es\<rparr>"
      using create_sap_distinct [of tls "ev_config h" ps' es, OF _ dist] assms(2,3) sap that
      by (auto simp: policy_def simp del: ns.simps)
    with h(2) assms(1) show ?thesis by (auto simp: idle_inv_def ev_inv_def same_config_def queue_ok_def)
  qed
  ultimately show ?thesis
    unfolding start_comm_session_def sap by (auto simp: Let_def split: sum.split)
qed

lemma ev_process_inv:
  assumes "idle_inv c h"
  shows "ev_inv c (fst (ev_process_incoming_udp_packet net d h))"
proof -
  have "ev_inv c h" "ev_enforce_tls (ev_config h) = ev_enforce_tls c" "use_tls (ev_config h) = use_tls c"
    using assms by (auto simp: idle_inv_def ev_inv_def same_config_def)
  then show ?thesis
    using try_restart_inv [OF assms] start_comm_session_inv [OF assms]
    by (auto simp: ev_process_incoming_udp_packet_def Let_def split: sum.split option.split)
qed

lemma idle_after:
  "ev_inv c h \<Longrightarrow> rcv_queue h = [n] \<Longrightarrow> \<forall>b. n \<noteq> SessionStopped b \<Longrightarrow> idle_inv c (h\<lparr>rcv_queue := []\<rparr>)"
  by (cases n) (auto simp: idle_inv_def ev_inv_def queue_ok_def same_config_def)

lemma ev_serve_inv:
  assumes "ev_inv c h"
  shows "ev_inv c (fst (fst (ev_serve net h)))"
proof (cases "rcv_queue h")
  case Nil
  then show ?thesis using assms by (simp add: ev_serve_def)
next
  case (Cons n rest)
  then have rest: "rest = []" using assms by (auto simp: ev_inv_def queue_ok_def split: list.splits ev_notification.splits)
  show ?thesis
  proof (cases n)
    case (SessionStopped b)
    then have run: "comm_session h = Running" using assms Cons rest by (simp add: ev_inv_def queue_ok_def)
    have "idle_inv c (h\<lparr>rcv_queue := [], comm_session := Deleted\<rparr>)"
      "ev_inv c (h\<lparr>rcv_queue := [], comm_session := Deleted, auto_restart_attempts := 0\<rparr>)"
      using assms by (auto simp: idle_inv_def ev_inv_def same_config_def queue_ok_def)
    with try_restart_inv SessionStopped Cons rest run show ?thesis
      by (auto simp: ev_serve_def ev_handle_def Let_def)
  next
    case (UDPPacket d)
    then have "idle_inv c (h\<lparr>rcv_queue := []\<rparr>)" using assms Cons rest by (simp add: idle_after)
    from ev_process_inv [OF this] UDPPacket Cons rest show ?thesis by (simp add: ev_serve_def ev_handle_def)
  next
    case ReceiveTimeout
    then have "idle_inv c (h\<lparr>rcv_queue := []\<rparr>)" using assms Cons rest by (simp add: idle_after)
    from try_restart_inv [OF this] ReceiveTimeout Cons rest show ?thesis by (simp add: ev_serve_def ev_handle_def)
  qed
qed

lemma ev_reach_inv:
  assumes "ev_reach net c h" "\<And>ps. config_protocols c = Some ps \<Longrightarrow> distinct ps"
  shows "ev_inv c h"
  using assms(1)
proof induction
  case (reach_start h)
  have "idle_inv c (EvccSessionHandler c)"
    using assms(2) by (auto simp: idle_inv_def ev_inv_def EvccSessionHandler_def queue_ok_def same_config_def)
  from restart_inv(1) [OF this, of net True] reach_start show ?case by (simp add: start_session_handler_def)
next
  case (reach_serve h h')
  then show ?case using ev_serve_inv [of c h net] by simp
next
  case (reach_session_ends h b)
  then show ?case by (auto simp: ev_inv_def queue_ok_def same_config_def split: list.splits ev_notification.splits)
qed


text \<open>
  The handler's bookkeeping. In every reachable state at most one notification is pending; if it is the end
  of a session, that session is the one the handler holds, so that ending it does not fail; while a
  session runs, the handler does not look for another charger; and the request counter stays between 0 and 50.
\<close>

lemma stop_finds_its_session:
  assumes "ev_reach net c h" "config_protocols c = Some ps" "distinct ps"
  shows "length (rcv_queue h) \<le> 1 \<and> 0 \<le> sdp_retries_number h \<and> sdp_retries_number h \<le> 50 \<and>
    (\<forall>n \<in> set (rcv_queue h). comm_session h = Running \<longleftrightarrow> n \<in> {SessionStopped True, SessionStopped False})"
proof -
  have "ev_inv c h" by (rule ev_reach_inv [OF assms(1)]) (use assms(2,3) in simp)
  moreover have "SessionStopped b \<in> {SessionStopped True, SessionStopped False}" for b by (cases b) simp_all
  ultimately show ?thesis
    by (auto simp: ev_inv_def queue_ok_def split: list.splits ev_notification.splits)
qed

definition plain_response :: bytes where
  "plain_response = [1, 0xFE, 0x90, 0x01, 0, 0, 0, 20] @ replicate 15 0 @ [1] @ [0xC3, 0x50] @ [0x10, 0x00]"

definition plain_net :: ev_net where
  "plain_net = silent_net\<lparr>sdp_answer := (\<lambda>n. Some plain_response)\<rparr>"

definition plain_start :: ev_handler where
  "plain_start = fst (start_session_handler plain_net example_config)"

definition plain_session :: ev_handler where
  "plain_session = fst (fst (ev_serve plain_net plain_start))"

lemma plain_runs:
  "snd (start_session_handler plain_net example_config) = None" "rcv_queue plain_start \<noteq> []"
  "snd (fst (ev_serve plain_net plain_start)) = None" "snd (ev_serve plain_net plain_start)"
  "length (connections plain_session) = 1" "comm_session plain_session = Running"
  by code_simp+

lemma plain_reach: "ev_reach plain_net example_config plain_session"
proof -
  have "ev_reach plain_net example_config plain_start"
    by (rule reach_start) (metis plain_start_def plain_runs(1) prod.collapse)
  then show ?thesis
    by (rule reach_serve [OF _ plain_runs(2)]) (metis plain_session_def plain_runs(3,4) prod.collapse)
qed

lemma example_protocols:
  "config_protocols example_config = Some [DIN_SPEC_70121, ISO_15118_2]" "distinct [DIN_SPEC_70121, ISO_15118_2]"
  by (simp_all add: example_config_def)


section \<open>Where the handler gives up or forgets\<close>

text \<open>
  A charger the vehicle cannot connect to ends the search for good. When the answer to a discovery request
  is well-formed but its security does not suit the vehicle, or the connection it leads to is not made, the handler
  sends no further request, whatever retry cycles and automatic restarts the configuration allows: nothing is
  pending, no session runs, and serving the queue changes nothing any more.
\<close>

lemma unsuitable_answer_ends_discovery:
  assumes "rcv_queue h = [UDPPacket d]" "comm_session h \<noteq> Running"
    and "from_bytes UNKNOWN d = Inr m" "payload_type m = 0x9001" "response_from_payload (payload m) = Inr (Some r)"
    and "resp_security r = NO_TLS \<and> ev_enforce_tls (ev_config h) \<or>
      resp_security r = TLS \<and> \<not> use_tls (ev_config h) \<or>
      \<not> connects net (ip_address r) (resp_port r) (resp_security r = TLS)"
  shows "\<exists>h'. \<forall>n. serves net (Suc n) h = done_with h' \<and> rcv_queue h' = [] \<and> comm_session h' \<noteq> Running \<and>
    sdp_sent h' = sdp_sent h"
proof -
  let ?h = "h\<lparr>rcv_queue := []\<rparr>"
  have "security = TLS \<or> security = NO_TLS" for security by (cases security) simp_all
  then have "fst (ev_serve net h) = done_with ?h"
    using assms by (auto simp: ev_serve_def ev_handle_def ev_process_incoming_udp_packet_def start_comm_session_def Let_def)
  moreover have "fst (ev_serve net ?h) = done_with ?h" by (simp add: ev_serve_def)
  ultimately have "serves net (Suc n) h = done_with ?h" for n by (induction n) simp_all
  then show ?thesis using assms(2) by (intro exI [of _ ?h]) simp
qed

definition refusing_net :: ev_net where
  "refusing_net = plain_net\<lparr>connects := (\<lambda>_ _ _. False)\<rparr>"

lemma plain_answer:
  "\<exists>m r. from_bytes UNKNOWN plain_response = Inr m \<and> payload_type m = 0x9001 \<and> response_from_payload (payload m) = Inr (Some r)"
proof -
  let ?m = "projr (from_bytes UNKNOWN plain_response)"
  have "from_bytes UNKNOWN plain_response = Inr ?m" "payload_type ?m = 0x9001"
    "response_from_payload (payload ?m) = Inr (Some (the (projr (response_from_payload (payload ?m)))))"
    by code_simp+
  then show ?thesis by blast
qed

text \<open>
  One TLS connection removes DIN SPEC 70121 from the vehicle's configuration. The list of protocols that
  \<open>create_sap\<close> edits is the configuration's own, so a later connection without TLS, for which DIN SPEC 70121 is
  allowed and configured, does not offer it either.
\<close>

lemma din_lost_after_tls:
  assumes "config_protocols (ev_config h) = Some ps" "length ps \<le> 20"
    and "connects net host port True" "connects net' host' port' False" "write_ok net" "write_ok net'"
    and "sap_to_exi net = (\<lambda>_ _. Inr exi)" "sap_to_exi net' = (\<lambda>_ _. Inr exi')"
    and "int (length exi) \<le> UINT_32_MAX" "int (length exi') \<le> UINT_32_MAX"
  shows "let h1 = fst (start_comm_session net host port True h); h2 = fst (start_comm_session net' host' port' False h1)
    in map (map protocol_ns \<circ> sap_sent) (connections h2) =
         map (map protocol_ns \<circ> sap_sent) (connections h) @
           [map ns (remove1 DIN_SPEC_70121 ps), map ns (remove1 DIN_SPEC_70121 ps)]"
proof -
  let ?ps = "remove1 DIN_SPEC_70121 ps"
  have "length ?ps \<le> 20" using assms(2) by (auto simp: length_remove1)
  then obtain es where es: "sap_entries 0 0 ?ps = Inr es" by (simp add: sap_entries_eq)
  have v: "V2GTPMessage UNKNOWN EXI_ENCODED pl = Inr (message_of UNKNOWN EXI_ENCODED pl)" for pl
    by (simp add: V2GTPMessage_eq is_payload_type_valid_def ISOV2PayloadTypes_def)
  show ?thesis
    using assms es sap_entries_ns [OF es]
    by (simp add: start_comm_session_def create_sap_def v to_bytes_message_of Let_def del: ns.simps)
qed

end
