(* ===== verification/Charging_Profile.thy ===== *)
theory Charging_Profile
  imports V2_Messages
begin

text \<open>
  The two schedule checks of the ISO 15118-2 charger (\<open>secc/states/iso15118_2_states.py\<close>):
  \<open>validate_sa_schedule_list\<close> of the charge parameter discovery and \<open>_is_charging_profile_valid\<close> of the
  power delivery, which walks the maximum powers offered and the charging profile of the vehicle in
  parallel. The latter is compared with the requirement it implements: at no time the profile asks for
  more than the schedule offers.
\<close>

section \<open>Validity of the offered schedules\<close>

definition schedule_duration :: "p_max_entry list \<Rightarrow> int result" where
  "schedule_duration es =
     (if es = [] then Inl IndexError
      else (case interval_duration (last es) of
              None \<Rightarrow> Inl TypeError
            | Some d \<Rightarrow> Inr (interval_start (last es) - interval_start (hd es) + d)))"

fun validate_loop :: "int \<Rightarrow> sa_schedule list \<Rightarrow> bool result" where
  "validate_loop departure [] = Inr True"
| "validate_loop departure (s # ss) =
     rbind (schedule_duration (schedule_entries s)) (\<lambda>d.
       if departure = 0 \<and> d < 86400 then Inr False
       else if departure \<noteq> 0 \<and> departure < d then Inr False
       else validate_loop departure ss)"

text \<open>Iterating over \<open>None\<close>, a controller without an answer yet, raises.\<close>

definition validate_sa_schedule_list :: "sa_schedule list option \<Rightarrow> int \<Rightarrow> bool result" where
  "validate_sa_schedule_list schedules departure =
     (case schedules of None \<Rightarrow> Inl TypeError | Some ss \<Rightarrow> validate_loop departure ss)"

section \<open>Validity of the charging profile\<close>

text \<open>
  The inner loop over the profile from the cached index on: \<open>None\<close> is \<open>return False\<close>, otherwise the
  running index it leaves. The index of the next entry counts from the start of the slice, but is used
  in the whole profile.
\<close>

fun ev_loop :: "rat \<Rightarrow> int \<Rightarrow> profile_entry list \<Rightarrow> nat \<Rightarrow> nat \<Rightarrow> profile_entry list \<Rightarrow> nat option result" where
  "ev_loop sa_pmax sa_end profile idx running [] = Inr (Some running)"
| "ev_loop sa_pmax sa_end profile idx running (e # es) =
     (let is_last = (pe_start e = pe_start (last profile))
      in if pe_start e < sa_end \<or> is_last then
           if get_decimal_value (pe_max_power e) > sa_pmax then Inr None
           else if \<not> is_last then
             rbind (py_get profile (idx + 1)) (\<lambda>n.
               ev_loop sa_pmax sa_end profile (idx + 1) (if pe_start n \<le> sa_end then idx + 1 else running) es)
           else ev_loop sa_pmax sa_end profile (idx + 1) running es
         else Inr (Some running))"

definition sa_entry_end :: "p_max_entry \<Rightarrow> p_max_entry list \<Rightarrow> int result" where
  "sa_entry_end e es =
     (case es of
        n # _ \<Rightarrow> Inr (interval_start n)
      | [] \<Rightarrow> (case interval_duration e of None \<Rightarrow> Inl TypeError | Some d \<Rightarrow> Inr (interval_start e + d)))"

fun sa_loop :: "profile_entry list \<Rightarrow> nat \<Rightarrow> nat \<Rightarrow> p_max_entry list \<Rightarrow> bool result" where
  "sa_loop profile cached running [] = Inr True"
| "sa_loop profile cached running (e # es) =
     rbind (sa_entry_end e es) (\<lambda>sa_end.
       let cached = cached + running
       in rbind (ev_loop (get_decimal_value (p_max e)) sa_end profile 0 0 (drop cached profile)) (\<lambda>r.
            case r of None \<Rightarrow> Inr False | Some running \<Rightarrow> sa_loop profile cached running es))"

fun is_charging_profile_valid :: "sa_schedule list \<Rightarrow> int \<Rightarrow> profile_entry list \<Rightarrow> bool result" where
  "is_charging_profile_valid [] tuple_id profile = Inr True"
| "is_charging_profile_valid (s # ss) tuple_id profile =
     (if schedule_tuple_id s = tuple_id then
        rbind (sa_loop profile 0 0 (schedule_entries s)) (\<lambda>ok.
          if ok then is_charging_profile_valid ss tuple_id profile else Inr False)
      else is_charging_profile_valid ss tuple_id profile)"

section \<open>The requirement\<close>

text \<open>The time slots of a schedule and of a profile, whose last entry has no end.\<close>

fun sa_slots :: "p_max_entry list \<Rightarrow> (rat \<times> int \<times> int) list" where
  "sa_slots [] = []"
| "sa_slots [e] = [(get_decimal_value (p_max e), interval_start e,
     interval_start e + (case interval_duration e of None \<Rightarrow> 0 | Some d \<Rightarrow> d))]"
| "sa_slots (e # n # es) = (get_decimal_value (p_max e), interval_start e, interval_start n) # sa_slots (n # es)"

fun ev_slots :: "profile_entry list \<Rightarrow> (rat \<times> int \<times> int option) list" where
  "ev_slots [] = []"
| "ev_slots [e] = [(get_decimal_value (pe_max_power e), pe_start e, None)]"
| "ev_slots (e # n # es) = (get_decimal_value (pe_max_power e), pe_start e, Some (pe_start n)) # ev_slots (n # es)"

definition running_at :: "int \<Rightarrow> int \<Rightarrow> int option \<Rightarrow> bool" where
  "running_at t s e \<longleftrightarrow> s \<le> t \<and> (case e of None \<Rightarrow> True | Some x \<Rightarrow> t < x)"

definition adheres :: "p_max_entry list \<Rightarrow> profile_entry list \<Rightarrow> bool" where
  "adheres sa profile \<longleftrightarrow>
     (\<forall>t. \<forall>(limit, a, b) \<in> set (sa_slots sa). \<forall>(power, s, e) \<in> set (ev_slots profile).
        a \<le> t \<and> t < b \<and> running_at t s e \<longrightarrow> power \<le> limit)"

text \<open>Entries in the order of time; the last entry of a schedule has a duration.\<close>

definition profile_ordered :: "profile_entry list \<Rightarrow> bool" where
  "profile_ordered es \<longleftrightarrow> es \<noteq> [] \<and> sorted_wrt (<) (map pe_start es)"

definition schedule_ordered :: "p_max_entry list \<Rightarrow> bool" where
  "schedule_ordered es \<longleftrightarrow> es \<noteq> [] \<and> sorted_wrt (<) (map interval_start es) \<and>
     (\<exists>d > 0. interval_duration (last es) = Some d)"

section \<open>Slots\<close>

lemma sorted_wrt_last:
  "sorted_wrt (<) (map f (xs :: 'a list)) \<Longrightarrow> x \<in> set xs \<Longrightarrow> f x \<le> (f (last xs) :: int)"
  by (induction xs rule: rev_induct) (auto simp: sorted_wrt_append)

lemma sorted_wrt_hd:
  "sorted_wrt (<) (map f (xs :: 'a list)) \<Longrightarrow> x \<in> set xs \<Longrightarrow> (f (hd xs) :: int) \<le> f x"
  by (cases xs) auto

lemma ev_slots_entry:
  "(q, s, x) \<in> set (ev_slots es) \<Longrightarrow>
     \<exists>e \<in> set es. q = get_decimal_value (pe_max_power e) \<and> s = pe_start e"
  by (induction es rule: ev_slots.induct) auto

lemma ev_slots_end:
  assumes "sorted_wrt (<) (map pe_start es)" "(q, s, x) \<in> set (ev_slots es)"
  shows "case x of None \<Rightarrow> q = get_decimal_value (pe_max_power (last es)) | Some t \<Rightarrow> t \<le> pe_start (last es)"
  using assms
proof (induction es rule: ev_slots.induct)
  case (3 e n es)
  then show ?case using sorted_wrt_last [of pe_start "n # es" n] by (auto split: option.splits)
qed auto

lemma ev_slots_running:
  assumes "sorted_wrt (<) (map pe_start es)" "e \<in> set es"
  shows "\<exists>x. (get_decimal_value (pe_max_power e), pe_start e, x) \<in> set (ev_slots es) \<and>
    running_at (pe_start e) (pe_start e) x"
  using assms
proof (induction es rule: ev_slots.induct)
  case (3 d n es)
  then show ?case
    by (cases "e = d") (auto simp: running_at_def)
qed (auto simp: running_at_def)

lemma ev_slots_last:
  "es \<noteq> [] \<Longrightarrow> (get_decimal_value (pe_max_power (last es)), pe_start (last es), None) \<in> set (ev_slots es)"
  by (induction es rule: ev_slots.induct) auto

lemma sa_slots_entry:
  assumes "schedule_ordered es" "(p, a, b) \<in> set (sa_slots es)"
  shows "\<exists>e \<in> set es. p = get_decimal_value (p_max e) \<and> a = interval_start e" and "a < b"
  using assms
  by (induction es rule: sa_slots.induct) (auto simp: schedule_ordered_def)

lemma sa_slots_of_entry:
  "e \<in> set es \<Longrightarrow> \<exists>b. (get_decimal_value (p_max e), interval_start e, b) \<in> set (sa_slots es)"
  by (induction es rule: sa_slots.induct) auto

lemma sa_slots_Cons:
  assumes "schedule_ordered (e # es)" "sa_entry_end e es = Inr b"
  shows "sa_slots (e # es) = (get_decimal_value (p_max e), interval_start e, b) # sa_slots es"
    and "\<And>x. x \<in> set es \<Longrightarrow> b \<le> interval_start x" and "es = [] \<or> schedule_ordered es"
  using assms by (cases es; auto simp: sa_entry_end_def schedule_ordered_def)+

section \<open>Where the check is exact\<close>

lemma py_get_append: "py_get (xs @ y # ys) (length xs) = Inr y"
  by (simp add: py_get_def)

lemma ev_loop_first:
  assumes "profile = pre @ xs" "xs \<noteq> []" "profile_ordered profile" "pe_start (last profile) < b"
  shows "ev_loop p b profile (length pre) k xs =
    Inr (if \<exists>e \<in> set xs. get_decimal_value (pe_max_power e) > p then None
         else Some (if length xs = 1 then k else length profile - 1))"
  using assms
proof (induction xs arbitrary: pre k)
  case (Cons e es)
  show ?case
  proof (cases es)
    case Nil
    then have "last profile = e" using Cons.prems(1) by simp
    then show ?thesis using Nil by auto
  next
    case (Cons n ns)
    have ord: "sorted_wrt (<) (map pe_start (e # es))" "last profile = last es"
      using Cons.prems(1,3) Cons by (auto simp: profile_ordered_def sorted_wrt_append)
    then have lt: "pe_start e < pe_start (last profile)" "pe_start n \<le> pe_start (last profile)"
      using Cons sorted_wrt_last [of pe_start es n] by auto
    have get: "py_get profile (length pre + 1) = Inr n"
      using py_get_append [of "pre @ [e]" n ns] Cons Cons.prems(1) by simp
    have IH: "ev_loop p b profile (length (pre @ [e])) k' es =
        Inr (if \<exists>e \<in> set es. get_decimal_value (pe_max_power e) > p then None
             else Some (if length es = 1 then k' else length profile - 1))" for k'
      by (rule Cons.IH) (use Cons.prems Cons in auto)
    have len: "length es = 1 \<Longrightarrow> length pre + 1 = length profile - 1"
      using Cons.prems(1) by simp
    have step: "ev_loop p b profile (length pre) k (e # es) =
        (if get_decimal_value (pe_max_power e) > p then Inr None
         else ev_loop p b profile (length (pre @ [e])) (length pre + 1) es)"
      using lt get Cons.prems(4) by (simp add: Let_def)
    have "es \<noteq> []" using Cons by simp
    then show ?thesis
      unfolding step IH using len by auto
  qed
qed simp

lemma sa_loop_last:
  assumes "profile_ordered profile" "es = [] \<or> schedule_ordered es"
  shows "sa_loop profile (length profile - 1) 0 es =
    Inr (\<forall>e \<in> set es. get_decimal_value (pe_max_power (last profile)) \<le> get_decimal_value (p_max e))"
  using assms(2)
proof (induction es)
  case (Cons e es)
  have "drop (length profile - 1) profile = [last profile]"
    using assms(1) by (cases profile rule: rev_cases) (auto simp: profile_ordered_def)
  then have loop: "ev_loop p b profile 0 0 (drop (length profile - 1) profile) =
      Inr (if get_decimal_value (pe_max_power (last profile)) > p then None else Some 0)" for p b
    by simp
  obtain b where b: "sa_entry_end e es = Inr b"
    using Cons.prems by (cases es) (auto simp: sa_entry_end_def schedule_ordered_def)
  have "es = [] \<or> schedule_ordered es" using sa_slots_Cons(3) [OF _ b] Cons.prems by auto
  with Cons.IH show ?case using b loop by auto
qed simp

text \<open>A profile that has reached its last entry before the first slot ends: one test per entry and slot.\<close>

lemma adheres_iff:
  assumes "schedule_ordered (e # es)" "profile_ordered profile" "sa_entry_end e es = Inr b"
    and "interval_start e \<le> pe_start (hd profile)" "pe_start (last profile) < b"
  shows "(\<forall>x \<in> set profile. get_decimal_value (pe_max_power x) \<le> get_decimal_value (p_max e)) \<and>
      (\<forall>x \<in> set es. get_decimal_value (pe_max_power (last profile)) \<le> get_decimal_value (p_max x)) \<longleftrightarrow>
    adheres (e # es) profile" (is "?all = _")
proof -
  let ?pw = "\<lambda>x. get_decimal_value (pe_max_power x)" and ?lim = "\<lambda>x. get_decimal_value (p_max x)"
  have ne: "profile \<noteq> []" and sorted: "sorted_wrt (<) (map pe_start profile)"
    using assms(2) by (auto simp: profile_ordered_def)
  show ?thesis
  proof
    assume *: ?all
    show "adheres (e # es) profile"
      unfolding adheres_def
    proof clarify
      fix t limit a b' power s x
      assume sa: "(limit, a, b') \<in> set (sa_slots (e # es))" and ev: "(power, s, x) \<in> set (ev_slots profile)"
        and t: "a \<le> t" "t < b'" "running_at t s x"
      obtain y where y: "y \<in> set profile" "power = ?pw y" using ev_slots_entry [OF ev] by blast
      show "power \<le> limit"
      proof (cases "(limit, a, b') = (?lim e, interval_start e, b)")
        case True
        then show ?thesis using * y by simp
      next
        case False
        then obtain z where z: "z \<in> set es" "limit = ?lim z" "a = interval_start z"
          using sa sa_slots_Cons [OF assms(1,3)] sa_slots_entry(1) [of es limit a b'] by auto
        then have "pe_start (last profile) < t"
          using sa_slots_Cons(2) [OF assms(1,3) z(1)] assms(5) t(1) by simp
        then have "power = ?pw (last profile)"
          using ev_slots_end [OF sorted ev] t(3) by (cases x) (auto simp: running_at_def)
        then show ?thesis using * z by simp
      qed
    qed
  next
    assume *: "adheres (e # es) profile"
    have "?pw x \<le> ?lim e" if x: "x \<in> set profile" for x
    proof -
      have "interval_start e \<le> pe_start x" "pe_start x < b"
        using sorted_wrt_hd [OF sorted x] sorted_wrt_last [OF sorted x] assms(4,5) by auto
      moreover obtain y where "(?pw x, pe_start x, y) \<in> set (ev_slots profile)" "running_at (pe_start x) (pe_start x) y"
        using ev_slots_running [OF sorted x] by blast
      ultimately show ?thesis
        using * sa_slots_Cons(1) [OF assms(1,3)] unfolding adheres_def by fastforce
    qed
    moreover have "?pw (last profile) \<le> ?lim z" if z: "z \<in> set es" for z
    proof -
      obtain c where c: "(?lim z, interval_start z, c) \<in> set (sa_slots es)" using sa_slots_of_entry [OF z] by blast
      have "es \<noteq> []" using z by auto
      then have "interval_start z < c" using sa_slots_entry(2) [OF _ c] sa_slots_Cons(3) [OF assms(1,3)] by blast
      moreover have "running_at (interval_start z) (pe_start (last profile)) None"
        using sa_slots_Cons(2) [OF assms(1,3) z] assms(5) by (simp add: running_at_def)
      ultimately show ?thesis
        using * c ev_slots_last [OF ne] sa_slots_Cons(1) [OF assms(1,3)] unfolding adheres_def by fastforce
    qed
    ultimately show ?all by blast
  qed
qed

lemma sa_loop_shift: "sa_loop profile cached running es = sa_loop profile (cached + running) 0 es"
  by (cases es) simp_all

lemma sa_loop_exact:
  assumes "schedule_ordered (e # es)" "profile_ordered profile" "sa_entry_end e es = Inr b"
    and "interval_start e \<le> pe_start (hd profile)" "pe_start (last profile) < b"
  shows "sa_loop profile 0 0 (e # es) = Inr (adheres (e # es) profile)"
proof -
  let ?pw = "\<lambda>x. get_decimal_value (pe_max_power x)" and ?lim = "\<lambda>x. get_decimal_value (p_max x)"
  have ne: "profile \<noteq> []" using assms(2) by (simp add: profile_ordered_def)
  have loop: "ev_loop (?lim e) b profile 0 0 profile =
      Inr (if \<exists>x \<in> set profile. ?pw x > ?lim e then None
           else Some (if length profile = 1 then 0 else length profile - 1))"
    using ev_loop_first [of profile "[]" profile b "?lim e" 0] assms(2,5) ne by simp
  have sl: "sa_loop profile (length profile - 1) 0 es = Inr (\<forall>x \<in> set es. ?pw (last profile) \<le> ?lim x)"
    using sa_loop_last [OF assms(2)] sa_slots_Cons(3) [OF assms(1,3)] by blast
  have "sa_loop profile 0 0 (e # es) =
      Inr ((\<forall>x \<in> set profile. ?pw x \<le> ?lim e) \<and> (\<forall>x \<in> set es. ?pw (last profile) \<le> ?lim x))"
    using assms(3) loop sl ne sa_loop_shift [of profile 0 "length profile - 1" es]
    by (cases "length profile = 1") (auto simp: Let_def not_less dest: leD)
  then show ?thesis using adheres_iff [OF assms] by simp
qed

lemma chosen_schedule:
  assumes "distinct (map schedule_tuple_id ss)" "s \<in> set ss"
  shows "is_charging_profile_valid ss (schedule_tuple_id s) profile = sa_loop profile 0 0 (schedule_entries s)"
  using assms
proof (induction ss)
  case (Cons x ss)
  have others: "is_charging_profile_valid ss i profile = Inr True" if "i \<notin> schedule_tuple_id ` set ss" for i
    using that by (induction ss) auto
  show ?case
  proof (cases "x = s")
    case True
    then show ?thesis using Cons.prems others [of "schedule_tuple_id s"]
      by (cases "sa_loop profile 0 0 (schedule_entries s)") auto
  next
    case False
    then have "schedule_tuple_id x \<noteq> schedule_tuple_id s" using Cons.prems by force
    then show ?thesis using Cons False by simp
  qed
qed simp


definition example_slot :: "int \<Rightarrow> int option \<Rightarrow> int \<Rightarrow> p_max_entry" where
  "example_slot start d kw = \<lparr>p_max = \<lparr>pv_value = kw, multiplier = 3, pv_unit = Some WATT\<rparr>,
     interval_start = start, interval_duration = d\<rparr>"

definition example_step :: "int \<Rightarrow> int \<Rightarrow> profile_entry" where
  "example_step start kw = \<lparr>pe_start = start, pe_max_power = \<lparr>pv_value = kw, multiplier = 3, pv_unit = Some WATT\<rparr>,
     pe_max_phases = None\<rparr>"

definition example_schedule :: "p_max_entry list \<Rightarrow> sa_schedule" where
  "example_schedule es = \<lparr>schedule_tuple_id = 1, schedule_entries = es, schedule_tariff = None\<rparr>"


section \<open>Where it is not\<close>

text \<open>
  The charging profile check accepts a profile that exceeds the schedule. Three slots offer 10, 10
  and 5 kW, a thousand seconds each; the profile asks for 10 kW until second 2500. It is accepted, since
  the index of the next entry is taken from the slice of the profile and the second entry is therefore
  thought to end with the second slot, although at second 2200 the vehicle may draw twice what is offered.
\<close>

lemma profile_check_accepts_excess:
  "is_charging_profile_valid
     [example_schedule [example_slot 0 None 10, example_slot 1000 None 10, example_slot 2000 (Some 1000) 5]] 1
     [example_step 0 10, example_step 1000 10, example_step 2500 1] = Inr True \<and>
   \<not> adheres [example_slot 0 None 10, example_slot 1000 None 10, example_slot 2000 (Some 1000) 5]
     [example_step 0 10, example_step 1000 10, example_step 2500 1]"
proof
  show "is_charging_profile_valid
     [example_schedule [example_slot 0 None 10, example_slot 1000 None 10, example_slot 2000 (Some 1000) 5]] 1
     [example_step 0 10, example_step 1000 10, example_step 2500 1] = Inr True"
    by (simp add: example_schedule_def example_slot_def example_step_def sa_entry_end_def get_decimal_value_def
        Let_def)
  show "\<not> adheres [example_slot 0 None 10, example_slot 1000 None 10, example_slot 2000 (Some 1000) 5]
     [example_step 0 10, example_step 1000 10, example_step 2500 1]"
    unfolding adheres_def
    by (auto simp: example_slot_def example_step_def get_decimal_value_def running_at_def
        intro!: exI [of _ 2200])
qed

text \<open>
  The charging profile check refuses a profile that keeps to the schedule. Two slots offer 5 and
  then 10 kW, and the profile asks for 5 and then 10 kW at the same times. It is refused, since the last
  entry of a profile is compared with every slot that is reached, also with those that end before it
  starts.
\<close>

lemma profile_check_refuses_adherent:
  "is_charging_profile_valid [example_schedule [example_slot 0 None 5, example_slot 1000 (Some 1000) 10]] 1
     [example_step 0 5, example_step 1000 10] = Inr False \<and>
   adheres [example_slot 0 None 5, example_slot 1000 (Some 1000) 10] [example_step 0 5, example_step 1000 10]"
proof
  show "is_charging_profile_valid [example_schedule [example_slot 0 None 5, example_slot 1000 (Some 1000) 10]] 1
     [example_step 0 5, example_step 1000 10] = Inr False"
    by (simp add: example_schedule_def example_slot_def example_step_def sa_entry_end_def get_decimal_value_def
        Let_def)
  show "adheres [example_slot 0 None 5, example_slot 1000 (Some 1000) 10] [example_step 0 5, example_step 1000 10]"
    unfolding adheres_def
    by (auto simp: example_slot_def example_step_def get_decimal_value_def running_at_def)
qed

section \<open>The offered schedules\<close>

lemma validate_loop_iff:
  assumes "\<forall>s \<in> set ss. schedule_duration (schedule_entries s) = Inr (d s)"
  shows "validate_loop departure ss =
    Inr (\<forall>s \<in> set ss. if departure = 0 then 86400 \<le> d s else d s \<le> departure)"
  using assms by (induction ss) auto

text \<open>The check the comments describe: a schedule must cover the time until departure, and may go on after it.\<close>

definition covers_departure :: "int \<Rightarrow> int \<Rightarrow> bool" where
  "covers_departure departure d \<longleftrightarrow> (if departure = 0 then 86400 \<le> d else departure \<le> d)"

text \<open>
  The schedule check has its comparison the wrong way round. Without a departure time it accepts
  exactly the schedules of at least 24 hours, as its comments say; with one it accepts exactly the
  schedules that do not go beyond the departure, while its comments describe the opposite (a schedule
  that falls short is refused, one that goes beyond is tolerated). The two agree only for a schedule
  that ends at the departure.
\<close>

lemma schedule_check_inverted:
  assumes "schedule_duration (schedule_entries s) = Inr d" "departure \<noteq> 0"
  shows "validate_sa_schedule_list (Some [s]) 0 = Inr (covers_departure 0 d) \<and>
    validate_sa_schedule_list (Some [s]) departure = Inr (d \<le> departure) \<and>
    ((d \<le> departure) = covers_departure departure d \<longleftrightarrow> d = departure)"
  using assms validate_loop_iff [of "[s]" "\<lambda>_. d"]
  by (auto simp: validate_sa_schedule_list_def covers_departure_def)

end
