(* ===== verification/V2_States.thy ===== *)
theory V2_States
  imports Din_Properties Charging_Profile
begin

text \<open>
  The sixteen states of \<open>iso15118/secc/states/iso15118_2_states.py\<close>, from session set-up to session
  stop, each with the whole of its \<open>process_message\<close>. As in \<open>Din_States\<close>, a state that hands a message
  over to another one enters that state first. Constructing a response validates its fields.
\<close>

section \<open>Common parts\<close>

text \<open>\<open>msg.body.x\<close> and the header after the check has passed; the default branches are not reached.\<close>

definition v2_body_of :: "v2g_message \<Rightarrow> v2_body option" where
  "v2_body_of m = (case m of V2Message _ b \<Rightarrow> b | _ \<Rightarrow> None)"

definition v2_header_id :: "v2g_message \<Rightarrow> string" where
  "v2_header_id m = (case m of V2Message h _ \<Rightarrow> v2_session_id h | _ \<Rightarrow> [])"

definition v2_header_signature :: "v2g_message \<Rightarrow> signature option" where
  "v2_header_signature m = (case m of V2Message h _ \<Rightarrow> v2_signature h | _ \<Rightarrow> None)"

definition set_v2 :: "(v2_vars \<Rightarrow> v2_vars) \<Rightarrow> secc \<Rightarrow> secc" where
  "set_v2 f s = s\<lparr>iso2 := f (iso2 s)\<rparr>"

definition construct :: "v2_body \<Rightarrow> (v2_body \<Rightarrow> secc \<Rightarrow> secc outcome) \<Rightarrow> secc \<Rightarrow> secc outcome" where
  "construct b k s = (if message_ok b then k b s else raises ValidationError s)"

definition expecting :: "bool \<Rightarrow> secc \<Rightarrow> secc" where
  "expecting e s = update_state (\<lambda>x. x\<lparr>expect_first := e\<rparr>) s"

definition then_expect_others :: "secc outcome \<Rightarrow> secc outcome" where
  "then_expect_others r = andthen r (\<lambda>s. done_with (expecting False s))"

abbreviation (input) "v2e env \<equiv> iso2_env env"

section \<open>Session set-up and services\<close>

definition new_context :: "string \<Rightarrow> session_context" where
  "new_context sid =
     \<lparr>ctx_session_id = Some sid, ctx_auth_options = None, ctx_charge_service = None,
      ctx_sa_schedule_tuple_id = None\<rparr>"

definition join_session :: "env \<Rightarrow> string \<Rightarrow> secc \<Rightarrow> (string \<times> response_code \<times> session_context) result" where
  "join_session env received s =
     (let fresh = random_session_id env
      in if received = ''00'' then Inr (fresh, OK_NEW_SESSION_ESTABLISHED, new_context fresh)
         else (case ev_session_context (iso2 s) of
                 None \<Rightarrow> Inl AttributeError
               | Some c \<Rightarrow>
                   if ctx_session_id c \<notin> set [None, Some []] \<and> ctx_session_id c = Some received
                   then Inr (received, OK_OLD_SESSION_JOINED, c)
                   else Inr (fresh, OK_NEW_SESSION_ESTABLISHED, new_context fresh)))"

definition SessionSetupV2_process :: "env \<Rightarrow> v2g_message \<Rightarrow> secc \<Rightarrow> secc outcome" where
  "SessionSetupV2_process env m s =
     check_msg_v2 env [SessionSetupT] True m (\<lambda>s.
       case v2_body_of m of
         Some (SessionSetupReqV2 evcc) \<Rightarrow>
           (case join_session env (v2_header_id m) s of
              Inl e \<Rightarrow> raises e s
            | Inr (sid, code, ctx) \<Rightarrow>
                construct (SessionSetupResV2 code (get_evse_id env) (Some (time_now env))) (\<lambda>res s.
                  next_v2 env (Some ServiceDiscoveryV2) res None
                    (s\<lparr>evcc_id := Some evcc, ev_data := (ev_data s)\<lparr>ev_evcc_id := Some evcc\<rparr>,
                       session_id := sid\<rparr>))
                  (set_v2 (\<lambda>v. v\<lparr>ev_session_context := Some ctx\<rparr>) s))
       | _ \<Rightarrow> done_with s) s"

definition offer_auth_options :: "env \<Rightarrow> session_context \<Rightarrow> secc \<Rightarrow> auth_enum list" where
  "offer_auth_options env c s =
     (if ctx_auth_options c \<notin> set [None, Some []] then the (ctx_auth_options c)
      else (case selected_auth_option s of
              Some a \<Rightarrow> if a = EIM_V2 then [EIM_V2] else [PNC_V2]
            | None \<Rightarrow>
                if is_eim_authorized (v2e env) then [EIM_V2]
                else (if EIM \<in> set (supported_auth_options (v2e env)) then [EIM_V2] else []) @
                     (if PNC \<in> set (supported_auth_options (v2e env)) \<and> is_tls (iso2 s) then [PNC_V2] else [])))"

definition new_charge_service :: "env \<Rightarrow> charge_service_v2" where
  "new_charge_service env =
     \<lparr>sd_service_id = 1, sd_service_name = Some NAME_CHARGING, sd_service_category = CHARGING,
      sd_service_scope = None, sd_free_service = free_charging_service env,
      supported_energy_transfer_mode = supported_energy_transfer_modes env\<rparr>"

definition value_added_services :: "env \<Rightarrow> service_category option \<Rightarrow> secc \<Rightarrow> service_details list" where
  "value_added_services env category s =
     (if is_tls (iso2 s) \<and> allow_cert_install_service (v2e env) \<and> category \<in> set [None, Some CERTIFICATE]
      then [\<lparr>sd_service_id = 2, sd_service_name = Some NAME_CERTIFICATE, sd_service_category = CERTIFICATE,
             sd_service_scope = None, sd_free_service = free_cert_install_service (v2e env)\<rparr>]
      else [])"

definition get_services ::
  "env \<Rightarrow> service_category option \<Rightarrow> (v2_body \<Rightarrow> secc \<Rightarrow> secc outcome) \<Rightarrow> secc \<Rightarrow> secc outcome" where
  "get_services env category k s =
     (case ev_session_context (iso2 s) of
        None \<Rightarrow> raises AttributeError s
      | Some c \<Rightarrow>
          let auth_options = offer_auth_options env c s;
              s = s\<lparr>offered_auth_options := auth_options\<rparr>;
              service = (case ctx_charge_service c of Some cs \<Rightarrow> cs | None \<Rightarrow> new_charge_service env)
          in if ctx_charge_service c = None \<and> length (supported_energy_transfer_mode service) > 6
             then raises ValidationError s
             else
               let s = set_v2 (\<lambda>v. v\<lparr>ev_session_context := Some (c\<lparr>ctx_charge_service := Some service\<rparr>)\<rparr>) s;
                   services = value_added_services env category s
               in construct (ServiceDiscoveryResV2 OK auth_options service
                      (if services = [] then None else Some services))
                    (\<lambda>res s. k res (set_v2 (\<lambda>v. v\<lparr>offered_services := services\<rparr>) s)) s)"

section \<open>Payment\<close>

text \<open>The loop over the selected services: \<open>Inl\<close> one that was not offered.\<close>

fun check_selected :: "int list \<Rightarrow> bool \<Rightarrow> (int \<times> int option) list \<Rightarrow> int + bool" where
  "check_selected offered charging [] = Inr charging"
| "check_selected offered charging ((i, _) # rest) =
     (if i = 1 then check_selected offered True rest
      else if i \<notin> set offered then Inl i
      else check_selected offered charging rest)"

definition file_error :: "py_error \<Rightarrow> bool" where
  "file_error e \<longleftrightarrow> e \<in> set [FileNotFoundError, OSError]"

text \<open>The OEM certificates are used as far as they can be read.\<close>

definition load_oem_certs :: "env \<Rightarrow> (bytes list option \<times> bytes option) result" where
  "load_oem_certs env =
     (case rbind (load_cert (keys (v2e env)) ''OEM_SUB_CA2_DER'') (\<lambda>a.
           rbind (load_cert (keys (v2e env)) ''OEM_SUB_CA1_DER'') (\<lambda>b. Inr [a, b])) of
        Inl e \<Rightarrow> if file_error e then Inr (None, None) else Inl e
      | Inr subs \<Rightarrow>
          (case load_cert (keys (v2e env)) ''OEM_ROOT_DER'' of
             Inl e \<Rightarrow> if file_error e then Inr (Some subs, None) else Inl e
           | Inr r \<Rightarrow> Inr (Some subs, Some r)))"

definition validate_message_signature :: "env \<Rightarrow> v2g_message \<Rightarrow> bool result" where
  "validate_message_signature env m =
     (case v2_body_of m of
        Some (CertificateInstallationReqV2 i cert roots) \<Rightarrow>
          rbind (load_oem_certs env) (\<lambda>(subs, root_cert).
          rbind (fragment_exi (v2e env) (BodyPart (CertificateInstallationReqV2 i cert roots))) (\<lambda>exi.
            verify_signature (crypt (v2e env)) (v2_header_signature m) [(Some i, exi)] cert subs root_cert))
      | _ \<Rightarrow> Inr False)"

definition load_chain :: "env \<Rightarrow> string option \<Rightarrow> string \<Rightarrow> string \<Rightarrow> string \<Rightarrow> certificate_chain result" where
  "load_chain env i leaf sub2 sub1 =
     rbind (load_cert (keys (v2e env)) leaf) (\<lambda>l.
     rbind (load_cert (keys (v2e env)) sub2) (\<lambda>s2.
     rbind (load_cert (keys (v2e env)) sub1) (\<lambda>s1.
       Inr \<lparr>chain_id = i, certificate = l, sub_certificates = Some [s2, s1]\<rparr>)))"

text \<open>The four elements of the response that are signed, with their encodings.\<close>

definition sign_installation :: "env \<Rightarrow> certificate_chain \<Rightarrow> string \<times> bytes \<Rightarrow> string \<times> bytes \<Rightarrow> string \<times> string \<Rightarrow>
    signature result" where
  "sign_installation env contract priv dh em =
     rbind (fragment_exi (v2e env) (ChainPart contract)) (\<lambda>e1.
     rbind (fragment_exi (v2e env) (PrivateKeyPart priv)) (\<lambda>e2.
     rbind (fragment_exi (v2e env) (DhPart dh)) (\<lambda>e3.
     rbind (fragment_exi (v2e env) (EmaidPart em)) (\<lambda>e4.
     rbind (load_priv_key (keys (v2e env)) ''CPS_LEAF_PEM'' PEM ''CPS_LEAF_KEY_PASSWORD'') (\<lambda>key.
       create_signature (crypt (v2e env))
         [(chain_id contract, e1), (Some (fst priv), e2), (Some (fst dh), e3), (Some (fst em), e4)] key)))))"

definition generate_certificate_installation_res :: "env \<Rightarrow> (v2_body \<times> signature) result" where
  "generate_certificate_installation_res env =
     rbind (load_cert (keys (v2e env)) ''OEM_LEAF_DER'') (\<lambda>oem.
     rbind (load_priv_key (keys (v2e env)) ''CONTRACT_LEAF_PEM'' PEM ''CONTRACT_LEAF_KEY_PASSWORD'') (\<lambda>key.
     rbind (encrypt_priv_key (crypt (v2e env)) (keys (v2e env)) oem key) (\<lambda>(dh_pub_key, encrypted).
     rbind (load_chain env (Some ''id1'') ''CONTRACT_LEAF_DER'' ''MO_SUB_CA2_DER'' ''MO_SUB_CA1_DER'') (\<lambda>contract.
     rbind (load_cert (keys (v2e env)) ''CONTRACT_LEAF_DER'') (\<lambda>leaf.
     rbind (get_cert_cn (keys (v2e env)) leaf) (\<lambda>cn.
     rbind (load_chain env None ''CPS_LEAF_DER'' ''CPS_SUB_CA2_DER'' ''CPS_SUB_CA1_DER'') (\<lambda>cps.
       let res = CertificateInstallationResV2 OK cps contract (''id2'', encrypted) (''id3'', dh_pub_key) (''id4'', cn)
       in if \<not> message_ok res then Inl ValidationError
          else rbind (sign_installation env contract (''id2'', encrypted) (''id3'', dh_pub_key) (''id4'', cn)) (\<lambda>sig.
                 Inr (res, sig)))))))))"

definition installation_res :: "env \<Rightarrow> bytes \<Rightarrow> next_msg result" where
  "installation_res env message_exi =
     (if use_cpo_backend (v2e env)
      then rbind (get_15118_ev_certificate (v2e env) message_exi) (\<lambda>text. Inr (NextBase64 text))
      else rbind (generate_certificate_installation_res env) (\<lambda>(res, sig). Inr (NextV2 res (Some sig))))"

definition CertificateInstallationV2_process :: "env \<Rightarrow> bytes \<Rightarrow> v2g_message \<Rightarrow> secc \<Rightarrow> secc outcome" where
  "CertificateInstallationV2_process env message_exi m s =
     check_msg_v2 env [CertificateInstallationT] True m (\<lambda>s.
       case validate_message_signature env m of
         Inl e \<Rightarrow> raises e s
       | Inr False \<Rightarrow>
           stop_state_machine env ''Signature verification failed for CertificateInstallationReq'' m
             (DinCode FAILED_SIGNATURE_ERROR) s
       | Inr True \<Rightarrow>
           (case installation_res env message_exi of
              Inl e \<Rightarrow>
                stop_state_machine env
                  (''Error building CertificateInstallationRes: '' @ exception_text (v2e env) e) m
                  (DinCode FAILED_NO_CERTIFICATE_AVAILABLE) s
            | Inr msg \<Rightarrow>
                create_next_message env (Some PaymentDetailsV2) msg V2G_SECC_SEQUENCE_TIMEOUT
                  ISO_V2_MSG_DEF EXI_ENCODED s)) s"

definition payment_details_codes :: "response_code list" where
  "payment_details_codes = [OK, FAILED, FAILED_SEQUENCE_ERROR, FAILED_SIGNATURE_ERROR,
     FAILED_UNKNOWN_SESSION, FAILED_CERTIFICATE_EXPIRED, FAILED_CERTIFICATE_REVOKED,
     FAILED_NO_CERTIFICATE_AVAILABLE]"

definition authorization_codes :: "response_code list" where
  "authorization_codes = [OK, FAILED, FAILED_SEQUENCE_ERROR, FAILED_SIGNATURE_ERROR,
     FAILED_UNKNOWN_SESSION, FAILED_CHALLENGE_INVALID]"

definition allowed_code :: "response_code list \<Rightarrow> response_code option \<Rightarrow> response_code" where
  "allowed_code codes status =
     (case status of None \<Rightarrow> OK | Some c \<Rightarrow> if c \<in> set codes then c else FAILED)"

definition chain_error_code :: "py_error \<Rightarrow> response_code" where
  "chain_error_code e =
     (if e \<in> set [CertSignatureError, CertChainLengthError] then FAILED_CERT_CHAIN_ERROR
      else if e \<in> set [CertExpiredError, CertNotYetValidError] then FAILED_CERTIFICATE_EXPIRED
      else if e = CertRevokedError then FAILED_CERTIFICATE_REVOKED
      else FAILED)"

definition chain_failure :: "env \<Rightarrow> v2g_message \<Rightarrow> py_error \<Rightarrow> secc \<Rightarrow> secc outcome" where
  "chain_failure env m e s =
     (if chain_error e
      then stop_state_machine env (exception_text (v2e env) e) m (DinCode (chain_error_code e)) s
      else raises e s)"

text \<open>
  What is checked before the contract is stored: the certificates can be read, and the chain holds or
  at least failed only on a signature, in which case the root is dropped and the backend decides.
\<close>

definition check_contract_chain :: "env \<Rightarrow> bytes \<Rightarrow> bytes list \<Rightarrow> bytes option result" where
  "check_contract_chain env leaf subs =
     rbind (log_certs_details (crypt (v2e env)) [leaf]) (\<lambda>_.
     rbind (log_certs_details (crypt (v2e env)) subs) (\<lambda>_.
     rbind (case load_cert (keys (v2e env)) ''MO_ROOT_DER'' of
              Inl e \<Rightarrow> if e = FileNotFoundError then Inr None else Inl e
            | Inr r \<Rightarrow> Inr (Some r)) (\<lambda>root_cert.
       case verify_certs (crypt (v2e env)) leaf subs root_cert False of
         Inr _ \<Rightarrow> Inr root_cert
       | Inl e \<Rightarrow> if e = CertSignatureError then Inr None else Inl e)))"

definition PaymentDetailsV2_process :: "env \<Rightarrow> v2g_message \<Rightarrow> secc \<Rightarrow> secc outcome" where
  "PaymentDetailsV2_process env m s =
     check_msg_v2 env [PaymentDetailsT] True m (\<lambda>s.
       case v2_body_of m of
         Some (PaymentDetailsReqV2 em chain) \<Rightarrow>
           (case sub_certificates chain of
              None \<Rightarrow> raises AttributeError s
            | Some subs \<Rightarrow>
                (case check_contract_chain env (certificate chain) subs of
                   Inl e \<Rightarrow> chain_failure env m e s
                 | Inr root_cert \<Rightarrow>
                     let s = set_v2 (\<lambda>v. v\<lparr>emaid := Some em, contract_cert_chain := Some chain\<rparr>) s
                     in (case rbind (get_certificate_hash_data (crypt (v2e env)) (Some chain) root_cert) (\<lambda>_.
                                build_pem_certificate_chain (crypt (v2e env)) (Some chain) root_cert) of
                           Inl e \<Rightarrow> chain_failure env m e s
                         | Inr _ \<Rightarrow>
                             let code = allowed_code payment_details_codes (certificate_response_status (v2e env))
                             in if is_authorized env \<in> set [ACCEPTED, ONGOING_AUTH] then
                                  construct (PaymentDetailsResV2 code (random_challenge (v2e env)) (time_now env))
                                    (\<lambda>res s. next_v2 env (Some AuthorizationV2) res None s)
                                    (set_v2 (\<lambda>v. v\<lparr>gen_challenge := Some (random_challenge (v2e env))\<rparr>) s)
                                else
                                  stop_state_machine env ''Authorization was rejected'' m (DinCode code) s)))
       | _ \<Rightarrow> done_with s) s"

text \<open>The decision on a request that is verified, or needs no verification.\<close>

definition decide_authorization :: "env \<Rightarrow> v2g_message \<Rightarrow> secc \<Rightarrow> secc outcome" where
  "decide_authorization env m s =
     (let asked = \<not> authorization_complete (current_state s);
          status = (if asked then is_authorized env else ONGOING_AUTH);
          code = (if asked then allowed_code authorization_codes (certificate_response_status (v2e env)) else OK);
          s = (if asked \<and> status = ACCEPTED
               then update_state (\<lambda>x. x\<lparr>authorization_complete := True\<rparr>) s else s)
      in if authorization_complete (current_state s) \<and> is_ready_to_charge (v2e env) then
           next_v2 env (Some ChargeParameterDiscoveryV2) (AuthorizationResV2 code FINISHED) None s
         else if status = REJECTED then
           stop_state_machine env ''Authorization was rejected'' m (DinCode code) s
         else
           next_v2 env None
             (AuthorizationResV2 code
               (if selected_auth_option s = Some EIM_V2 then ONGOING_WAITING_FOR_CUSTOMER else ONGOING)) None s)"

definition AuthorizationV2_process :: "env \<Rightarrow> v2g_message \<Rightarrow> secc \<Rightarrow> secc outcome" where
  "AuthorizationV2_process env m s =
     check_msg_v2 env [AuthorizationT] True m (\<lambda>s.
       case v2_body_of m of
         Some (AuthorizationReqV2 i challenge) \<Rightarrow>
           if selected_auth_option s = Some PNC_V2 then
             (case contract_cert_chain (iso2 s) of
                None \<Rightarrow>
                  stop_state_machine env ''No contract certificate chain available to verify AuthorizationReq'' m
                    (DinCode FAILED_SIGNATURE_ERROR) s
              | Some chain \<Rightarrow>
                  if signature_verified_once (current_state s) then decide_authorization env m s
                  else
                    let s = update_state (\<lambda>x. x\<lparr>signature_verified_once := True\<rparr>) s
                    in if challenge \<noteq> gen_challenge (iso2 s) then
                         stop_state_machine env ''[V2G2-475] GenChallenge is not the same in PaymentDetailsRes'' m
                           (DinCode FAILED_CHALLENGE_INVALID) s
                       else
                         (case rbind (fragment_exi (v2e env) (BodyPart (AuthorizationReqV2 i challenge))) (\<lambda>exi.
                                 verify_signature (crypt (v2e env)) (v2_header_signature m) [(i, exi)]
                                   (certificate chain) None None) of
                            Inl e \<Rightarrow> raises e s
                          | Inr False \<Rightarrow>
                              stop_state_machine env ''Unable to verify signature of AuthorizationReq'' m
                                (DinCode FAILED_SIGNATURE_ERROR) s
                          | Inr True \<Rightarrow> decide_authorization env m s))
           else decide_authorization env m s
       | _ \<Rightarrow> done_with s) s"

definition PaymentServiceSelectionV2_process :: "env \<Rightarrow> bytes \<Rightarrow> v2g_message \<Rightarrow> secc \<Rightarrow> secc outcome" where
  "PaymentServiceSelectionV2_process env message_exi m s =
     check_msg_v2 env [PaymentServiceSelectionT, CertificateInstallationT, PaymentDetailsT, AuthorizationT]
       (expect_first (current_state s)) m (\<lambda>s.
       case v2_body_of m of
         Some (CertificateInstallationReqV2 _ _ _) \<Rightarrow>
           CertificateInstallationV2_process env message_exi m (enter CertificateInstallationV2 s)
       | Some (PaymentDetailsReqV2 _ _) \<Rightarrow> PaymentDetailsV2_process env m (enter PaymentDetailsV2 s)
       | Some (AuthorizationReqV2 _ _) \<Rightarrow> AuthorizationV2_process env m (enter AuthorizationV2 s)
       | Some (PaymentServiceSelectionReqV2 auth services) \<Rightarrow>
           (case check_selected (map sd_service_id (offered_services (iso2 s))) False services of
              Inl i \<Rightarrow>
                stop_state_machine env (''Selected service with ID '' @ int_text i @ '' was not offered'') m
                  (DinCode FAILED_SERVICE_SELECTION_INVALID) s
            | Inr False \<Rightarrow>
                stop_state_machine env ''Charge service not selected'' m
                  (DinCode FAILED_NO_CHARGE_SERVICE_SELECTED) s
            | Inr True \<Rightarrow>
                if auth \<notin> set (offered_auth_options s) then
                  stop_state_machine env
                    (''Selected authorization method '' @ auth_text env auth @ '' was not offered'') m
                    (DinCode FAILED_PAYMENT_SELECTION_INVALID) s
                else
                  let s = s\<lparr>selected_auth_option := Some auth\<rparr>
                  in (case ev_session_context (iso2 s) of
                        None \<Rightarrow> raises AttributeError s
                      | Some c \<Rightarrow>
                          then_expect_others (next_v2 env None (PaymentServiceSelectionResV2 OK) None
                            (set_v2 (\<lambda>v. v\<lparr>ev_session_context := Some (c\<lparr>ctx_auth_options := Some [auth]\<rparr>)\<rparr>) s))))
       | _ \<Rightarrow> done_with s) s"

definition service_parameters :: "int \<Rightarrow> parameter_set list" where
  "service_parameters i =
     (if i = 2 then [\<lparr>parameter_set_id = 1, parameters = [(''Service'', StrValue ''Installation'')]\<rparr>] else [])"

definition ServiceDetailV2_process :: "env \<Rightarrow> bytes \<Rightarrow> v2g_message \<Rightarrow> secc \<Rightarrow> secc outcome" where
  "ServiceDetailV2_process env message_exi m s =
     check_msg_v2 env [ServiceDetailT, PaymentServiceSelectionT] (expect_first (current_state s)) m (\<lambda>s.
       case v2_body_of m of
         Some (PaymentServiceSelectionReqV2 _ _) \<Rightarrow>
           PaymentServiceSelectionV2_process env message_exi m (enter PaymentServiceSelectionV2 s)
       | Some (ServiceDetailReqV2 i) \<Rightarrow>
           if i \<notin> sd_service_id ` set (offered_services (iso2 s)) then
             construct (ServiceDetailResV2 FAILED_SERVICE_ID_INVALID i None)
               (\<lambda>res s. next_v2 env None res None s) s
           else
             construct (ServiceDetailResV2 OK i (Some (service_parameters i)))
               (\<lambda>res s. then_expect_others (next_v2 env None res None s)) s
       | _ \<Rightarrow> done_with s) s"

definition ServiceDiscoveryV2_process :: "env \<Rightarrow> bytes \<Rightarrow> v2g_message \<Rightarrow> secc \<Rightarrow> secc outcome" where
  "ServiceDiscoveryV2_process env message_exi m s =
     check_msg_v2 env [ServiceDiscoveryT, ServiceDetailT, PaymentServiceSelectionT]
       (expect_first (current_state s)) m (\<lambda>s.
       case v2_body_of m of
         Some (ServiceDetailReqV2 _) \<Rightarrow> ServiceDetailV2_process env message_exi m (enter ServiceDetailV2 s)
       | Some (PaymentServiceSelectionReqV2 _ _) \<Rightarrow>
           PaymentServiceSelectionV2_process env message_exi m (enter PaymentServiceSelectionV2 s)
       | Some (ServiceDiscoveryReqV2 scope category) \<Rightarrow>
           if \<not> expect_first (current_state s) then
             stop_state_machine env
               (message_text m @ CHR 0x27 # '' not accepted in state '' @ state_text (kind (current_state s))) m
               (DinCode FAILED_SEQUENCE_ERROR) s
           else get_services env category (\<lambda>res s. then_expect_others (next_v2 env None res None s)) s
       | _ \<Rightarrow> done_with s) s"

section \<open>Stopping and welding detection\<close>

definition SessionStopV2_process :: "env \<Rightarrow> v2g_message \<Rightarrow> secc \<Rightarrow> secc outcome" where
  "SessionStopV2_process env m s =
     check_msg_v2 env [SessionStopT] True m (\<lambda>s.
       case v2_body_of m of
         Some (SessionStopReqV2 cs) \<Rightarrow>
           let (nxt, action, word, s) =
             (if cs = CS_PAUSE then (Pause, PAUSE, ''pause'', s)
              else (Terminate, TERMINATE, ''terminate'', set_v2 (\<lambda>v. v\<lparr>ev_session_context := None\<rparr>) s));
               s = s\<lparr>stop_reason :=
                       Some \<lparr>successful = True,
                             reason = ''EV requested to '' @ word @ '' the communication session'',
                             peer_ip_address = peername env, stop_action = action\<rparr>\<rparr>
           in next_v2 env (Some nxt) (SessionStopResV2 OK) None s
       | _ \<Rightarrow> done_with s) s"

definition WeldingDetectionV2_process :: "env \<Rightarrow> v2g_message \<Rightarrow> secc \<Rightarrow> secc outcome" where
  "WeldingDetectionV2_process env m s =
     check_msg_v2 env [WeldingDetectionT, SessionStopT] (expect_first (current_state s)) m (\<lambda>s.
       case v2_body_of m of
         Some (SessionStopReqV2 _) \<Rightarrow> SessionStopV2_process env m (enter SessionStopV2 s)
       | _ \<Rightarrow>
           then_expect_others (next_v2 env None
             (WeldingDetectionResV2 OK (get_dc_evse_status env) (evse_present_voltage env)) None s)) s"

section \<open>Power delivery\<close>

text \<open>
  The control pilot states polled within 250 ms of a start; whether C or D was among them is only
  logged.
\<close>

datatype cp_state = CP_A1 | CP_A2 | CP_B1 | CP_B2 | CP_C1 | CP_C2 | CP_D1 | CP_D2 | CP_E | CP_F | CP_UNKNOWN

definition wait_for_state_c_or_d :: "cp_state list \<Rightarrow> bool" where
  "wait_for_state_c_or_d polled = list_ex (\<lambda>c. c \<in> set [CP_C2, CP_D2]) polled"

definition power_delivery_res :: "env \<Rightarrow> secc \<Rightarrow> v2_body" where
  "power_delivery_res env s =
     (if selected_charging_type_is_ac s then PowerDeliveryResV2 OK (Some (get_ac_evse_status (v2e env))) None
      else PowerDeliveryResV2 OK None (Some (get_dc_evse_status env)))"

definition start_charging :: "env \<Rightarrow> v2g_message \<Rightarrow> int \<Rightarrow> (state_kind option \<Rightarrow> secc \<Rightarrow> secc outcome) \<Rightarrow> secc \<Rightarrow> secc outcome" where
  "start_charging env m tuple_id reply s =
     (let s = call (SetHlcCharging True) s
      in if is_contactor_closed env \<noteq> Some True then
           stop_state_machine env ''[V2G2-860] Contactor didn't close within the allotted 3 seconds.'' m
             (DinCode FAILED_CONTACTOR_ERROR) s
         else
           reply (Some (if selected_charging_type_is_ac s then ChargingStatusV2 else CurrentDemandV2))
             ((set_v2 (\<lambda>v. v\<lparr>selected_schedule := Some tuple_id\<rparr>) s)\<lparr>charge_progress_started := True\<rparr>))"

definition stop_charging :: "env \<Rightarrow> v2g_message \<Rightarrow> (state_kind option \<Rightarrow> secc \<Rightarrow> secc outcome) \<Rightarrow> secc \<Rightarrow> secc outcome" where
  "stop_charging env m reply s =
     (let nxt = (if selected_charging_type_is_ac s then Some SessionStopV2 else None);
          s = call StopCharger (call (SetHlcCharging False) s)
      in if \<not> is_contactor_opened env
         then stop_state_machine env ''Contactor didnt open'' m (DinCode FAILED_CONTACTOR_ERROR) s
         else reply nxt s)"

definition renegotiate :: "env \<Rightarrow> v2g_message \<Rightarrow> (state_kind option \<Rightarrow> secc \<Rightarrow> secc outcome) \<Rightarrow> secc \<Rightarrow> secc outcome" where
  "renegotiate env m reply s =
     (if charge_progress_started s then reply (Some ChargeParameterDiscoveryV2) s
      else stop_state_machine env ''EVCC wants to renegotiate, but charge progress has not yet started'' m
             (DinCode FAILED) s)"

definition PowerDeliveryV2_process :: "env \<Rightarrow> v2g_message \<Rightarrow> secc \<Rightarrow> secc outcome" where
  "PowerDeliveryV2_process env m s =
     check_msg_v2 env [PowerDeliveryT, SessionStopT, WeldingDetectionT] (expect_first (current_state s)) m (\<lambda>s.
       case v2_body_of m of
         Some (SessionStopReqV2 _) \<Rightarrow> SessionStopV2_process env m (enter SessionStopV2 s)
       | Some (WeldingDetectionReqV2 _) \<Rightarrow> WeldingDetectionV2_process env m (enter WeldingDetectionV2 s)
       | Some (PowerDeliveryReqV2 progress tuple_id profile param) \<Rightarrow>
           if tuple_id \<notin> schedule_tuple_id ` set (offered_schedules (iso2 s)) then
             stop_state_machine env (int_text tuple_id @ '' does not match any offered tariff IDs'') m
               (DinCode FAILED_TARIFF_SELECTION_INVALID) s
           else
             let s = (case param of
                        None \<Rightarrow> s
                      | Some p \<Rightarrow> s\<lparr>ev_data := (ev_data s)\<lparr>present_soc := Some (ev_ress_soc (pd_dc_ev_status p))\<rparr>\<rparr>);
                 reply = (\<lambda>nxt s. then_expect_others (next_v2 env nxt (power_delivery_res env s) None s))
             in (case (case profile of None \<Rightarrow> Inr True
                       | Some entries \<Rightarrow> is_charging_profile_valid (offered_schedules (iso2 s)) tuple_id entries) of
                   Inl e \<Rightarrow> raises e s
                 | Inr False \<Rightarrow>
                     stop_state_machine env
                       ''[V2G2-225] ChargingProfile is not adhering to the Pmax values in ChargeParameterDiscoveryRes'' m
                       (DinCode FAILED_CHARGING_PROFILE_INVALID) s
                 | Inr True \<Rightarrow>
                     (case progress of
                        START \<Rightarrow> start_charging env m tuple_id reply s
                      | STOP \<Rightarrow> stop_charging env m reply s
                      | RENEGOTIATE \<Rightarrow> renegotiate env m reply s))
       | _ \<Rightarrow> done_with s) s"

section \<open>Direct current\<close>

definition CableCheckV2_process :: "env \<Rightarrow> v2g_message \<Rightarrow> secc \<Rightarrow> secc outcome" where
  "CableCheckV2_process env m s =
     check_msg_v2 env [CableCheckT] True m (\<lambda>s.
       case v2_body_of m of
         Some (CableCheckReqV2 status) \<Rightarrow>
           if ev_error_code status \<noteq> NO_ERROR then
             stop_state_machine env (status_text env status @ '' has Error'' @ status_text env status) m
               (DinCode FAILED) s
           else
             let s = (if \<not> cable_check_started (current_state s)
                      then update_state (\<lambda>x. x\<lparr>cable_check_started := True\<rparr>) (call StartCableCheck s)
                      else s);
                 reply = (\<lambda>nxt processing s.
                   let s = s\<lparr>ev_data := (ev_data s)\<lparr>present_soc := Some (ev_ress_soc status)\<rparr>\<rparr>
                   in next_v2 env nxt (CableCheckResV2 OK (get_dc_evse_status env) processing) None s)
             in if contactors_closed (current_state s) then
                  if cable_check_status env \<in> set [Some VALID, Some WARNING] then
                    reply (Some PreChargeV2) FINISHED s
                  else if cable_check_status env \<in> set [Some FAULT, Some NO_IMD, Some INVALID] then
                    stop_state_machine env
                      (''Isolation Failure: '' @ isolation_text env (cable_check_status env)) m
                      (DinCode FAILED) s
                  else reply None ONGOING s
                else
                  (case is_contactor_closed env of
                     Some True \<Rightarrow>
                       reply None ONGOING (update_state (\<lambda>x. x\<lparr>contactors_closed := True\<rparr>) s)
                   | Some False \<Rightarrow>
                       stop_state_machine env ''Contactor didnt close for Cable Check'' m
                         (DinCode FAILED) s
                   | None \<Rightarrow> reply None ONGOING s)
       | _ \<Rightarrow> done_with s) s"

definition PreChargeV2_process :: "env \<Rightarrow> v2g_message \<Rightarrow> secc \<Rightarrow> secc outcome" where
  "PreChargeV2_process env m s =
     check_msg_v2 env [PreChargeT, PowerDeliveryT] (expect_first (current_state s)) m (\<lambda>s.
       case v2_body_of m of
         Some (PowerDeliveryReqV2 _ _ _ _) \<Rightarrow> PowerDeliveryV2_process env m (enter PowerDeliveryV2 s)
       | Some (PreChargeReqV2 status voltage current) \<Rightarrow>
           if ev_error_code status \<noteq> NO_ERROR then
             stop_state_machine env (status_text env status @ '' has Error'' @ status_text env status) m
               (DinCode FAILED) s
           else
             let s = s\<lparr>ev_data := update_pre_charge_parameters status voltage current (ev_data s)\<rparr>
             in (case evse_present_current env of
                   Inl ty \<Rightarrow>
                     stop_state_machine env (''Error reading EVSE Present Current.Wrong type: '' @ ty) m
                       (DinCode FAILED) s
                 | Inr present_current \<Rightarrow>
                     if get_decimal_value present_current > 2 \<or> target_current (ev_data s) > 2 then
                       stop_state_machine env
                         ''Target current or present current too high in state Precharge'' m
                         (DinCode FAILED) s
                     else
                       let s = call (SendChargingCommand (target_voltage (ev_data s))
                                       (target_current (ev_data s)) True) s
                       in if charging_command_times_out env then
                            stop_state_machine env
                              ''Error sending targets to charging station in charging loop.'' m
                              (DinCode FAILED) s
                          else
                            then_expect_others (next_v2 env None
                              (PreChargeResV2 OK (get_dc_evse_status env) (evse_present_voltage env)) None s))
       | _ \<Rightarrow> done_with s) s"

definition CurrentDemandV2_process :: "env \<Rightarrow> v2g_message \<Rightarrow> secc \<Rightarrow> secc outcome" where
  "CurrentDemandV2_process env m s =
     check_msg_v2 env [CurrentDemandT, PowerDeliveryT] (expect_first (current_state s)) m (\<lambda>s.
       case v2_body_of m of
         Some (PowerDeliveryReqV2 _ _ _ _) \<Rightarrow> PowerDeliveryV2_process env m (enter PowerDeliveryV2 s)
       | Some (CurrentDemandReqV2 q) \<Rightarrow>
           let s = s\<lparr>ev_data := update_charge_loop_parameters q (ev_data s)\<rparr>;
               s = call (SendChargingCommand (target_voltage (ev_data s)) (target_current (ev_data s)) False) s
           in if charging_command_times_out env then
                stop_state_machine env ''Error sending targets to charging station in charging loop.'' m
                  (DinCode FAILED) s
              else
                let s = call SendDisplayParams s
                in (case evse_present_current env of
                      Inl _ \<Rightarrow> raises ValidationError s
                    | Inr present_current \<Rightarrow>
                        construct (CurrentDemandResV2 OK
                            \<lparr>cd_dc_evse_status = get_dc_evse_status env,
                             cd_evse_present_voltage = evse_present_voltage env,
                             cd_evse_present_current = present_current,
                             evse_current_limit_achieved = current_limit_achieved (v2e env),
                             evse_voltage_limit_achieved = voltage_limit_achieved env,
                             evse_power_limit_achieved = power_limit_achieved env,
                             evse_max_voltage_limit = Some (max_voltage_limit env),
                             evse_max_current_limit = Some (max_current_limit env),
                             evse_max_power_limit = Some (max_power_limit env)\<rparr>
                            (get_evse_id env) (selected_schedule (iso2 s)) None (Some False))
                          (\<lambda>res s. then_expect_others (next_v2 env None res None s)) s)
       | _ \<Rightarrow> done_with s) s"

section \<open>Alternating current and metering\<close>

text \<open>
  The charging status and the metering receipt hand messages over to each other. Each handler takes
  what the other one does as an argument; a message that was handed over once is of the class the
  other state expects first, so it is not handed back.
\<close>

definition ChargingStatusV2_handler :: "(secc \<Rightarrow> secc outcome) \<Rightarrow> env \<Rightarrow> v2g_message \<Rightarrow> secc \<Rightarrow> secc outcome" where
  "ChargingStatusV2_handler metering env m s =
     check_msg_v2 env [ChargingStatusT, PowerDeliveryT, MeteringReceiptT] (expect_first (current_state s)) m (\<lambda>s.
       case v2_body_of m of
         Some (PowerDeliveryReqV2 _ _ _ _) \<Rightarrow> PowerDeliveryV2_process env m (enter PowerDeliveryV2 s)
       | Some (MeteringReceiptReqV2 _ _ _ _) \<Rightarrow> metering (enter MeteringReceiptV2 s)
       | Some ChargingStatusReqV2 \<Rightarrow>
           construct (ChargingStatusResV2 OK (get_evse_id env) (selected_schedule (iso2 s))
               (Some (max_current_limit env)) None (Some False) (get_ac_evse_status (v2e env)))
             (\<lambda>res s. then_expect_others (next_v2 env None res None s)) s
       | _ \<Rightarrow> done_with s) s"

definition receipt_fault :: "env \<Rightarrow> v2g_message \<Rightarrow> v2_body \<Rightarrow> meter_info \<Rightarrow> string option \<Rightarrow> secc \<Rightarrow> string option result" where
  "receipt_fault env m req info i s =
     (case contract_cert_chain (iso2 s) of
        None \<Rightarrow>
          Inr (Some ''No contract certificate chain available to verify signature of MeteringReceiptReq'')
      | Some chain \<Rightarrow>
          rbind (fragment_exi (v2e env) (BodyPart req)) (\<lambda>exi.
          rbind (verify_signature (crypt (v2e env)) (v2_header_signature m) [(i, exi)] (certificate chain) None None) (\<lambda>ok.
            Inr (if \<not> ok then Some ''Unable to verify signature of MeteringReceiptReq''
                 else if meter_reading info \<in> set [None, Some 0] \<or>
                   (case sent_meter_info (iso2 s) of
                      None \<Rightarrow> False
                    | Some sent \<Rightarrow> meter_reading sent \<notin> set [None, Some 0] \<and> meter_reading info \<noteq> meter_reading sent)
                 then Some ''EVCC's meter info is not a copy of the SECC's meter info sent in CharginStatusRes/CurrentDemandRes''
                 else None))))"

definition MeteringReceiptV2_handler :: "(secc \<Rightarrow> secc outcome) \<Rightarrow> env \<Rightarrow> v2g_message \<Rightarrow> secc \<Rightarrow> secc outcome" where
  "MeteringReceiptV2_handler status env m s =
     check_msg_v2 env [MeteringReceiptT, ChargingStatusT, CurrentDemandT, PowerDeliveryT]
       (expect_first (current_state s)) m (\<lambda>s.
       case v2_body_of m of
         Some (PowerDeliveryReqV2 _ _ _ _) \<Rightarrow> PowerDeliveryV2_process env m (enter PowerDeliveryV2 s)
       | Some ChargingStatusReqV2 \<Rightarrow> status (enter ChargingStatusV2 s)
       | Some (CurrentDemandReqV2 _) \<Rightarrow> CurrentDemandV2_process env m (enter CurrentDemandV2 s)
       | Some (MeteringReceiptReqV2 i sid tuple_id info) \<Rightarrow>
           (case receipt_fault env m (MeteringReceiptReqV2 i sid tuple_id info) info i s of
              Inl e \<Rightarrow> raises e s
            | Inr (Some r) \<Rightarrow> stop_state_machine env r m (DinCode FAILED_METERING_SIGNATURE_NOT_VALID) s
            | Inr None \<Rightarrow>
                then_expect_others (next_v2 env None
                  (if selected_energy_mode (ev_data s) \<noteq> None \<and> selected_charging_type_is_ac s
                   then MeteringReceiptResV2 OK (Some (get_ac_evse_status (v2e env))) None
                   else MeteringReceiptResV2 OK None (Some (get_dc_evse_status env))) None s))
       | _ \<Rightarrow> done_with s) s"

definition ChargingStatusV2_process :: "env \<Rightarrow> v2g_message \<Rightarrow> secc \<Rightarrow> secc outcome" where
  "ChargingStatusV2_process env m = ChargingStatusV2_handler (MeteringReceiptV2_handler done_with env m) env m"

definition MeteringReceiptV2_process :: "env \<Rightarrow> v2g_message \<Rightarrow> secc \<Rightarrow> secc outcome" where
  "MeteringReceiptV2_process env m = MeteringReceiptV2_handler (ChargingStatusV2_handler done_with env m) env m"

section \<open>Charge parameters\<close>

text \<open>Only the first schedule's tariff is signed; a key that cannot be read leaves it unsigned.\<close>

definition sign_tariff :: "env \<Rightarrow> sa_schedule list \<Rightarrow> signature option result" where
  "sign_tariff env schedules =
     (case schedules of
        [] \<Rightarrow> Inr None
      | s # _ \<Rightarrow>
          (case schedule_tariff s of
             None \<Rightarrow> Inr None
           | Some t \<Rightarrow>
               rbind (fragment_exi (v2e env) (TariffPart t)) (\<lambda>exi.
                 (case load_priv_key (keys (v2e env)) ''MO_SUB_CA2_PEM'' PEM ''MO_SUB_CA2_PASSWORD'' of
                    Inl e \<Rightarrow> if e = PrivateKeyReadError then Inr None else Inl e
                  | Inr key \<Rightarrow> rbind (create_signature (crypt (v2e env)) [(tariff_xml_id t, exi)] key) (\<lambda>sig. Inr (Some sig))))))"

definition take_charge_parameters ::
  "energy_mode \<Rightarrow> ac_ev_charge_parameter option \<Rightarrow> dc_ev_charge_parameter_v2 option \<Rightarrow> secc \<Rightarrow> secc outcome" where
  "take_charge_parameters mode ac dc s =
     (let s = s\<lparr>ev_data := (ev_data s)\<lparr>selected_energy_mode := Some mode\<rparr>, selected_charging_type_is_ac := is_ac_mode mode\<rparr>
      in case ac of
           Some p \<Rightarrow>
             done_with (s\<lparr>current_type := Some AC, ev_data := update_ac_charge_parameters_v2 p (ev_data s)\<rparr>)
         | None \<Rightarrow>
             let s = s\<lparr>current_type := Some DC\<rparr>
             in (case dc of
                   Some p \<Rightarrow> done_with (s\<lparr>ev_data := update_dc_charge_parameters_v2 p (ev_data s)\<rparr>)
                 | None \<Rightarrow> raises AttributeError s))"

text \<open>What follows once schedules have been asked for and checked.\<close>

definition offer_schedules ::
  "env \<Rightarrow> bool \<Rightarrow> sa_schedule list \<Rightarrow> secc \<Rightarrow> secc outcome" where
  "offer_schedules env ac schedules s =
     (let ready = schedules \<noteq> [];
          s = (if ready then set_v2 (\<lambda>v. v\<lparr>offered_schedules := schedules\<rparr>) s else s);
          nxt = (if \<not> ready then None else Some (if ac then PowerDeliveryV2 else CableCheckV2))
      in (case sign_tariff env schedules of
            Inl e \<Rightarrow> raises e s
          | Inr sig \<Rightarrow>
              construct (ChargeParameterDiscoveryResV2 OK (if ready then FINISHED else ONGOING) (Some schedules)
                  (if ac then Some (get_ac_charge_params_v2 (v2e env)) else None)
                  (if ac then None else Some (get_dc_charge_parameters_v2 (v2e env))))
                (\<lambda>res s. next_v2 env nxt res sig s) (expecting (\<not> ready) s)))"

definition discover_parameters ::
  "env \<Rightarrow> v2g_message \<Rightarrow> int option \<Rightarrow> energy_mode \<Rightarrow> ac_ev_charge_parameter option \<Rightarrow>
     dc_ev_charge_parameter_v2 option \<Rightarrow> secc \<Rightarrow> secc outcome" where
  "discover_parameters env m max_entries mode ac dc s =
     (if mode \<notin> set (supported_energy_transfer_modes env) then
        stop_state_machine env (mode_text env mode @ '' not offered as energy transfer mode'') m
          (DinCode FAILED_WRONG_ENERGY_TRANSFER_MODE) s
      else
        andthen (take_charge_parameters mode ac dc s) (\<lambda>s.
          let s = call SendRatedLimits s;
              departure = (case departure_time (ev_data s) of None \<Rightarrow> 0 | Some d \<Rightarrow> d);
              schedules = get_sa_schedule_list (v2e env) max_entries departure
          in (case validate_sa_schedule_list schedules departure of
                Inl e \<Rightarrow> raises e s
              | Inr valid \<Rightarrow>
                  if valid \<and> ev_session_context (iso2 s) = None then raises AttributeError s
                  else offer_schedules env (ac \<noteq> None) (the schedules) s)))"

definition ChargeParameterDiscoveryV2_process :: "env \<Rightarrow> v2g_message \<Rightarrow> secc \<Rightarrow> secc outcome" where
  "ChargeParameterDiscoveryV2_process env m s =
     check_msg_v2 env [ChargeParameterDiscoveryT, PowerDeliveryT, CableCheckT] (expect_first (current_state s)) m (\<lambda>s.
       case v2_body_of m of
         Some (PowerDeliveryReqV2 _ _ _ _) \<Rightarrow> PowerDeliveryV2_process env m (enter PowerDeliveryV2 s)
       | Some (CableCheckReqV2 _) \<Rightarrow> CableCheckV2_process env m (enter CableCheckV2 s)
       | Some (ChargeParameterDiscoveryReqV2 max_entries mode ac dc) \<Rightarrow>
           discover_parameters env m max_entries mode ac dc s
       | _ \<Rightarrow> done_with s) s"

section \<open>The state machine\<close>

fun v2_process :: "state_kind \<Rightarrow> env \<Rightarrow> bytes \<Rightarrow> v2g_message \<Rightarrow> secc \<Rightarrow> secc outcome" where
  "v2_process SessionSetupV2 = (\<lambda>env exi. SessionSetupV2_process env)"
| "v2_process ServiceDiscoveryV2 = ServiceDiscoveryV2_process"
| "v2_process ServiceDetailV2 = ServiceDetailV2_process"
| "v2_process PaymentServiceSelectionV2 = PaymentServiceSelectionV2_process"
| "v2_process CertificateInstallationV2 = CertificateInstallationV2_process"
| "v2_process PaymentDetailsV2 = (\<lambda>env exi. PaymentDetailsV2_process env)"
| "v2_process AuthorizationV2 = (\<lambda>env exi. AuthorizationV2_process env)"
| "v2_process ChargeParameterDiscoveryV2 = (\<lambda>env exi. ChargeParameterDiscoveryV2_process env)"
| "v2_process PowerDeliveryV2 = (\<lambda>env exi. PowerDeliveryV2_process env)"
| "v2_process MeteringReceiptV2 = (\<lambda>env exi. MeteringReceiptV2_process env)"
| "v2_process SessionStopV2 = (\<lambda>env exi. SessionStopV2_process env)"
| "v2_process ChargingStatusV2 = (\<lambda>env exi. ChargingStatusV2_process env)"
| "v2_process CableCheckV2 = (\<lambda>env exi. CableCheckV2_process env)"
| "v2_process PreChargeV2 = (\<lambda>env exi. PreChargeV2_process env)"
| "v2_process CurrentDemandV2 = (\<lambda>env exi. CurrentDemandV2_process env)"
| "v2_process WeldingDetectionV2 = (\<lambda>env exi. WeldingDetectionV2_process env)"
| "v2_process _ = (\<lambda>env exi m s. done_with s)"

definition v2_states :: "state_kind list" where
  "v2_states = [SessionSetupV2, ServiceDiscoveryV2, ServiceDetailV2, PaymentServiceSelectionV2,
     CertificateInstallationV2, PaymentDetailsV2, AuthorizationV2, ChargeParameterDiscoveryV2,
     PowerDeliveryV2, MeteringReceiptV2, SessionStopV2, ChargingStatusV2, CableCheckV2, PreChargeV2,
     CurrentDemandV2, WeldingDetectionV2]"

text \<open>\<open>get_state_by_msg_type\<close>: the state that handles a class of requests.\<close>

fun get_state_by_msg_type :: "v2_type \<Rightarrow> state_kind option" where
  "get_state_by_msg_type SessionSetupT = Some SessionSetupV2"
| "get_state_by_msg_type ServiceDiscoveryT = Some ServiceDiscoveryV2"
| "get_state_by_msg_type ServiceDetailT = Some ServiceDetailV2"
| "get_state_by_msg_type PaymentServiceSelectionT = Some PaymentServiceSelectionV2"
| "get_state_by_msg_type CertificateInstallationT = Some CertificateInstallationV2"
| "get_state_by_msg_type PaymentDetailsT = Some PaymentDetailsV2"
| "get_state_by_msg_type AuthorizationT = Some AuthorizationV2"
| "get_state_by_msg_type CableCheckT = Some CableCheckV2"
| "get_state_by_msg_type PreChargeT = Some PreChargeV2"
| "get_state_by_msg_type ChargeParameterDiscoveryT = Some ChargeParameterDiscoveryV2"
| "get_state_by_msg_type PowerDeliveryT = Some PowerDeliveryV2"
| "get_state_by_msg_type ChargingStatusT = Some ChargingStatusV2"
| "get_state_by_msg_type CurrentDemandT = Some CurrentDemandV2"
| "get_state_by_msg_type MeteringReceiptT = Some MeteringReceiptV2"
| "get_state_by_msg_type WeldingDetectionT = Some WeldingDetectionV2"
| "get_state_by_msg_type SessionStopT = Some SessionStopV2"
| "get_state_by_msg_type _ = None"

end
