(* ===== verification/Comm_Session.thy ===== *)
theory Comm_Session
  imports Sap_State V2_States
begin

text \<open>
  The communication session of \<open>iso15118/shared/comm_session.py\<close>, with the charger's \<open>stop\<close> of
  \<open>iso15118/secc/comm_session_handler.py\<close>: decoding a received message, running the current state on it,
  sending the response, moving on, and ending the session. What one read from the TCP stream gives is
  an argument, together with the environment in which it is handled.
\<close>

section \<open>Environment and state\<close>

text \<open>
  \<open>from_exi\<close> returns a message or raises, on every path, so the branch for a missing message is not
  reached. The states of ISO 15118-20 are the argument \<open>iso_process\<close>. The texts that end up in
  a stop reason are formatted by the interpreter.
\<close>

record comm_env =
  core :: env
  from_exi :: "bytes \<Rightarrow> string \<Rightarrow> v2g_message result"
  iso_process :: "state_kind \<Rightarrow> env \<Rightarrow> bytes \<Rightarrow> v2g_message \<Rightarrow> secc \<Rightarrow> secc outcome"
  error_text :: "py_error \<Rightarrow> state_kind \<Rightarrow> string"
  timeout_text :: "v2gtp_message option \<Rightarrow> string"

datatype read = Data bytes | Eof | TimedOut | ConnectionReset string

record comm =
  session :: secc
  last_message_sent :: "v2gtp_message option"
  wire :: "bytes list"
  notifications :: "stop_notification list"
  timeout :: rat
  writer_closed :: bool
  ended :: bool

section \<open>Processing a message\<close>

definition get_exi_ns :: "protocol \<Rightarrow> int \<Rightarrow> string" where
  "get_exi_ns p t =
     (if p = UNKNOWN then SAP_NS
      else if p = ISO_15118_2 then ISO_V2_MSG_DEF
      else if p = DIN_SPEC_70121 then DIN_MSG_DEF
      else if is_v20 p then
        (if t = 0x8003 then ISO_V20_BASE @ '':AC''
         else if t = 0x8004 then ISO_V20_BASE @ '':DC''
         else if t = 0x8005 then ISO_V20_BASE @ '':ACDP''
         else if t = 0x8006 then ISO_V20_BASE @ '':WPT''
         else ISO_V20_BASE @ '':CommonMessages'')
      else ISO_V20_BASE @ '':CommonMessages'')"

definition state_process :: "comm_env \<Rightarrow> state_kind \<Rightarrow> env \<Rightarrow> bytes \<Rightarrow> v2g_message \<Rightarrow> secc \<Rightarrow> secc outcome" where
  "state_process ce k env message_exi =
     (if k = SupportedAppProtocol then SupportedAppProtocol_process env
      else if k = SessionSetupV20 then iso_process ce k env message_exi
      else if k \<in> set v2_states then v2_process k env message_exi
      else din_process k env)"

definition process_message :: "comm_env \<Rightarrow> bytes \<Rightarrow> secc \<Rightarrow> secc outcome" where
  "process_message ce message s =
     (case from_bytes (session_protocol s) message of
        Inl e \<Rightarrow> raises e s
      | Inr v2gtp_msg \<Rightarrow>
          (case from_exi ce (payload v2gtp_msg)
                  (get_exi_ns (session_protocol s) (payload_type v2gtp_msg)) of
             Inl e \<Rightarrow> raises e s
           | Inr decoded_message \<Rightarrow>
               run_state (state_process ce (kind (current_state s)) (core ce) (payload v2gtp_msg) decoded_message) s))"

section \<open>Ending and sending\<close>

definition stop :: "string \<Rightarrow> comm \<Rightarrow> comm" where
  "stop r c =
     (let s = call StopCharger (session c);
          terminate_or_pause = (if next_state (current_state s) = Some Pause then PAUSE else TERMINATE);
          s = call (UpdateDataLink terminate_or_pause) s;
          s = call (SessionEnded (kind (current_state s)) r) s
      in c\<lparr>session := s, writer_closed := True\<rparr>)"

text \<open>\<open>stop\<close>, then the notification for the session handler, then the receive loop returns.\<close>

definition finish_with :: "string \<Rightarrow> stop_notification \<Rightarrow> comm \<Rightarrow> comm" where
  "finish_with r n c =
     (let c = stop r c in c\<lparr>notifications := notifications c @ [n], ended := True\<rparr>)"

definition fail_with :: "comm_env \<Rightarrow> string \<Rightarrow> comm \<Rightarrow> comm" where
  "fail_with ce r c =
     (let n = \<lparr>successful = False, reason = r, peer_ip_address = peername (core ce), stop_action = TERMINATE\<rparr>
      in finish_with r n (c\<lparr>session := (session c)\<lparr>stop_reason := Some n\<rparr>\<rparr>))"

definition send_v2gtp :: "v2gtp_message \<Rightarrow> comm \<Rightarrow> comm outcome" where
  "send_v2gtp m c =
     (case to_bytes m of
        Inl e \<Rightarrow> raises e c
      | Inr bs \<Rightarrow> done_with (c\<lparr>wire := wire c @ [bs], last_message_sent := Some m\<rparr>))"

definition send_response :: "comm \<Rightarrow> comm outcome" where
  "send_response c =
     (case next_v2gtp_msg (current_state (session c)) of
        None \<Rightarrow> done_with c
      | Some m \<Rightarrow>
          andthen (send_v2gtp m c) (\<lambda>c.
            done_with (c\<lparr>session := call (SetPresentProtocolState (kind (current_state (session c)))) (session c)\<rparr>)))"

section \<open>The receive loop\<close>

definition rcv_step :: "comm_env \<Rightarrow> read \<Rightarrow> comm \<Rightarrow> comm" where
  "rcv_step ce r c =
     (case r of
        Eof \<Rightarrow>
          let t = ''TCP peer closed connection''
          in finish_with t \<lparr>successful = False, reason = t, peer_ip_address = peername (core ce),
                            stop_action = TERMINATE\<rparr> c
      | TimedOut \<Rightarrow> fail_with ce (timeout_text ce (last_message_sent c)) c
      | ConnectionReset t \<Rightarrow> fail_with ce t c
      | Data message \<Rightarrow>
          (case process_message ce message (session c) of
             (s, Some e) \<Rightarrow> fail_with ce (error_text ce e (kind (current_state s))) (c\<lparr>session := s\<rparr>)
           | (s, None) \<Rightarrow>
               (case send_response (c\<lparr>session := s\<rparr>) of
                  (c, Some e) \<Rightarrow> fail_with ce (error_text ce e (kind (current_state (session c)))) c
                | (c, None) \<Rightarrow>
                    let o' = current_state (session c)
                    in if next_state o' \<in> set [Some Terminate, Some Pause] then
                         (case stop_reason (session c) of
                            None \<Rightarrow> fail_with ce (error_text ce AttributeError (kind o')) c
                          | Some n \<Rightarrow> finish_with (reason n) n c)
                       else c\<lparr>timeout := next_msg_timeout o', session := go_to_next_state (session c)\<rparr>)))"

fun rcv_loop :: "(comm_env \<times> read) list \<Rightarrow> comm \<Rightarrow> comm" where
  "rcv_loop [] c = c"
| "rcv_loop ((ce, r) # reads) c = (if ended c then c else rcv_loop reads (rcv_step ce r c))"

definition new_comm :: comm where
  "new_comm =
     \<lparr>session = new_session UNKNOWN [] SupportedAppProtocol, last_message_sent = None, wire = [],
      notifications = [], timeout = 20, writer_closed = False, ended = False\<rparr>"

section \<open>Every read is answered or ends the session\<close>

text \<open>Ending a session: the charger is stopped, the link released and exactly one notification queued.\<close>

definition session_ends :: "comm \<Rightarrow> comm \<Rightarrow> bool" where
  "session_ends c c' \<longleftrightarrow> ended c' \<and> writer_closed c' \<and>
     (\<exists>n. notifications c' = notifications c @ [n]) \<and>
     (\<exists>cs a k r. calls (session c') = cs @ [StopCharger, UpdateDataLink a, SessionEnded k r])"

lemma finish_with_ends:
  "notifications c = notifications c0 \<Longrightarrow> session_ends c0 (finish_with r n c)"
  by (auto simp: session_ends_def finish_with_def stop_def Let_def)

lemma fail_with_ends:
  "notifications c = notifications c0 \<Longrightarrow> session_ends c0 (fail_with ce r c)"
  by (auto simp: fail_with_def Let_def intro: finish_with_ends)

lemma send_response_frame:
  assumes "send_response c = (c', e)"
  shows "notifications c' = notifications c \<and> ended c' = ended c \<and>
    current_state (session c') = current_state (session c) \<and>
    stop_reason (session c') = stop_reason (session c) \<and>
    session_protocol (session c') = session_protocol (session c)"
  using assms
  by (auto simp: send_response_def send_v2gtp_def andthen_def done_with_def raises_def
      split: option.splits sum.splits)

lemma send_response_wire:
  assumes "send_response c = (c', None)" "next_v2gtp_msg (current_state (session c)) \<noteq> None"
  shows "\<exists>w. wire c' = wire c @ [w]"
  using assms
  by (auto simp: send_response_def send_v2gtp_def andthen_def done_with_def raises_def
      split: option.splits sum.splits)

lemma process_message_next:
  assumes "process_message ce m s = (s', None)" "next_v2gtp_msg (current_state s') = None"
  shows "next_state (current_state s') = Some Terminate"
proof (rule ccontr)
  assume *: "next_state (current_state s') \<noteq> Some Terminate"
  from assms(1) obtain x d where
    "andthen (state_process ce (kind (current_state s)) (core ce) x d s) (\<lambda>s.
       if next_v2gtp_msg (current_state s) = None \<and> next_state (current_state s) \<noteq> Some Terminate
       then raises FaultyStateImplementationError s else done_with s) = (s', None)"
    by (auto simp: process_message_def run_state_def raises_def split: sum.splits)
  then show False
    using * assms(2)
    by (cases "state_process ce (kind (current_state s)) (core ce) x d s")
      (auto simp: andthen_def raises_def done_with_def split: option.splits if_splits)
qed

text \<open>
  C15: no read goes unnoticed. Whatever arrives on the TCP stream (a message, garbage, the end of the
  stream, a reset or nothing in time) and whatever codec, states and hardware do, handling it either
  writes exactly one V2GTP message and keeps the session, or ends it: the charger is told to stop, the
  data link is released, the writer closed and exactly one stop notification queued.
\<close>

theorem read_answered_or_session_ends:
  "session_ends c (rcv_step ce r c) \<or>
   (\<exists>w. wire (rcv_step ce r c) = wire c @ [w]) \<and> ended (rcv_step ce r c) = ended c \<and>
     notifications (rcv_step ce r c) = notifications c"
proof (cases r)
  case (Data m)
  obtain s e where p: "process_message ce m (session c) = (s, e)" by fastforce
  obtain c1 e1 where q: "send_response (c\<lparr>session := s\<rparr>) = (c1, e1)" by fastforce
  note frame = send_response_frame [OF q]
  show ?thesis
  proof (cases "e = None \<and> e1 = None \<and> next_state (current_state s) \<notin> {Some Terminate, Some Pause}")
    case True
    then have "next_v2gtp_msg (current_state s) \<noteq> None"
      using process_message_next [of ce m "session c" s] p by auto
    then have "\<exists>w. wire c1 = wire c @ [w]"
      using send_response_wire [of "c\<lparr>session := s\<rparr>" c1] q True by simp
    then show ?thesis
      using True Data p q frame by (auto simp: rcv_step_def Let_def)
  next
    case False
    have "session_ends c (rcv_step ce r c)"
      using False Data p q frame
      by (auto simp: rcv_step_def Let_def intro!: fail_with_ends finish_with_ends split: option.splits)
    then show ?thesis by blast
  qed
qed (auto simp: rcv_step_def Let_def intro: fail_with_ends finish_with_ends)

section \<open>No energy before authorisation and insulation test\<close>

definition after_auth :: "state_kind list" where
  "after_auth = [ChargeParameterDiscovery, CableCheck, PreCharge, PowerDelivery, CurrentDemand,
     WeldingDetection, SessionStop]"

definition after_isolation :: "state_kind list" where
  "after_isolation = [PreCharge, PowerDelivery, CurrentDemand, WeldingDetection, SessionStop]"

definition charged :: "secc \<Rightarrow> bool" where
  "charged s \<longleftrightarrow> list_ex is_charging_command (calls s)"

text \<open>What the past must hold for the machine to be where it is.\<close>

definition authorised_in :: "(comm_env \<times> read) list \<Rightarrow> bool" where
  "authorised_in reads \<longleftrightarrow> (\<exists>(ce, r) \<in> set reads. is_authorized (core ce) = ACCEPTED)"

definition insulated_in :: "(comm_env \<times> read) list \<Rightarrow> bool" where
  "insulated_in reads \<longleftrightarrow> (\<exists>(ce, r) \<in> set reads. isolation_ok (core ce))"

definition in_order :: "(comm_env \<times> read) list \<Rightarrow> comm \<Rightarrow> bool" where
  "in_order past c \<longleftrightarrow>
     (charged (session c) \<longrightarrow> authorised_in past \<and> insulated_in past) \<and>
     (\<not> ended c \<longrightarrow>
        next_state (current_state (session c)) = None \<and>
        kind (current_state (session c)) \<in> set (SupportedAppProtocol # din_states) \<and>
        (kind (current_state (session c)) \<in> set after_auth \<longrightarrow> authorised_in past) \<and>
        (kind (current_state (session c)) \<in> set after_isolation \<longrightarrow> insulated_in past))"

lemma in_order_grow:
  "authorised_in past \<Longrightarrow> authorised_in (past @ l)" "insulated_in past \<Longrightarrow> insulated_in (past @ l)"
  by (auto simp: authorised_in_def insulated_in_def)

lemma step_ok_order:
  assumes "step_ok k env k'" "k' \<noteq> Terminate" "k \<in> set din_states"
  shows "k' \<in> set din_states"
    "k' \<in> set after_auth \<Longrightarrow> k \<in> set after_auth \<or> is_authorized env = ACCEPTED"
    "k' \<in> set after_isolation \<Longrightarrow> k \<in> set after_isolation \<or> isolation_ok env"
  using assms
  by (auto simp: step_ok_def din_edge_def din_edges_def din_states_def after_auth_def after_isolation_def)

lemma charged_append: "calls s' = calls s @ cs \<Longrightarrow> charged s' \<longleftrightarrow> charged s \<or> list_ex is_charging_command cs"
  by (simp add: charged_def)

text \<open>What handling one message may do to a session, seen from the state it starts in.\<close>

definition moves :: "env \<Rightarrow> secc \<Rightarrow> secc \<Rightarrow> bool" where
  "moves env s s' \<longleftrightarrow>
     (charged s' \<longrightarrow> charged s \<or> kind (current_state s) \<in> {PreCharge, CurrentDemand}) \<and>
     (next_state (current_state s') = Some Terminate \<or>
        arrives s' \<in> set (SupportedAppProtocol # din_states) \<and>
        (arrives s' \<in> set after_auth \<longrightarrow>
           kind (current_state s) \<in> set after_auth \<or> is_authorized env = ACCEPTED) \<and>
        (arrives s' \<in> set after_isolation \<longrightarrow>
           kind (current_state s) \<in> set after_isolation \<or> isolation_ok env))"

lemma din_moves:
  assumes "kind (current_state s) = k" "k \<in> set din_states" "next_state (current_state s) = None"
  shows "moves env s (fst (din_process k env m s))"
proof -
  let ?s = "fst (din_process k env m s)"
  have sum: "summary k env s (din_process k env m s)" using din_process_summary assms by blast
  then have step: "step_ok k env (arrives ?s)"
    and kinds: "kind (current_state ?s) \<in> {k, PowerDelivery, WeldingDetection, SessionStop}"
    by (simp_all add: summary_def)
  have ch: "charged ?s \<longrightarrow> charged s \<or> k \<in> {PreCharge, CurrentDemand}"
    using sum by (auto simp: summary_def charged_append)
  have "kind (current_state ?s) \<noteq> Terminate"
    using kinds assms(2) by (auto simp: din_states_def)
  then have "next_state (current_state ?s) = Some Terminate \<or> arrives ?s \<noteq> Terminate"
    by (cases "next_state (current_state ?s)") (simp_all add: arrives_def)
  then show ?thesis
    using step_ok_order [OF step _ assms(2)] ch assms(1) unfolding moves_def by auto
qed

lemma sap_ends:
  assumes "set (supported_protocols env) \<subseteq> {DIN_SPEC_70121}" "next_state (current_state s) = None"
  obtains cs nxt where "nxt \<in> {None, Some SessionSetup}" "\<not> list_ex is_charging_command cs"
    "ends nxt (kind (current_state s)) (calls s @ cs) (SupportedAppProtocol_process env m s)"
proof -
  have stop: "ends None (kind (current_state s)) (calls s @ []) (stop_state_machine env r x c s)" for r x c
    using ends_stop [of s env r x c] assms(2) by simp
  show ?thesis
  proof (cases m)
    case (SAPReq ps)
    show ?thesis
    proof (cases "find (acceptable (supported_protocols env)) (sort_key priority ps)")
      case None
      then have "SupportedAppProtocol_process env m s = stop_state_machine env
          ''SupportedAppProtocol negotiation failed. '' m (SapCode NEGOTIATION_FAILED) s"
        using SAPReq by (simp add: SupportedAppProtocol_process_def check_msg_def sap_loop_find)
      then show ?thesis using that [of None "[]"] stop by simp
    next
      case (Some p)
      then have "get_by_ns (protocol_ns p) = DIN_SPEC_70121"
        using find_SomeD [OF Some] acceptable_supported [of _ p] assms(1) by blast
      then have eq: "SupportedAppProtocol_process env m s =
          andthen (create_next_message env (Some SessionSetup) (NextSap (minor_code p) (Some (schema_id p)))
            60 SAP_NS EXI_ENCODED (s\<lparr>selected_charging_type_is_ac := False\<rparr>))
          (\<lambda>s. done_with (call (SetSelectedProtocol DIN_SPEC_70121) (s\<lparr>session_protocol := DIN_SPEC_70121\<rparr>)))"
        (is "_ = andthen ?r ?f")
        using SAPReq Some
        by (simp add: SupportedAppProtocol_process_def check_msg_def sap_loop_find agreed_def)
      have r: "ends (Some SessionSetup) (kind (current_state s)) (calls s) ?r"
        using ends_create [of "Some SessionSetup" "s\<lparr>selected_charging_type_is_ac := False\<rparr>"] by simp
      obtain x e where re: "?r = (x, e)" by fastforce
      show ?thesis
      proof (cases e)
        case None
        then show ?thesis
          using that [of "Some SessionSetup" "[SetSelectedProtocol DIN_SPEC_70121]"] r eq re
          by (simp add: ends_def andthen_def)
      next
        case (Some err)
        then show ?thesis
          using that [of "Some SessionSetup" "[]"] r eq re by (simp add: ends_def andthen_def)
      qed
    qed
  qed (use that [of None "[]"] stop in \<open>auto simp: SupportedAppProtocol_process_def check_msg_def\<close>)
qed

lemma sap_moves:
  assumes "set (supported_protocols env) \<subseteq> {DIN_SPEC_70121}" "next_state (current_state s) = None"
    and "kind (current_state s) = SupportedAppProtocol"
  shows "moves env s (fst (SupportedAppProtocol_process env m s))"
proof -
  obtain cs nxt where "nxt \<in> {None, Some SessionSetup}" "\<not> list_ex is_charging_command cs"
    "ends nxt (kind (current_state s)) (calls s @ cs) (SupportedAppProtocol_process env m s)"
    by (rule sap_ends [OF assms(1,2)])
  then have "next_state (current_state (fst (SupportedAppProtocol_process env m s))) = Some Terminate \<or>
      arrives (fst (SupportedAppProtocol_process env m s)) \<in> {SupportedAppProtocol, SessionSetup}"
    "charged (fst (SupportedAppProtocol_process env m s)) = charged s"
    using assms(3) by (auto simp: ends_def arrives_def charged_def)
  moreover have "{SupportedAppProtocol, SessionSetup} \<subseteq> set (SupportedAppProtocol # din_states)"
    "{SupportedAppProtocol, SessionSetup} \<inter> (set after_auth \<union> set after_isolation) = {}"
    by (simp_all add: din_states_def after_auth_def after_isolation_def)
  ultimately show ?thesis unfolding moves_def by blast
qed

lemma moves_refl:
  assumes "next_state (current_state s) = None"
    "kind (current_state s) \<in> set (SupportedAppProtocol # din_states)"
  shows "moves env s s"
  using assms by (simp add: moves_def arrives_def)

lemma din_states_apart:
  "k \<in> set din_states \<Longrightarrow> k \<noteq> SupportedAppProtocol \<and> k \<noteq> SessionSetupV20 \<and> k \<notin> set v2_states"
  by (auto simp: din_states_def v2_states_def)

lemma process_message_moves:
  assumes "set (supported_protocols (core ce)) \<subseteq> {DIN_SPEC_70121}"
    and "next_state (current_state s) = None"
    and "kind (current_state s) \<in> set (SupportedAppProtocol # din_states)"
  shows "moves (core ce) s (fst (process_message ce m s))"
proof -
  have "moves (core ce) s (fst (state_process ce (kind (current_state s)) (core ce) x d s))" for x d
    using assms din_moves [of s "kind (current_state s)" "core ce" d] sap_moves [of "core ce" s d]
      din_states_apart [of "kind (current_state s)"]
    by (auto simp: state_process_def)
  then have "moves (core ce) s (fst (andthen (state_process ce (kind (current_state s)) (core ce) x d s)
      (\<lambda>s. if next_v2gtp_msg (current_state s) = None \<and> next_state (current_state s) \<noteq> Some Terminate
           then raises FaultyStateImplementationError s else done_with s)))" for x d
    by (rule andthen_fst_inv) simp
  then show ?thesis
    using moves_refl [OF assms(2,3)] by (auto simp: process_message_def run_state_def split: sum.splits)
qed

lemma finish_with_simps [simp]:
  "charged (session (finish_with r n c)) = charged (session c)" "ended (finish_with r n c)"
  by (simp_all add: finish_with_def stop_def Let_def charged_def)

lemma fail_with_simps [simp]:
  "charged (session (fail_with ce r c)) = charged (session c)" "ended (fail_with ce r c)"
  by (simp_all add: fail_with_def Let_def) (simp add: charged_def)

lemma send_response_charged:
  assumes "send_response c = (c', e)"
  shows "charged (session c') = charged (session c)"
  using assms
  by (auto simp: send_response_def send_v2gtp_def andthen_def done_with_def raises_def charged_def
      split: option.splits sum.splits)

lemma go_to_next_state_simps:
  assumes "next_state (current_state s) \<notin> {Some Terminate, Some Pause}"
  shows "kind (current_state (go_to_next_state s)) = arrives s"
    "next_state (current_state (go_to_next_state s)) = None"
    "charged (go_to_next_state s) = charged s"
  by (auto simp: go_to_next_state_def arrives_def charged_def split: option.splits)

lemma in_order_ended:
  assumes "ended c'" "charged (session c') = charged (session c)" "in_order past c"
  shows "in_order (past @ l) c'"
  using assms by (auto simp: in_order_def in_order_grow)

lemma in_orderI:
  assumes "charged (session c) \<Longrightarrow> authorised_in past \<and> insulated_in past"
    and "next_state (current_state (session c)) = None" "kind (current_state (session c)) = k"
    and "k \<in> set (SupportedAppProtocol # din_states)"
    and "k \<in> set after_auth \<Longrightarrow> authorised_in past" "k \<in> set after_isolation \<Longrightarrow> insulated_in past"
  shows "in_order past c"
  using assms by (simp add: in_order_def)

lemma rcv_step_in_order:
  assumes "in_order past c" "\<not> ended c" "set (supported_protocols (core ce)) \<subseteq> {DIN_SPEC_70121}"
  shows "in_order (past @ [(ce, r)]) (rcv_step ce r c)"
proof (cases r)
  case (Data m)
  let ?k = "kind (current_state (session c))"
  obtain s e where p: "process_message ce m (session c) = (s, e)" by fastforce
  obtain c1 e1 where q: "send_response (c\<lparr>session := s\<rparr>) = (c1, e1)" by fastforce
  have m: "moves (core ce) (session c) s"
    using process_message_moves [of ce "session c" m] assms p by (simp add: in_order_def)
  have new: "authorised_in (past @ [(ce, r)]) \<longleftrightarrow> authorised_in past \<or> is_authorized (core ce) = ACCEPTED"
    "insulated_in (past @ [(ce, r)]) \<longleftrightarrow> insulated_in past \<or> isolation_ok (core ce)"
    by (auto simp: authorised_in_def insulated_in_def)
  have past: "?k \<in> set after_auth \<longrightarrow> authorised_in past" "?k \<in> set after_isolation \<longrightarrow> insulated_in past"
    "charged (session c) \<longrightarrow> authorised_in past \<and> insulated_in past"
    using assms(1,2) by (simp_all add: in_order_def)
  have loop: "?k \<in> {PreCharge, CurrentDemand} \<longrightarrow> ?k \<in> set after_auth \<and> ?k \<in> set after_isolation"
    by (auto simp: after_auth_def after_isolation_def)
  have "charged s \<longrightarrow> charged (session c) \<or> ?k \<in> {PreCharge, CurrentDemand}"
    using m by (simp add: moves_def)
  then have ch: "charged s \<Longrightarrow> authorised_in past \<and> insulated_in past"
    using past loop by blast
  have ch1: "charged (session c1) = charged s" using send_response_charged [OF q] by simp
  note frame = send_response_frame [OF q]
  show ?thesis
  proof (cases "e = None \<and> e1 = None \<and> next_state (current_state s) \<notin> {Some Terminate, Some Pause}")
    case True
    let ?c = "c1\<lparr>timeout := next_msg_timeout (current_state (session c1)),
      session := go_to_next_state (session c1)\<rparr>"
    have c: "rcv_step ce r c = ?c"
      using True Data p q frame by (auto simp: rcv_step_def Let_def)
    have next_sess: "kind (current_state (session ?c)) = arrives s"
      "next_state (current_state (session ?c)) = None" "charged (session ?c) = charged s"
      using go_to_next_state_simps [of "session c1"] True frame ch1
      by (simp_all add: arrives_def cong: option.case_cong)
    have mv: "arrives s \<in> set (SupportedAppProtocol # din_states)"
      "arrives s \<in> set after_auth \<longrightarrow> ?k \<in> set after_auth \<or> is_authorized (core ce) = ACCEPTED"
      "arrives s \<in> set after_isolation \<longrightarrow> ?k \<in> set after_isolation \<or> isolation_ok (core ce)"
      using m True by (simp_all add: moves_def)
    show ?thesis
      unfolding c by (rule in_orderI [OF _ next_sess(2,1) mv(1)]) (use next_sess(3) ch new mv past in blast)+
  next
    case False
    then have "ended (rcv_step ce r c) \<and> charged (session (rcv_step ce r c)) = charged s"
      using Data p q frame ch1
      by (auto simp: rcv_step_def Let_def split: option.splits)
    then show ?thesis using ch new by (auto simp: in_order_def)
  qed
qed (use assms(1) in \<open>auto simp: rcv_step_def Let_def intro!: in_order_ended [where c = c]\<close>)

lemma rcv_loop_in_order:
  assumes "in_order past c" "\<forall>(ce, r) \<in> set reads. set (supported_protocols (core ce)) \<subseteq> {DIN_SPEC_70121}"
  shows "in_order (past @ reads) (rcv_loop reads c)"
  using assms
proof (induction reads arbitrary: past c)
  case (Cons x reads)
  obtain ce r where x: "x = (ce, r)" by fastforce
  show ?case
  proof (cases "ended c")
    case True
    then show ?thesis using Cons.prems x in_order_ended [of c c past "x # reads"] by simp
  next
    case False
    then have "in_order (past @ [x]) (rcv_step ce r c)"
      using rcv_step_in_order [OF Cons.prems(1) False] Cons.prems(2) x by simp
    then show ?thesis
      using Cons.IH [of "past @ [x]" "rcv_step ce r c"] Cons.prems(2) False x by simp
  qed
qed simp

text \<open>
  C1: no energy before authorisation and insulation test. Over any sequence of TCP reads from the
  start of a session of a charger that speaks DIN SPEC 70121, with arbitrary messages and arbitrary
  answers of codec and hardware at each of them: if the charger has been given a charging command
  (for pre-charge or for charging), then at some of the reads the vehicle was reported authorised,
  and at some of them the insulation test reported a valid or warning level.
\<close>

theorem no_charging_before_checks:
  assumes "\<forall>(ce, r) \<in> set reads. set (supported_protocols (core ce)) \<subseteq> {DIN_SPEC_70121}"
    and "SendChargingCommand v i pre \<in> set (calls (session (rcv_loop reads new_comm)))"
  shows "(\<exists>(ce, r) \<in> set reads. is_authorized (core ce) = ACCEPTED) \<and>
    (\<exists>(ce, r) \<in> set reads. cable_check_status (core ce) \<in> {Some VALID, Some WARNING})"
proof -
  have "in_order [] new_comm"
    by (simp add: in_order_def new_comm_def charged_def after_auth_def after_isolation_def)
  then have "in_order reads (rcv_loop reads new_comm)"
    using rcv_loop_in_order [OF _ assms(1), of "[]"] by simp
  moreover have "charged (session (rcv_loop reads new_comm))"
    using assms(2) bexI [of is_charging_command "SendChargingCommand v i pre"]
    by (simp add: charged_def list_ex_iff)
  ultimately show ?thesis
    by (simp add: in_order_def authorised_in_def insulated_in_def isolation_ok_def)
qed

text \<open>A session up to pre-charge, one message per read.\<close>

definition example_header :: din_header where
  "example_header = \<lparr>header_session_id = ''0123456789ABCDEF'', notification = None\<rparr>"

definition example_status :: dc_ev_status where
  "example_status = \<lparr>ev_ready = True, ev_cabin_conditioning = None, ev_ress_conditioning = None,
     ev_error_code = NO_ERROR, ev_ress_soc = 50\<rparr>"

definition example_read :: "v2g_message \<Rightarrow> comm_env \<times> read" where
  "example_read m =
     (\<lparr>core = example_env, from_exi = (\<lambda>_ _. Inr m), iso_process = (\<lambda>_ _ _ _ s. done_with s),
       error_text = (\<lambda>_ _. []), timeout_text = (\<lambda>_. [])\<rparr>,
      Data (header_of EXI_ENCODED 2 @ [0x80, 0x9A]))"

definition example_reads :: "(comm_env \<times> read) list" where
  "example_reads = map example_read
     (SAPReq [\<lparr>protocol_ns = ns DIN_SPEC_70121, major_version = 2, minor_version = 0, schema_id = 1, priority = 1\<rparr>] #
      DinMessage \<lparr>header_session_id = ''00'', notification = None\<rparr> (Some (SessionSetupReq ''AB'')) #
      map (DinMessage example_header \<circ> Some)
        [ServiceDiscoveryReq None None, ServicePaymentSelectionReq EIM_V2 [(1, None)],
         ContractAuthenticationReq None None,
         ChargeParameterDiscoveryReq DC_EXTENDED
           \<lparr>cp_dc_ev_status = example_status, ev_maximum_current_limit = pv 100 AMPERE,
            ev_maximum_power_limit = None, ev_maximum_voltage_limit = pv 400 VOLTAGE,
            ev_energy_capacity = None, ev_energy_request = None, full_soc = None, cp_bulk_soc = None\<rparr>,
         CableCheckReq example_status, CableCheckReq example_status,
         PreChargeReq example_status (pv 400 VOLTAGE) (pv 1 AMPERE)])"

lemma example_run:
  "SendChargingCommand 400 1 True \<in> set (calls (session (rcv_loop example_reads new_comm)))"
  by code_simp

theorem no_charging_before_checks_witness:
  "(\<exists>(ce, r) \<in> set example_reads. is_authorized (core ce) = ACCEPTED) \<and>
   (\<exists>(ce, r) \<in> set example_reads. cable_check_status (core ce) \<in> {Some VALID, Some WARNING})"
proof -
  have "\<forall>(ce, r) \<in> set example_reads. set (supported_protocols (core ce)) \<subseteq> {DIN_SPEC_70121}"
    by (simp add: example_reads_def example_read_def example_env_def)
  then show ?thesis
    using no_charging_before_checks [OF _ example_run] by blast
qed

end
