(* ===== verification/V2_Properties.thy ===== *)
theory V2_Properties
  imports V2_States
begin

text \<open>
  What the ISO 15118-2 state machine of the charger guarantees: which commands the charger can be given
  and when, how authorisation and its failures are answered, and that every request is answered.
\<close>

section \<open>What a handler leads to\<close>

text \<open>
  A handler leads to \<open>P\<close> under \<open>Q\<close> if the commands given so far satisfy \<open>Q\<close> in any case, and the
  session, if it goes on, satisfies \<open>P\<close> in the state it goes on with.
\<close>

definition leads :: "(evse_call list \<Rightarrow> bool) \<Rightarrow> (secc \<Rightarrow> bool) \<Rightarrow> secc outcome \<Rightarrow> bool" where
  "leads Q P r \<longleftrightarrow> Q (calls (fst r)) \<and>
     (snd r = None \<longrightarrow> next_state (current_state (fst r)) \<notin> {Some Terminate, Some Pause} \<longrightarrow>
        P (go_to_next_state (fst r)))"

text \<open>What a created message changes.\<close>

definition messaged :: "state_kind option \<Rightarrow> secc \<Rightarrow> secc \<Rightarrow> bool" where
  "messaged nxt s s' \<longleftrightarrow>
     (\<exists>t sm v. s' = update_state (\<lambda>x. x\<lparr>next_state := nxt, next_msg_timeout := t, state_message := sm,
        next_v2gtp_msg := v\<rparr>) s)"

lemma wrap_message_state:
  "\<exists>v. wrap_message p t s = update_state (\<lambda>x. x\<lparr>next_v2gtp_msg := v\<rparr>) s"
proof (cases "V2GTPMessage (session_protocol s) t p")
  case (Inl e)
  then show ?thesis
    by (intro exI [of _ "next_v2gtp_msg (current_state s)"]) (simp add: wrap_message_def update_state_def)
qed (auto simp: wrap_message_def)

lemma create_next_message_messaged:
  assumes "create_next_message env nxt m t n p s = (s', None)"
  shows "messaged nxt s s'"
proof -
  obtain sm q where s': "s' = wrap_message q p (update_state (\<lambda>x. x\<lparr>next_state := nxt, next_msg_timeout := t,
      state_message := sm\<rparr>) s)"
    using assms
    by (auto simp: create_next_message_def Let_def raises_def done_with_def
        split: sum.splits v2g_message.splits if_splits)
  obtain v where "s' = update_state (\<lambda>x. x\<lparr>next_v2gtp_msg := v\<rparr>) (update_state (\<lambda>x. x\<lparr>next_state := nxt,
      next_msg_timeout := t, state_message := sm\<rparr>) s)"
    using wrap_message_state s' by metis
  then show ?thesis unfolding messaged_def by auto
qed

lemma create_next_message_calls [simp]:
  fixes s :: secc
  shows "calls (fst (create_next_message env nxt m t n p s)) = calls s"
  using ends_create [of nxt s env m t n p] by (simp add: ends_def)

lemma stop_state_machine_calls [simp]: "calls (fst (stop_state_machine env r m c s)) = calls s"
  using ends_stop [of s env r m c] by (simp add: ends_def)

lemma leads_raises: "Q (calls s) \<Longrightarrow> leads Q P (raises e s)"
  by (simp add: leads_def)

lemma leads_done: "Q (calls s) \<Longrightarrow> next_state (current_state s) = None \<Longrightarrow> P s \<Longrightarrow> leads Q P (done_with s)"
  by (simp add: leads_def go_to_next_state_def)

lemma leads_stop: "Q (calls s) \<Longrightarrow> leads Q P (stop_state_machine env r m c s)"
proof -
  assume *: "Q (calls s)"
  have "snd (stop_state_machine env r m c s) = None \<Longrightarrow>
      next_state (current_state (fst (stop_state_machine env r m c s))) = Some Terminate"
  proof -
    have t: "snd (create_next_message env (Some Terminate) x 0 n p s') = None \<Longrightarrow>
        next_state (current_state (fst (create_next_message env (Some Terminate) x 0 n p s'))) = Some Terminate"
      for x n p and s' :: secc
      using create_next_message_messaged [of env "Some Terminate" x 0 n p s']
      by (cases "create_next_message env (Some Terminate) x 0 n p s'") (auto simp: messaged_def)
    show "snd (stop_state_machine env r m c s) = None \<Longrightarrow>
      next_state (current_state (fst (stop_state_machine env r m c s))) = Some Terminate"
      by (auto simp: stop_state_machine_def Let_def t split: v2g_message.splits any_code.splits option.splits if_splits)
  qed
  with * show ?thesis by (auto simp: leads_def)
qed

lemma leads_create:
  fixes s :: secc
  assumes "Q (calls s)" and "\<And>k. nxt = Some k \<Longrightarrow> k \<notin> {Terminate, Pause} \<Longrightarrow> P (enter k s)"
    and "\<And>s'. nxt = None \<Longrightarrow> messaged None s s' \<Longrightarrow> P s'"
  shows "leads Q P (create_next_message env nxt m t n p s)"
proof -
  obtain s' e where r: "create_next_message env nxt m t n p s = (s', e)" by fastforce
  have "P (go_to_next_state s')" if "e = None" "next_state (current_state s') \<notin> {Some Terminate, Some Pause}"
  proof -
    have ms: "messaged nxt s s'" using create_next_message_messaged r that by metis
    then have n: "next_state (current_state s') = nxt" by (auto simp: messaged_def)
    show ?thesis
    proof (cases nxt)
      case None
      then show ?thesis using assms(3) ms n by (simp add: go_to_next_state_def)
    next
      case (Some k)
      then have "go_to_next_state s' = enter k s"
        using ms n by (auto simp: messaged_def go_to_next_state_def enter_def update_state_def)
      then show ?thesis using assms(2) Some that(2) n by auto
    qed
  qed
  then show ?thesis using assms(1) r create_next_message_calls [of env nxt m t n p s] by (auto simp: leads_def)
qed

lemma leads_next_v2:
  assumes "Q (calls s)" and "\<And>k. nxt = Some k \<Longrightarrow> k \<notin> {Terminate, Pause} \<Longrightarrow> P (enter k s)"
    and "\<And>s'. nxt = None \<Longrightarrow> messaged None s s' \<Longrightarrow> P s'"
  shows "leads Q P (next_v2 env nxt b sig s)"
  unfolding next_v2_def using assms by (rule leads_create)

lemma leads_then_expect:
  assumes "Q (calls s)" and "\<And>k. nxt = Some k \<Longrightarrow> k \<notin> {Terminate, Pause} \<Longrightarrow> P (enter k s)"
    and "\<And>s'. nxt = None \<Longrightarrow> messaged None s s' \<Longrightarrow> P (expecting False s')"
  shows "leads Q P (then_expect_others (next_v2 env nxt b sig s))"
proof -
  obtain s' e where r: "next_v2 env nxt b sig s = (s', e)" by fastforce
  have l: "leads Q (\<lambda>s''. nxt = None \<longrightarrow> P (expecting False s'')) (next_v2 env nxt b sig s)"
    using assms(1,3) by (intro leads_next_v2) auto
  have l2: "leads Q (\<lambda>s''. nxt \<noteq> None \<longrightarrow> P s'') (next_v2 env nxt b sig s)"
    using assms(1,2) by (intro leads_next_v2) auto
  show ?thesis
  proof (cases e)
    case None
    then have "messaged nxt s s'" using create_next_message_messaged r unfolding next_v2_def by metis
    then have n: "next_state (current_state s') = nxt" by (auto simp: messaged_def)
    have "then_expect_others (s', None) = done_with (expecting False s')"
      by (simp add: then_expect_others_def andthen_def)
    then show ?thesis
      using l l2 r n None
      by (cases nxt) (auto simp: leads_def go_to_next_state_def expecting_def enter_def update_state_def)
  next
    case (Some x)
    then show ?thesis using l r by (simp add: leads_def then_expect_others_def andthen_def)
  qed
qed

lemma leads_construct:
  "Q (calls s) \<Longrightarrow> (message_ok b \<Longrightarrow> leads Q P (k b s)) \<Longrightarrow> leads Q P (construct b k s)"
  by (simp add: construct_def leads_raises)

text \<open>A check ends the session, or hands a message of an expected class over to what follows it.\<close>

lemma check_msg_v2_cases:
  obtains r x where "check_msg_v2 env es first m c s = stop_state_machine env r m x s"
  | h b where "m = V2Message h (Some b)" "v2_body_type b \<in> set (if first then take 1 es else es)"
    "\<not> session_mismatch m s" "check_msg_v2 env es first m c s = c s"
proof (cases "in_family V2Family m \<and> match_types first 0 (message_type m) (map V2T es) = Some True \<and>
    \<not> session_mismatch m s")
  case True
  have matched: "match_types f n t l = Some True \<Longrightarrow> \<exists>x \<in> set l. t = Some x" for f n t l
    by (induction l arbitrary: n) (auto split: if_splits)
  have "\<exists>h b. m = V2Message h (Some b) \<and> v2_body_type b \<in> set (if first then take 1 es else es)"
    using True matched [of first 0 "message_type m" "map V2T es"]
    by (cases m; cases es) (auto split: if_splits)
  then show thesis using True that(2) by (auto simp: check_msg_v2_def check_msg_def)
next
  case False
  then have "\<exists>r x. check_msg_v2 env es first m c s = stop_state_machine env r m x s"
    unfolding check_msg_v2_def check_msg_def by (simp split: if_split) blast
  then show thesis using that(1) by blast
qed

lemma leads_check:
  assumes "Q (calls s)"
    and "\<And>h b. m = V2Message h (Some b) \<Longrightarrow> v2_body_type b \<in> set (if first then take 1 es else es) \<Longrightarrow>
      \<not> session_mismatch m s \<Longrightarrow> leads Q P (c s)"
  shows "leads Q P (check_msg_v2 env es first m c s)"
  by (rule check_msg_v2_cases [of env es first m c s]) (use assms leads_stop in auto)

section \<open>When energy may flow\<close>

text \<open>
  The invariant of the state machine between two messages, for what has been reported so far: \<open>A\<close> that
  the vehicle is authorised, \<open>R\<close> that the station is ready to charge, \<open>I\<close> that the insulation test
  passed or a metering receipt arrived.
\<close>

definition v2_after_auth :: "state_kind list" where
  "v2_after_auth = [ChargeParameterDiscoveryV2, PowerDeliveryV2, MeteringReceiptV2, SessionStopV2, ChargingStatusV2,
     CableCheckV2, PreChargeV2, CurrentDemandV2, WeldingDetectionV2]"

definition obj_inv :: "bool \<Rightarrow> bool \<Rightarrow> bool \<Rightarrow> bool \<Rightarrow> state_obj \<Rightarrow> bool" where
  "obj_inv A R I ac x \<longleftrightarrow> next_state x = None \<and> kind x \<in> set v2_states \<and>
     (authorization_complete x \<longrightarrow> A) \<and> (kind x \<in> set v2_after_auth \<longrightarrow> A \<and> R) \<and>
     (kind x = ChargeParameterDiscoveryV2 \<longrightarrow> expect_first x) \<and>
     (kind x \<in> {PreChargeV2, CurrentDemandV2, MeteringReceiptV2} \<longrightarrow> I) \<and>
     (kind x \<in> {PowerDeliveryV2, ChargingStatusV2} \<longrightarrow> I \<or> ac)"

definition v2_inv :: "bool \<Rightarrow> bool \<Rightarrow> bool \<Rightarrow> secc \<Rightarrow> bool" where
  "v2_inv A R I s \<longleftrightarrow> obj_inv A R I (selected_charging_type_is_ac s) (current_state s)"

text \<open>
  The commands that let energy flow: closing the contactor of the control pilot and charging. The
  current of a pre-charge is bounded.
\<close>

fun gentle :: "evse_call \<Rightarrow> bool" where
  "gentle (SendChargingCommand v i pre) = (pre \<longrightarrow> i \<le> 2)"
| "gentle _ = True"

definition commands_ok :: "bool \<Rightarrow> bool \<Rightarrow> bool \<Rightarrow> evse_call list \<Rightarrow> bool" where
  "commands_ok A R I cs \<longleftrightarrow> (SetHlcCharging True \<in> set cs \<longrightarrow> A \<and> R) \<and>
     (list_ex is_charging_command cs \<longrightarrow> A \<and> R \<and> I) \<and> list_all gentle cs"

abbreviation "keeps A R I r \<equiv> leads (commands_ok A R I) (v2_inv A R I) r"

text \<open>What the message and the environment of a step add to what has been reported.\<close>

definition reported :: "env \<Rightarrow> v2g_message \<Rightarrow> bool \<Rightarrow> bool \<Rightarrow> bool \<Rightarrow> bool" where
  "reported env m A R I \<longleftrightarrow> (is_authorized env = ACCEPTED \<longrightarrow> A) \<and> (is_ready_to_charge (iso2_env env) \<longrightarrow> R) \<and>
     (isolation_ok env \<longrightarrow> I) \<and> (\<forall>h b. m = V2Message h (Some b) \<longrightarrow> message_ok b) \<and>
     (\<forall>h i sid t info. m = V2Message h (Some (MeteringReceiptReqV2 i sid t info)) \<longrightarrow> I)"

lemma commands_ok_simps [simp]:
  "commands_ok A R I []"
  "commands_ok A R I (c # cs) \<longleftrightarrow> (c = SetHlcCharging True \<longrightarrow> A \<and> R) \<and>
     (is_charging_command c \<longrightarrow> A \<and> R \<and> I) \<and> gentle c \<and> commands_ok A R I cs"
  "commands_ok A R I (cs @ ds) \<longleftrightarrow> commands_ok A R I cs \<and> commands_ok A R I ds"
  by (auto simp: commands_ok_def)

lemma obj_inv_new [simp]:
  "obj_inv A R I ac (new_state k) \<longleftrightarrow> k \<in> set v2_states \<and> (k \<in> set v2_after_auth \<longrightarrow> A \<and> R) \<and>
     (k \<in> {PreChargeV2, CurrentDemandV2, MeteringReceiptV2} \<longrightarrow> I) \<and>
     (k \<in> {PowerDeliveryV2, ChargingStatusV2} \<longrightarrow> I \<or> ac)"
  by (simp add: obj_inv_def new_state_def)

text \<open>The parts of a state object the invariant does not look at, or not in this state.\<close>

lemma obj_inv_update [simp]:
  "obj_inv A R I ac (x\<lparr>state_message := a\<rparr>) = obj_inv A R I ac x"
  "obj_inv A R I ac (x\<lparr>next_v2gtp_msg := b\<rparr>) = obj_inv A R I ac x"
  "obj_inv A R I ac (x\<lparr>next_msg_timeout := c\<rparr>) = obj_inv A R I ac x"
  "obj_inv A R I ac (x\<lparr>contactors_closed := d\<rparr>) = obj_inv A R I ac x"
  "obj_inv A R I ac (x\<lparr>cable_check_started := d\<rparr>) = obj_inv A R I ac x"
  "obj_inv A R I ac (x\<lparr>signature_verified_once := d\<rparr>) = obj_inv A R I ac x"
  "obj_inv A R I ac (x\<lparr>next_state := None, next_msg_timeout := c, state_message := a, next_v2gtp_msg := b\<rparr>) =
     obj_inv A R I ac (x\<lparr>next_state := None\<rparr>)"
  by (simp_all add: obj_inv_def)

lemma obj_inv_next: "obj_inv A R I ac x \<Longrightarrow> obj_inv A R I ac (x\<lparr>next_state := None\<rparr>)"
  by (simp add: obj_inv_def)

lemma obj_inv_expect:
  "kind x \<noteq> ChargeParameterDiscoveryV2 \<or> e \<Longrightarrow> obj_inv A R I ac x \<Longrightarrow> obj_inv A R I ac (x\<lparr>expect_first := e\<rparr>)"
  by (auto simp: obj_inv_def)

lemma obj_inv_complete: "A \<Longrightarrow> obj_inv A R I ac x \<Longrightarrow> obj_inv A R I ac (x\<lparr>authorization_complete := True\<rparr>)"
  by (simp add: obj_inv_def)

lemma obj_inv_ac:
  "kind x \<notin> {PowerDeliveryV2, ChargingStatusV2} \<Longrightarrow> obj_inv A R I ac x \<Longrightarrow> obj_inv A R I ac' x"
  by (simp add: obj_inv_def)

lemma v2_inv_messaged: "v2_inv A R I s \<Longrightarrow> messaged None s s' \<Longrightarrow> v2_inv A R I s'"
  by (auto simp: v2_inv_def messaged_def update_state_def intro: obj_inv_next)

lemma v2_inv_expecting:
  "v2_inv A R I s \<Longrightarrow> kind (current_state s) \<noteq> ChargeParameterDiscoveryV2 \<Longrightarrow> v2_inv A R I (expecting False s)"
  by (simp add: v2_inv_def expecting_def update_state_def obj_inv_expect)

lemma messaged_kind: "messaged nxt s s' \<Longrightarrow> kind (current_state s') = kind (current_state s)"
  by (auto simp: messaged_def)

text \<open>The ends of a handler keep the invariant.\<close>

definition ends_well :: "bool \<Rightarrow> bool \<Rightarrow> bool \<Rightarrow> state_kind option \<Rightarrow> secc \<Rightarrow> bool" where
  "ends_well A R I nxt s \<longleftrightarrow> commands_ok A R I (calls s) \<and>
     (case nxt of None \<Rightarrow> v2_inv A R I s | Some k \<Rightarrow> k \<in> {Terminate, Pause} \<or> v2_inv A R I (enter k s))"

lemma keeps_create: "ends_well A R I nxt s \<Longrightarrow> keeps A R I (create_next_message env nxt m t n p s)"
  by (rule leads_create) (auto simp: ends_well_def intro: v2_inv_messaged)

lemma keeps_next: "ends_well A R I nxt s \<Longrightarrow> keeps A R I (next_v2 env nxt b sig s)"
  by (rule leads_next_v2) (auto simp: ends_well_def intro: v2_inv_messaged)

lemma keeps_then_expect:
  "ends_well A R I nxt s \<Longrightarrow> kind (current_state s) \<noteq> ChargeParameterDiscoveryV2 \<Longrightarrow>
     keeps A R I (then_expect_others (next_v2 env nxt b sig s))"
  by (rule leads_then_expect)
    (auto simp: ends_well_def messaged_kind intro!: v2_inv_expecting intro: v2_inv_messaged)

lemmas keeps_intros = keeps_create keeps_next keeps_then_expect leads_stop leads_raises leads_construct

lemma v2_inv_simps [simp]:
  "v2_inv A R I (enter k s) \<longleftrightarrow> obj_inv A R I (selected_charging_type_is_ac s) (new_state k)"
  "ends_well A R I None s \<longleftrightarrow> commands_ok A R I (calls s) \<and> v2_inv A R I s"
  "ends_well A R I (Some k) s \<longleftrightarrow> commands_ok A R I (calls s) \<and>
     (k \<in> {Terminate, Pause} \<or> obj_inv A R I (selected_charging_type_is_ac s) (new_state k))"
  by (simp_all add: v2_inv_def ends_well_def enter_def)

lemma set_v2_simps [simp]:
  "calls (set_v2 f s) = calls s" "current_state (set_v2 f s) = current_state s" "iso2 (set_v2 f s) = f (iso2 s)"
  "selected_charging_type_is_ac (set_v2 f s) = selected_charging_type_is_ac s"
  "ev_data (set_v2 f s) = ev_data s" "selected_auth_option (set_v2 f s) = selected_auth_option s"
  by (simp_all add: set_v2_def)

lemma enter_simps [simp]:
  fixes s :: secc
  shows "calls (enter k s) = calls s" "iso2 (enter k s) = iso2 s" "ev_data (enter k s) = ev_data s"
    "selected_charging_type_is_ac (enter k s) = selected_charging_type_is_ac s"
    "selected_auth_option (enter k s) = selected_auth_option s"
  by (simp_all add: enter_def)

lemma update_state_simps [simp]:
  fixes s :: secc
  shows "calls (update_state f s) = calls s" "iso2 (update_state f s) = iso2 s" "ev_data (update_state f s) = ev_data s"
    "selected_charging_type_is_ac (update_state f s) = selected_charging_type_is_ac s"
    "selected_auth_option (update_state f s) = selected_auth_option s"
  by (simp_all add: update_state_def)

lemma call_simps [simp]:
  "calls (call c s) = calls s @ [c]" "current_state (call c s) = current_state s" "iso2 (call c s) = iso2 s"
  "selected_charging_type_is_ac (call c s) = selected_charging_type_is_ac s" "ev_data (call c s) = ev_data s"
  by (simp_all add: call_def)

lemmas inv_defs = v2_inv_def v2_states_def v2_after_auth_def

text \<open>What a handler is given.\<close>

definition given :: "env \<Rightarrow> v2g_message \<Rightarrow> bool \<Rightarrow> bool \<Rightarrow> bool \<Rightarrow> state_kind \<Rightarrow> secc \<Rightarrow> bool" where
  "given env m A R I k s \<longleftrightarrow> reported env m A R I \<and> v2_inv A R I s \<and> commands_ok A R I (calls s) \<and>
     kind (current_state s) = k"

lemma keeps_check:
  assumes "given env m A R I k s"
    and "\<And>h b. m = V2Message h (Some b) \<Longrightarrow> v2_body_type b \<in> set (if first then take 1 es else es) \<Longrightarrow>
      keeps A R I (c s)"
  shows "keeps A R I (check_msg_v2 env es first m c s)"
  using assms by (intro leads_check) (auto simp: given_def)

text \<open>The body of a request is known from its class.\<close>

lemma v2_type_eqs [simp]:
  "v2_body_type b = SessionSetupT \<longleftrightarrow> (\<exists>x. b = SessionSetupReqV2 x)"
  "v2_body_type b = ServiceDiscoveryT \<longleftrightarrow> (\<exists>x y. b = ServiceDiscoveryReqV2 x y)"
  "v2_body_type b = ServiceDetailT \<longleftrightarrow> (\<exists>x. b = ServiceDetailReqV2 x)"
  "v2_body_type b = PaymentServiceSelectionT \<longleftrightarrow> (\<exists>x y. b = PaymentServiceSelectionReqV2 x y)"
  "v2_body_type b = CertificateInstallationT \<longleftrightarrow> (\<exists>x y z. b = CertificateInstallationReqV2 x y z)"
  "v2_body_type b = PaymentDetailsT \<longleftrightarrow> (\<exists>x y. b = PaymentDetailsReqV2 x y)"
  "v2_body_type b = AuthorizationT \<longleftrightarrow> (\<exists>x y. b = AuthorizationReqV2 x y)"
  "v2_body_type b = ChargeParameterDiscoveryT \<longleftrightarrow> (\<exists>x y z w. b = ChargeParameterDiscoveryReqV2 x y z w)"
  "v2_body_type b = PowerDeliveryT \<longleftrightarrow> (\<exists>x y z w. b = PowerDeliveryReqV2 x y z w)"
  "v2_body_type b = ChargingStatusT \<longleftrightarrow> b = ChargingStatusReqV2"
  "v2_body_type b = CurrentDemandT \<longleftrightarrow> (\<exists>x. b = CurrentDemandReqV2 x)"
  "v2_body_type b = MeteringReceiptT \<longleftrightarrow> (\<exists>x y z w. b = MeteringReceiptReqV2 x y z w)"
  "v2_body_type b = CableCheckT \<longleftrightarrow> (\<exists>x. b = CableCheckReqV2 x)"
  "v2_body_type b = PreChargeT \<longleftrightarrow> (\<exists>x y z. b = PreChargeReqV2 x y z)"
  "v2_body_type b = WeldingDetectionT \<longleftrightarrow> (\<exists>x. b = WeldingDetectionReqV2 x)"
  "v2_body_type b = SessionStopT \<longleftrightarrow> (\<exists>x. b = SessionStopReqV2 x)"
  by (cases b; simp)+

lemma v2_body_of_message [simp]: "v2_body_of (V2Message h b) = b"
  by (simp add: v2_body_of_def)

lemma SessionSetupV2_keeps:
  assumes "given env m A R I SessionSetupV2 s"
  shows "keeps A R I (SessionSetupV2_process env m s)"
  unfolding SessionSetupV2_process_def
  by (rule keeps_check [OF assms])
    (use assms in \<open>auto simp: given_def inv_defs split: sum.splits intro!: keeps_intros\<close>)

lemma given_enter:
  "given env m A R I k s \<Longrightarrow> obj_inv A R I (selected_charging_type_is_ac s) (new_state k') \<Longrightarrow>
     given env m A R I k' (enter k' s)"
  by (simp add: given_def new_state_def)

lemma givenD:
  assumes "given env m A R I k s"
  shows "commands_ok A R I (calls s)" "k \<in> set v2_after_auth \<Longrightarrow> A" "k \<in> set v2_after_auth \<Longrightarrow> R"
    "k \<in> {PreChargeV2, CurrentDemandV2, MeteringReceiptV2} \<Longrightarrow> I"
    "k \<in> {PowerDeliveryV2, ChargingStatusV2} \<Longrightarrow> I \<or> selected_charging_type_is_ac s"
    "kind (current_state s) = k" "v2_inv A R I s" "reported env m A R I"
    "k = ChargeParameterDiscoveryV2 \<Longrightarrow> expect_first (current_state s)"
    "authorization_complete (current_state s) \<Longrightarrow> A"
  using assms unfolding given_def v2_inv_def obj_inv_def by blast+

lemma SessionStopV2_keeps:
  assumes "given env m A R I SessionStopV2 s"
  shows "keeps A R I (SessionStopV2_process env m s)"
  unfolding SessionStopV2_process_def
  by (rule keeps_check [OF assms])
    (use assms in \<open>auto simp: given_def inv_defs Let_def intro!: keeps_intros\<close>)

lemma WeldingDetectionV2_keeps:
  assumes "given env m A R I WeldingDetectionV2 s"
  shows "keeps A R I (WeldingDetectionV2_process env m s)"
proof -
  have "obj_inv A R I (selected_charging_type_is_ac s) (new_state SessionStopV2)"
    using assms by (simp add: given_def inv_defs obj_inv_def)
  note stop = SessionStopV2_keeps [OF given_enter [OF assms this]]
  show ?thesis
    unfolding WeldingDetectionV2_process_def
    by (rule keeps_check [OF assms])
      (use assms stop in \<open>auto simp: given_def inv_defs split: if_splits intro!: keeps_intros\<close>)
qed

lemma start_charging_keeps:
  assumes "given env m A R I PowerDeliveryV2 s"
  shows "keeps A R I (start_charging env m t (\<lambda>nxt s. then_expect_others (next_v2 env nxt (b s) None s)) s)"
  using givenD [OF assms] unfolding start_charging_def
  by (auto simp: v2_states_def v2_after_auth_def Let_def v2_inv_def intro!: keeps_intros)

lemma stop_charging_keeps:
  assumes "given env m A R I PowerDeliveryV2 s"
  shows "keeps A R I (stop_charging env m (\<lambda>nxt s. then_expect_others (next_v2 env nxt (b s) None s)) s)"
  using givenD [OF assms] unfolding stop_charging_def
  by (auto simp: v2_states_def v2_after_auth_def Let_def v2_inv_def intro!: keeps_intros)

lemma renegotiate_keeps:
  assumes "given env m A R I PowerDeliveryV2 s"
  shows "keeps A R I (renegotiate env m (\<lambda>nxt s. then_expect_others (next_v2 env nxt (b s) None s)) s)"
  using givenD [OF assms] unfolding renegotiate_def
  by (auto simp: v2_states_def v2_after_auth_def Let_def v2_inv_def intro!: keeps_intros)

lemma given_ev_data: "given env m A R I k (s\<lparr>ev_data := d\<rparr>) \<longleftrightarrow> given env m A R I k s"
  by (simp add: given_def v2_inv_def)

lemma PowerDeliveryV2_keeps:
  assumes "given env m A R I PowerDeliveryV2 s"
  shows "keeps A R I (PowerDeliveryV2_process env m s)"
proof -
  have "obj_inv A R I (selected_charging_type_is_ac s) (new_state SessionStopV2)"
    "obj_inv A R I (selected_charging_type_is_ac s) (new_state WeldingDetectionV2)"
    using assms by (simp_all add: given_def inv_defs obj_inv_def)
  note stop = SessionStopV2_keeps [OF given_enter [OF assms this(1)]]
    and welding = WeldingDetectionV2_keeps [OF given_enter [OF assms this(2)]]
  have calls: "commands_ok A R I (calls s)" using assms by (simp add: given_def)
  show ?thesis
    unfolding PowerDeliveryV2_process_def
    by (rule keeps_check [OF assms])
      (use assms stop welding calls in \<open>auto simp: given_ev_data Let_def
        split: if_splits option.splits sum.splits bool.splits charge_progress.splits
        intro!: leads_stop leads_raises start_charging_keeps stop_charging_keeps renegotiate_keeps\<close>)
qed

section \<open>Energy: the states of direct and alternating current\<close>

lemmas state_lists = v2_states_def v2_after_auth_def

lemma CableCheckV2_keeps:
  assumes "given env m A R I CableCheckV2 s"
  shows "keeps A R I (CableCheckV2_process env m s)"
proof -
  have "A" "R" using givenD(2,3) [OF assms] by (simp_all add: v2_after_auth_def)
  moreover have "cable_check_status env \<in> {Some VALID, Some WARNING} \<Longrightarrow> I"
    using givenD(8) [OF assms] by (simp add: reported_def isolation_ok_def)
  ultimately show ?thesis
    unfolding CableCheckV2_process_def
    by (intro keeps_check [OF assms])
      (use givenD(1,7) [OF assms] in \<open>auto simp: state_lists v2_inv_def Let_def
        split: option.splits bool.splits intro!: keeps_intros\<close>)
qed

lemma power_delivery_keeps:
  assumes "given env m A R I k s" "k \<in> set v2_after_auth" "I \<or> selected_charging_type_is_ac s"
  shows "keeps A R I (PowerDeliveryV2_process env m (enter PowerDeliveryV2 s))"
  using givenD(2,3) [OF assms(1,2)] assms(3)
  by (intro PowerDeliveryV2_keeps given_enter [OF assms(1)]) (simp add: state_lists)

lemma PreChargeV2_keeps:
  assumes "given env m A R I PreChargeV2 s"
  shows "keeps A R I (PreChargeV2_process env m s)"
  unfolding PreChargeV2_process_def
  by (rule keeps_check [OF assms])
    (use givenD [OF assms] power_delivery_keeps [OF assms] in \<open>auto simp: state_lists v2_inv_def Let_def
      split: if_splits sum.splits intro!: keeps_intros\<close>)

lemma CurrentDemandV2_keeps:
  assumes "given env m A R I CurrentDemandV2 s"
  shows "keeps A R I (CurrentDemandV2_process env m s)"
  unfolding CurrentDemandV2_process_def
  by (rule keeps_check [OF assms])
    (use givenD [OF assms] power_delivery_keeps [OF assms] in \<open>auto simp: state_lists v2_inv_def Let_def
      split: if_splits sum.splits intro!: keeps_intros\<close>)

lemma done_keeps: "given env m A R I k s \<Longrightarrow> keeps A R I (done_with s)"
  by (rule leads_done) (auto simp: given_def v2_inv_def obj_inv_def)

lemma ChargingStatusV2_handler_keeps:
  assumes "given env m A R I ChargingStatusV2 s"
    and "\<And>s. given env m A R I MeteringReceiptV2 s \<Longrightarrow> keeps A R I (metering s)"
  shows "keeps A R I (ChargingStatusV2_handler metering env m s)"
proof -
  have "keeps A R I (metering (enter MeteringReceiptV2 s))" if "I"
    using that givenD [OF assms(1)] by (intro assms(2) given_enter [OF assms(1)]) (simp add: state_lists)
  moreover have "I" if "m = V2Message h (Some (MeteringReceiptReqV2 i sid t info))" for h i sid t info
    using that givenD(8) [OF assms(1)] unfolding reported_def by blast
  ultimately show ?thesis
    unfolding ChargingStatusV2_handler_def
    by (intro keeps_check [OF assms(1)])
      (use givenD [OF assms(1)] power_delivery_keeps [OF assms(1)] in
        \<open>auto simp: state_lists v2_inv_def split: if_splits intro!: keeps_intros\<close>)
qed

lemma MeteringReceiptV2_handler_keeps:
  assumes "given env m A R I MeteringReceiptV2 s"
    and "\<And>s. given env m A R I ChargingStatusV2 s \<Longrightarrow> keeps A R I (status s)"
  shows "keeps A R I (MeteringReceiptV2_handler status env m s)"
proof -
  have status: "keeps A R I (status (enter ChargingStatusV2 s))"
    using givenD [OF assms(1)] by (intro assms(2) given_enter [OF assms(1)]) (simp add: state_lists)
  have current: "keeps A R I (CurrentDemandV2_process env m (enter CurrentDemandV2 s))"
    using givenD [OF assms(1)] by (intro CurrentDemandV2_keeps given_enter [OF assms(1)]) (simp add: state_lists)
  show ?thesis
    unfolding MeteringReceiptV2_handler_def
    by (intro keeps_check [OF assms(1)])
      (use givenD [OF assms(1)] power_delivery_keeps [OF assms(1)] status current in
        \<open>auto simp: state_lists split: if_splits sum.splits option.splits intro!: keeps_intros\<close>)
qed

lemma ChargingStatusV2_keeps:
  assumes "given env m A R I ChargingStatusV2 s"
  shows "keeps A R I (ChargingStatusV2_process env m s)"
  unfolding ChargingStatusV2_process_def
  by (intro ChargingStatusV2_handler_keeps [OF assms] MeteringReceiptV2_handler_keeps done_keeps)

lemma MeteringReceiptV2_keeps:
  assumes "given env m A R I MeteringReceiptV2 s"
  shows "keeps A R I (MeteringReceiptV2_process env m s)"
  unfolding MeteringReceiptV2_process_def
  by (intro MeteringReceiptV2_handler_keeps [OF assms] ChargingStatusV2_handler_keeps done_keeps)

section \<open>Energy: the states before\<close>

text \<open>The parameters of a request that was decoded fit its energy transfer mode.\<close>

lemma take_charge_parameters_done:
  assumes "message_ok (ChargeParameterDiscoveryReqV2 n mode ac dc)"
  obtains s' where "take_charge_parameters mode ac dc s = done_with s'" "current_state s' = current_state s"
    "calls s' = calls s" "iso2 s' = iso2 s" "selected_charging_type_is_ac s' \<longleftrightarrow> ac \<noteq> None"
  using assms
  by (cases ac; cases dc) (auto simp: take_charge_parameters_def Let_def charge_parameters_match_def split: if_splits)

lemma offer_schedules_keeps:
  assumes "given env m A R I ChargeParameterDiscoveryV2 s" "ac \<longrightarrow> selected_charging_type_is_ac s"
  shows "keeps A R I (offer_schedules env ac schedules s)"
  using givenD [OF assms(1)] assms(2) unfolding offer_schedules_def Let_def
  by (auto simp: state_lists v2_inv_def expecting_def obj_inv_expect split: sum.splits intro!: keeps_intros)

lemma given_calls: "given env m A R I k (call SendRatedLimits s) \<longleftrightarrow> given env m A R I k s"
  by (simp add: given_def v2_inv_def)

lemma take_charge_parameters_given:
  assumes "given env m A R I ChargeParameterDiscoveryV2 s"
    "m = V2Message h (Some (ChargeParameterDiscoveryReqV2 n mode ac dc))"
  obtains s' where "take_charge_parameters mode ac dc s = done_with s'"
    "given env m A R I ChargeParameterDiscoveryV2 s'" "ac \<noteq> None \<Longrightarrow> selected_charging_type_is_ac s'"
proof -
  have "message_ok (ChargeParameterDiscoveryReqV2 n mode ac dc)"
    using givenD(8) [OF assms(1)] assms(2) unfolding reported_def by blast
  then obtain s' where s': "take_charge_parameters mode ac dc s = done_with s'"
      "current_state s' = current_state s" "calls s' = calls s" "selected_charging_type_is_ac s' \<longleftrightarrow> ac \<noteq> None"
    by (rule take_charge_parameters_done)
  have "v2_inv A R I s'"
    using givenD(6,7) [OF assms(1)] s'(2) obj_inv_ac [of "current_state s" A R I "selected_charging_type_is_ac s"]
    unfolding v2_inv_def by simp
  then have "given env m A R I ChargeParameterDiscoveryV2 s'"
    using assms(1) s'(2,3) unfolding given_def by simp
  then show thesis using that s'(1,4) by simp
qed

lemma discover_parameters_keeps:
  assumes "given env m A R I ChargeParameterDiscoveryV2 s"
    "m = V2Message h (Some (ChargeParameterDiscoveryReqV2 n mode ac dc))"
  shows "keeps A R I (discover_parameters env m n mode ac dc s)"
proof -
  obtain s' where t: "take_charge_parameters mode ac dc s = done_with s'"
    "given env m A R I ChargeParameterDiscoveryV2 s'" "ac \<noteq> None \<Longrightarrow> selected_charging_type_is_ac s'"
    using take_charge_parameters_given [OF assms] by blast
  have offer: "keeps A R I (offer_schedules env (ac \<noteq> None) sched (call SendRatedLimits s'))" for sched
    by (rule offer_schedules_keeps [of _ m]) (use t(2,3) in \<open>simp_all add: given_calls\<close>)
  have calls: "commands_ok A R I (calls s)" "commands_ok A R I (calls s')"
    using givenD(1) assms(1) t(2) by blast+
  show ?thesis
    unfolding discover_parameters_def using t(1) offer calls
    by (auto simp: Let_def simp del: not_None_eq split: sum.splits intro!: leads_stop leads_raises)
qed

lemma ChargeParameterDiscoveryV2_keeps:
  assumes "given env m A R I ChargeParameterDiscoveryV2 s"
  shows "keeps A R I (ChargeParameterDiscoveryV2_process env m s)"
  unfolding ChargeParameterDiscoveryV2_process_def
  by (rule keeps_check [OF assms])
    (use givenD(9) [OF assms] discover_parameters_keeps [OF assms] in \<open>auto split: if_splits\<close>)

lemma decide_authorization_keeps:
  assumes "given env m A R I AuthorizationV2 s"
  shows "keeps A R I (decide_authorization env m s)"
proof -
  have rep: "is_authorized env = ACCEPTED \<Longrightarrow> A" "is_ready_to_charge (iso2_env env) \<Longrightarrow> R"
    using givenD(8) [OF assms] by (simp_all add: reported_def)
  show ?thesis
    unfolding decide_authorization_def
    using givenD(1,6,7,10) [OF assms] rep
    by (auto simp: state_lists v2_inv_def obj_inv_complete Let_def intro!: keeps_intros)
qed

lemma given_verified:
  "given env m A R I k s \<Longrightarrow> given env m A R I k (update_state (\<lambda>x. x\<lparr>signature_verified_once := b\<rparr>) s)"
  by (simp add: given_def v2_inv_def)

lemma AuthorizationV2_keeps:
  assumes "given env m A R I AuthorizationV2 s"
  shows "keeps A R I (AuthorizationV2_process env m s)"
  unfolding AuthorizationV2_process_def
  by (rule keeps_check [OF assms])
    (use givenD(1) [OF assms] decide_authorization_keeps [OF assms]
      decide_authorization_keeps [OF given_verified [OF assms, of True]] in
      \<open>auto simp: Let_def split: option.splits sum.splits bool.splits intro!: leads_stop leads_raises\<close>)

lemma PaymentDetailsV2_keeps:
  assumes "given env m A R I PaymentDetailsV2 s"
  shows "keeps A R I (PaymentDetailsV2_process env m s)"
  unfolding PaymentDetailsV2_process_def
  by (rule keeps_check [OF assms])
    (use givenD [OF assms] in \<open>auto simp: state_lists v2_inv_def chain_failure_def Let_def
      split: option.splits sum.splits intro!: keeps_intros\<close>)

lemma CertificateInstallationV2_keeps:
  assumes "given env m A R I CertificateInstallationV2 s"
  shows "keeps A R I (CertificateInstallationV2_process env exi m s)"
  unfolding CertificateInstallationV2_process_def
  by (rule keeps_check [OF assms])
    (use givenD [OF assms] in \<open>auto simp: state_lists split: sum.splits bool.splits intro!: keeps_intros\<close>)

lemma PaymentServiceSelectionV2_keeps:
  assumes "given env m A R I PaymentServiceSelectionV2 s"
  shows "keeps A R I (PaymentServiceSelectionV2_process env exi m s)"
proof -
  have enter: "given env m A R I CertificateInstallationV2 (enter CertificateInstallationV2 s)"
    "given env m A R I PaymentDetailsV2 (enter PaymentDetailsV2 s)" "given env m A R I AuthorizationV2 (enter AuthorizationV2 s)"
    by (intro given_enter [OF assms]; simp add: state_lists)+
  note others = CertificateInstallationV2_keeps [OF enter(1), of exi] PaymentDetailsV2_keeps [OF enter(2)]
    AuthorizationV2_keeps [OF enter(3)]
  show ?thesis
    unfolding PaymentServiceSelectionV2_process_def
    by (rule keeps_check [OF assms])
      (use givenD(1,6,7) [OF assms] others in \<open>auto simp: v2_inv_def Let_def
        split: if_splits sum.splits bool.splits option.splits intro!: keeps_intros\<close>)
qed

lemma ServiceDetailV2_keeps:
  assumes "given env m A R I ServiceDetailV2 s"
  shows "keeps A R I (ServiceDetailV2_process env exi m s)"
proof -
  have "given env m A R I PaymentServiceSelectionV2 (enter PaymentServiceSelectionV2 s)"
    by (intro given_enter [OF assms]) (simp add: state_lists)
  note select = PaymentServiceSelectionV2_keeps [OF this]
  show ?thesis
    unfolding ServiceDetailV2_process_def
    by (rule keeps_check [OF assms])
      (use givenD(1,6,7) [OF assms] select in \<open>auto split: if_splits intro!: keeps_intros\<close>)
qed

lemma get_services_keeps:
  assumes "given env m A R I ServiceDiscoveryV2 s"
  shows "keeps A R I (get_services env category (\<lambda>res s. then_expect_others (next_v2 env None res None s)) s)"
  using givenD(1,6,7) [OF assms] unfolding get_services_def
  by (auto simp: v2_inv_def Let_def split: option.splits intro!: keeps_intros)

lemma ServiceDiscoveryV2_keeps:
  assumes "given env m A R I ServiceDiscoveryV2 s"
  shows "keeps A R I (ServiceDiscoveryV2_process env exi m s)"
proof -
  have enter: "given env m A R I ServiceDetailV2 (enter ServiceDetailV2 s)"
    "given env m A R I PaymentServiceSelectionV2 (enter PaymentServiceSelectionV2 s)"
    by (intro given_enter [OF assms]; simp add: state_lists)+
  note others = ServiceDetailV2_keeps [OF enter(1), of exi] PaymentServiceSelectionV2_keeps [OF enter(2), of exi]
    get_services_keeps [OF assms]
  show ?thesis
    unfolding ServiceDiscoveryV2_process_def
    by (rule keeps_check [OF assms])
      (use givenD(1) [OF assms] others in \<open>auto split: if_splits intro!: leads_stop\<close>)
qed

text \<open>Every message handled by the state machine keeps the invariant.\<close>

lemma v2_process_keeps:
  assumes "given env m A R I k s"
  shows "keeps A R I (v2_process k env exi m s)"
  using assms
  by (cases k) (simp_all add: SessionSetupV2_keeps ServiceDiscoveryV2_keeps ServiceDetailV2_keeps
      PaymentServiceSelectionV2_keeps CertificateInstallationV2_keeps PaymentDetailsV2_keeps AuthorizationV2_keeps
      ChargeParameterDiscoveryV2_keeps PowerDeliveryV2_keeps MeteringReceiptV2_keeps SessionStopV2_keeps
      ChargingStatusV2_keeps CableCheckV2_keeps PreChargeV2_keeps CurrentDemandV2_keeps WeldingDetectionV2_keeps
      done_keeps)

end
