(* ===== verification/V2_Session.thy ===== *)
theory V2_Session
  imports Comm_Session V2_Properties
begin

text \<open>
  Sessions of ISO 15118-2 on the TCP stream: what the invariant of the state machine gives for any
  sequence of reads, and sessions that show where the code lets energy flow without an insulation test.
\<close>

section \<open>Watching a session\<close>

text \<open>The commands with which the session itself, not a state, addresses the controller.\<close>

fun housekeeping :: "evse_call \<Rightarrow> bool" where
  "housekeeping StopCharger = True"
| "housekeeping (UpdateDataLink _) = True"
| "housekeeping (SessionEnded _ _) = True"
| "housekeeping (SetPresentProtocolState _) = True"
| "housekeeping _ = False"

lemma go_to_next_state_call: "go_to_next_state (call x s) = call x (go_to_next_state s)"
  by (cases s) (simp add: go_to_next_state_def call_def enter_def split: option.split)

text \<open>
  What is watched: the commands given so far (\<open>Q\<close>) and the session between two reads (\<open>P\<close>), both in view
  of the reads of the past. It is enough that handling one message keeps them.
\<close>

locale watched_session =
  fixes Q :: "(comm_env \<times> read) list \<Rightarrow> evse_call list \<Rightarrow> bool"
    and P :: "(comm_env \<times> read) list \<Rightarrow> secc \<Rightarrow> bool"
    and charger :: "comm_env \<Rightarrow> bool"
  assumes past_grows: "Q past cs \<Longrightarrow> Q (past @ l) cs"
    and quiet: "Q past cs \<Longrightarrow> list_all housekeeping xs \<Longrightarrow> Q past (cs @ xs)"
    and unmoved: "P past s \<Longrightarrow> P past (call (SetPresentProtocolState k) s)"
    and handled: "charger ce \<Longrightarrow> Q past (calls s) \<Longrightarrow> P past s \<Longrightarrow>
      leads (Q (past @ [(ce, Data m)])) (P (past @ [(ce, Data m)])) (process_message ce m s)"
begin

definition watched :: "(comm_env \<times> read) list \<Rightarrow> comm \<Rightarrow> bool" where
  "watched past c \<longleftrightarrow> Q past (calls (session c)) \<and> (\<not> ended c \<longrightarrow> P past (session c))"

lemma finish_with_watched: "Q past (calls (session c)) \<Longrightarrow> watched past (finish_with r n c)"
  by (simp add: watched_def finish_with_def stop_def Let_def quiet)

lemma fail_with_watched: "Q past (calls (session c)) \<Longrightarrow> watched past (fail_with ce r c)"
  by (simp add: fail_with_def Let_def finish_with_watched)

lemma send_response_watched:
  assumes "send_response c = (c', e)" "Q past (calls (session c))"
  shows "Q past (calls (session c'))"
    "P past (go_to_next_state (session c)) \<Longrightarrow> P past (go_to_next_state (session c'))"
proof -
  have "session c' = session c \<or> (\<exists>k. session c' = call (SetPresentProtocolState k) (session c))"
    using assms(1)
    by (auto simp: send_response_def send_v2gtp_def andthen_def done_with_def raises_def
        split: option.splits sum.splits)
  then show "Q past (calls (session c'))"
    "P past (go_to_next_state (session c)) \<Longrightarrow> P past (go_to_next_state (session c'))"
    using assms(2) quiet unmoved by (auto simp: go_to_next_state_call)
qed

lemma rcv_step_watched:
  assumes "watched past c" "\<not> ended c" "charger ce"
  shows "watched (past @ [(ce, r)]) (rcv_step ce r c)"
proof (cases r)
  case (Data m)
  obtain s e where p: "process_message ce m (session c) = (s, e)" by fastforce
  obtain c1 e1 where q: "send_response (c\<lparr>session := s\<rparr>) = (c1, e1)" by fastforce
  have l: "leads (Q (past @ [(ce, r)])) (P (past @ [(ce, r)])) (s, e)"
    using handled [of ce past "session c" m] assms p Data by (simp add: watched_def)
  then have Q: "Q (past @ [(ce, r)]) (calls s)" by (simp add: leads_def)
  note sent = send_response_watched [OF q, of "past @ [(ce, r)]"] and frame = send_response_frame [OF q]
  show ?thesis
  proof (cases "e = None \<and> e1 = None \<and> next_state (current_state s) \<notin> {Some Terminate, Some Pause}")
    case True
    then have "P (past @ [(ce, r)]) (go_to_next_state (session c1))" using l sent Q by (simp add: leads_def)
    then show ?thesis
      using True Data p q frame sent Q
      by (auto simp: rcv_step_def Let_def watched_def go_to_next_state_def enter_def split: option.splits)
  next
    case False
    have "Q (past @ [(ce, r)]) (calls (session c1))" using sent(1) Q by simp
    then show ?thesis
      using False Data p q frame Q
      by (auto simp: rcv_step_def Let_def split: option.splits intro!: fail_with_watched finish_with_watched)
  qed
qed (use assms(1) in \<open>auto simp: rcv_step_def Let_def watched_def [of past]
    intro!: fail_with_watched finish_with_watched past_grows\<close>)

lemma rcv_loop_watched:
  assumes "watched past c" "\<forall>(ce, r) \<in> set reads. charger ce"
  shows "Q (past @ reads) (calls (session (rcv_loop reads c)))"
  using assms
proof (induction reads arbitrary: past c)
  case (Cons x reads)
  obtain ce r where x: "x = (ce, r)" by fastforce
  show ?case
  proof (cases "ended c")
    case True
    then show ?thesis using Cons.prems x past_grows by (simp add: watched_def)
  next
    case False
    then have "watched (past @ [x]) (rcv_step ce r c)"
      using rcv_step_watched [OF Cons.prems(1) False] Cons.prems(2) x by simp
    then show ?thesis
      using Cons.IH [of "past @ [x]" "rcv_step ce r c"] Cons.prems(2) False x by simp
  qed
qed (simp add: watched_def)

end

section \<open>Handling one message\<close>

lemma leads_run_state: "leads Q P (process s) \<Longrightarrow> leads Q P (run_state process s)"
  by (cases "process s") (auto simp: run_state_def andthen_def leads_def raises_def done_with_def split: option.splits)

text \<open>A message that a read can be decoded to.\<close>

definition decodes :: "comm_env \<Rightarrow> read \<Rightarrow> v2g_message \<Rightarrow> bool" where
  "decodes ce r d \<longleftrightarrow>
     (\<exists>m p v n. r = Data m \<and> from_bytes p m = Inr v \<and> from_exi ce (payload v) n = Inr d)"

lemma leads_process_message:
  assumes "Q (calls s)"
    and "\<And>d x. decodes ce (Data m) d \<Longrightarrow> leads Q P (state_process ce (kind (current_state s)) (core ce) x d s)"
  shows "leads Q P (process_message ce m s)"
proof -
  have "decodes ce (Data m) d"
    if "from_bytes (session_protocol s) m = Inr v" "from_exi ce (payload v) n = Inr d" for v n d
    using that by (auto simp: decodes_def)
  then show ?thesis
    using assms by (auto simp: process_message_def split: sum.splits intro!: leads_raises leads_run_state)
qed

lemma leads_andthen_call:
  assumes "leads Q (\<lambda>s. P (f s)) r" "\<And>s. Q (calls s) \<Longrightarrow> Q (calls (f s))"
    "\<And>s. current_state (f s) = current_state s" "\<And>k s. f (enter k s) = enter k (f s)"
  shows "leads Q P (andthen r (\<lambda>s. done_with (f s)))"
  using assms by (cases r) (auto simp: leads_def andthen_def done_with_def go_to_next_state_def split: option.splits)

text \<open>
  The negotiation of a charger that speaks nothing but ISO 15118-2 leads to the set-up of a session,
  without any command but the choice of the protocol.
\<close>

definition negotiating :: "secc \<Rightarrow> bool" where
  "negotiating s \<longleftrightarrow> kind (current_state s) = SupportedAppProtocol \<and> next_state (current_state s) = None"

lemma sap_keeps:
  assumes "set (supported_protocols env) \<subseteq> {ISO_15118_2}" "negotiating s" "commands_ok A R I (calls s)"
  shows "keeps A R I (SupportedAppProtocol_process env m s)"
proof (cases m)
  case (SAPReq ps)
  show ?thesis
  proof (cases "find (acceptable (supported_protocols env)) (sort_key priority ps)")
    case None
    then have "SupportedAppProtocol_process env m s = stop_state_machine env
        ''SupportedAppProtocol negotiation failed. '' m (SapCode NEGOTIATION_FAILED) s"
      using SAPReq by (simp add: SupportedAppProtocol_process_def check_msg_def sap_loop_find)
    then show ?thesis using assms(3) leads_stop by simp
  next
    case (Some p)
    then have "get_by_ns (protocol_ns p) = ISO_15118_2"
      using find_SomeD [OF Some] acceptable_supported [of _ p] assms(1) by blast
    then have eq: "SupportedAppProtocol_process env m s =
        andthen (create_next_message env (Some SessionSetupV2) (NextSap (minor_code p) (Some (schema_id p)))
          60 SAP_NS EXI_ENCODED s)
        (\<lambda>s. done_with (call (SetSelectedProtocol ISO_15118_2) (s\<lparr>session_protocol := ISO_15118_2\<rparr>)))"
      using SAPReq Some by (simp add: SupportedAppProtocol_process_def check_msg_def sap_loop_find agreed_def)
    show ?thesis
      unfolding eq
      by (rule leads_andthen_call, rule leads_create)
        (use assms(3) in \<open>auto simp: v2_inv_def state_lists call_def enter_def\<close>)
  qed
qed (use assms(3) leads_stop in \<open>auto simp: SupportedAppProtocol_process_def check_msg_def\<close>)

section \<open>No energy before authorisation\<close>

definition ready_in :: "(comm_env \<times> read) list \<Rightarrow> bool" where
  "ready_in reads \<longleftrightarrow> (\<exists>(ce, r) \<in> set reads. is_ready_to_charge (iso2_env (core ce)))"

definition receipt_in :: "(comm_env \<times> read) list \<Rightarrow> bool" where
  "receipt_in reads \<longleftrightarrow> (\<exists>(ce, r) \<in> set reads. \<exists>h i sid t info.
     decodes ce r (V2Message h (Some (MeteringReceiptReqV2 i sid t info))))"

text \<open>The charger speaks only ISO 15118-2, and what it decodes has passed the validators of the message classes.\<close>

definition v2_charger :: "comm_env \<Rightarrow> bool" where
  "v2_charger ce \<longleftrightarrow> set (supported_protocols (core ce)) \<subseteq> {ISO_15118_2} \<and>
     (\<forall>p n h b. from_exi ce p n = Inr (V2Message h (Some b)) \<longrightarrow> message_ok b)"

definition v2_Q :: "(comm_env \<times> read) list \<Rightarrow> evse_call list \<Rightarrow> bool" where
  "v2_Q past = commands_ok (authorised_in past) (ready_in past) (insulated_in past \<or> receipt_in past)"

definition v2_P :: "(comm_env \<times> read) list \<Rightarrow> secc \<Rightarrow> bool" where
  "v2_P past s \<longleftrightarrow> negotiating s \<or>
     v2_inv (authorised_in past) (ready_in past) (insulated_in past \<or> receipt_in past) s"

lemma commands_ok_mono:
  "commands_ok A R I cs \<Longrightarrow> (A \<longrightarrow> A') \<Longrightarrow> (R \<longrightarrow> R') \<Longrightarrow> (I \<longrightarrow> I') \<Longrightarrow> commands_ok A' R' I' cs"
  by (auto simp: commands_ok_def)

lemma commands_okD:
  assumes "commands_ok A R I cs"
  shows "SetHlcCharging True \<in> set cs \<Longrightarrow> A \<and> R" "SendChargingCommand v i pre \<in> set cs \<Longrightarrow> A \<and> R \<and> I"
    "SendChargingCommand v i True \<in> set cs \<Longrightarrow> i \<le> 2"
  using assms bexI [of is_charging_command "SendChargingCommand v i pre"] by (auto simp: commands_ok_def list_ex_iff list_all_iff)

lemma obj_inv_mono:
  assumes "obj_inv A R I ac x" "A \<longrightarrow> A'" "R \<longrightarrow> R'" "I \<longrightarrow> I'"
  shows "obj_inv A' R' I' ac x"
  using assms unfolding obj_inv_def by blast

lemma past_simps [simp]:
  "authorised_in (past @ l) \<longleftrightarrow> authorised_in past \<or> authorised_in l"
  "insulated_in (past @ l) \<longleftrightarrow> insulated_in past \<or> insulated_in l"
  "ready_in (past @ l) \<longleftrightarrow> ready_in past \<or> ready_in l"
  "receipt_in (past @ l) \<longleftrightarrow> receipt_in past \<or> receipt_in l"
  by (simp_all only: authorised_in_def insulated_in_def ready_in_def receipt_in_def set_append bex_Un)

lemma commands_ok_housekeeping: "list_all housekeeping xs \<Longrightarrow> commands_ok A R I xs"
proof (induction xs)
  case (Cons x xs)
  then show ?case by (cases x) simp_all
qed simp

lemma leads_mono: "leads Q P r \<Longrightarrow> (\<And>s. P s \<Longrightarrow> P' s) \<Longrightarrow> leads Q P' r"
  by (auto simp: leads_def)

lemma v2_handled:
  assumes "v2_charger ce" "v2_Q past (calls s)" "v2_P past s"
  shows "leads (v2_Q (past @ [(ce, Data m)])) (v2_P (past @ [(ce, Data m)])) (process_message ce m s)"
proof -
  let ?p = "past @ [(ce, Data m)]"
  let ?A = "authorised_in ?p" and ?R = "ready_in ?p" and ?I = "insulated_in ?p \<or> receipt_in ?p"
  have Q: "commands_ok ?A ?R ?I (calls s)"
    by (rule commands_ok_mono [OF assms(2) [unfolded v2_Q_def]]) simp_all
  have "keeps ?A ?R ?I (state_process ce (kind (current_state s)) (core ce) x d s)"
    if d: "decodes ce (Data m) d" for d x
  proof (cases "negotiating s")
    case True
    then show ?thesis
      using sap_keeps [OF _ True Q] assms(1) by (simp add: state_process_def negotiating_def v2_charger_def)
  next
    case False
    then have inv: "v2_inv ?A ?R ?I s"
      using assms(3) unfolding v2_P_def v2_inv_def by (auto elim: obj_inv_mono)
    have "reported (core ce) d ?A ?R ?I"
      using d assms(1)
      by (auto simp: reported_def authorised_in_def ready_in_def insulated_in_def receipt_in_def v2_charger_def decodes_def)
    then have "given (core ce) d ?A ?R ?I (kind (current_state s)) s"
      using inv Q by (simp add: given_def)
    moreover have "kind (current_state s) \<in> set v2_states"
      using inv by (simp add: v2_inv_def obj_inv_def)
    ultimately show ?thesis
      using v2_process_keeps by (auto simp: state_process_def v2_states_def)
  qed
  then have "keeps ?A ?R ?I (process_message ce m s)"
    by (rule leads_process_message [where Q = "commands_ok ?A ?R ?I", OF Q])
  then show ?thesis unfolding v2_Q_def by (rule leads_mono) (simp add: v2_P_def)
qed

interpretation v2_watch: watched_session v2_Q v2_P v2_charger
proof
  show "v2_Q past cs \<Longrightarrow> v2_Q (past @ l) cs" for past cs l
    unfolding v2_Q_def by (erule commands_ok_mono) simp_all
  show "v2_Q past cs \<Longrightarrow> list_all housekeeping xs \<Longrightarrow> v2_Q past (cs @ xs)" for past cs xs
    by (simp add: v2_Q_def commands_ok_housekeeping)
  show "v2_P past s \<Longrightarrow> v2_P past (call (SetPresentProtocolState k) s)" for past s k
    by (simp add: v2_P_def v2_inv_def negotiating_def)
qed (rule v2_handled)

text \<open>The session of a connection, plain or over TLS, with the context of a paused session or a new one.\<close>

definition v2_comm :: "bool \<Rightarrow> session_context option \<Rightarrow> comm" where
  "v2_comm tls ctx =
     new_comm\<lparr>session := set_v2 (\<lambda>v. v\<lparr>is_tls := tls, ev_session_context := ctx\<rparr>) (session new_comm)\<rparr>"

lemma v2_session_commands:
  assumes "\<forall>(ce, r) \<in> set reads. v2_charger ce"
  shows "commands_ok (authorised_in reads) (ready_in reads) (insulated_in reads \<or> receipt_in reads)
    (calls (session (rcv_loop reads (v2_comm tls ctx))))"
proof -
  have "v2_watch.watched [] (v2_comm tls ctx)"
    by (simp add: v2_watch.watched_def v2_Q_def v2_P_def negotiating_def v2_comm_def new_comm_def new_state_def)
  then show ?thesis
    using v2_watch.rcv_loop_watched [of "[]"] assms by (simp add: v2_Q_def)
qed

text \<open>
  C2: no energy before authorisation in a session of ISO 15118-2. Over any sequence of TCP reads from
  the start of a session of a charger that speaks ISO 15118-2 (plain or over TLS, new or resumed), with
  any messages and any answers of codec, certificates, backend and hardware: if the charger has been told
  to close the contactor for charging or has been given a charging command, then the vehicle was reported
  authorised and the station ready to charge at some of the reads; and if it has been given a charging
  command of a direct current session, then the insulation test reported a valid or warning level at some
  of them, or a metering receipt was among the requests.
\<close>

theorem v2_no_energy_before_checks:
  assumes "\<forall>(ce, r) \<in> set reads. v2_charger ce" "x \<in> set (calls (session (rcv_loop reads (v2_comm tls ctx))))"
    and "x = SetHlcCharging True \<or> x = SendChargingCommand v i pre"
  shows "(\<exists>(ce, r) \<in> set reads. is_authorized (core ce) = ACCEPTED) \<and>
    (\<exists>(ce, r) \<in> set reads. is_ready_to_charge (iso2_env (core ce))) \<and>
    (x = SendChargingCommand v i pre \<longrightarrow>
       (\<exists>(ce, r) \<in> set reads. cable_check_status (core ce) \<in> {Some VALID, Some WARNING}) \<or>
       (\<exists>(ce, r) \<in> set reads. \<exists>h j sid t info.
          decodes ce r (V2Message h (Some (MeteringReceiptReqV2 j sid t info)))))"
proof -
  note Q = v2_session_commands [OF assms(1), of tls ctx]
  have "authorised_in reads \<and> ready_in reads"
    using commands_okD(1,2) [OF Q] assms(2,3) by blast
  moreover have "insulated_in reads \<or> receipt_in reads" if "x = SendChargingCommand v i pre"
    using commands_okD(2) [OF Q] assms(2) that by blast
  ultimately show ?thesis
    unfolding authorised_in_def ready_in_def insulated_in_def receipt_in_def isolation_ok_def by blast
qed

section \<open>Example sessions\<close>

definition v2_read :: "env \<Rightarrow> v2g_message \<Rightarrow> comm_env \<times> read" where
  "v2_read env m =
     (\<lparr>core = env, from_exi = (\<lambda>_ _. Inr m), iso_process = (\<lambda>_ _ _ _ s. done_with s),
       error_text = (\<lambda>_ _. []), timeout_text = (\<lambda>_. [])\<rparr>,
      Data (header_of EXI_ENCODED 2 @ [0x80, 0x9A]))"

definition v2_example_env :: env where
  "v2_example_env = example_env\<lparr>supported_protocols := [ISO_15118_2],
     supported_energy_transfer_modes := [AC_THREE_PHASE_CORE, DC_EXTENDED]\<rparr>"

definition v2_signed :: "signature option \<Rightarrow> v2_body \<Rightarrow> v2g_message" where
  "v2_signed sig b =
     V2Message \<lparr>v2_session_id = ''0123456789ABCDEF'', v2_notification = None, v2_signature = sig\<rparr> (Some b)"

text \<open>The first two messages of a session.\<close>

definition v2_start :: "v2g_message list" where
  "v2_start =
     [SAPReq [\<lparr>protocol_ns = ns ISO_15118_2, major_version = 2, minor_version = 0, schema_id = 1, priority = 1\<rparr>],
      V2Message \<lparr>v2_session_id = ''00'', v2_notification = None, v2_signature = None\<rparr>
        (Some (SessionSetupReqV2 ''AB''))]"

definition v2_dc_session :: "(comm_env \<times> read) list" where
  "v2_dc_session = map (v2_read v2_example_env) (v2_start @ map (v2_signed None)
     [ServiceDiscoveryReqV2 None None, PaymentServiceSelectionReqV2 EIM_V2 [(1, None)],
      AuthorizationReqV2 None None,
      ChargeParameterDiscoveryReqV2 None DC_EXTENDED None
        (Some \<lparr>dc_departure_time = None,
           dc_parameter = \<lparr>cp_dc_ev_status = example_status, ev_maximum_current_limit = pv 100 AMPERE,
             ev_maximum_power_limit = None, ev_maximum_voltage_limit = pv 400 VOLTAGE,
             ev_energy_capacity = None, ev_energy_request = None, full_soc = None, cp_bulk_soc = None\<rparr>\<rparr>),
      CableCheckReqV2 example_status, CableCheckReqV2 example_status,
      PreChargeReqV2 example_status (pv 400 VOLTAGE) (pv 1 AMPERE)])"

lemma v2_dc_session_charges:
  "SendChargingCommand 400 1 True \<in> set (calls (session (rcv_loop v2_dc_session (v2_comm False (Some (new_context []))))))"
  by code_simp

lemma v2_dc_session_charger: "\<forall>(ce, r) \<in> set v2_dc_session. v2_charger ce"
  by (simp add: v2_dc_session_def v2_read_def v2_start_def v2_signed_def v2_charger_def v2_example_env_def
      int_base_16_ok_def is_space_def is_hex_def charge_parameters_match_def is_ac_mode_def opt_in_def opt_len_def)

theorem v2_no_energy_before_checks_witness:
  "(\<exists>(ce, r) \<in> set v2_dc_session. is_authorized (core ce) = ACCEPTED) \<and>
   (\<exists>(ce, r) \<in> set v2_dc_session. is_ready_to_charge (iso2_env (core ce)))"
  using v2_no_energy_before_checks [OF v2_dc_session_charger v2_dc_session_charges] by blast



text \<open>
  A session of alternating current with a contract, in which no insulation test is made; the vehicle
  sends a signed metering receipt and after it a request of a direct current charging loop.
\<close>

definition v2_signature_of :: "string \<Rightarrow> signature option" where
  "v2_signature_of i = Some (projr (create_signature example_crypto [(Some i, [0x80])] [11]))"

definition v2_receipt_session :: "(comm_env \<times> read) list" where
  "v2_receipt_session = map (v2_read (v2_example_env\<lparr>cable_check_status := None\<rparr>)) (v2_start @
     [v2_signed None (ServiceDiscoveryReqV2 None None),
      v2_signed None (PaymentServiceSelectionReqV2 PNC_V2 [(1, None)]),
      v2_signed None (PaymentDetailsReqV2 ''DE1ABCD2EF357A''
        \<lparr>chain_id = None, certificate = [1], sub_certificates = Some [[2]]\<rparr>),
      v2_signed (v2_signature_of ''ID1'') (AuthorizationReqV2 (Some ''ID1'') (Some (replicate 16 7))),
      v2_signed None (ChargeParameterDiscoveryReqV2 None AC_THREE_PHASE_CORE
        (Some \<lparr>ac_departure_time = None, e_amount = pv 10 WATT, ev_max_voltage = pv 400 VOLTAGE,
          ev_max_current = pv 32 AMPERE, ev_min_current = pv 6 AMPERE\<rparr>) None),
      v2_signed None (PowerDeliveryReqV2 START 1 None None), v2_signed None ChargingStatusReqV2,
      v2_signed (v2_signature_of ''ID2'') (MeteringReceiptReqV2 (Some ''ID2'') ''0123456789ABCDEF'' None
        \<lparr>meter_id = ''M'', meter_reading = Some 10, sig_meter_reading = None, meter_status = None, t_meter = None\<rparr>),
      v2_signed None (CurrentDemandReqV2
        \<lparr>cd_dc_ev_status = example_status, cd_ev_target_current = pv 100 AMPERE, ev_max_voltage_limit = None,
         ev_max_current_limit = None, ev_max_power_limit = None, bulk_charging_complete = None,
         charging_complete = False, remaining_time_to_full_soc = None, cd_remaining_time_to_bulk_soc = None,
         cd_ev_target_voltage = pv 400 VOLTAGE\<rparr>)])"


end
