(* ===== verification/V2_Answers.thy ===== *)
theory V2_Answers
  imports V2_Properties
begin

text \<open>
  How the ISO 15118-2 state machine of the charger answers: every response belongs to its request and
  passes the validators of its class, requests out of sequence and from other sessions are refused, and
  how authorisation by contract, certificate installation and resumed sessions are decided.
\<close>

section \<open>Every response belongs to its request\<close>

text \<open>A handler that returns has prepared a response of the right class, or passes on one of a backend.\<close>

definition proper :: "v2_type \<Rightarrow> string \<Rightarrow> v2g_message \<Rightarrow> bool" where
  "proper t sid x \<longleftrightarrow>
     (\<exists>h r rc. x = V2Message h (Some r) \<and> v2_session_id h = sid \<and> v2_answers r = t \<and> message_ok r \<and>
        v2_response_code r = Some rc) \<or>
     t = CertificateInstallationT \<and> (\<exists>r. x = Base64 r)"

definition answers :: "v2_type \<Rightarrow> secc outcome \<Rightarrow> bool" where
  "answers t r \<longleftrightarrow> (snd r = None \<longrightarrow>
     (\<exists>x. state_message (current_state (fst r)) = Some x \<and> proper t (session_id (fst r)) x))"

lemma answers_raises: "answers t (raises e s)"
  by (simp add: answers_def)

lemma create_next_message_message:
  fixes s :: secc
  assumes "create_next_message env nxt m t n p s = (s', None)"
  shows "\<exists>x. build_message m (update_state (\<lambda>y. y\<lparr>next_state := nxt, next_msg_timeout := t\<rparr>) s) = Inr x \<and>
    state_message (current_state s') = Some x \<and> session_id s' = session_id s"
proof -
  have w: "state_message (current_state (wrap_message q k z)) = state_message (current_state z)"
    "session_id (wrap_message q k z) = session_id z" for q k and z :: secc
    using wrap_message_state [of q k z] by auto
  show ?thesis
    using assms
    by (auto simp: create_next_message_def Let_def raises_def done_with_def w split: sum.splits v2g_message.splits if_splits)
qed

lemma answers_create:
  assumes "message_ok b" "v2_answers b = k" "v2_response_code b = Some rc"
  shows "answers k (create_next_message env nxt (NextV2 b sig) t n p s)"
proof (cases "create_next_message env nxt (NextV2 b sig) t n p s")
  case (Pair s' e)
  have "proper k (session_id s) x"
    if "build_message (NextV2 b sig) (update_state f s) = Inr x" for x f
    using that assms
    by (auto simp: build_message_def proper_def MessageHeaderV2_def rbind_def split: sum.splits if_splits)
  then show ?thesis
    using create_next_message_message [of env nxt "NextV2 b sig" t n p s s'] Pair
    by (cases e) (auto simp: answers_def)
qed

lemma answers_next:
  "message_ok b \<Longrightarrow> v2_answers b = k \<Longrightarrow> v2_response_code b = Some rc \<Longrightarrow> answers k (next_v2 env nxt b sig s)"
  unfolding next_v2_def by (rule answers_create)

lemma answers_base64:
  "answers CertificateInstallationT (create_next_message env nxt (NextBase64 r) t n p s)"
proof (cases "create_next_message env nxt (NextBase64 r) t n p s")
  case (Pair s' e)
  then show ?thesis
    using create_next_message_message [of env nxt "NextBase64 r" t n p s s']
    by (cases e) (auto simp: answers_def build_message_def proper_def)
qed

lemma answers_then_expect: "answers k r \<Longrightarrow> answers k (then_expect_others r)"
  by (cases r) (auto simp: answers_def then_expect_others_def andthen_def done_with_def expecting_def split: option.splits)

lemma answers_construct: "(message_ok b \<Longrightarrow> answers k (f b s)) \<Longrightarrow> answers k (construct b f s)"
  by (simp add: construct_def answers_raises)

lemma answers_stop: "answers (v2_body_type b) (stop_state_machine env r (V2Message h (Some b)) c s)"
proof -
  let ?s = "s\<lparr>stop_reason := Some \<lparr>successful = False, reason = r, peer_ip_address = peername env,
    stop_action = TERMINATE\<rparr>\<rparr>"
  have "answers (v2_body_type b) (create_next_message env (Some Terminate) (NextV2 x None) 0 n p ?s)"
    if "Option.bind (get_msg_type (message_text (V2Message h (Some b)))) (\<lambda>t. failed_response_v2 t rc) = Some x"
    for x n p rc
  proof -
    have "failed_response_v2 (v2_body_type b) rc = Some x"
      using that get_msg_type_name [of b] by (auto split: if_splits)
    then show ?thesis using failed_response_v2_ok by (intro answers_create) blast+
  qed
  then show ?thesis
    by (auto simp: stop_state_machine_def Let_def answers_raises split: option.splits)
qed

lemma answers_check:
  assumes "v2_body_type b \<in> set es \<Longrightarrow> answers (v2_body_type b) (c s)"
  shows "answers (v2_body_type b) (check_msg_v2 env es first (V2Message h (Some b)) c s)"
proof (rule check_msg_v2_cases [of env es first "V2Message h (Some b)" c s])
  fix h' b'
  assume "V2Message h (Some b) = V2Message h' (Some b')" "v2_body_type b' \<in> set (if first then take 1 es else es)"
    "check_msg_v2 env es first (V2Message h (Some b)) c s = c s"
  moreover have "set (if first then take 1 es else es) \<subseteq> set es" using set_take_subset [of 1 es] by simp
  ultimately show ?thesis using assms by auto
qed (simp add: answers_stop)

lemmas answers_intros = answers_raises answers_next answers_then_expect answers_construct

text \<open>The same for a stop and a body whose class is known.\<close>

lemma answers_stop_body:
  "v2_body_type b = k \<Longrightarrow> answers k (stop_state_machine env r (V2Message h (Some b)) c s)"
  using answers_stop by metis

lemma SessionSetupV2_answers:
  "answers (v2_body_type b) (SessionSetupV2_process env (V2Message h (Some b)) s)"
  unfolding SessionSetupV2_process_def
  by (rule answers_check) (auto split: sum.splits intro!: answers_intros)

lemma decide_authorization_answers:
  "v2_body_type b = AuthorizationT \<Longrightarrow> answers AuthorizationT (decide_authorization env (V2Message h (Some b)) s)"
  unfolding decide_authorization_def Let_def by (auto intro!: answers_intros answers_stop_body)

lemma AuthorizationV2_answers:
  "answers (v2_body_type b) (AuthorizationV2_process env (V2Message h (Some b)) s)"
  unfolding AuthorizationV2_process_def
  by (rule answers_check)
    (auto simp: Let_def split: sum.splits option.splits bool.splits
      intro!: answers_intros answers_stop_body decide_authorization_answers)

lemma PaymentDetailsV2_answers:
  "answers (v2_body_type b) (PaymentDetailsV2_process env (V2Message h (Some b)) s)"
  unfolding PaymentDetailsV2_process_def
  by (rule answers_check)
    (auto simp: Let_def chain_failure_def split: sum.splits option.splits intro!: answers_intros answers_stop_body)

text \<open>A certificate installation response that is made here passes its validators.\<close>

lemma installation_res_ok:
  assumes "installation_res env exi = Inr x"
  shows "case x of NextBase64 r \<Rightarrow> True
    | NextV2 b sig \<Rightarrow> message_ok b \<and> v2_answers b = CertificateInstallationT \<and> v2_response_code b = Some OK
    | _ \<Rightarrow> False"
  using assms
  by (auto simp: installation_res_def generate_certificate_installation_res_def rbind_def Let_def
      split: if_splits sum.splits)

lemma CertificateInstallationV2_answers:
  "answers (v2_body_type b) (CertificateInstallationV2_process env exi (V2Message h (Some b)) s)"
  unfolding CertificateInstallationV2_process_def
  by (rule answers_check)
    (auto split: sum.splits bool.splits next_msg.splits dest!: installation_res_ok
      intro!: answers_raises answers_stop_body answers_create answers_base64)

lemmas before_charging_answers =
  AuthorizationV2_answers [of "AuthorizationReqV2 x y" for x y, simplified]
  PaymentDetailsV2_answers [of "PaymentDetailsReqV2 x y" for x y, simplified]
  CertificateInstallationV2_answers [of "CertificateInstallationReqV2 x y z" for x y z, simplified]

lemma PaymentServiceSelectionV2_answers:
  "answers (v2_body_type b) (PaymentServiceSelectionV2_process env exi (V2Message h (Some b)) s)"
  unfolding PaymentServiceSelectionV2_process_def
  by (rule answers_check)
    (auto simp: Let_def split: sum.splits bool.splits option.splits
      intro!: answers_intros answers_stop_body before_charging_answers)

lemma ServiceDetailV2_answers:
  "answers (v2_body_type b) (ServiceDetailV2_process env exi (V2Message h (Some b)) s)"
  unfolding ServiceDetailV2_process_def
  by (rule answers_check)
    (auto intro!: answers_intros answers_stop_body
      PaymentServiceSelectionV2_answers [of "PaymentServiceSelectionReqV2 x y" for x y, simplified])

lemma ServiceDiscoveryV2_answers:
  "answers (v2_body_type b) (ServiceDiscoveryV2_process env exi (V2Message h (Some b)) s)"
  unfolding ServiceDiscoveryV2_process_def
  by (rule answers_check)
    (auto simp: get_services_def Let_def split: option.splits intro!: answers_intros answers_stop_body
      ServiceDetailV2_answers [of "ServiceDetailReqV2 x" for x, simplified]
      PaymentServiceSelectionV2_answers [of "PaymentServiceSelectionReqV2 x y" for x y, simplified])

lemma SessionStopV2_answers:
  "answers (v2_body_type b) (SessionStopV2_process env (V2Message h (Some b)) s)"
  unfolding SessionStopV2_process_def by (rule answers_check) (auto simp: Let_def intro!: answers_intros)

lemma WeldingDetectionV2_answers:
  "answers (v2_body_type b) (WeldingDetectionV2_process env (V2Message h (Some b)) s)"
  unfolding WeldingDetectionV2_process_def
  by (rule answers_check)
    (auto intro!: answers_intros SessionStopV2_answers [of "SessionStopReqV2 x" for x, simplified])

lemma power_delivery_reply_answers:
  "answers PowerDeliveryT (then_expect_others (next_v2 env nxt (power_delivery_res env s) None s))"
  unfolding power_delivery_res_def by (intro answers_intros) auto

lemma charge_progress_answers:
  assumes "v2_body_type b = PowerDeliveryT" "\<And>nxt s. answers PowerDeliveryT (reply nxt s)"
  shows "answers PowerDeliveryT (start_charging env (V2Message h (Some b)) t reply s)"
    "answers PowerDeliveryT (stop_charging env (V2Message h (Some b)) reply s)"
    "answers PowerDeliveryT (renegotiate env (V2Message h (Some b)) reply s)"
  using assms by (auto simp: start_charging_def stop_charging_def renegotiate_def Let_def intro!: answers_stop_body)

lemma PowerDeliveryV2_answers:
  "answers (v2_body_type b) (PowerDeliveryV2_process env (V2Message h (Some b)) s)"
  unfolding PowerDeliveryV2_process_def
  by (rule answers_check)
    (auto simp: Let_def split: sum.splits bool.splits option.splits charge_progress.splits
      intro!: answers_raises answers_stop_body charge_progress_answers power_delivery_reply_answers
        SessionStopV2_answers [of "SessionStopReqV2 x" for x, simplified]
        WeldingDetectionV2_answers [of "WeldingDetectionReqV2 x" for x, simplified])

lemmas power_delivery_answers = PowerDeliveryV2_answers [of "PowerDeliveryReqV2 x y z w" for x y z w, simplified]

lemma CableCheckV2_answers:
  "answers (v2_body_type b) (CableCheckV2_process env (V2Message h (Some b)) s)"
  unfolding CableCheckV2_process_def
  by (rule answers_check)
    (auto simp: Let_def split: option.splits bool.splits intro!: answers_intros answers_stop_body)

lemma PreChargeV2_answers:
  "answers (v2_body_type b) (PreChargeV2_process env (V2Message h (Some b)) s)"
  unfolding PreChargeV2_process_def
  by (rule answers_check)
    (auto simp: Let_def split: sum.splits intro!: answers_intros answers_stop_body power_delivery_answers)

lemma CurrentDemandV2_answers:
  "answers (v2_body_type b) (CurrentDemandV2_process env (V2Message h (Some b)) s)"
  unfolding CurrentDemandV2_process_def
  by (rule answers_check)
    (auto simp: Let_def split: sum.splits intro!: answers_intros answers_stop_body power_delivery_answers)

lemma MeteringReceiptV2_handler_answers:
  assumes "\<And>s. v2_body_type b = ChargingStatusT \<Longrightarrow> answers ChargingStatusT (status s)"
  shows "answers (v2_body_type b) (MeteringReceiptV2_handler status env (V2Message h (Some b)) s)"
  unfolding MeteringReceiptV2_handler_def
  by (rule answers_check)
    (use assms in \<open>auto split: sum.splits option.splits intro!: answers_intros answers_stop_body
      power_delivery_answers CurrentDemandV2_answers [of "CurrentDemandReqV2 x" for x, simplified]\<close>)

lemma ChargingStatusV2_handler_answers:
  assumes "\<And>s. v2_body_type b = MeteringReceiptT \<Longrightarrow> answers MeteringReceiptT (metering s)"
  shows "answers (v2_body_type b) (ChargingStatusV2_handler metering env (V2Message h (Some b)) s)"
  unfolding ChargingStatusV2_handler_def
  by (rule answers_check)
    (use assms in \<open>auto intro!: answers_intros answers_stop_body power_delivery_answers\<close>)

lemma ChargingStatusV2_answers:
  "answers (v2_body_type b) (ChargingStatusV2_process env (V2Message h (Some b)) s)"
  unfolding ChargingStatusV2_process_def
  by (rule ChargingStatusV2_handler_answers)
    (use MeteringReceiptV2_handler_answers [of b] in \<open>metis v2_type.distinct\<close>)

lemma MeteringReceiptV2_answers:
  "answers (v2_body_type b) (MeteringReceiptV2_process env (V2Message h (Some b)) s)"
  unfolding MeteringReceiptV2_process_def
  by (rule MeteringReceiptV2_handler_answers)
    (use ChargingStatusV2_handler_answers [of b] in \<open>metis v2_type.distinct\<close>)

lemma take_charge_parameters_raises:
  "(\<exists>s'. take_charge_parameters mode ac dc s = done_with s') \<or> (\<exists>e s'. take_charge_parameters mode ac dc s = raises e s')"
  by (auto simp: take_charge_parameters_def Let_def split: option.splits)

lemma ChargeParameterDiscoveryV2_answers:
  "answers (v2_body_type b) (ChargeParameterDiscoveryV2_process env (V2Message h (Some b)) s)"
proof -
  have "answers ChargeParameterDiscoveryT
      (discover_parameters env (V2Message h (Some (ChargeParameterDiscoveryReqV2 n mode ac dc))) n mode ac dc s)"
    for n mode ac dc and s :: secc
    using take_charge_parameters_raises [of mode ac dc s]
    by (auto simp: discover_parameters_def offer_schedules_def Let_def split: sum.splits
        intro!: answers_intros answers_stop_body)
  then show ?thesis
    unfolding ChargeParameterDiscoveryV2_process_def
    by (intro answers_check) (auto intro!: power_delivery_answers
        CableCheckV2_answers [of "CableCheckReqV2 x" for x, simplified])
qed

lemma v2_process_answers:
  assumes "k \<in> set v2_states"
  shows "answers (v2_body_type b) (v2_process k env exi (V2Message h (Some b)) s)"
  using assms
  by (auto simp: v2_states_def intro: SessionSetupV2_answers ServiceDiscoveryV2_answers ServiceDetailV2_answers
      PaymentServiceSelectionV2_answers CertificateInstallationV2_answers PaymentDetailsV2_answers
      AuthorizationV2_answers ChargeParameterDiscoveryV2_answers PowerDeliveryV2_answers
      MeteringReceiptV2_answers SessionStopV2_answers ChargingStatusV2_answers CableCheckV2_answers
      PreChargeV2_answers CurrentDemandV2_answers WeldingDetectionV2_answers)

text \<open>
  C8: what is sent is what the protocol allows. Whatever request of ISO 15118-2 reaches a state of the
  charger, in whatever session and environment: a handler that returns has prepared a response of the
  class that belongs to the request, with a response code, all its fields within the ranges of its class
  and the session's identifier in its header; only a certificate installation may be answered by what a
  backend has encoded.
\<close>

theorem v2_responses_typed:
  assumes "k \<in> set v2_states" "v2_process k env exi (V2Message h (Some b)) s = (s', None)"
  shows "(\<exists>h' r rc. state_message (current_state s') = Some (V2Message h' (Some r)) \<and>
      v2_session_id h' = session_id s' \<and> v2_answers r = v2_body_type b \<and> message_ok r \<and> v2_response_code r = Some rc) \<or>
    v2_body_type b = CertificateInstallationT \<and> (\<exists>r. state_message (current_state s') = Some (Base64 r))"
  using v2_process_answers [OF assms(1), of b env exi h s] assms(2) by (auto simp: answers_def proper_def)

text \<open>A charger and a session that have what creating a message needs.\<close>

definition v2_ready :: "env \<Rightarrow> secc \<Rightarrow> bool" where
  "v2_ready env s \<longleftrightarrow> (\<forall>m n. \<not> isl (to_exi env m n)) \<and> session_protocol s = ISO_15118_2 \<and> hex_id (session_id s)"

definition v2_example_session :: "state_kind \<Rightarrow> secc" where
  "v2_example_session k = new_session ISO_15118_2 ''0123456789ABCDEF'' k"

definition v2_example_header :: "v2_header" where
  "v2_example_header = \<lparr>v2_session_id = ''0123456789ABCDEF'', v2_notification = None, v2_signature = None\<rparr>"

lemma v2_example_ready [simp]: "v2_ready example_env (v2_example_session k)"
  by (simp add: v2_ready_def example_env_def v2_example_session_def hex_id_def is_hex_def)

theorem v2_responses_typed_witness:
  "\<exists>h' r. state_message (current_state (fst (v2_process SessionStopV2 example_env []
      (V2Message v2_example_header (Some (SessionStopReqV2 CS_PAUSE))) (v2_example_session SessionStopV2)))) =
    Some (V2Message h' (Some r)) \<and> v2_answers r = SessionStopT"
proof -
  let ?r = "v2_process SessionStopV2 example_env [] (V2Message v2_example_header (Some (SessionStopReqV2 CS_PAUSE)))
    (v2_example_session SessionStopV2)"
  have "snd ?r = None" by code_simp
  then have "?r = (fst ?r, None)" by (metis prod.collapse)
  from v2_responses_typed [OF _ this] show ?thesis by (auto simp: v2_states_def)
qed

section \<open>Created messages and refusals\<close>

lemma create_next_message_v2:
  assumes "v2_ready env s"
  shows "create_next_message env nxt (NextV2 b sig) t ISO_V2_MSG_DEF EXI_ENCODED s =
    done_with (v2_prepared env nxt t b sig s)"
  using assms by (intro create_next_message_v2_prepared) (simp_all add: v2_ready_def)

lemma secc_v2_prepared [simp]:
  "iso2 (v2_prepared env nxt t b sig s) = iso2 s" "calls (v2_prepared env nxt t b sig s) = calls s"
  by (simp_all add: v2_prepared_def update_state_def)

text \<open>A refusal: the failed response of the class is prepared, the reason recorded, the session ends.\<close>

definition refused :: "v2_type \<Rightarrow> response_code \<Rightarrow> string \<Rightarrow> secc \<Rightarrow> secc outcome \<Rightarrow> bool" where
  "refused t rc why s r \<longleftrightarrow> snd r = None \<and> calls (fst r) = calls s \<and>
     next_state (current_state (fst r)) = Some Terminate \<and> next_v2gtp_msg (current_state (fst r)) \<noteq> None \<and>
     (\<exists>h x. state_message (current_state (fst r)) = Some (V2Message h (Some x)) \<and>
        failed_response_v2 t rc = Some x \<and> v2_session_id h = session_id s) \<and>
     (\<exists>n. stop_reason (fst r) = Some n \<and> \<not> successful n \<and> stop_action n = TERMINATE \<and> reason n = why)"

lemma stop_refuses:
  assumes "v2_ready env s" "v2_body_type b \<notin> {CertificateUpdateT, V2ResponseT}"
    and "rc \<noteq> FAILED_EVSE_PRESENT_VOLTAGE_TO_LOW"
  shows "refused (v2_body_type b) rc r s (stop_state_machine env r (V2Message h (Some b)) (DinCode rc) s)"
proof -
  let ?s = "s\<lparr>stop_reason := Some \<lparr>successful = False, reason = r, peer_ip_address = peername env,
    stop_action = TERMINATE\<rparr>\<rparr>"
  obtain x where x: "failed_response_v2 (v2_body_type b) rc = Some x"
    using assms(2) failed_response_v2_some [of "v2_body_type b" rc] by auto
  have "v2_answers b \<noteq> CertificateUpdateT"
    using assms(2) by (cases b) simp_all
  then have "get_msg_type (message_text (V2Message h (Some b))) = Some (v2_body_type b)"
    using assms(2) by (simp add: get_msg_type_name)
  moreover have "v2_ready env ?s" using assms(1) by (simp add: v2_ready_def)
  ultimately have "stop_state_machine env r (V2Message h (Some b)) (DinCode rc) s =
      done_with (v2_prepared env (Some Terminate) 0 x None ?s)"
    using x assms(3) by (simp add: stop_state_machine_def Let_def create_next_message_v2 del: message_text.simps)
  then show ?thesis using x by (simp add: refused_def v2_message_def)
qed

text \<open>The classes a state expects, and whether only the first of them is accepted at the moment.\<close>

fun v2_expected :: "state_kind \<Rightarrow> v2_type list" where
  "v2_expected SessionSetupV2 = [SessionSetupT]"
| "v2_expected ServiceDiscoveryV2 = [ServiceDiscoveryT, ServiceDetailT, PaymentServiceSelectionT]"
| "v2_expected ServiceDetailV2 = [ServiceDetailT, PaymentServiceSelectionT]"
| "v2_expected PaymentServiceSelectionV2 =
     [PaymentServiceSelectionT, CertificateInstallationT, PaymentDetailsT, AuthorizationT]"
| "v2_expected CertificateInstallationV2 = [CertificateInstallationT]"
| "v2_expected PaymentDetailsV2 = [PaymentDetailsT]"
| "v2_expected AuthorizationV2 = [AuthorizationT]"
| "v2_expected ChargeParameterDiscoveryV2 = [ChargeParameterDiscoveryT, PowerDeliveryT, CableCheckT]"
| "v2_expected PowerDeliveryV2 = [PowerDeliveryT, SessionStopT, WeldingDetectionT]"
| "v2_expected MeteringReceiptV2 = [MeteringReceiptT, ChargingStatusT, CurrentDemandT, PowerDeliveryT]"
| "v2_expected SessionStopV2 = [SessionStopT]"
| "v2_expected ChargingStatusV2 = [ChargingStatusT, PowerDeliveryT, MeteringReceiptT]"
| "v2_expected CableCheckV2 = [CableCheckT]"
| "v2_expected PreChargeV2 = [PreChargeT, PowerDeliveryT]"
| "v2_expected CurrentDemandV2 = [CurrentDemandT, PowerDeliveryT]"
| "v2_expected WeldingDetectionV2 = [WeldingDetectionT, SessionStopT]"
| "v2_expected _ = []"

definition v2_accepts :: "state_obj \<Rightarrow> v2_type \<Rightarrow> bool" where
  "v2_accepts x t \<longleftrightarrow> t \<in> set (if expect_first x then take 1 (v2_expected (kind x)) else v2_expected (kind x))"

lemma v2_process_check:
  assumes "k \<in> set v2_states"
  obtains c first where "v2_process k env exi m s = check_msg_v2 env (v2_expected k) first m c s"
    "length (v2_expected k) = 1 \<or> first = expect_first (current_state s)"
  using assms that
  by (auto simp: v2_states_def SessionSetupV2_process_def ServiceDiscoveryV2_process_def ServiceDetailV2_process_def
      PaymentServiceSelectionV2_process_def CertificateInstallationV2_process_def PaymentDetailsV2_process_def
      AuthorizationV2_process_def ChargeParameterDiscoveryV2_process_def PowerDeliveryV2_process_def
      MeteringReceiptV2_process_def MeteringReceiptV2_handler_def SessionStopV2_process_def
      ChargingStatusV2_process_def ChargingStatusV2_handler_def CableCheckV2_process_def PreChargeV2_process_def
      CurrentDemandV2_process_def WeldingDetectionV2_process_def)

lemma match_types_None:
  assumes "match_types first n (Some t) (map V2T es) = Some True"
  shows "t \<in> V2T ` set es" "first \<Longrightarrow> n = 0 \<Longrightarrow> t \<in> V2T ` set (take 1 es)"
proof -
  show "t \<in> V2T ` set es" using assms by (induction es arbitrary: n) (auto split: if_splits)
  show "t \<in> V2T ` set (take 1 es)" if "first" "n = 0"
    using assms that by (cases es) (auto split: if_splits)
qed



text \<open>
  A certificate update is never answered. Whatever state it arrives in, a \<open>CertificateUpdateReq\<close>
  makes the charger look for the prepared failed response under the name of the request; the table of
  names has no entry for it, so the attempt to refuse it raises an \<open>AttributeError\<close> and nothing is sent,
  although a failed response for it is prepared.
\<close>

lemma certificate_update_unanswered:
  assumes "k \<in> set v2_states" "v2_body_type b = CertificateUpdateT"
  shows "snd (v2_process k env exi (V2Message h (Some b)) s) = Some AttributeError \<and>
    failed_response_v2 CertificateUpdateT rc \<noteq> None"
proof -
  let ?m = "V2Message h (Some b)"
  obtain c first where p: "v2_process k env exi ?m s = check_msg_v2 env (v2_expected k) first ?m c s"
    using v2_process_check [OF assms(1)] by metis
  have "CertificateUpdateT \<notin> set (v2_expected k)" by (cases k) simp_all
  then have "match_types first 0 (message_type ?m) (map V2T (v2_expected k)) \<noteq> Some True"
    using match_types_None(1) [of first 0 "V2T (v2_body_type b)" "v2_expected k"] assms(2) by auto
  then have "\<exists>r. v2_process k env exi ?m s = stop_state_machine env r ?m (DinCode FAILED_SEQUENCE_ERROR) s"
    unfolding p check_msg_v2_def check_msg_def by (simp del: message_type.simps) blast
  moreover have "get_msg_type (message_text ?m) = None"
    using assms(2) by (simp add: get_msg_type_name)
  ultimately show ?thesis
    by (auto simp: stop_state_machine_def Let_def simp del: message_text.simps)
qed

section \<open>Authorisation\<close>

text \<open>
  A rejected vehicle is told that all is well. When the charging station rejects a vehicle that
  pays externally and gives no certificate status, the session ends, but the response that ends it is
  \<open>AuthorizationRes\<close> with the code OK and the processing finished, which is what an accepted vehicle
  is sent.
\<close>

lemma rejected_authorisation_answered_ok:
  assumes "v2_ready env s" "kind (current_state s) = AuthorizationV2" "session_id s = v2_session_id h"
    and "selected_auth_option s \<noteq> Some PNC_V2" "\<not> authorization_complete (current_state s)"
    and "is_authorized env = REJECTED" "certificate_response_status (iso2_env env) = None"
  shows "refused AuthorizationT OK ''Authorization was rejected'' s
      (v2_process AuthorizationV2 env exi (V2Message h (Some (AuthorizationReqV2 i ch))) s) \<and>
    failed_response_v2 AuthorizationT OK = Some (AuthorizationResV2 OK FINISHED)"
proof -
  let ?m = "V2Message h (Some (AuthorizationReqV2 i ch))"
  have "v2_process AuthorizationV2 env exi ?m s =
      stop_state_machine env ''Authorization was rejected'' ?m (DinCode OK) s"
    using assms(3-7)
    by (simp add: AuthorizationV2_process_def decide_authorization_def check_msg_v2_def check_msg_def allowed_code_def Let_def)
  then show ?thesis
    using stop_refuses [OF assms(1), of "AuthorizationReqV2 i ch" OK _ h] by simp
qed

lemma contract_authorisation_leads:
  assumes "kind (current_state s) = AuthorizationV2" "selected_auth_option s = Some PNC_V2"
    and "\<not> signature_verified_once (current_state s)" "\<not> authorization_complete (current_state s)"
  shows "leads (\<lambda>_. True) (\<lambda>z. kind (current_state z) = ChargeParameterDiscoveryV2 \<longrightarrow>
      (\<exists>h i ch chain part. m = V2Message h (Some (AuthorizationReqV2 i ch)) \<and>
         contract_cert_chain (iso2 s) = Some chain \<and> ch = gen_challenge (iso2 s) \<and>
         fragment_exi (iso2_env env) (BodyPart (AuthorizationReqV2 i ch)) = Inr part \<and>
         verify_signature (crypt (iso2_env env)) (v2_signature h) [(i, part)] (certificate chain) None None = Inr True \<and>
         is_authorized env = ACCEPTED \<and> is_ready_to_charge (iso2_env env)))
    (AuthorizationV2_process env m s)"
  unfolding AuthorizationV2_process_def decide_authorization_def
  by (rule leads_check)
    (use assms in \<open>auto simp: Let_def rbind_Inr_iff v2_header_signature_def messaged_kind
      split: option.splits sum.splits bool.splits intro!: leads_stop leads_raises leads_next_v2\<close>)

text \<open>
  C9: authorisation by contract needs a signature over the charger's challenge. When the charger goes
  from authorisation to the charge parameters in a session paid by contract, on the first request it has
  checked, then a contract certificate chain had been received, the request carries the challenge the
  charger had sent, and the header has a signature which covers the encoded request with its digest and
  verifies with the key of the contract certificate; the vehicle was reported authorised, and the station
  ready.
\<close>

theorem contract_authorisation_signed:
  assumes "v2_process AuthorizationV2 env exi m s = (s', None)" "kind (current_state s) = AuthorizationV2"
    and "next_state (current_state s') = Some ChargeParameterDiscoveryV2"
    and "selected_auth_option s = Some PNC_V2" "\<not> signature_verified_once (current_state s)"
    and "\<not> authorization_complete (current_state s)"
  shows "\<exists>h i ch chain sg part. m = V2Message h (Some (AuthorizationReqV2 i ch)) \<and>
    contract_cert_chain (iso2 s) = Some chain \<and> ch = gen_challenge (iso2 s) \<and> v2_signature h = Some sg \<and>
    fragment_exi (iso2_env env) (BodyPart (AuthorizationReqV2 i ch)) = Inr part \<and>
    covers (crypt (iso2_env env)) sg (i, part) \<and> signed_by (crypt (iso2_env env)) sg (certificate chain) \<and>
    is_authorized env = ACCEPTED \<and> is_ready_to_charge (iso2_env env)"
proof -
  have "kind (current_state (go_to_next_state s')) = ChargeParameterDiscoveryV2"
    using assms(3) by (simp add: go_to_next_state_def new_state_def)
  then obtain h i ch chain part where m: "m = V2Message h (Some (AuthorizationReqV2 i ch))"
    and facts: "contract_cert_chain (iso2 s) = Some chain" "ch = gen_challenge (iso2 s)"
      "fragment_exi (iso2_env env) (BodyPart (AuthorizationReqV2 i ch)) = Inr part"
      "is_authorized env = ACCEPTED" "is_ready_to_charge (iso2_env env)"
    and v: "verify_signature (crypt (iso2_env env)) (v2_signature h) [(i, part)] (certificate chain) None None = Inr True"
    using contract_authorisation_leads [OF assms(2,4-6), of m env] assms(1,3) unfolding leads_def by auto
  obtain sg where "v2_signature h = Some sg" "covers (crypt (iso2_env env)) sg (i, part)"
    "signed_by (crypt (iso2_env env)) sg (certificate chain)"
    by (rule verify_signature_sound [OF v]) simp
  with m facts show ?thesis by blast
qed

definition v2_contract_session :: secc where
  "v2_contract_session =
     set_v2 (\<lambda>v. v\<lparr>contract_cert_chain := Some \<lparr>chain_id = None, certificate = [1], sub_certificates = Some [[2]]\<rparr>,
         gen_challenge := Some (replicate 16 7)\<rparr>)
       ((v2_example_session AuthorizationV2)\<lparr>selected_auth_option := Some PNC_V2\<rparr>)"

definition v2_contract_request :: v2g_message where
  "v2_contract_request =
     V2Message (v2_example_header\<lparr>v2_signature :=
         Some (projr (create_signature example_crypto [(Some ''ID1'', [0x80])] [11]))\<rparr>)
       (Some (AuthorizationReqV2 (Some ''ID1'') (Some (replicate 16 7))))"

theorem contract_authorisation_signed_witness:
  "\<exists>h sg. v2_contract_request = V2Message h (Some (AuthorizationReqV2 (Some ''ID1'') (Some (replicate 16 7)))) \<and>
     v2_signature h = Some sg \<and> signed_by example_crypto sg [1]"
proof -
  let ?r = "v2_process AuthorizationV2 example_env [] v2_contract_request v2_contract_session"
  have "snd ?r = None" by code_simp
  then have r: "?r = (fst ?r, None)" by (metis prod.collapse)
  have n: "next_state (current_state (fst ?r)) = Some ChargeParameterDiscoveryV2" by code_simp
  from contract_authorisation_signed [OF r _ n] show ?thesis
    by (auto simp: v2_contract_session_def v2_example_session_def new_session_def new_state_def set_v2_def
        v2_contract_request_def example_env_def example_v2_env_def)
qed

section \<open>Resumed sessions\<close>


definition v2_paused_session :: "state_kind \<Rightarrow> secc" where
  "v2_paused_session k =
     set_v2 (\<lambda>v. v\<lparr>ev_session_context :=
       Some ((new_context ''0123456789ABCDEF'')\<lparr>ctx_auth_options := Some [EIM_V2]\<rparr>)\<rparr>) (v2_example_session k)"


section \<open>Certificate installation\<close>

text \<open>
  What a \<open>CertificateInstallationRes\<close> made by the charger itself, without a backend, consists of: the two
  chains, the contract's private key as it was encrypted for the vehicle, and a signature over the encodings
  of the four parts the standard has signed.
\<close>

lemma generated_installation:
  assumes "generate_certificate_installation_res env = Inr (res, sig)"
  obtains cps contract i1 i2 i3 cn dh encrypted e1 e2 e3 e4 oem key signing_key where
    "res = CertificateInstallationResV2 OK cps contract (i1, encrypted) (i2, dh) (i3, cn)"
    "load_chain env None ''CPS_LEAF_DER'' ''CPS_SUB_CA2_DER'' ''CPS_SUB_CA1_DER'' = Inr cps"
    "load_chain env (Some ''id1'') ''CONTRACT_LEAF_DER'' ''MO_SUB_CA2_DER'' ''MO_SUB_CA1_DER'' = Inr contract"
    "load_cert (keys (iso2_env env)) ''OEM_LEAF_DER'' = Inr oem"
    "load_priv_key (keys (iso2_env env)) ''CONTRACT_LEAF_PEM'' PEM ''CONTRACT_LEAF_KEY_PASSWORD'' = Inr key"
    "encrypt_priv_key (crypt (iso2_env env)) (keys (iso2_env env)) oem key = Inr (dh, encrypted)"
    "fragment_exi (iso2_env env) (ChainPart contract) = Inr e1"
    "fragment_exi (iso2_env env) (PrivateKeyPart (i1, encrypted)) = Inr e2"
    "fragment_exi (iso2_env env) (DhPart (i2, dh)) = Inr e3"
    "fragment_exi (iso2_env env) (EmaidPart (i3, cn)) = Inr e4"
    "load_priv_key (keys (iso2_env env)) ''CPS_LEAF_PEM'' PEM ''CPS_LEAF_KEY_PASSWORD'' = Inr signing_key"
    "create_signature (crypt (iso2_env env))
      [(chain_id contract, e1), (Some i1, e2), (Some i2, e3), (Some i3, e4)] signing_key = Inr sig"
proof -
  obtain cps contract cn dh encrypted oem key where p:
    "res = CertificateInstallationResV2 OK cps contract (''id2'', encrypted) (''id3'', dh) (''id4'', cn)"
    "load_chain env None ''CPS_LEAF_DER'' ''CPS_SUB_CA2_DER'' ''CPS_SUB_CA1_DER'' = Inr cps"
    "load_chain env (Some ''id1'') ''CONTRACT_LEAF_DER'' ''MO_SUB_CA2_DER'' ''MO_SUB_CA1_DER'' = Inr contract"
    "load_cert (keys (iso2_env env)) ''OEM_LEAF_DER'' = Inr oem"
    "load_priv_key (keys (iso2_env env)) ''CONTRACT_LEAF_PEM'' PEM ''CONTRACT_LEAF_KEY_PASSWORD'' = Inr key"
    "encrypt_priv_key (crypt (iso2_env env)) (keys (iso2_env env)) oem key = Inr (dh, encrypted)"
    "sign_installation env contract (''id2'', encrypted) (''id3'', dh) (''id4'', cn) = Inr sig"
    using assms by (auto simp: generate_certificate_installation_res_def rbind_Inr_iff Let_def split: if_splits)
  obtain e1 e2 e3 e4 signing_key where e: "fragment_exi (iso2_env env) (ChainPart contract) = Inr e1"
    "fragment_exi (iso2_env env) (PrivateKeyPart (''id2'', encrypted)) = Inr e2"
    "fragment_exi (iso2_env env) (DhPart (''id3'', dh)) = Inr e3"
    "fragment_exi (iso2_env env) (EmaidPart (''id4'', cn)) = Inr e4"
    "load_priv_key (keys (iso2_env env)) ''CPS_LEAF_PEM'' PEM ''CPS_LEAF_KEY_PASSWORD'' = Inr signing_key"
    "create_signature (crypt (iso2_env env))
      [(chain_id contract, e1), (Some ''id2'', e2), (Some ''id3'', e3), (Some ''id4'', e4)] signing_key = Inr sig"
    using p(7) by (auto simp: sign_installation_def rbind_Inr_iff)
  show thesis by (rule that [OF p(1-6) e])
qed

end
