(* ===== verification/Evcc_V2_States.thy ===== *)
theory Evcc_V2_States
  imports Evcc_Din_States Contract_Key
begin

text \<open>
  The sixteen states of \<open>iso15118/evcc/states/iso15118_2_states.py\<close>: in each the vehicle processes the
  response of ISO 15118-2 to its last request and prepares the next request. Constructing a request
  validates its fields.
\<close>

section \<open>Environment and session\<close>

text \<open>
  What the vehicle and its files answer while one message is handled, beyond \<open>ev_env\<close>. The power delivery
  parameter is the controller's answer as it stands; the two texts are the interpreter's formatting of an
  exception and of a file name that end up in a stop reason.
\<close>

record ev_v2_env = ev_env +
  ev_crypt :: crypto
  ev_keys :: key_store
  ev_part_exi :: "v2_fragment \<Rightarrow> bytes result"
  is_cert_install_needed :: bool
  store_contract_cert_and_priv_key :: "bytes \<Rightarrow> bytes \<Rightarrow> unit result"
  get_charge_params_v2 ::
    "energy_mode \<times> ac_ev_charge_parameter option \<times> dc_ev_charge_parameter_v2 option"
  process_sa_schedules_v2 :: "sa_schedule list \<Rightarrow> (charge_progress \<times> int \<times> profile_entry list) result"
  get_dc_ev_status :: dc_ev_status
  ev_power_delivery_parameter :: dc_ev_power_delivery_parameter
  ev_error_text :: "py_error \<Rightarrow> string"
  missing_file :: string

record evcc_v2 = evcc +
  ev_is_tls :: bool
  ev_charging_type_is_ac :: bool
  resume_auth_option :: "auth_enum option"
  service_details_to_request :: "int list"
  charging_session_stop :: "charging_session option"
  renegotiation_requested :: bool

section \<open>Checking and sending\<close>

text \<open>\<open>check_msg_v2\<close>: the class of responses that is expected is named by the class of requests it answers.\<close>

definition check_response_v2 ::
  "ev_v2_env \<Rightarrow> v2_type \<Rightarrow> v2g_message \<Rightarrow> (v2_header \<Rightarrow> v2_body \<Rightarrow> evcc_v2 \<Rightarrow> evcc_v2 outcome) \<Rightarrow>
     evcc_v2 \<Rightarrow> evcc_v2 outcome" where
  "check_response_v2 env expected m k s =
     (case m of
        V2Message h body \<Rightarrow>
          (case body of
             None \<Rightarrow>
               ev_stop_state_machine env
                 (message_text m @ CHR 0x27 # '' not accepted in state '' @ state_text (kind (current_state s))) s
           | Some b \<Rightarrow>
               if v2_answers b \<noteq> expected then
                 ev_stop_state_machine env
                   (message_text m @ CHR 0x27 # '' not accepted in state '' @ state_text (kind (current_state s))) s
               else if (case v2_response_code b of Some rc \<Rightarrow> failed_code rc | None \<Rightarrow> False) then
                 ev_stop_state_machine env
                   (''Negative response code '' @ code_text env (v2_response_code b) @
                     '' received with message '' @ message_text m) s
               else if expected \<noteq> SessionSetupT \<and> v2_session_id h \<noteq> session_id s then
                 ev_stop_state_machine env (session_text m s) s
               else k h b s)
      | _ \<Rightarrow>
          ev_stop_state_machine env
            (ev_type_text env m @ CHR 0x27 # '' not a valid message type in state '' @
              state_text (kind (current_state s))) s)"

definition ev_next_v2 ::
  "ev_v2_env \<Rightarrow> state_kind option \<Rightarrow> v2_body \<Rightarrow> signature option \<Rightarrow> rat \<Rightarrow> evcc_v2 \<Rightarrow> evcc_v2 outcome" where
  "ev_next_v2 env nxt b sig timeout s =
     create_next_message env nxt (NextV2 b sig) timeout ISO_V2_MSG_DEF EXI_ENCODED s"

text \<open>A request is constructed and, if it is valid, becomes the next message.\<close>

definition ev_request ::
  "ev_v2_env \<Rightarrow> state_kind option \<Rightarrow> v2_body \<Rightarrow> rat \<Rightarrow> evcc_v2 \<Rightarrow> evcc_v2 outcome" where
  "ev_request env nxt b timeout s =
     (if message_ok b then ev_next_v2 env nxt b None timeout s else raises ValidationError s)"

text \<open>
  The same for a request whose signature goes into the header, with the handler for a key that cannot be
  read.
\<close>

definition ev_signed_request ::
  "ev_v2_env \<Rightarrow> state_kind \<Rightarrow> v2_body \<Rightarrow> rat \<Rightarrow> string \<Rightarrow> string \<Rightarrow> string \<Rightarrow> evcc_v2 \<Rightarrow> evcc_v2 outcome" where
  "ev_signed_request env nxt b timeout key_path password_path unreadable s =
     (if \<not> message_ok b then raises ValidationError s
      else
        (case rbind (ev_part_exi env (BodyPart b)) (\<lambda>exi.
              rbind (load_priv_key (ev_keys env) key_path PEM password_path) (\<lambda>key.
                create_signature (ev_crypt env) [(Some ''id1'', exi)] key)) of
           Inl e \<Rightarrow>
             if e = PrivateKeyReadError then ev_stop_state_machine env (unreadable @ ev_error_text env e) s
             else raises e s
         | Inr sig \<Rightarrow> ev_next_v2 env (Some nxt) b (Some sig) timeout s))"

text \<open>The timer of a request that is repeated while the charger is busy; the rest is given the time elapsed.\<close>

definition while_ongoing ::
  "ev_v2_env \<Rightarrow> rat \<Rightarrow> string \<Rightarrow> (rat \<Rightarrow> evcc_v2 \<Rightarrow> evcc_v2 outcome) \<Rightarrow> evcc_v2 \<Rightarrow> evcc_v2 outcome" where
  "while_ongoing env limit timed_out k s =
     (if ongoing_timer s \<ge> 0 then
        let elapsed_time = clock env - ongoing_timer s
        in if elapsed_time > limit then ev_stop_state_machine env timed_out s else k elapsed_time s
      else k 0 (s\<lparr>ongoing_timer := clock env\<rparr>))"

abbreviation (input) "V2G_EVCC_ONGOING_TIMEOUT \<equiv> (60 :: rat)"
abbreviation (input) "SHORT_REQ \<equiv> (2 :: rat)"
abbreviation (input) "LONG_REQ \<equiv> (5 :: rat)"

section \<open>Session set-up and services\<close>

definition ev_SessionSetupV2_process :: "ev_v2_env \<Rightarrow> v2g_message \<Rightarrow> evcc_v2 \<Rightarrow> evcc_v2 outcome" where
  "ev_SessionSetupV2_process env m s =
     check_response_v2 env SessionSetupT m (\<lambda>h b s.
       case b of
         SessionSetupResV2 _ evse _ \<Rightarrow>
           ev_request env (Some ServiceDiscoveryV2) (ServiceDiscoveryReqV2 None None) SHORT_REQ
             (s\<lparr>session_id := v2_session_id h, evse_id := evse\<rparr>)
       | _ \<Rightarrow> done_with s) s"

definition select_auth_mode_v2 :: "auth_enum list \<Rightarrow> evcc_v2 \<Rightarrow> evcc_v2" where
  "select_auth_mode_v2 auth_option_list s =
     (case resume_auth_option s of
        Some a \<Rightarrow> s\<lparr>ev_selected_auth_option := Some a, resume_auth_option := None\<rparr>
      | None \<Rightarrow>
          s\<lparr>ev_selected_auth_option :=
              Some (if PNC_V2 \<in> set auth_option_list \<and> ev_is_tls s then PNC_V2 else EIM_V2)\<rparr>)"

text \<open>The loop over the offered services.\<close>

fun select_offered :: "ev_v2_env \<Rightarrow> service_details list \<Rightarrow> evcc_v2 \<Rightarrow> evcc_v2" where
  "select_offered env [] s = s"
| "select_offered env (d # ds) s =
     select_offered env ds
       (if sd_service_category d = CERTIFICATE \<and> ev_selected_auth_option s = Some PNC_V2 \<and>
           is_cert_install_needed env
        then s\<lparr>service_details_to_request := service_details_to_request s @ [sd_service_id d],
               selected_services := selected_services s @ [(2, None)]\<rparr>
        else s)"

definition select_services_v2 :: "ev_v2_env \<Rightarrow> charge_service_v2 \<Rightarrow> service_details list option \<Rightarrow> evcc_v2 \<Rightarrow> evcc_v2" where
  "select_services_v2 env cs service_list s =
     (let s = s\<lparr>selected_services := selected_services s @ [(sd_service_id cs, None)]\<rparr>
      in if \<not> ev_is_tls s then s
         else (case service_list of None \<Rightarrow> s | Some services \<Rightarrow> select_offered env services s))"

definition select_energy_transfer_mode_v2 :: "ev_v2_env \<Rightarrow> evcc_v2 \<Rightarrow> evcc_v2" where
  "select_energy_transfer_mode_v2 env s =
     (case resume_requested_energy_mode s of
        Some mode \<Rightarrow> s\<lparr>ev_selected_energy_mode := Some mode, resume_requested_energy_mode := None\<rparr>
      | None \<Rightarrow>
          s\<lparr>ev_selected_energy_mode := Some (get_energy_transfer_mode env),
            ev_charging_type_is_ac := is_ac_mode (get_energy_transfer_mode env)\<rparr>)"

text \<open>What follows the discovery and every service detail: the next detail, taken from the end, or the selection.\<close>

definition request_services :: "ev_v2_env \<Rightarrow> evcc_v2 \<Rightarrow> evcc_v2 outcome" where
  "request_services env s =
     (case service_details_to_request s of
        [] \<Rightarrow>
          (case ev_selected_auth_option s of
             None \<Rightarrow> raises ValidationError s
           | Some auth \<Rightarrow>
               ev_request env (Some PaymentServiceSelectionV2)
                 (PaymentServiceSelectionReqV2 auth (selected_services s)) SHORT_REQ s)
      | ids \<Rightarrow>
          ev_request env (Some ServiceDetailV2) (ServiceDetailReqV2 (last ids)) LONG_REQ
            (s\<lparr>service_details_to_request := butlast ids\<rparr>))"

text \<open>The charge service is a mandatory field of the response, so the test that it is offered never fails.\<close>

definition ev_ServiceDiscoveryV2_process :: "ev_v2_env \<Rightarrow> v2g_message \<Rightarrow> evcc_v2 \<Rightarrow> evcc_v2 outcome" where
  "ev_ServiceDiscoveryV2_process env m s =
     check_response_v2 env ServiceDiscoveryT m (\<lambda>h b s.
       case b of
         ServiceDiscoveryResV2 _ auth_options cs service_list \<Rightarrow>
           let s = select_energy_transfer_mode_v2 env
                     (select_services_v2 env cs service_list (select_auth_mode_v2 auth_options s));
               offered = supported_energy_transfer_mode cs
           in if ev_selected_energy_mode s \<notin> Some ` set offered then
                ev_stop_state_machine env
                  (''Offered energy transfer modes '' @ modes_text env offered (ev_selected_energy_mode s)) s
              else request_services env s
       | _ \<Rightarrow> done_with s) s"

definition ev_ServiceDetailV2_process :: "ev_v2_env \<Rightarrow> v2g_message \<Rightarrow> evcc_v2 \<Rightarrow> evcc_v2 outcome" where
  "ev_ServiceDetailV2_process env m s = check_response_v2 env ServiceDetailT m (\<lambda>h b. request_services env) s"

section \<open>Contract and authorisation\<close>

text \<open>The chain in the request is an object that has been checked; only the eMAID is checked here.\<close>

definition payment_details_req :: "ev_v2_env \<Rightarrow> v2_body result" where
  "payment_details_req env =
     rbind (load_cert (ev_keys env) ''CONTRACT_LEAF_DER'') (\<lambda>leaf.
     rbind (get_cert_cn (ev_keys env) leaf) (\<lambda>cn.
     rbind (load_cert_chain (ev_keys env) ''CONTRACT_LEAF_DER'' ''MO_SUB_CA2_DER'' (Some ''MO_SUB_CA1_DER'')) (\<lambda>chain.
       if len_in 14 15 cn then Inr (PaymentDetailsReqV2 cn chain) else Inl ValidationError)))"

definition certificate_installation_req :: "ev_v2_env \<Rightarrow> v2_body result" where
  "certificate_installation_req env =
     rbind (get_cert_issuer_serial (ev_keys env) ''V2G_ROOT_DER'') (\<lambda>issuer_serial.
     rbind (load_cert (ev_keys env) ''OEM_LEAF_DER'') (\<lambda>cert.
       Inr (CertificateInstallationReqV2 ''id1'' cert [issuer_serial])))"

definition ev_PaymentServiceSelectionV2_process :: "ev_v2_env \<Rightarrow> v2g_message \<Rightarrow> evcc_v2 \<Rightarrow> evcc_v2 outcome" where
  "ev_PaymentServiceSelectionV2_process env m s =
     check_response_v2 env PaymentServiceSelectionT m (\<lambda>h b s.
       if ev_selected_auth_option s \<noteq> Some PNC_V2 then
         ev_request env (Some AuthorizationV2) (AuthorizationReqV2 None None) SHORT_REQ s
       else if is_cert_install_needed env then
         (case certificate_installation_req env of
            Inl e \<Rightarrow> raises e s
          | Inr req \<Rightarrow>
              ev_signed_request env CertificateInstallationV2 req LONG_REQ ''OEM_LEAF_PEM'' ''OEM_LEAF_KEY_PASSWORD''
                ''Can't read private key necessary to sign CertificateInstallationReq: '' s)
       else
         (case payment_details_req env of
            Inl e \<Rightarrow>
              if e = FileNotFoundError
              then ev_stop_state_machine env (''Can't find file '' @ missing_file env) s
              else raises e s
          | Inr req \<Rightarrow> ev_next_v2 env (Some PaymentDetailsV2) req None LONG_REQ s)) s"

text \<open>The four signed elements of the response.\<close>

definition installed_elements ::
  "ev_v2_env \<Rightarrow> certificate_chain \<Rightarrow> string \<times> bytes \<Rightarrow> string \<times> bytes \<Rightarrow> string \<times> string \<Rightarrow>
     (string option \<times> bytes) list result" where
  "installed_elements env contract priv dh em =
     rbind (ev_part_exi env (ChainPart contract)) (\<lambda>e1.
     rbind (ev_part_exi env (PrivateKeyPart priv)) (\<lambda>e2.
     rbind (ev_part_exi env (DhPart dh)) (\<lambda>e3.
     rbind (ev_part_exi env (EmaidPart em)) (\<lambda>e4.
       Inr [(chain_id contract, e1), (Some (fst priv), e2), (Some (fst dh), e3), (Some (fst em), e4)]))))"

definition verify_installation ::
  "ev_v2_env \<Rightarrow> signature option \<Rightarrow> certificate_chain \<Rightarrow> certificate_chain \<Rightarrow> string \<times> bytes \<Rightarrow> string \<times> bytes \<Rightarrow>
     string \<times> string \<Rightarrow> bool result" where
  "verify_installation env sig cps contract priv dh em =
     rbind (installed_elements env contract priv dh em) (\<lambda>elements.
       case sub_certificates cps of
         None \<Rightarrow> Inl AttributeError
       | Some subs \<Rightarrow>
           rbind (load_cert (ev_keys env) ''V2G_ROOT_DER'') (\<lambda>anchor.
             verify_signature (ev_crypt env) sig elements (certificate cps) (Some subs) (Some anchor)))"

definition received_key :: "ev_v2_env \<Rightarrow> string \<times> bytes \<Rightarrow> string \<times> bytes \<Rightarrow> bytes result" where
  "received_key env priv dh =
     rbind (load_priv_key (ev_keys env) ''OEM_LEAF_PEM'' PEM ''OEM_LEAF_KEY_PASSWORD'') (\<lambda>key.
     rbind (to_ec_pub_key (ev_keys env) (snd dh)) (\<lambda>point.
       decrypt_priv_key (ev_keys env) (snd priv) key point))"

definition installation_failed :: "ev_v2_env \<Rightarrow> py_error \<Rightarrow> evcc_v2 \<Rightarrow> evcc_v2 outcome" where
  "installation_failed env e s =
     (if e = DecryptionError then
        ev_stop_state_machine env ''Can't decrypt encrypted private key for contract certificate'' s
      else if e = PrivateKeyReadError then
        ev_stop_state_machine env
          (''Can't read private key needed to decrypt encrypted private key contained in CertificateInstallationRes. '' @
             ev_error_text env e) s
      else raises e s)"

definition install_contract ::
  "ev_v2_env \<Rightarrow> certificate_chain \<Rightarrow> string \<times> bytes \<Rightarrow> string \<times> bytes \<Rightarrow> evcc_v2 \<Rightarrow> evcc_v2 outcome" where
  "install_contract env contract priv dh s =
     (case received_key env priv dh of
        Inl e \<Rightarrow> installation_failed env e s
      | Inr key \<Rightarrow>
          let s = ev_call (StoreContract (certificate contract) key) s
          in (case store_contract_cert_and_priv_key env (certificate contract) key of
                Inl e \<Rightarrow> installation_failed env e s
              | Inr _ \<Rightarrow>
                  (case payment_details_req env of
                     Inl e \<Rightarrow> raises e s
                   | Inr req \<Rightarrow> ev_next_v2 env (Some PaymentDetailsV2) req None LONG_REQ s)))"

definition ev_CertificateInstallationV2_process :: "ev_v2_env \<Rightarrow> v2g_message \<Rightarrow> evcc_v2 \<Rightarrow> evcc_v2 outcome" where
  "ev_CertificateInstallationV2_process env m s =
     check_response_v2 env CertificateInstallationT m (\<lambda>h b s.
       case b of
         CertificateInstallationResV2 _ cps contract priv dh em \<Rightarrow>
           (case verify_installation env (v2_signature h) cps contract priv dh em of
              Inl e \<Rightarrow> raises e s
            | Inr False \<Rightarrow>
                ev_stop_state_machine env ''Signature verification of CertificateInstallationRes failed'' s
            | Inr True \<Rightarrow> install_contract env contract priv dh s)
       | _ \<Rightarrow> done_with s) s"

definition ev_PaymentDetailsV2_process :: "ev_v2_env \<Rightarrow> v2g_message \<Rightarrow> evcc_v2 \<Rightarrow> evcc_v2 outcome" where
  "ev_PaymentDetailsV2_process env m s =
     check_response_v2 env PaymentDetailsT m (\<lambda>h b s.
       case b of
         PaymentDetailsResV2 _ challenge _ \<Rightarrow>
           ev_signed_request env AuthorizationV2 (AuthorizationReqV2 (Some ''id1'') (Some challenge)) SHORT_REQ
             ''CONTRACT_LEAF_PEM'' ''CONTRACT_LEAF_KEY_PASSWORD''
             ''Can't read private key to sign AuthorizationReq: '' s
       | _ \<Rightarrow> done_with s) s"

definition request_parameters :: "ev_v2_env \<Rightarrow> rat \<Rightarrow> evcc_v2 \<Rightarrow> evcc_v2 outcome" where
  "request_parameters env timeout s =
     (case get_charge_params_v2 env of
        (mode, ac, dc) \<Rightarrow>
          ev_request env (Some ChargeParameterDiscoveryV2) (ChargeParameterDiscoveryReqV2 None mode ac dc) timeout s)"

definition ev_AuthorizationV2_process :: "ev_v2_env \<Rightarrow> v2g_message \<Rightarrow> evcc_v2 \<Rightarrow> evcc_v2 outcome" where
  "ev_AuthorizationV2_process env m s =
     check_response_v2 env AuthorizationT m (\<lambda>h b s.
       case b of
         AuthorizationResV2 _ processing \<Rightarrow>
           if processing = FINISHED then request_parameters env SHORT_REQ (s\<lparr>ongoing_timer := - 1\<rparr>)
           else
             while_ongoing env V2G_EVCC_ONGOING_TIMEOUT ''Ongoing timer timed out for AuthorizationRes'' (\<lambda>elapsed.
               ev_request env (Some AuthorizationV2) (AuthorizationReqV2 None None)
                 (min SHORT_REQ (V2G_EVCC_ONGOING_TIMEOUT - elapsed))) s
       | _ \<Rightarrow> done_with s) s"

section \<open>Charge parameters and power delivery\<close>

definition power_delivery_req ::
  "ev_v2_env \<Rightarrow> charge_progress \<Rightarrow> dc_ev_power_delivery_parameter option \<Rightarrow> evcc_v2 \<Rightarrow> evcc_v2 outcome" where
  "power_delivery_req env progress param s =
     (case selected_schedule s of
        None \<Rightarrow> raises ValidationError s
      | Some i \<Rightarrow> ev_request env (Some PowerDeliveryV2) (PowerDeliveryReqV2 progress i None param) LONG_REQ s)"

definition cable_check_req :: "ev_v2_env \<Rightarrow> evcc_v2 \<Rightarrow> evcc_v2 outcome" where
  "cable_check_req env = ev_request env (Some CableCheckV2) (CableCheckReqV2 (get_dc_ev_status env)) SHORT_REQ"

definition follow_schedules :: "ev_v2_env \<Rightarrow> sa_schedule list \<Rightarrow> evcc_v2 \<Rightarrow> evcc_v2 outcome" where
  "follow_schedules env schedules s =
     (case process_sa_schedules_v2 env schedules of
        Inl e \<Rightarrow> raises e s
      | Inr (progress, schedule_id, profile) \<Rightarrow>
          let s = ev_call (EnableCharging True) s
          in andthen
               (if ev_charging_type_is_ac s
                then ev_request env (Some PowerDeliveryV2)
                       (PowerDeliveryReqV2 progress schedule_id (Some profile) None) LONG_REQ s
                else cable_check_req env s)
               (\<lambda>s. done_with (ev_call (EnableCharging True) (s\<lparr>selected_schedule := Some schedule_id\<rparr>))))"

definition ev_ChargeParameterDiscoveryV2_process :: "ev_v2_env \<Rightarrow> v2g_message \<Rightarrow> evcc_v2 \<Rightarrow> evcc_v2 outcome" where
  "ev_ChargeParameterDiscoveryV2_process env m s =
     check_response_v2 env ChargeParameterDiscoveryT m (\<lambda>h b s.
       case b of
         ChargeParameterDiscoveryResV2 _ processing schedules _ _ \<Rightarrow>
           if processing = FINISHED then
             let s = s\<lparr>ongoing_timer := - 1\<rparr>
             in (case schedules of
                   None \<Rightarrow> raises AttributeError s
                 | Some tuples \<Rightarrow> follow_schedules env tuples s)
           else
             while_ongoing env V2G_EVCC_ONGOING_TIMEOUT ''Ongoing timer timed out for ChargeParameterDiscoveryRes''
               (\<lambda>elapsed. request_parameters env (min SHORT_REQ (V2G_EVCC_ONGOING_TIMEOUT - elapsed))) s
       | _ \<Rightarrow> done_with s) s"

text \<open>The request of the charging loop; only the one after a metering receipt carries the voltage limit.\<close>

definition build_current_demand_data :: "ev_v2_env \<Rightarrow> bool \<Rightarrow> v2_body" where
  "build_current_demand_data env with_voltage_limit =
     (let p = get_dc_charge_params env
      in CurrentDemandReqV2
           \<lparr>cd_dc_ev_status = get_dc_ev_status env, cd_ev_target_current = dc_target_current p,
            ev_max_voltage_limit = (if with_voltage_limit then Some (dc_max_voltage_limit p) else None),
            ev_max_current_limit = Some (dc_max_current_limit p),
            ev_max_power_limit = Some (dc_max_power_limit p),
            bulk_charging_complete = Some (is_bulk_charging_complete env),
            charging_complete = is_charging_complete env,
            remaining_time_to_full_soc = Some (get_remaining_time_to_full_soc env),
            cd_remaining_time_to_bulk_soc = Some (get_remaining_time_to_bulk_soc env),
            cd_ev_target_voltage = dc_target_voltage p\<rparr>)"

text \<open>On with the charging loop, after power delivery and after a metering receipt.\<close>

definition go_on_charging :: "ev_v2_env \<Rightarrow> bool \<Rightarrow> evcc_v2 \<Rightarrow> evcc_v2 outcome" where
  "go_on_charging env with_voltage_limit s =
     (if ev_selected_energy_mode s \<noteq> None \<and> ev_charging_type_is_ac s
      then ev_request env (Some ChargingStatusV2) ChargingStatusReqV2 SHORT_REQ s
      else ev_request env (Some CurrentDemandV2) (build_current_demand_data env with_voltage_limit) SHORT_REQ s)"

definition ev_PowerDeliveryV2_process :: "ev_v2_env \<Rightarrow> v2g_message \<Rightarrow> evcc_v2 \<Rightarrow> evcc_v2 outcome" where
  "ev_PowerDeliveryV2_process env m s =
     check_response_v2 env PowerDeliveryT m (\<lambda>h b s.
       case charging_session_stop s of
         Some ending \<Rightarrow>
           if ev_charging_type_is_ac s then
             ev_request env (Some SessionStopV2) (SessionStopReqV2 ending) SHORT_REQ s
           else
             ev_request env (Some WeldingDetectionV2) (WeldingDetectionReqV2 (get_dc_ev_status env)) SHORT_REQ
               (ev_call (EnableCharging False) s)
       | None \<Rightarrow>
           if renegotiation_requested s
           then request_parameters env SHORT_REQ (s\<lparr>renegotiation_requested := False\<rparr>)
           else go_on_charging env False s) s"

section \<open>Metering and the end of a session\<close>

definition ev_MeteringReceiptV2_process :: "ev_v2_env \<Rightarrow> v2g_message \<Rightarrow> evcc_v2 \<Rightarrow> evcc_v2 outcome" where
  "ev_MeteringReceiptV2_process env m s =
     check_response_v2 env MeteringReceiptT m (\<lambda>h b s.
       case b of
         MeteringReceiptResV2 _ ac_status dc_status \<Rightarrow>
           (case (case ac_status of
                    Some a \<Rightarrow> Some (ac_evse_notification a)
                  | None \<Rightarrow> map_option evse_notification dc_status) of
              None \<Rightarrow> raises AttributeError s
            | Some note \<Rightarrow>
                if note = STOP_CHARGING then power_delivery_req env STOP None s
                else if note = RE_NEGOTIATION then
                  power_delivery_req env RENEGOTIATE None (s\<lparr>renegotiation_requested := True\<rparr>)
                else go_on_charging env True s)
       | _ \<Rightarrow> done_with s) s"

fun ending_text :: "charging_session \<Rightarrow> string" where
  "ending_text CS_TERMINATE = ''terminated''"
| "ending_text CS_PAUSE = ''paused''"

definition ev_SessionStopV2_process :: "ev_v2_env \<Rightarrow> v2g_message \<Rightarrow> evcc_v2 \<Rightarrow> evcc_v2 outcome" where
  "ev_SessionStopV2_process env m s =
     check_response_v2 env SessionStopT m (\<lambda>h b s.
       case charging_session_stop s of
         None \<Rightarrow> raises AttributeError s
       | Some ending \<Rightarrow>
           let s = s\<lparr>stop_reason :=
                       Some \<lparr>successful = True, reason = ''Communication session '' @ ending_text ending,
                             peer_ip_address = peername env, stop_action = TERMINATE\<rparr>\<rparr>
           in done_with (update_state (\<lambda>x. x\<lparr>next_state := Some Terminate\<rparr>) s)) s"

text \<open>The two methods of this name; the one of direct current adds a parameter.\<close>

definition stop_charging_v2 :: "ev_v2_env \<Rightarrow> dc_ev_power_delivery_parameter option \<Rightarrow> evcc_v2 \<Rightarrow> evcc_v2 outcome" where
  "stop_charging_v2 env param s =
     andthen (power_delivery_req env STOP param s)
       (\<lambda>s. done_with (s\<lparr>charging_session_stop := Some CS_TERMINATE\<rparr>))"

text \<open>The configured delays before the next request, during which nothing else happens, are left out.\<close>

definition ev_ChargingStatusV2_process :: "ev_v2_env \<Rightarrow> v2g_message \<Rightarrow> evcc_v2 \<Rightarrow> evcc_v2 outcome" where
  "ev_ChargingStatusV2_process env m s =
     check_response_v2 env ChargingStatusT m (\<lambda>h b s.
       case b of
         ChargingStatusResV2 _ _ tuple_id _ info receipt status \<Rightarrow>
           if receipt = Some True \<and> ev_is_tls s then
             (case info of
                None \<Rightarrow> raises ValidationError s
              | Some i \<Rightarrow>
                  ev_signed_request env MeteringReceiptV2
                    (MeteringReceiptReqV2 (Some ''id1'') (session_id s) tuple_id i) SHORT_REQ
                    ''CONTRACT_LEAF_PEM'' ''CONTRACT_LEAF_KEY_PASSWORD''
                    ''Can't read private key necessary to sign MeteringReceiptReq: '' s)
           else if ac_evse_notification status = RE_NEGOTIATION then
             power_delivery_req env RENEGOTIATE None (s\<lparr>renegotiation_requested := True\<rparr>)
           else if ac_evse_notification status = STOP_CHARGING then stop_charging_v2 env None s
           else if continue_charging env then
             ev_request env (Some ChargingStatusV2) ChargingStatusReqV2 SHORT_REQ s
           else stop_charging_v2 env None s
       | _ \<Rightarrow> done_with s) s"

section \<open>Direct current\<close>

definition build_pre_charge_message :: "ev_v2_env \<Rightarrow> v2_body" where
  "build_pre_charge_message env =
     PreChargeReqV2 (get_dc_ev_status env) (dc_target_voltage (get_dc_charge_params env))
       (dc_target_current (get_dc_charge_params env))"

definition ev_CableCheckV2_process :: "ev_v2_env \<Rightarrow> v2g_message \<Rightarrow> evcc_v2 \<Rightarrow> evcc_v2 outcome" where
  "ev_CableCheckV2_process env m s =
     check_response_v2 env CableCheckT m (\<lambda>h b s.
       case b of
         CableCheckResV2 _ status processing \<Rightarrow>
           if processing = FINISHED then
             let s = s\<lparr>ongoing_timer := - 1\<rparr>
             in if evse_status_code status = EVSE_READY \<and> evse_isolation_status status = Some VALID
                then ev_request env (Some PreChargeV2) (build_pre_charge_message env) SHORT_REQ s
                else ev_stop_state_machine env ''Isolation-Level of EVSE is not Valid'' s
           else
             while_ongoing env V2G_EVCC_CABLE_CHECK_TIMEOUT ''Ongoing timer timed out for CableCheck''
               (\<lambda>elapsed. cable_check_req env) s
       | _ \<Rightarrow> done_with s) s"

definition ev_PreChargeV2_process :: "ev_v2_env \<Rightarrow> v2g_message \<Rightarrow> evcc_v2 \<Rightarrow> evcc_v2 outcome" where
  "ev_PreChargeV2_process env m s =
     check_response_v2 env PreChargeT m (\<lambda>h b s.
       case b of
         PreChargeResV2 _ _ present_voltage \<Rightarrow>
           if is_precharged env present_voltage then
             power_delivery_req env START (Some (ev_power_delivery_parameter env)) (s\<lparr>ongoing_timer := - 1\<rparr>)
           else
             while_ongoing env V2G_EVCC_PRE_CHARGE_TIMEOUT ''Timeout triggered during Precharge''
               (\<lambda>elapsed. ev_request env (Some PreChargeV2) (build_pre_charge_message env) SHORT_REQ) s
       | _ \<Rightarrow> done_with s) s"

definition ev_CurrentDemandV2_process :: "ev_v2_env \<Rightarrow> v2g_message \<Rightarrow> evcc_v2 \<Rightarrow> evcc_v2 outcome" where
  "ev_CurrentDemandV2_process env m s =
     check_response_v2 env CurrentDemandT m (\<lambda>h b s.
       case b of
         CurrentDemandResV2 _ res _ _ _ _ \<Rightarrow>
           if evse_notification (cd_dc_evse_status res) = STOP_CHARGING then
             stop_charging_v2 env (Some (ev_power_delivery_parameter env)) s
           else if continue_charging env then
             ev_request env (Some CurrentDemandV2) (build_current_demand_data env False) LONG_REQ s
           else stop_charging_v2 env (Some (ev_power_delivery_parameter env)) s
       | _ \<Rightarrow> done_with s) s"

definition ev_WeldingDetectionV2_process :: "ev_v2_env \<Rightarrow> v2g_message \<Rightarrow> evcc_v2 \<Rightarrow> evcc_v2 outcome" where
  "ev_WeldingDetectionV2_process env m s =
     check_response_v2 env WeldingDetectionT m (\<lambda>h b s.
       ongoing_check env ''WeldingDetectionRes'' (\<lambda>s.
         if welding_detection_has_finished env then
           (case charging_session_stop s of
              None \<Rightarrow> raises ValidationError s
            | Some ending \<Rightarrow> ev_request env (Some SessionStopV2) (SessionStopReqV2 ending) SHORT_REQ s)
         else ev_request env None (WeldingDetectionReqV2 (get_dc_ev_status env)) SHORT_REQ s) s) s"

section \<open>The state machine\<close>

fun ev_v2_process :: "state_kind \<Rightarrow> ev_v2_env \<Rightarrow> v2g_message \<Rightarrow> evcc_v2 \<Rightarrow> evcc_v2 outcome" where
  "ev_v2_process SessionSetupV2 = ev_SessionSetupV2_process"
| "ev_v2_process ServiceDiscoveryV2 = ev_ServiceDiscoveryV2_process"
| "ev_v2_process ServiceDetailV2 = ev_ServiceDetailV2_process"
| "ev_v2_process PaymentServiceSelectionV2 = ev_PaymentServiceSelectionV2_process"
| "ev_v2_process CertificateInstallationV2 = ev_CertificateInstallationV2_process"
| "ev_v2_process PaymentDetailsV2 = ev_PaymentDetailsV2_process"
| "ev_v2_process AuthorizationV2 = ev_AuthorizationV2_process"
| "ev_v2_process ChargeParameterDiscoveryV2 = ev_ChargeParameterDiscoveryV2_process"
| "ev_v2_process PowerDeliveryV2 = ev_PowerDeliveryV2_process"
| "ev_v2_process MeteringReceiptV2 = ev_MeteringReceiptV2_process"
| "ev_v2_process SessionStopV2 = ev_SessionStopV2_process"
| "ev_v2_process ChargingStatusV2 = ev_ChargingStatusV2_process"
| "ev_v2_process CableCheckV2 = ev_CableCheckV2_process"
| "ev_v2_process PreChargeV2 = ev_PreChargeV2_process"
| "ev_v2_process CurrentDemandV2 = ev_CurrentDemandV2_process"
| "ev_v2_process WeldingDetectionV2 = ev_WeldingDetectionV2_process"
| "ev_v2_process _ = (\<lambda>env m s. done_with s)"

end
