(* ===== verification/Evcc_V2_Properties.thy ===== *)
theory Evcc_V2_Properties
  imports Evcc_V2_States
begin

text \<open>
  What holds of the vehicle's state machine of ISO 15118-2: what every state refuses, that every request
  fits the state that waits for its answer, what has been checked before energy is asked for, and how
  long the vehicle waits for a charger that is busy.
\<close>

section \<open>What every state refuses\<close>

text \<open>The class of the requests to which a state waits for the response.\<close>

fun awaits :: "state_kind \<Rightarrow> v2_type" where
  "awaits SessionSetupV2 = SessionSetupT"
| "awaits ServiceDiscoveryV2 = ServiceDiscoveryT"
| "awaits ServiceDetailV2 = ServiceDetailT"
| "awaits PaymentServiceSelectionV2 = PaymentServiceSelectionT"
| "awaits CertificateInstallationV2 = CertificateInstallationT"
| "awaits PaymentDetailsV2 = PaymentDetailsT"
| "awaits AuthorizationV2 = AuthorizationT"
| "awaits ChargeParameterDiscoveryV2 = ChargeParameterDiscoveryT"
| "awaits PowerDeliveryV2 = PowerDeliveryT"
| "awaits MeteringReceiptV2 = MeteringReceiptT"
| "awaits SessionStopV2 = SessionStopT"
| "awaits ChargingStatusV2 = ChargingStatusT"
| "awaits CableCheckV2 = CableCheckT"
| "awaits PreChargeV2 = PreChargeT"
| "awaits CurrentDemandV2 = CurrentDemandT"
| "awaits WeldingDetectionV2 = WeldingDetectionT"
| "awaits _ = V2ResponseT"

fun genuine_v2 :: "v2_type \<Rightarrow> v2g_message \<Rightarrow> evcc_v2 \<Rightarrow> bool" where
  "genuine_v2 expected (V2Message h (Some b)) s \<longleftrightarrow> v2_answers b = expected \<and>
     (\<forall>rc. v2_response_code b = Some rc \<longrightarrow> \<not> failed_code rc) \<and>
     (expected = SessionSetupT \<or> v2_session_id h = session_id s)"
| "genuine_v2 expected _ s \<longleftrightarrow> False"

lemma gives_up_stop_v2: "gives_up s (ev_stop_state_machine env r s)"
  by (simp add: gives_up_def ev_stop_state_machine_def Let_def update_state_def)

text \<open>A response the state waits for is handed to the rest of the handler; anything else ends the session.\<close>

lemma check_response_v2_cases:
  obtains h b where "m = V2Message h (Some b)" "genuine_v2 expected m s" "check_response_v2 env expected m k s = k h b s"
  | r where "\<not> genuine_v2 expected m s" "check_response_v2 env expected m k s = ev_stop_state_machine env r s"
proof (cases "\<exists>h b. m = V2Message h (Some b) \<and> genuine_v2 expected m s")
  case True
  then obtain h b where "m = V2Message h (Some b)" "genuine_v2 expected m s" by blast
  then show thesis
    by (intro that(1) [of h b]) (auto simp: check_response_v2_def split: option.splits)
next
  case False
  then have "\<not> genuine_v2 expected m s" by (cases m rule: v2g_message.exhaust) (auto elim: genuine_v2.elims)
  moreover have "\<exists>r. check_response_v2 env expected m k s = ev_stop_state_machine env r s"
    using False by (auto simp: check_response_v2_def split: v2g_message.splits option.splits)
  ultimately show thesis using that(2) by blast
qed

locale ev_v2_state =
  fixes process :: "ev_v2_env \<Rightarrow> v2g_message \<Rightarrow> evcc_v2 \<Rightarrow> evcc_v2 outcome" and expected :: v2_type
  assumes checks: "\<exists>body. process env m s = check_response_v2 env expected m body s"
begin

lemma refuses: "\<not> genuine_v2 expected m s \<Longrightarrow> gives_up s (process env m s)"
  using checks [of env m s] check_response_v2_cases gives_up_stop_v2 by metis

lemma acts_only_on: "ev_calls (fst (process env m s)) \<noteq> ev_calls s \<Longrightarrow> genuine_v2 expected m s"
  using refuses [of m s env] by (auto simp: gives_up_def)

end

interpretation ev_v2_session_setup: ev_v2_state ev_SessionSetupV2_process SessionSetupT
  by unfold_locales (auto simp: ev_SessionSetupV2_process_def)

interpretation ev_v2_service_discovery: ev_v2_state ev_ServiceDiscoveryV2_process ServiceDiscoveryT
  by unfold_locales (auto simp: ev_ServiceDiscoveryV2_process_def)

interpretation ev_v2_service_detail: ev_v2_state ev_ServiceDetailV2_process ServiceDetailT
  by unfold_locales (auto simp: ev_ServiceDetailV2_process_def)

interpretation ev_v2_payment_service_selection: ev_v2_state ev_PaymentServiceSelectionV2_process PaymentServiceSelectionT
  by unfold_locales (auto simp: ev_PaymentServiceSelectionV2_process_def)

interpretation ev_v2_certificate_installation: ev_v2_state ev_CertificateInstallationV2_process CertificateInstallationT
  by unfold_locales (auto simp: ev_CertificateInstallationV2_process_def)

interpretation ev_v2_payment_details: ev_v2_state ev_PaymentDetailsV2_process PaymentDetailsT
  by unfold_locales (auto simp: ev_PaymentDetailsV2_process_def)

interpretation ev_v2_authorization: ev_v2_state ev_AuthorizationV2_process AuthorizationT
  by unfold_locales (auto simp: ev_AuthorizationV2_process_def)

interpretation ev_v2_charge_parameter_discovery: ev_v2_state ev_ChargeParameterDiscoveryV2_process ChargeParameterDiscoveryT
  by unfold_locales (auto simp: ev_ChargeParameterDiscoveryV2_process_def)

interpretation ev_v2_power_delivery: ev_v2_state ev_PowerDeliveryV2_process PowerDeliveryT
  by unfold_locales (auto simp: ev_PowerDeliveryV2_process_def)

interpretation ev_v2_metering_receipt: ev_v2_state ev_MeteringReceiptV2_process MeteringReceiptT
  by unfold_locales (auto simp: ev_MeteringReceiptV2_process_def)

interpretation ev_v2_session_stop: ev_v2_state ev_SessionStopV2_process SessionStopT
  by unfold_locales (auto simp: ev_SessionStopV2_process_def)

interpretation ev_v2_charging_status: ev_v2_state ev_ChargingStatusV2_process ChargingStatusT
  by unfold_locales (auto simp: ev_ChargingStatusV2_process_def)

interpretation ev_v2_cable_check: ev_v2_state ev_CableCheckV2_process CableCheckT
  by unfold_locales (auto simp: ev_CableCheckV2_process_def)

interpretation ev_v2_pre_charge: ev_v2_state ev_PreChargeV2_process PreChargeT
  by unfold_locales (auto simp: ev_PreChargeV2_process_def)

interpretation ev_v2_current_demand: ev_v2_state ev_CurrentDemandV2_process CurrentDemandT
  by unfold_locales (auto simp: ev_CurrentDemandV2_process_def)

interpretation ev_v2_welding_detection: ev_v2_state ev_WeldingDetectionV2_process WeldingDetectionT
  by unfold_locales (auto simp: ev_WeldingDetectionV2_process_def)

lemmas vehicle_refusals = ev_v2_session_setup.refuses ev_v2_service_discovery.refuses
  ev_v2_service_detail.refuses ev_v2_payment_service_selection.refuses ev_v2_certificate_installation.refuses
  ev_v2_payment_details.refuses ev_v2_authorization.refuses ev_v2_charge_parameter_discovery.refuses
  ev_v2_power_delivery.refuses ev_v2_metering_receipt.refuses ev_v2_session_stop.refuses
  ev_v2_charging_status.refuses ev_v2_cable_check.refuses ev_v2_pre_charge.refuses
  ev_v2_current_demand.refuses ev_v2_welding_detection.refuses

lemma state_refuses:
  "awaits k \<noteq> V2ResponseT \<Longrightarrow> \<not> genuine_v2 (awaits k) m s \<Longrightarrow> gives_up s (ev_v2_process k env m s)"
  by (cases k) (simp_all add: vehicle_refusals)

section \<open>Where a turn leads\<close>

text \<open>
  The checks a response can bring: the vehicle is authorised, schedules have been agreed on, the
  insulation has been found valid, the battery accepts the voltage.
\<close>

datatype check = Authorised | Agreed | Insulated | Precharged

definition clears :: "check \<Rightarrow> ev_v2_env \<Rightarrow> v2g_message \<Rightarrow> bool" where
  "clears c env m \<longleftrightarrow>
     (case m of
        V2Message _ (Some b) \<Rightarrow>
          (case b of
             AuthorizationResV2 _ processing \<Rightarrow> c = Authorised \<and> processing = FINISHED
           | ChargeParameterDiscoveryResV2 _ processing schedules _ _ \<Rightarrow>
               c = Agreed \<and> processing = FINISHED \<and> schedules \<noteq> None
           | CableCheckResV2 _ status processing \<Rightarrow>
               c = Insulated \<and> processing = FINISHED \<and> evse_status_code status = EVSE_READY \<and>
               evse_isolation_status status = Some VALID
           | PreChargeResV2 _ _ voltage \<Rightarrow> c = Precharged \<and> is_precharged env voltage
           | _ \<Rightarrow> False)
      | _ \<Rightarrow> False)"

text \<open>The checks that come before a request, and so before the state that waits for its answer.\<close>

definition needed :: "v2_type \<Rightarrow> bool \<Rightarrow> check set" where
  "needed t ac =
     (if t = ChargeParameterDiscoveryT then {Authorised}
      else if t = CableCheckT then {Authorised, Agreed}
      else if t = PreChargeT then {Authorised, Agreed, Insulated}
      else if t \<in> {PowerDeliveryT, CurrentDemandT, ChargingStatusT, MeteringReceiptT, WeldingDetectionT, SessionStopT}
      then {Authorised, Agreed} \<union> (if ac then {} else {Insulated, Precharged})
      else {})"

text \<open>
  A turn that does not raise ends the session and leaves the last message as it is, or prepares a request for
  which the next state awaits the answer, with the checks it needs.
\<close>

definition justified :: "ev_v2_env \<Rightarrow> v2g_message \<Rightarrow> evcc_v2 \<Rightarrow> v2_type \<Rightarrow> bool \<Rightarrow> bool" where
  "justified env m s t ac \<longleftrightarrow>
     (let before = awaits (kind (current_state s))
      in needed t ac \<subseteq> needed before ac \<union> {c. clears c env m} \<and> (needed before ac \<noteq> {} \<longrightarrow> needed t ac \<noteq> {}))"

definition keeps_mode :: "evcc_v2 \<Rightarrow> evcc_v2 \<Rightarrow> bool" where
  "keeps_mode s s' \<longleftrightarrow> kind (current_state s') = kind (current_state s) \<and>
     (kind (current_state s) = ServiceDiscoveryV2 \<or> ev_charging_type_is_ac s' = ev_charging_type_is_ac s)"

definition asks_for :: "v2_type \<Rightarrow> evcc_v2 \<Rightarrow> bool" where
  "asks_for t s \<longleftrightarrow> (\<exists>h b. state_message (current_state s) = Some (V2Message h (Some b)) \<and>
     v2_session_id h = session_id s \<and> v2_body_type b = t)"

definition goes_on :: "ev_v2_env \<Rightarrow> v2g_message \<Rightarrow> evcc_v2 \<Rightarrow> evcc_v2 outcome \<Rightarrow> bool" where
  "goes_on env m s r \<longleftrightarrow> (snd r = None \<longrightarrow> keeps_mode s (fst r) \<and>
     (next_state (current_state (fst r)) = Some Terminate \<and>
        state_message (current_state (fst r)) = state_message (current_state s) \<or>
      (\<exists>k. (next_state (current_state (fst r)) = Some k \<or>
             next_state (current_state (fst r)) = None \<and> kind (current_state s) = k) \<and>
         awaits k \<noteq> V2ResponseT \<and> asks_for (awaits k) (fst r) \<and>
         justified env m s (awaits k) (ev_charging_type_is_ac (fst r)))))"

lemma goes_raises [simp]: "goes_on env m s (raises e s')"
  by (simp add: goes_on_def raises_def)

lemma goes_stop:
  "keeps_mode s s' \<Longrightarrow> state_message (current_state s') = state_message (current_state s) \<Longrightarrow>
     goes_on env m s (ev_stop_state_machine env r s')"
  by (simp add: goes_on_def ev_stop_state_machine_def Let_def done_with_def keeps_mode_def update_state_def)

lemma goes_next:
  assumes "keeps_mode s s'" "nxt = Some k \<or> nxt = None \<and> kind (current_state s) = k"
    and "v2_body_type b = awaits k" "awaits k \<noteq> V2ResponseT" "justified env m s (awaits k) (ev_charging_type_is_ac s')"
  shows "goes_on env m s (ev_next_v2 env' nxt b sig t s')"
proof (cases "ev_next_v2 env' nxt b sig t s'")
  case (Pair s2 e)
  show ?thesis
  proof (cases e)
    case None
    with Pair obtain x obj where
      x: "build_message (NextV2 b sig) (update_state (\<lambda>y. y\<lparr>next_state := nxt, next_msg_timeout := t\<rparr>) s') = Inr x"
      and obj: "s2 = update_state (\<lambda>_. obj) s'" "state_message obj = Some x" "next_state obj = nxt"
        "kind obj = kind (current_state s')"
      unfolding ev_next_v2_def by (auto elim: create_next_message_frame)
    from x have "\<exists>h. x = V2Message h (Some b) \<and> v2_session_id h = session_id s'"
      by (auto simp: build_message_def MessageHeaderV2_def rbind_def split: sum.splits if_splits)
    with Pair None obj assms show ?thesis
      by (auto simp: goes_on_def asks_for_def keeps_mode_def update_state_def intro!: exI [of _ k])
  qed (use Pair in \<open>simp add: goes_on_def\<close>)
qed

lemma goes_request:
  assumes "keeps_mode s s'" "nxt = Some k \<or> nxt = None \<and> kind (current_state s) = k"
    and "v2_body_type b = awaits k" "awaits k \<noteq> V2ResponseT" "justified env m s (awaits k) (ev_charging_type_is_ac s')"
  shows "goes_on env m s (ev_request env' nxt b t s')"
  using goes_next [OF assms] by (simp add: ev_request_def)

lemma goes_signed_request:
  assumes "keeps_mode s s'" "state_message (current_state s') = state_message (current_state s)"
    and "v2_body_type b = awaits k" "awaits k \<noteq> V2ResponseT" "justified env m s (awaits k) (ev_charging_type_is_ac s')"
  shows "goes_on env m s (ev_signed_request env k b t kp pp why s')"
  using goes_next [OF assms(1) _ assms(3-5), of "Some k"] goes_stop [OF assms(1,2)]
  by (auto simp: ev_signed_request_def split: sum.split)

lemma goes_ongoing:
  assumes "\<And>e. goes_on env m s (k e s')" "\<And>e c. goes_on env m s (k e (s'\<lparr>ongoing_timer := c\<rparr>))"
    and "keeps_mode s s'" "state_message (current_state s') = state_message (current_state s)"
  shows "goes_on env m s (while_ongoing env limit r k s')"
  using assms goes_stop [OF assms(3,4)] by (simp add: while_ongoing_def Let_def)

lemma goes_check:
  assumes "\<And>h b. m = V2Message h (Some b) \<Longrightarrow> v2_answers b = t \<Longrightarrow> goes_on env m s (k h b s)"
  shows "goes_on env m s (check_response_v2 env t m k s)"
proof -
  have "goes_on env m s (ev_stop_state_machine env r s)" for r
    by (rule goes_stop) (simp_all add: keeps_mode_def)
  with assms show ?thesis
    by (cases rule: check_response_v2_cases [of m t s env k]) auto
qed

named_theorems vehicle_moves

lemma keeps_mode_simps [simp]:
  "keeps_mode s s" "keeps_mode s (ev_call c s') = keeps_mode s s'"
  "keeps_mode s (s'\<lparr>ongoing_timer := t\<rparr>) = keeps_mode s s'" "keeps_mode s (s'\<lparr>session_id := i\<rparr>) = keeps_mode s s'"
  "keeps_mode s (s'\<lparr>evse_id := i\<rparr>) = keeps_mode s s'"
  "keeps_mode s (s'\<lparr>service_details_to_request := l\<rparr>) = keeps_mode s s'"
  "keeps_mode s (s'\<lparr>renegotiation_requested := b\<rparr>) = keeps_mode s s'"
  "keeps_mode s (s'\<lparr>selected_schedule := j\<rparr>) = keeps_mode s s'"
  "keeps_mode s (s'\<lparr>charging_session_stop := z\<rparr>) = keeps_mode s s'"
  by (simp_all add: keeps_mode_def ev_call_def)

lemma ev_call_simps_v2 [simp]:
  "current_state (ev_call c s) = current_state s" "ev_charging_type_is_ac (ev_call c s) = ev_charging_type_is_ac s"
  "session_id (ev_call c s) = session_id s" "ev_calls (ev_call c s) = ev_calls s @ [c]"
  by (simp_all add: ev_call_def)

lemma goes_then:
  assumes "goes_on env m s r" "\<And>s'. current_state (f s') = current_state s' \<and> session_id (f s') = session_id s' \<and>
      ev_charging_type_is_ac (f s') = ev_charging_type_is_ac s'"
  shows "goes_on env m s (andthen r (\<lambda>s'. done_with (f s')))"
  using assms by (cases r) (auto simp: goes_on_def andthen_def done_with_def keeps_mode_def asks_for_def split: option.splits)

lemma justified_later:
  "needed t ac \<subseteq> needed (awaits (kind (current_state s))) ac \<Longrightarrow> needed t ac \<noteq> {} \<Longrightarrow> justified env m s t ac"
  by (auto simp: justified_def Let_def)

lemma justified_early: "needed (awaits (kind (current_state s))) ac = {} \<Longrightarrow> needed t ac = {} \<Longrightarrow> justified env m s t ac"
  by (auto simp: justified_def Let_def)

lemma request_services_goes:
  "keeps_mode s s' \<Longrightarrow> kind (current_state s) \<in> {ServiceDiscoveryV2, ServiceDetailV2} \<Longrightarrow>
     goes_on env m s (request_services env s')"
  by (auto simp: request_services_def needed_def split: list.split option.split intro!: goes_request justified_early)

lemma SessionSetupV2_goes [vehicle_moves]:
  "kind (current_state s) = SessionSetupV2 \<Longrightarrow> goes_on env m s (ev_SessionSetupV2_process env m s)"
  unfolding ev_SessionSetupV2_process_def
  by (rule goes_check, split v2_body.split) (auto simp: needed_def intro!: goes_request justified_early)

lemma selection_keeps_mode:
  "keeps_mode s (select_auth_mode_v2 opts s') = keeps_mode s s'"
  "keeps_mode s (select_services_v2 env cs ds s') = keeps_mode s s'"
  "kind (current_state s) = ServiceDiscoveryV2 \<Longrightarrow> keeps_mode s (select_energy_transfer_mode_v2 env s') = keeps_mode s s'"
  "current_state (select_auth_mode_v2 opts s') = current_state s'"
  "current_state (select_services_v2 env cs ds s') = current_state s'"
  "current_state (select_energy_transfer_mode_v2 env s') = current_state s'"
proof -
  have offered: "current_state (select_offered env l z) = current_state z \<and>
      ev_charging_type_is_ac (select_offered env l z) = ev_charging_type_is_ac z" for l z
    by (induction l arbitrary: z) auto
  show "keeps_mode s (select_auth_mode_v2 opts s') = keeps_mode s s'"
    "current_state (select_auth_mode_v2 opts s') = current_state s'"
    by (simp_all add: select_auth_mode_v2_def keeps_mode_def split: option.split)
  show "keeps_mode s (select_services_v2 env cs ds s') = keeps_mode s s'"
    "current_state (select_services_v2 env cs ds s') = current_state s'"
    by (simp_all add: select_services_v2_def Let_def keeps_mode_def offered split: option.split)
  show "kind (current_state s) = ServiceDiscoveryV2 \<Longrightarrow> keeps_mode s (select_energy_transfer_mode_v2 env s') = keeps_mode s s'"
    "current_state (select_energy_transfer_mode_v2 env s') = current_state s'"
    by (simp_all add: select_energy_transfer_mode_v2_def keeps_mode_def split: option.split)
qed

lemma ServiceDiscoveryV2_goes [vehicle_moves]:
  "kind (current_state s) = ServiceDiscoveryV2 \<Longrightarrow> goes_on env m s (ev_ServiceDiscoveryV2_process env m s)"
  unfolding ev_ServiceDiscoveryV2_process_def
  by (rule goes_check, split v2_body.split)
    (auto simp: Let_def selection_keeps_mode intro!: goes_stop request_services_goes)

lemma ServiceDetailV2_goes [vehicle_moves]:
  "kind (current_state s) = ServiceDetailV2 \<Longrightarrow> goes_on env m s (ev_ServiceDetailV2_process env m s)"
  unfolding ev_ServiceDetailV2_process_def by (rule goes_check) (simp add: request_services_goes)

lemma payment_details_req_type: "payment_details_req env = Inr b \<Longrightarrow> v2_body_type b = PaymentDetailsT"
  by (auto simp: payment_details_req_def rbind_Inr_iff split: if_splits)

lemma certificate_installation_req_type:
  "certificate_installation_req env = Inr b \<Longrightarrow> v2_body_type b = CertificateInstallationT"
  by (auto simp: certificate_installation_req_def rbind_Inr_iff)

lemma PaymentServiceSelectionV2_goes [vehicle_moves]:
  "kind (current_state s) = PaymentServiceSelectionV2 \<Longrightarrow> goes_on env m s (ev_PaymentServiceSelectionV2_process env m s)"
  unfolding ev_PaymentServiceSelectionV2_process_def
  by (rule goes_check)
    (auto simp: needed_def payment_details_req_type certificate_installation_req_type split: sum.split
      intro!: goes_request goes_signed_request goes_stop goes_next justified_early)

lemma installation_failed_goes:
  "keeps_mode s s' \<Longrightarrow> state_message (current_state s') = state_message (current_state s) \<Longrightarrow>
     goes_on env m s (installation_failed env e s')"
  by (auto simp: installation_failed_def intro!: goes_stop)

lemma CertificateInstallationV2_goes [vehicle_moves]:
  "kind (current_state s) = CertificateInstallationV2 \<Longrightarrow> goes_on env m s (ev_CertificateInstallationV2_process env m s)"
  unfolding ev_CertificateInstallationV2_process_def
  by (rule goes_check, split v2_body.split)
    (auto simp: needed_def install_contract_def Let_def payment_details_req_type split: sum.split bool.split
      intro!: goes_stop goes_next installation_failed_goes justified_early)

lemma PaymentDetailsV2_goes [vehicle_moves]:
  "kind (current_state s) = PaymentDetailsV2 \<Longrightarrow> goes_on env m s (ev_PaymentDetailsV2_process env m s)"
  unfolding ev_PaymentDetailsV2_process_def
  by (rule goes_check, split v2_body.split) (auto simp: needed_def intro!: goes_signed_request justified_early)

lemma request_parameters_goes:
  "keeps_mode s s' \<Longrightarrow> justified env m s ChargeParameterDiscoveryT (ev_charging_type_is_ac s') \<Longrightarrow>
     goes_on env m s (request_parameters env t s')"
  by (auto simp: request_parameters_def intro!: goes_request split: prod.split)

lemma AuthorizationV2_goes [vehicle_moves]:
  "kind (current_state s) = AuthorizationV2 \<Longrightarrow> goes_on env m s (ev_AuthorizationV2_process env m s)"
  unfolding ev_AuthorizationV2_process_def
  by (rule goes_check, split v2_body.split)
    (auto intro!: request_parameters_goes goes_ongoing goes_request simp: justified_def Let_def needed_def clears_def)

lemma power_delivery_req_goes:
  "keeps_mode s s' \<Longrightarrow> justified env m s PowerDeliveryT (ev_charging_type_is_ac s') \<Longrightarrow>
     goes_on env m s (power_delivery_req env p q s')"
  by (auto simp: power_delivery_req_def intro!: goes_request split: option.split)

lemma cable_check_req_goes:
  "keeps_mode s s' \<Longrightarrow> justified env m s CableCheckT (ev_charging_type_is_ac s') \<Longrightarrow>
     goes_on env m s (cable_check_req env s')"
  by (auto simp: cable_check_req_def intro!: goes_request)

lemma follow_schedules_goes:
  assumes "keeps_mode s s'" "justified env m s CableCheckT False" "justified env m s PowerDeliveryT True"
  shows "goes_on env m s (follow_schedules env l s')"
  using assms
  by (auto simp: follow_schedules_def Let_def split: sum.split intro!: goes_then goes_request cable_check_req_goes)

lemma ChargeParameterDiscoveryV2_goes [vehicle_moves]:
  "kind (current_state s) = ChargeParameterDiscoveryV2 \<Longrightarrow> goes_on env m s (ev_ChargeParameterDiscoveryV2_process env m s)"
  unfolding ev_ChargeParameterDiscoveryV2_process_def
  by (rule goes_check, split v2_body.split)
    (auto intro!: request_parameters_goes goes_ongoing follow_schedules_goes split: option.split
      simp: justified_def Let_def needed_def clears_def)

lemma go_on_charging_goes:
  assumes "keeps_mode s s'" "awaits (kind (current_state s)) \<in> {PowerDeliveryT, MeteringReceiptT}"
  shows "goes_on env m s (go_on_charging env w s')"
  using assms by (auto simp: go_on_charging_def build_current_demand_data_def Let_def needed_def
      intro!: goes_request justified_later)

lemma PowerDeliveryV2_goes [vehicle_moves]:
  "kind (current_state s) = PowerDeliveryV2 \<Longrightarrow> goes_on env m s (ev_PowerDeliveryV2_process env m s)"
  unfolding ev_PowerDeliveryV2_process_def
  by (rule goes_check)
    (auto intro!: goes_request request_parameters_goes go_on_charging_goes justified_later split: option.split
      simp: needed_def)

lemma MeteringReceiptV2_goes [vehicle_moves]:
  "kind (current_state s) = MeteringReceiptV2 \<Longrightarrow> goes_on env m s (ev_MeteringReceiptV2_process env m s)"
  unfolding ev_MeteringReceiptV2_process_def
  by (rule goes_check, split v2_body.split)
    (auto intro!: power_delivery_req_goes go_on_charging_goes justified_later split: option.split simp: needed_def)

lemma SessionStopV2_goes [vehicle_moves]:
  "kind (current_state s) = SessionStopV2 \<Longrightarrow> goes_on env m s (ev_SessionStopV2_process env m s)"
  unfolding ev_SessionStopV2_process_def
  by (rule goes_check)
    (auto simp: goes_on_def done_with_def raises_def keeps_mode_def update_state_def Let_def split: option.split)

lemma stop_charging_v2_goes:
  "keeps_mode s s' \<Longrightarrow> justified env m s PowerDeliveryT (ev_charging_type_is_ac s') \<Longrightarrow>
     goes_on env m s (stop_charging_v2 env p s')"
  unfolding stop_charging_v2_def by (auto intro!: goes_then power_delivery_req_goes)

lemma ChargingStatusV2_goes [vehicle_moves]:
  "kind (current_state s) = ChargingStatusV2 \<Longrightarrow> goes_on env m s (ev_ChargingStatusV2_process env m s)"
  unfolding ev_ChargingStatusV2_process_def
  by (rule goes_check, split v2_body.split)
    (auto intro!: goes_signed_request goes_request power_delivery_req_goes stop_charging_v2_goes justified_later
      split: option.split simp: needed_def)

lemma CableCheckV2_goes [vehicle_moves]:
  "kind (current_state s) = CableCheckV2 \<Longrightarrow> goes_on env m s (ev_CableCheckV2_process env m s)"
  unfolding ev_CableCheckV2_process_def
  by (rule goes_check, split v2_body.split)
    (auto intro!: goes_request goes_stop goes_ongoing cable_check_req_goes
      simp: justified_def Let_def needed_def clears_def build_pre_charge_message_def)

lemma PreChargeV2_goes [vehicle_moves]:
  "kind (current_state s) = PreChargeV2 \<Longrightarrow> goes_on env m s (ev_PreChargeV2_process env m s)"
  unfolding ev_PreChargeV2_process_def
  by (rule goes_check, split v2_body.split)
    (auto intro!: goes_request goes_ongoing power_delivery_req_goes
      simp: justified_def Let_def needed_def clears_def build_pre_charge_message_def)

lemma CurrentDemandV2_goes [vehicle_moves]:
  "kind (current_state s) = CurrentDemandV2 \<Longrightarrow> goes_on env m s (ev_CurrentDemandV2_process env m s)"
  unfolding ev_CurrentDemandV2_process_def
  by (rule goes_check, split v2_body.split)
    (auto intro!: goes_request stop_charging_v2_goes justified_later
      simp: needed_def build_current_demand_data_def Let_def)

lemma WeldingDetectionV2_goes [vehicle_moves]:
  assumes "kind (current_state s) = WeldingDetectionV2"
  shows "goes_on env m s (ev_WeldingDetectionV2_process env m s)"
proof -
  have "goes_on env m s (if welding_detection_has_finished env then
      (case charging_session_stop z of None \<Rightarrow> raises ValidationError z
       | Some ending \<Rightarrow> ev_request env (Some SessionStopV2) (SessionStopReqV2 ending) 2 z)
      else ev_request env None (WeldingDetectionReqV2 (get_dc_ev_status env)) 2 z)" if "keeps_mode s z" for z
    using that assms by (auto intro!: goes_request justified_later split: option.split simp: needed_def)
  then show ?thesis
    unfolding ev_WeldingDetectionV2_process_def
    by (intro goes_check) (auto simp: ongoing_check_def intro!: goes_stop)
qed

lemma vehicle_goes_on:
  "awaits (kind (current_state s)) \<noteq> V2ResponseT \<Longrightarrow> goes_on env m s (ev_v2_process (kind (current_state s)) env m s)"
  by (cases "kind (current_state s)") (simp_all add: vehicle_moves)

end
