(* ===== verification/Evcc_V2_Session.thy ===== *)
theory Evcc_V2_Session
  imports Evcc_V2_Properties
begin

text \<open>
  The vehicle's side of a session of ISO 15118-2: the responses that arrive one after the other, the
  requests that go out, and what holds over a whole session.
\<close>

section \<open>Sessions\<close>

text \<open>
  The loop of \<open>iso15118/shared/comm_session.py\<close> on the vehicle's side, from a response to the next request;
  each response is handled in an environment of its own. A request is kept together with the mode of the
  session at the time, \<open>True\<close> for alternating current. An exception ends the session, as the handler does.
\<close>

record ev_run =
  car :: evcc_v2
  handled :: "(ev_v2_env \<times> v2g_message) list"
  asked :: "(v2g_message \<times> bool) list"
  over :: bool

definition ev_start :: "evcc_v2 \<Rightarrow> ev_run" where
  "ev_start s = \<lparr>car = s, handled = [], asked = [], over = False\<rparr>"

definition ev_stops :: "evcc_v2 \<Rightarrow> bool" where
  "ev_stops s \<longleftrightarrow> next_state (current_state s) \<in> set [Some Terminate, Some Pause]"

definition ev_turn :: "ev_v2_env \<Rightarrow> v2g_message \<Rightarrow> ev_run \<Rightarrow> ev_run" where
  "ev_turn env m r =
     (if over r then r
      else
        (case run_state (ev_v2_process (kind (current_state (car r))) env m) (car r) of
           (s, Some _) \<Rightarrow> r\<lparr>car := s, handled := handled r @ [(env, m)], over := True\<rparr>
         | (s, None) \<Rightarrow>
             \<lparr>car = (if ev_stops s then s else go_to_next_state s), handled = handled r @ [(env, m)],
              asked = asked r @ (case outgoing s of None \<Rightarrow> [] | Some q \<Rightarrow> [(q, ev_charging_type_is_ac s)]),
              over = ev_stops s\<rparr>))"

fun ev_turns :: "(ev_v2_env \<times> v2g_message) list \<Rightarrow> ev_run \<Rightarrow> ev_run" where
  "ev_turns [] r = r"
| "ev_turns ((env, m) # ts) r = ev_turns ts (ev_turn env m r)"

text \<open>A turn that neither raises nor ends the session.\<close>

lemma ev_turn_cases:
  assumes "\<not> over r"
  obtains s where "ev_turn env m r = r\<lparr>car := s, handled := handled r @ [(env, m)], over := True\<rparr>"
  | s where "ev_v2_process (kind (current_state (car r))) env m (car r) = (s, None)"
    "ev_turn env m r =
       \<lparr>car = (if ev_stops s then s else go_to_next_state s), handled = handled r @ [(env, m)],
        asked = asked r @ (case outgoing s of None \<Rightarrow> [] | Some q \<Rightarrow> [(q, ev_charging_type_is_ac s)]), over = ev_stops s\<rparr>"
proof (cases "run_state (ev_v2_process (kind (current_state (car r))) env m) (car r)")
  case (Pair s e)
  show thesis
  proof (cases e)
    case None
    with Pair have "ev_v2_process (kind (current_state (car r))) env m (car r) = (s, None)"
      by (auto simp: run_state_def andthen_def done_with_def raises_def split: prod.splits option.splits if_splits)
    with Pair None assms show thesis by (intro that(2)) (auto simp: ev_turn_def)
  qed (use Pair assms that(1) in \<open>simp add: ev_turn_def\<close>)
qed

lemma ev_turns_over [simp]: "over r \<Longrightarrow> ev_turns ts r = r"
  by (induction ts r rule: ev_turns.induct) (simp_all add: ev_turn_def)

lemma handled_turn: "set (handled (ev_turn env m r)) \<subseteq> insert (env, m) (set (handled r))"
  by (cases "over r") (auto simp: ev_turn_def split: prod.split option.split)

lemma handled_turns: "set (handled (ev_turns ts r)) \<subseteq> set (handled r) \<union> set ts"
proof (induction ts r rule: ev_turns.induct)
  case (2 env m ts r)
  then show ?case using handled_turn [of env m r] by fastforce
qed simp

section \<open>Nothing is asked for before its checks\<close>

definition cleared :: "ev_run \<Rightarrow> check \<Rightarrow> bool" where
  "cleared r c \<longleftrightarrow> (\<exists>(env, m) \<in> set (handled r). clears c env m)"

definition run_inv :: "ev_run \<Rightarrow> bool" where
  "run_inv r \<longleftrightarrow>
     (\<forall>h b ac. (V2Message h (Some b), ac) \<in> set (asked r) \<longrightarrow> (\<forall>c \<in> needed (v2_body_type b) ac. cleared r c)) \<and>
     (\<not> over r \<longrightarrow> awaits (kind (current_state (car r))) \<noteq> V2ResponseT \<and>
        (\<forall>c \<in> needed (awaits (kind (current_state (car r)))) (ev_charging_type_is_ac (car r)). cleared r c) \<and>
        (\<forall>h b. state_message (current_state (car r)) = Some (V2Message h (Some b)) \<longrightarrow>
           v2_body_type b = awaits (kind (current_state (car r)))))"

lemma outgoing_message: "outgoing s = Some q \<Longrightarrow> state_message (current_state s) = Some q"
  by (simp add: outgoing_def split: if_splits)

lemma ev_turn_inv:
  assumes "run_inv r"
  shows "run_inv (ev_turn env m r)"
proof (cases "over r")
  case False
  let ?k = "kind (current_state (car r))"
  have old: "\<And>h b ac c. (V2Message h (Some b), ac) \<in> set (asked r) \<Longrightarrow> c \<in> needed (v2_body_type b) ac \<Longrightarrow> cleared r c"
    and now: "awaits ?k \<noteq> V2ResponseT" "\<And>c. c \<in> needed (awaits ?k) (ev_charging_type_is_ac (car r)) \<Longrightarrow> cleared r c"
    "\<And>h b. state_message (current_state (car r)) = Some (V2Message h (Some b)) \<Longrightarrow> v2_body_type b = awaits ?k"
    using assms False by (auto simp: run_inv_def)
  show ?thesis
  proof (cases rule: ev_turn_cases [OF False, of env m, case_names raised answered])
    case (raised s)
    then show ?thesis using old by (auto simp: run_inv_def cleared_def)
  next
    case (answered s)
    let ?ac = "ev_charging_type_is_ac s"
    have mode: "keeps_mode (car r) s"
      and step: "next_state (current_state s) = Some Terminate \<and>
          state_message (current_state s) = state_message (current_state (car r)) \<or>
        (\<exists>k. (next_state (current_state s) = Some k \<or> next_state (current_state s) = None \<and> ?k = k) \<and>
           awaits k \<noteq> V2ResponseT \<and> asks_for (awaits k) s \<and> justified env m (car r) (awaits k) ?ac)"
      using vehicle_goes_on [OF now(1), of env m] answered(1) by (auto simp: goes_on_def)
    have more: "cleared (ev_turn env m r) c" if "cleared r c \<or> clears c env m" for c
      using that answered(2) by (auto simp: cleared_def)
    have before: "cleared (ev_turn env m r) c" if "c \<in> needed (awaits ?k) ?ac" for c
    proof (cases "?k = ServiceDiscoveryV2")
      case False
      then show ?thesis using that now(2) mode more by (auto simp: keeps_mode_def)
    qed (use that in \<open>simp add: needed_def\<close>)
    from step show ?thesis
    proof
      assume t: "next_state (current_state s) = Some Terminate \<and>
        state_message (current_state s) = state_message (current_state (car r))"
      then have "v2_body_type b = awaits ?k" if "outgoing s = Some (V2Message h (Some b))" for h b
        using outgoing_message [OF that] now(3) [of h b] by metis
      with t show ?thesis
        using answered(2) old before more by (auto simp: run_inv_def ev_stops_def split: option.splits)
    next
      assume "\<exists>k. (next_state (current_state s) = Some k \<or> next_state (current_state s) = None \<and> ?k = k) \<and>
        awaits k \<noteq> V2ResponseT \<and> asks_for (awaits k) s \<and> justified env m (car r) (awaits k) ?ac"
      then obtain k where k: "next_state (current_state s) = Some k \<or> next_state (current_state s) = None \<and> ?k = k"
        "awaits k \<noteq> V2ResponseT" "asks_for (awaits k) s" "justified env m (car r) (awaits k) ?ac"
        by blast
      have goes: "\<not> ev_stops s" "kind (current_state (go_to_next_state s)) = k"
        "ev_charging_type_is_ac (go_to_next_state s) = ?ac"
        "state_message (current_state (go_to_next_state s)) \<in> {None, state_message (current_state s)}"
        using k(1,2) mode now(1)
        by (auto simp: ev_stops_def go_to_next_state_def keeps_mode_def new_state_def enter_def)
      have new: "cleared (ev_turn env m r) c" if "c \<in> needed (awaits k) ?ac" for c
        using that k(4) before more by (auto simp: justified_def Let_def)
      have type: "v2_body_type b = awaits k"
        if "outgoing s = Some (V2Message h (Some b)) \<or> state_message (current_state s) = Some (V2Message h (Some b))" for h b
      proof -
        have "state_message (current_state s) = Some (V2Message h (Some b))" using that outgoing_message by blast
        with k(3) show ?thesis by (simp add: asks_for_def)
      qed
      have parts: "car (ev_turn env m r) = go_to_next_state s" "\<not> over (ev_turn env m r)"
        "asked (ev_turn env m r) = asked r @ (case outgoing s of None \<Rightarrow> [] | Some q \<Rightarrow> [(q, ?ac)])"
        using answered(2) goes(1) by simp_all
      have "cleared (ev_turn env m r) c"
        if "(V2Message h (Some b), ac) \<in> set (asked (ev_turn env m r))" "c \<in> needed (v2_body_type b) ac" for h b ac c
        using that old [of h b ac c] more [of c] new [of c] type [of h b] unfolding parts by (auto split: option.splits)
      moreover have "v2_body_type b = awaits k"
        if "state_message (current_state (go_to_next_state s)) = Some (V2Message h (Some b))" for h b
        using that goes(4) type [of h b] by auto
      ultimately show ?thesis
        unfolding run_inv_def parts goes(2,3) using k(2) new by blast
    qed
  qed
qed (use assms in \<open>simp add: ev_turn_def\<close>)

lemma ev_turns_inv: "run_inv r \<Longrightarrow> run_inv (ev_turns ts r)"
  by (induction ts r rule: ev_turns.induct) (simp_all add: ev_turn_inv)

lemma ev_start_inv: "current_state s = new_state SessionSetupV2 \<Longrightarrow> run_inv (ev_start s)"
  by (simp add: run_inv_def ev_start_def needed_def new_state_def)

text \<open>
  C3: the vehicle asks for energy only after the checks. Over any sequence of responses from the start of a
  session of ISO 15118-2, whatever the vehicle and the clock answer meanwhile: when a request for power
  delivery or one of the charging loop has gone out, a response had finished the authorisation and another
  had agreed on a schedule, and unless the session is one of alternating current, a cable check had been
  finished with a ready charger and valid insulation and a pre-charge response had given a voltage the
  battery accepts.
\<close>

theorem vehicle_checks_before_energy:
  assumes "current_state s = new_state SessionSetupV2"
    and "(V2Message h (Some b), ac) \<in> set (asked (ev_turns ts (ev_start s)))"
    and "v2_body_type b \<in> {PowerDeliveryT, CurrentDemandT, ChargingStatusT}"
  shows "(\<exists>(env, m) \<in> set ts. clears Authorised env m) \<and> (\<exists>(env, m) \<in> set ts. clears Agreed env m) \<and>
    (ac \<or> (\<exists>(env, m) \<in> set ts. clears Insulated env m) \<and> (\<exists>(env, m) \<in> set ts. clears Precharged env m))"
proof -
  have "\<forall>c \<in> needed (v2_body_type b) ac. cleared (ev_turns ts (ev_start s)) c"
    using ev_turns_inv [OF ev_start_inv [OF assms(1)], of ts] assms(2) by (auto simp: run_inv_def)
  moreover have "set (handled (ev_turns ts (ev_start s))) \<subseteq> set ts"
    using handled_turns [of ts "ev_start s"] by (simp add: ev_start_def)
  ultimately show ?thesis using assms(3) unfolding needed_def cleared_def by (cases ac) fastforce+
qed

section \<open>An example vehicle\<close>

definition example_car_status :: dc_ev_status where
  "example_car_status = \<lparr>ev_ready = True, ev_cabin_conditioning = None, ev_ress_conditioning = None,
     ev_error_code = NO_ERROR, ev_ress_soc = 50\<rparr>"

definition example_car_env :: "rat \<Rightarrow> ev_v2_env" where
  "example_car_env now =
     \<lparr>peername = ''fe80::2'', to_exi = (\<lambda>_ _. Inr [0x80]), log_decode = (\<lambda>_. Inr ()),
      get_evcc_id = (\<lambda>_. Inr ''0123456789AB''), clock = now, get_dc_ev_status_dinspec = example_car_status,
      get_dc_charge_params = \<lparr>dc_max_current_limit = pv_of 32 AMPERE, dc_max_power_limit = pv_of 3000 WATT,
        dc_max_voltage_limit = pv_of 400 VOLTAGE, dc_energy_capacity = pv_of 3000 WATT,
        dc_target_current = pv_of 1 AMPERE, dc_target_voltage = pv_of 350 VOLTAGE\<rparr>,
      get_energy_transfer_mode = DC_CORE, process_sa_schedules_dinspec = (\<lambda>_. Inr 1),
      is_precharged = (\<lambda>v. get_decimal_value v \<ge> 340), continue_charging = True,
      is_bulk_charging_complete = False, is_charging_complete = False,
      get_remaining_time_to_full_soc = pv_of 600 SECONDS, get_remaining_time_to_bulk_soc = pv_of 300 SECONDS,
      get_dc_ev_power_delivery_parameter = \<lparr>pd_dc_ev_status = example_car_status, pd_bulk_charging_complete = None,
        pd_charging_complete = False\<rparr>,
      welding_detection_has_finished = True, ev_type_text = (\<lambda>_. []), code_text = (\<lambda>_. []),
      options_text = (\<lambda>_. []), modes_text = (\<lambda>_ _. []),
      ev_crypt = example_crypto, ev_keys = example_keys, ev_part_exi = (\<lambda>_. Inr [0x80]),
      is_cert_install_needed = True, store_contract_cert_and_priv_key = (\<lambda>_ _. Inr ()),
      get_charge_params_v2 = (DC_CORE, None, Some \<lparr>dc_departure_time = None,
        dc_parameter = \<lparr>cp_dc_ev_status = example_car_status, ev_maximum_current_limit = pv_of 32 AMPERE,
          ev_maximum_power_limit = None, ev_maximum_voltage_limit = pv_of 400 VOLTAGE, ev_energy_capacity = None,
          ev_energy_request = None, full_soc = None, cp_bulk_soc = None\<rparr>\<rparr>),
      process_sa_schedules_v2 = (\<lambda>_. Inr (START, 1, [])), get_dc_ev_status = example_car_status,
      ev_power_delivery_parameter = \<lparr>pd_dc_ev_status = example_car_status, pd_bulk_charging_complete = None,
        pd_charging_complete = False\<rparr>,
      ev_error_text = (\<lambda>_. []), missing_file = []\<rparr>"

definition example_car :: "state_kind \<Rightarrow> evcc_v2" where
  "example_car k =
     \<lparr>session_protocol = ISO_15118_2, session_id = ''0123456789ABCDEF'', stop_reason = None,
      current_state = new_state k, supported_app_protocols = [], resume_session_id = None,
      ev_selected_auth_option = Some EIM_V2, selected_services = [], ev_selected_energy_mode = Some DC_CORE,
      resume_requested_energy_mode = None, ongoing_timer = - 1, selected_schedule = Some 1,
      evse_id = [], ev_calls = [], ev_is_tls = True, ev_charging_type_is_ac = False, resume_auth_option = None,
      service_details_to_request = [], charging_session_stop = None, renegotiation_requested = False\<rparr>"

definition example_response :: "v2_body \<Rightarrow> v2g_message" where
  "example_response b = V2Message \<lparr>v2_session_id = ''0123456789ABCDEF'', v2_notification = None, v2_signature = None\<rparr> (Some b)"

definition example_responses :: "v2g_message list" where
  "example_responses = map example_response
     [SessionSetupResV2 OK_NEW_SESSION_ESTABLISHED ''49A80737A45678'' None,
      ServiceDiscoveryResV2 OK [EIM_V2] \<lparr>sd_service_id = 1, sd_service_name = None, sd_service_category = CHARGING,
        sd_service_scope = None, sd_free_service = True, supported_energy_transfer_mode = [DC_CORE]\<rparr> None,
      PaymentServiceSelectionResV2 OK, AuthorizationResV2 OK ONGOING, AuthorizationResV2 OK FINISHED,
      ChargeParameterDiscoveryResV2 OK FINISHED (Some []) None None,
      CableCheckResV2 OK failed_dc_status_v2 FINISHED,
      PreChargeResV2 OK failed_dc_status_v2 (pv_of 350 VOLTAGE), PowerDeliveryResV2 OK None (Some failed_dc_status_v2)]"

theorem vehicle_checks_before_energy_witness:
  "v2_body_type (build_current_demand_data (example_car_env 0) False) = CurrentDemandT \<and>
   list_ex (\<lambda>m. clears Precharged (example_car_env 0) m) example_responses"
proof -
  let ?ts = "map (Pair (example_car_env 0)) example_responses"
  have "last (asked (ev_turns ?ts (ev_start (example_car SessionSetupV2)))) =
      (V2Message \<lparr>v2_session_id = ''0123456789ABCDEF'', v2_notification = None, v2_signature = None\<rparr>
         (Some (build_current_demand_data (example_car_env 0) False)), False)"
    "asked (ev_turns ?ts (ev_start (example_car SessionSetupV2))) \<noteq> []"
    by code_simp+
  then have "(V2Message \<lparr>v2_session_id = ''0123456789ABCDEF'', v2_notification = None, v2_signature = None\<rparr>
      (Some (build_current_demand_data (example_car_env 0) False)), False)
      \<in> set (asked (ev_turns ?ts (ev_start (example_car SessionSetupV2))))"
    by (metis last_in_set)
  from vehicle_checks_before_energy [OF _ this] show ?thesis
    by (auto simp: example_car_def list_ex_iff build_current_demand_data_def Let_def)
qed

section \<open>A charger that stays busy\<close>

text \<open>
  Four states repeat their request while the charger is busy, and measure the time since it first was.
  \<open>repeats\<close> is what the rest of such a handler does: it asks again and leaves the timer alone.
\<close>

definition still_busy :: "state_kind \<Rightarrow> ev_v2_env \<Rightarrow> v2g_message \<Rightarrow> bool" where
  "still_busy k env m \<longleftrightarrow>
     (case m of
        V2Message _ (Some b) \<Rightarrow>
          (case b of
             AuthorizationResV2 _ processing \<Rightarrow> k = AuthorizationV2 \<and> processing \<noteq> FINISHED
           | ChargeParameterDiscoveryResV2 _ processing _ _ _ \<Rightarrow>
               k = ChargeParameterDiscoveryV2 \<and> processing \<noteq> FINISHED
           | CableCheckResV2 _ _ processing \<Rightarrow> k = CableCheckV2 \<and> processing \<noteq> FINISHED
           | PreChargeResV2 _ _ voltage \<Rightarrow> k = PreChargeV2 \<and> \<not> is_precharged env voltage
           | _ \<Rightarrow> False)
      | _ \<Rightarrow> False)"

fun time_limit :: "state_kind \<Rightarrow> rat" where
  "time_limit CableCheckV2 = 40"
| "time_limit PreChargeV2 = 7"
| "time_limit _ = 60"

definition repeats :: "state_kind \<Rightarrow> (rat \<Rightarrow> evcc_v2 \<Rightarrow> evcc_v2 outcome) \<Rightarrow> bool" where
  "repeats k f \<longleftrightarrow> (\<forall>e s. snd (f e s) = None \<longrightarrow>
     next_state (current_state (fst (f e s))) = Some k \<and> ongoing_timer (fst (f e s)) = ongoing_timer s)"

lemma repeats_request: "repeats k (\<lambda>e. ev_request env (Some k) b (t e))"
proof -
  have "next_state (current_state s') = Some k \<and> ongoing_timer s' = ongoing_timer s"
    if "ev_next_v2 env (Some k) b None (t e) s = (s', None)" for e s s'
    using that unfolding ev_next_v2_def by (auto elim: create_next_message_frame simp: update_state_def)
  then show ?thesis
    unfolding repeats_def ev_request_def raises_def by (simp split: if_split) (metis prod.collapse)
qed

lemma repeats_parameters: "repeats ChargeParameterDiscoveryV2 (\<lambda>e. request_parameters env (t e))"
  unfolding request_parameters_def by (cases "get_charge_params_v2 env") (simp add: repeats_request)

lemma repeatsD:
  assumes "repeats k f" "f e s = (s', None)"
  shows "next_state (current_state s') = Some k" "ongoing_timer s' = ongoing_timer s"
  using assms unfolding repeats_def by (metis fst_conv snd_conv)+

lemma looping: "repeats q f \<Longrightarrow> \<exists>r' f'. while_ongoing env l r f s = while_ongoing env l r' f' s \<and> repeats q f'"
  by blast

locale busy_state =
  fixes k :: state_kind
  assumes loops: "still_busy k env m \<Longrightarrow>
    (\<exists>r. ev_v2_process k env m s = ev_stop_state_machine env r s) \<or>
    (\<exists>r f. ev_v2_process k env m s = while_ongoing env (time_limit k) r f s \<and> repeats k f)"
    and goes_nowhere: "k \<noteq> Terminate" "k \<noteq> Pause"
begin

lemma busy_turn:
  assumes "\<not> over r" "kind (current_state (car r)) = k" "still_busy k env m" "\<not> over (ev_turn env m r)"
  shows "kind (current_state (car (ev_turn env m r))) = k"
    and "ongoing_timer (car (ev_turn env m r)) =
      (if ongoing_timer (car r) \<ge> 0 then ongoing_timer (car r) else clock env)"
    and "ongoing_timer (car r) \<ge> 0 \<Longrightarrow> clock env - ongoing_timer (car r) \<le> time_limit k"
proof -
  obtain s where s: "ev_v2_process k env m (car r) = (s, None)" "\<not> ev_stops s"
    "car (ev_turn env m r) = go_to_next_state s"
    using assms(2,4) by (cases rule: ev_turn_cases [OF assms(1), of env m]) auto
  have not_stopped: "\<not> (\<exists>why. ev_v2_process k env m (car r) = ev_stop_state_machine env why (car r))"
    using s(1,2) by (auto simp: ev_stop_state_machine_def Let_def done_with_def ev_stops_def)
  with loops [OF assms(3), of "car r"] not_stopped obtain why f where
    w: "ev_v2_process k env m (car r) = while_ongoing env (time_limit k) why f (car r)" "repeats k f"
    by blast
  have f: "next_state (current_state s) = Some k \<and>
      ongoing_timer s = (if ongoing_timer (car r) \<ge> 0 then ongoing_timer (car r) else clock env) \<and>
      (ongoing_timer (car r) \<ge> 0 \<longrightarrow> clock env - ongoing_timer (car r) \<le> time_limit k)"
  proof (cases "ongoing_timer (car r) \<ge> 0 \<and> clock env - ongoing_timer (car r) > time_limit k")
    case True
    then have "ev_v2_process k env m (car r) = ev_stop_state_machine env why (car r)"
      using w(1) by (simp add: while_ongoing_def Let_def)
    with not_stopped show ?thesis by blast
  next
    case False
    have while: "while_ongoing env (time_limit k) why f (car r) = (s, None)" using s(1) w(1) by simp
    show ?thesis
    proof (cases "ongoing_timer (car r) \<ge> 0")
      case True
      with while False have "f (clock env - ongoing_timer (car r)) (car r) = (s, None)"
        by (simp add: while_ongoing_def Let_def)
      from repeatsD [OF w(2) this] True False show ?thesis by simp
    next
      case False
      with while have "f 0 ((car r)\<lparr>ongoing_timer := clock env\<rparr>) = (s, None)" by (simp add: while_ongoing_def)
      from repeatsD [OF w(2) this] False show ?thesis by simp
    qed
  qed
  then show "kind (current_state (car (ev_turn env m r))) = k"
    "ongoing_timer (car (ev_turn env m r)) = (if ongoing_timer (car r) \<ge> 0 then ongoing_timer (car r) else clock env)"
    "ongoing_timer (car r) \<ge> 0 \<Longrightarrow> clock env - ongoing_timer (car r) \<le> time_limit k"
    using s(3) by (auto simp: go_to_next_state_def enter_def new_state_def)
qed

lemma busy_turns:
  assumes "kind (current_state (car r)) = k" "ongoing_timer (car r) \<ge> 0"
    and "\<forall>(env, m) \<in> set ts. still_busy k env m" "\<not> over (ev_turns ts r)"
  shows "\<forall>(env, m) \<in> set ts. clock env - ongoing_timer (car r) \<le> time_limit k"
  using assms
proof (induction ts r rule: ev_turns.induct)
  case (2 env m ts r)
  have o: "\<not> over (ev_turn env m r)" using 2(5) by (metis ev_turns.simps(2) ev_turns_over)
  then have "\<not> over r" by (auto simp: ev_turn_def)
  note turn = busy_turn [OF this 2(2) _ o]
  have "still_busy k env m" using 2(4) by simp
  then have "kind (current_state (car (ev_turn env m r))) = k"
    "ongoing_timer (car (ev_turn env m r)) = ongoing_timer (car r)" "clock env - ongoing_timer (car r) \<le> time_limit k"
    using turn 2(3) by auto
  with 2 show ?case by auto
qed simp

lemma busy_from_the_start:
  assumes "kind (current_state (car r)) = k" "ongoing_timer (car r) < 0" "\<not> over (ev_turns ((env0, m0) # ts) r)"
    and "\<forall>(env, m) \<in> set ((env0, m0) # ts). still_busy k env m" "0 \<le> clock env0"
  shows "\<forall>(env, m) \<in> set ts. clock env - clock env0 \<le> time_limit k"
proof -
  have o: "\<not> over (ev_turn env0 m0 r)" using assms(3) by (metis ev_turns.simps(2) ev_turns_over)
  then have "\<not> over r" by (auto simp: ev_turn_def)
  note turn = busy_turn [OF this assms(1) _ o]
  have "still_busy k env0 m0" using assms(4) by simp
  with turn assms(2) have "kind (current_state (car (ev_turn env0 m0 r))) = k"
    "ongoing_timer (car (ev_turn env0 m0 r)) = clock env0" by auto
  with busy_turns [of "ev_turn env0 m0 r" ts] assms show ?thesis by auto
qed

end

lemma check_busy:
  assumes "\<And>h b. m = V2Message h (Some b) \<Longrightarrow> v2_answers b = t \<Longrightarrow> \<exists>r f. k h b s = while_ongoing env l r f s \<and> repeats q f"
  shows "(\<exists>r. check_response_v2 env t m k s = ev_stop_state_machine env r s) \<or>
    (\<exists>r f. check_response_v2 env t m k s = while_ongoing env l r f s \<and> repeats q f)"
  using assms by (cases rule: check_response_v2_cases [of m t s env k]) fastforce+

interpretation busy_authorization: busy_state AuthorizationV2
  by unfold_locales
    (auto simp: ev_AuthorizationV2_process_def still_busy_def repeats_request split: v2_body.splits intro!: check_busy looping)

interpretation busy_parameters: busy_state ChargeParameterDiscoveryV2
  by unfold_locales
    (auto simp: ev_ChargeParameterDiscoveryV2_process_def still_busy_def repeats_parameters
      split: v2_body.splits intro!: check_busy looping)

interpretation busy_cable_check: busy_state CableCheckV2
  by unfold_locales
    (auto simp: ev_CableCheckV2_process_def still_busy_def cable_check_req_def repeats_request
      split: v2_body.splits intro!: check_busy looping)

interpretation busy_pre_charge: busy_state PreChargeV2
  by unfold_locales
    (auto simp: ev_PreChargeV2_process_def still_busy_def repeats_request split: v2_body.splits intro!: check_busy looping)

definition busy_states :: "state_kind list" where
  "busy_states = [AuthorizationV2, ChargeParameterDiscoveryV2, CableCheckV2, PreChargeV2]"

text \<open>
  C25: a charger that stays busy is given up in time. While the vehicle waits for the authorisation, the
  charge parameters, the cable check or the pre-charge, and its timer was not running before: as long as the
  responses say that the charger is not done and the session goes on, none of them was handled later after
  the first one than the limit of the state, 60 s for the first two, 40 s for the cable check and 7 s for
  the pre-charge.
\<close>

theorem busy_charger_given_up:
  assumes "k \<in> set busy_states" "kind (current_state (car r)) = k" "ongoing_timer (car r) < 0"
    and "\<forall>(env, m) \<in> set ((env0, m0) # ts). still_busy k env m" "0 \<le> clock env0"
    and "\<not> over (ev_turns ((env0, m0) # ts) r)"
  shows "\<forall>(env, m) \<in> set ts. clock env - clock env0 \<le> time_limit k"
  using assms(1) busy_authorization.busy_from_the_start [OF _ assms(3,6) _ assms(5)]
    busy_parameters.busy_from_the_start [OF _ assms(3,6) _ assms(5)]
    busy_cable_check.busy_from_the_start [OF _ assms(3,6) _ assms(5)]
    busy_pre_charge.busy_from_the_start [OF _ assms(3,6) _ assms(5)] assms(2,4)
  unfolding busy_states_def by auto

definition busy_turns :: "rat list \<Rightarrow> (ev_v2_env \<times> v2g_message) list" where
  "busy_turns = map (\<lambda>t. (example_car_env t, example_response (CableCheckResV2 OK failed_dc_status_v2 ONGOING)))"

theorem busy_charger_given_up_witness:
  "\<not> over (ev_turns (busy_turns [100, 130]) (ev_start (example_car CableCheckV2))) \<and>
   (\<forall>t \<in> fst ` set (busy_turns [130]). clock t - clock (example_car_env 100) \<le> time_limit CableCheckV2) = True \<and>
   over (ev_turns (busy_turns [100, 141]) (ev_start (example_car CableCheckV2)))"
proof -
  let ?m = "example_response (CableCheckResV2 OK failed_dc_status_v2 ONGOING)"
  let ?r = "ev_start (example_car CableCheckV2)"
  have "kind (current_state (car ?r)) = CableCheckV2" "ongoing_timer (car ?r) < 0" "CableCheckV2 \<in> set busy_states"
    "clock (example_car_env n) = n" "still_busy CableCheckV2 e ?m" for n e
    by (simp_all add: ev_start_def example_car_def busy_states_def example_car_env_def new_state_def still_busy_def
        example_response_def)
  moreover have "\<not> over (ev_turns (busy_turns [100, 130]) ?r)" "over (ev_turns (busy_turns [100, 141]) ?r)"
    by code_simp+
  ultimately show ?thesis
    using busy_charger_given_up [of CableCheckV2 ?r "example_car_env 100" ?m "busy_turns [130]"]
    by (auto simp: busy_turns_def)
qed

section \<open>What the vehicle acts on\<close>

text \<open>
  C27: in every state of ISO 15118-2 the vehicle acts only on the response that state waits for. A message of
  another protocol, a response to another request, a negative response or one from another session ends the
  session without success, without a command to the vehicle and without another request being created.
\<close>

theorem vehicle_refuses_other_responses_v2:
  assumes "awaits k \<noteq> V2ResponseT" "\<not> genuine_v2 (awaits k) m s"
  shows "gives_up s (ev_v2_process k env m s)"
  by (rule state_refuses [OF assms])

theorem vehicle_refuses_other_responses_v2_witness:
  "gives_up (example_car PreChargeV2)
     (ev_v2_process PreChargeV2 (example_car_env 0) (example_response (PowerDeliveryResV2 OK None None)) (example_car PreChargeV2))"
  by (rule vehicle_refuses_other_responses_v2) (simp_all add: example_response_def)

text \<open>What the vehicle has been told to store; only the installation of a contract adds to it.\<close>

definition stored :: "evcc_v2 \<Rightarrow> (bytes \<times> bytes) set" where
  "stored s = {(cert, key). StoreContract cert key \<in> set (ev_calls s)}"

lemma stored_updates [simp]:
  "stored (s\<lparr>session_id := i\<rparr>) = stored s" "stored (s\<lparr>evse_id := i\<rparr>) = stored s"
  "stored (s\<lparr>ongoing_timer := t\<rparr>) = stored s" "stored (s\<lparr>stop_reason := r\<rparr>) = stored s"
  "stored (s\<lparr>service_details_to_request := l\<rparr>) = stored s" "stored (s\<lparr>renegotiation_requested := b\<rparr>) = stored s"
  "stored (s\<lparr>selected_schedule := j\<rparr>) = stored s" "stored (s\<lparr>charging_session_stop := z\<rparr>) = stored s"
  "stored (s\<lparr>ev_selected_auth_option := a, resume_auth_option := c\<rparr>) = stored s"
  "stored (s\<lparr>ev_selected_auth_option := a\<rparr>) = stored s" "stored (s\<lparr>selected_services := v\<rparr>) = stored s"
  "stored (s\<lparr>selected_services := v, service_details_to_request := l\<rparr>) = stored s"
  "stored (s\<lparr>ev_selected_energy_mode := e, resume_requested_energy_mode := g\<rparr>) = stored s"
  "stored (s\<lparr>ev_selected_energy_mode := e, ev_charging_type_is_ac := b\<rparr>) = stored s"
  "stored (update_state f s) = stored s" "stored (ev_call (EnableCharging b) s) = stored s"
  "stored (fst (raises x s)) = stored s" "stored (fst (done_with s)) = stored s"
  by (simp_all add: stored_def update_state_def ev_call_def raises_def done_with_def)

lemma stored_andthen: "(\<And>s'. stored (fst (f s')) = stored s') \<Longrightarrow> stored (fst (andthen r f)) = stored (fst r)"
  by (cases r) (auto simp: andthen_def split: option.split)

lemma stored_stop [simp]: "stored (fst (ev_stop_state_machine env r s)) = stored s"
  by (simp add: ev_stop_state_machine_def Let_def)

lemma stored_next [simp]: "stored (fst (ev_next_v2 env nxt b sig t s)) = stored s"
proof -
  have wrap: "stored (wrap_message q i z) = stored z" for q i z
    by (simp add: wrap_message_def split: sum.split)
  show ?thesis
    by (simp add: ev_next_v2_def create_next_message_def Let_def wrap split: sum.split v2g_message.split)
qed

lemma stored_request [simp]: "stored (fst (ev_request env nxt b t s)) = stored s"
  by (simp add: ev_request_def)

lemma stored_requests [simp]:
  "stored (fst (ev_signed_request env k b t kp pp why s)) = stored s"
  "stored (fst (request_services env s)) = stored s" "stored (fst (request_parameters env t s)) = stored s"
  "stored (fst (power_delivery_req env p q s)) = stored s" "stored (fst (cable_check_req env s)) = stored s"
  "stored (fst (go_on_charging env w s)) = stored s" "stored (fst (installation_failed env x s)) = stored s"
  by (simp_all add: ev_signed_request_def request_services_def request_parameters_def power_delivery_req_def
      cable_check_req_def go_on_charging_def installation_failed_def split: list.split option.split prod.split sum.split)

lemma stored_selection [simp]:
  "stored (select_auth_mode_v2 opts s) = stored s" "stored (select_services_v2 env cs ds s) = stored s"
  "stored (select_energy_transfer_mode_v2 env s) = stored s"
proof -
  have "stored (select_offered env l z) = stored z" for l z
    by (induction l arbitrary: z) auto
  then show "stored (select_auth_mode_v2 opts s) = stored s" "stored (select_services_v2 env cs ds s) = stored s"
    "stored (select_energy_transfer_mode_v2 env s) = stored s"
    by (simp_all add: select_auth_mode_v2_def select_services_v2_def select_energy_transfer_mode_v2_def Let_def
        split: option.split)
qed

lemma stored_ongoing [simp]:
  "(\<And>s'. stored (fst (g s')) = stored s') \<Longrightarrow> stored (fst (ongoing_check env n g s)) = stored s"
  "(\<And>e s'. stored (fst (f e s')) = stored s') \<Longrightarrow> stored (fst (while_ongoing env l n f s)) = stored s"
  by (simp_all add: ongoing_check_def while_ongoing_def Let_def)

lemma stored_follow [simp]:
  "stored (fst (stop_charging_v2 env p s)) = stored s" "stored (fst (follow_schedules env l s)) = stored s"
  by (auto simp: stop_charging_v2_def follow_schedules_def Let_def stored_andthen split: sum.split)

lemma stored_check:
  "(\<And>h b. stored (fst (k h b s)) = stored s) \<Longrightarrow> stored (fst (check_response_v2 env t m k s)) = stored s"
  by (cases rule: check_response_v2_cases [of m t s env k]) simp_all

lemma other_states_store_nothing:
  "stored (fst (ev_SessionSetupV2_process env m s)) = stored s"
  "stored (fst (ev_ServiceDiscoveryV2_process env m s)) = stored s"
  "stored (fst (ev_ServiceDetailV2_process env m s)) = stored s"
  "stored (fst (ev_PaymentServiceSelectionV2_process env m s)) = stored s"
  "stored (fst (ev_PaymentDetailsV2_process env m s)) = stored s"
  "stored (fst (ev_AuthorizationV2_process env m s)) = stored s"
  "stored (fst (ev_ChargeParameterDiscoveryV2_process env m s)) = stored s"
  "stored (fst (ev_PowerDeliveryV2_process env m s)) = stored s"
  "stored (fst (ev_MeteringReceiptV2_process env m s)) = stored s"
  "stored (fst (ev_SessionStopV2_process env m s)) = stored s"
  "stored (fst (ev_ChargingStatusV2_process env m s)) = stored s"
  "stored (fst (ev_CableCheckV2_process env m s)) = stored s"
  "stored (fst (ev_PreChargeV2_process env m s)) = stored s"
  "stored (fst (ev_CurrentDemandV2_process env m s)) = stored s"
  "stored (fst (ev_WeldingDetectionV2_process env m s)) = stored s"
  unfolding ev_SessionSetupV2_process_def ev_ServiceDiscoveryV2_process_def ev_ServiceDetailV2_process_def
    ev_PaymentServiceSelectionV2_process_def ev_PaymentDetailsV2_process_def ev_AuthorizationV2_process_def
    ev_ChargeParameterDiscoveryV2_process_def ev_PowerDeliveryV2_process_def ev_MeteringReceiptV2_process_def
    ev_SessionStopV2_process_def ev_ChargingStatusV2_process_def ev_CableCheckV2_process_def
    ev_PreChargeV2_process_def ev_CurrentDemandV2_process_def ev_WeldingDetectionV2_process_def
  by (rule stored_check; simp add: Let_def split: v2_body.split option.split sum.split)+

lemma installing_stores:
  assumes "stored (fst (ev_v2_process k env m s)) \<noteq> stored s"
  obtains "k = CertificateInstallationV2"
  using assms by (cases k) (simp_all add: other_states_store_nothing)

lemma stored_install:
  "stored (fst (install_contract env contract priv dh s)) \<subseteq>
     stored s \<union> {(certificate contract, key) |key. received_key env priv dh = Inr key}"
  by (auto simp: install_contract_def Let_def split: sum.split) (auto simp: stored_def ev_call_def)

text \<open>
  C11: the vehicle stores a contract only if the response is signed. Whatever state and message: if a
  certificate and a private key are handed over to be stored, the message is a positive certificate
  installation response of the session; its signature covers the encodings of the contract chain, the encrypted
  private key, the DH public key and the eMAID, and belongs to the key of the provisioning certificate in it;
  the chain of that certificate has been checked up to the vehicle's own root, if the response names
  sub-CA certificates at all; and what is stored is the certificate of the contract chain and the key that
  decrypting with the vehicle's own key gives.
\<close>

theorem contract_stored_only_if_signed:
  assumes "StoreContract cert key \<in> set (ev_calls (fst (ev_v2_process k env m s)))"
    and "StoreContract cert key \<notin> set (ev_calls s)"
  shows "\<exists>h rc cps contract priv dh em sg els subs anchor.
    m = V2Message h (Some (CertificateInstallationResV2 rc cps contract priv dh em)) \<and>
    v2_session_id h = session_id s \<and> \<not> failed_code rc \<and> v2_signature h = Some sg \<and>
    installed_elements env contract priv dh em = Inr els \<and> list_all (covers (ev_crypt env) sg) els \<and>
    signed_by (ev_crypt env) sg (certificate cps) \<and>
    sub_certificates cps = Some subs \<and> load_cert (ev_keys env) ''V2G_ROOT_DER'' = Inr anchor \<and>
    (subs = [] \<or> anchor = [] \<or> verify_certs (ev_crypt env) (certificate cps) subs (Some anchor) False = Inr ()) \<and>
    cert = certificate contract \<and> received_key env priv dh = Inr key"
proof -
  have new: "(cert, key) \<in> stored (fst (ev_v2_process k env m s))" "(cert, key) \<notin> stored s"
    using assms by (simp_all add: stored_def)
  then have k: "k = CertificateInstallationV2" using installing_stores [of k env m s] by blast
  have "genuine_v2 CertificateInstallationT m s"
    using new k by (intro ev_v2_certificate_installation.acts_only_on [of env]) (auto simp: stored_def)
  then obtain h b where m: "m = V2Message h (Some b)" "genuine_v2 CertificateInstallationT m s"
    by (auto elim: genuine_v2.elims)
  then obtain rc cps contract priv dh em where b: "b = CertificateInstallationResV2 rc cps contract priv dh em"
    by (cases b) auto
  have "(cert, key) \<in> stored (fst (case verify_installation env (v2_signature h) cps contract priv dh em of
      Inl e \<Rightarrow> raises e s
    | Inr False \<Rightarrow> ev_stop_state_machine env ''Signature verification of CertificateInstallationRes failed'' s
    | Inr True \<Rightarrow> install_contract env contract priv dh s))"
    using new(1) k m b by (auto simp: ev_CertificateInstallationV2_process_def check_response_v2_def)
  then have verified: "verify_installation env (v2_signature h) cps contract priv dh em = Inr True"
    and installed: "(cert, key) \<in> stored (fst (install_contract env contract priv dh s))"
    using new(2) by (auto split: sum.splits bool.splits)
  then obtain els subs anchor where e: "installed_elements env contract priv dh em = Inr els"
    "sub_certificates cps = Some subs" "load_cert (ev_keys env) ''V2G_ROOT_DER'' = Inr anchor"
    "verify_signature (ev_crypt env) (v2_signature h) els (certificate cps) (Some subs) (Some anchor) = Inr True"
    by (auto simp: verify_installation_def rbind_Inr_iff split: option.splits)
  from verify_signature_sound [OF e(4)] obtain sg where sg: "v2_signature h = Some sg"
    "list_all (covers (ev_crypt env) sg) els" "signed_by (ev_crypt env) sg (certificate cps)"
    "subs \<noteq> [] \<Longrightarrow> anchor \<noteq> [] \<Longrightarrow> verify_certs (ev_crypt env) (certificate cps) subs (Some anchor) False = Inr ()"
    by metis
  have "cert = certificate contract \<and> received_key env priv dh = Inr key"
    using installed new(2) stored_install [of env contract priv dh s] by blast
  then show ?thesis
    using m b e(1-3) sg by (intro exI [of _ h] exI [of _ rc] exI [of _ cps] exI [of _ contract]) (auto 0 3)
qed

definition signed_response :: "v2_body \<Rightarrow> (string option \<times> bytes) list \<Rightarrow> bytes \<Rightarrow> v2g_message" where
  "signed_response b els key =
     V2Message \<lparr>v2_session_id = ''0123456789ABCDEF'', v2_notification = None,
                v2_signature = Some (projr (create_signature example_crypto els key))\<rparr> (Some b)"

theorem contract_stored_only_if_signed_witness:
  "\<exists>sg. signed_by example_crypto sg [1] \<and> covers example_crypto sg (Some ''id1'', [0x80])"
proof -
  let ?b = "CertificateInstallationResV2 OK \<lparr>chain_id = None, certificate = [1], sub_certificates = Some [[2]]\<rparr>
    \<lparr>chain_id = Some ''id1'', certificate = [9], sub_certificates = None\<rparr> (''id2'', replicate 16 0 @ [7]) (''id3'', [4])
    (''id4'', ''DE1ABCD2EF357A'')"
  let ?m = "signed_response ?b [(Some ''id1'', [0x80]), (Some ''id2'', [0x80]), (Some ''id3'', [0x80]), (Some ''id4'', [0x80])] [11]"
  let ?r = "ev_v2_process CertificateInstallationV2 (example_car_env 0) ?m (example_car CertificateInstallationV2)"
  have "ev_calls (fst ?r) = [StoreContract [9] [7]]" by code_simp
  then have "StoreContract [9] [7] \<in> set (ev_calls (fst ?r))" by simp
  from contract_stored_only_if_signed [OF this] show ?thesis
    by (auto simp: example_car_def example_car_env_def signed_response_def installed_elements_def)
qed

section \<open>What the vehicle does not look at\<close>

definition ev_v2_ready :: "ev_v2_env \<Rightarrow> evcc_v2 \<Rightarrow> bool" where
  "ev_v2_ready env s \<longleftrightarrow> (\<forall>m n. \<not> isl (to_exi env m n)) \<and> session_protocol s = ISO_15118_2 \<and> hex_id (session_id s)"

lemma ev_request_ready:
  "ev_v2_ready env s \<Longrightarrow> message_ok b \<Longrightarrow> ev_request env nxt b t s = done_with (v2_prepared env nxt t b None s)"
  by (simp add: ev_request_def ev_next_v2_def ev_v2_ready_def create_next_message_v2_prepared)

text \<open>
  C38: in the charging loop of direct current the vehicle takes no notice of the charger's status code. As long
  as the notification in a positive response is not to stop charging and the vehicle itself wants to go on,
  it sends the next request for current, whatever status code and insulation state the response reports:
  an emergency shutdown or a malfunction changes nothing, and neither does a notification to renegotiate or a
  receipt that is required.
\<close>

theorem emergency_shutdown_ignored:
  assumes "ev_v2_ready env s" "v2_session_id h = session_id s" "\<not> failed_code rc"
    and "evse_notification (cd_dc_evse_status res) \<noteq> STOP_CHARGING" "continue_charging env"
  shows "ev_v2_process CurrentDemandV2 env (V2Message h (Some (CurrentDemandResV2 rc res i t info receipt))) s =
    done_with (v2_prepared env (Some CurrentDemandV2) 5 (build_current_demand_data env False) None s)"
  using assms by (simp add: ev_CurrentDemandV2_process_def check_response_v2_def ev_request_ready build_current_demand_data_def
      Let_def)

definition emergency_response :: current_demand_res where
  "emergency_response =
     \<lparr>cd_dc_evse_status = \<lparr>notification_max_delay = 0, evse_notification = NO_NOTIFICATION,
        evse_isolation_status = Some FAULT, evse_status_code = EVSE_EMERGENCY_SHUTDOWN\<rparr>,
      cd_evse_present_voltage = pv_of 350 VOLTAGE, cd_evse_present_current = pv_of 1 AMPERE,
      evse_current_limit_achieved = False, evse_voltage_limit_achieved = False, evse_power_limit_achieved = False,
      evse_max_voltage_limit = None, evse_max_current_limit = None, evse_max_power_limit = None\<rparr>"

theorem emergency_shutdown_ignored_witness:
  "snd (ev_v2_process CurrentDemandV2 (example_car_env 0)
     (example_response (CurrentDemandResV2 OK emergency_response ''49A80737A45678'' (Some 1) None None))
     (example_car CurrentDemandV2)) = None"
proof -
  have "ev_v2_ready (example_car_env 0) (example_car CurrentDemandV2)"
    by (simp add: ev_v2_ready_def example_car_env_def example_car_def hex_id_def is_hex_def)
  then show ?thesis
    unfolding example_response_def
    by (subst emergency_shutdown_ignored)
      (simp_all add: example_car_def failed_code_def emergency_response_def example_car_env_def done_with_def)
qed

text \<open>
  C39: a vehicle that is told to stop in the answer to a metering receipt forgets it. It asks for the power
  delivery to be stopped, but does not note that the session ends, so when that has been done it does not go
  on to the welding detection or the end of the session: it asks for the next round of the charging loop.
\<close>

theorem metering_stop_forgotten:
  assumes "\<not> over r" "current_state (car r) = new_state MeteringReceiptV2" "ev_v2_ready env (car r)"
    and "ev_v2_ready env' (car r)" "charging_session_stop (car r) = None" "\<not> renegotiation_requested (car r)"
    and "selected_schedule (car r) = Some i" "1 \<le> i" "i \<le> 255"
    and "genuine_v2 MeteringReceiptT (V2Message h (Some (MeteringReceiptResV2 rc (Some status) dc))) (car r)"
    and "ac_evse_notification status = STOP_CHARGING"
    and "genuine_v2 PowerDeliveryT (V2Message h' (Some b)) (car r)"
  shows "\<exists>h1 h2 next ac. asked (ev_turns
      [(env, V2Message h (Some (MeteringReceiptResV2 rc (Some status) dc))), (env', V2Message h' (Some b))] r) =
      asked r @ [(V2Message h1 (Some (PowerDeliveryReqV2 STOP i None None)), ac), (V2Message h2 (Some next), ac)] \<and>
    v2_body_type next \<in> {ChargingStatusT, CurrentDemandT}"
proof -
  let ?m = "V2Message h (Some (MeteringReceiptResV2 rc (Some status) dc))"
  let ?s1 = "v2_prepared env (Some PowerDeliveryV2) 5 (PowerDeliveryReqV2 STOP i None None) None (car r)"
  let ?r1 = "ev_turn env ?m r"
  let ?next = "if ev_selected_energy_mode (car r) \<noteq> None \<and> ev_charging_type_is_ac (car r) then ChargingStatusReqV2
    else build_current_demand_data env' False"
  have "ev_v2_process MeteringReceiptV2 env ?m (car r) = done_with ?s1"
    using assms(3,7-11) by (simp add: ev_MeteringReceiptV2_process_def check_response_v2_def power_delivery_req_def
        ev_request_ready opt_len_def)
  then have r1: "?r1 = \<lparr>car = enter PowerDeliveryV2 ?s1, handled = handled r @ [(env, ?m)],
      asked = asked r @ [(v2_message (PowerDeliveryReqV2 STOP i None None) None (car r), ev_charging_type_is_ac (car r))],
      over = False\<rparr>"
    using assms(1,2)
    by (simp add: ev_turn_def new_state_def run_state_def andthen_def done_with_def ev_stops_def go_to_next_state_def
        outgoing_def v2_prepared_def update_state_def)
  have "ev_v2_ready env' (car ?r1)" "genuine_v2 PowerDeliveryT (V2Message h' (Some b)) (car ?r1)"
    "charging_session_stop (car ?r1) = None" "\<not> renegotiation_requested (car ?r1)"
    "ev_selected_energy_mode (car ?r1) = ev_selected_energy_mode (car r)"
    "ev_charging_type_is_ac (car ?r1) = ev_charging_type_is_ac (car r)" "current_state (car ?r1) = new_state PowerDeliveryV2"
    using assms(4,5,6,12) r1 by (simp_all add: ev_v2_ready_def v2_prepared_def update_state_def enter_def)
  note car = this
  let ?k = "if ev_selected_energy_mode (car r) \<noteq> None \<and> ev_charging_type_is_ac (car r) then ChargingStatusV2 else CurrentDemandV2"
  have "ev_v2_process PowerDeliveryV2 env' (V2Message h' (Some b)) (car ?r1) =
      done_with (v2_prepared env' (Some ?k) 2 ?next None (car ?r1))"
    using car by (auto simp: ev_PowerDeliveryV2_process_def check_response_v2_def go_on_charging_def
        ev_request_ready build_current_demand_data_def Let_def split: option.splits)
  then have "asked (ev_turn env' (V2Message h' (Some b)) ?r1) =
      asked ?r1 @ [(v2_message ?next None (car ?r1), ev_charging_type_is_ac (car r))]"
    using r1 car
    by (simp add: ev_turn_def new_state_def run_state_def andthen_def done_with_def ev_stops_def outgoing_def
        v2_prepared_def update_state_def)
  with r1 show ?thesis
    by (auto simp: v2_message_def build_current_demand_data_def Let_def)
qed

theorem metering_stop_forgotten_witness:
  "\<exists>h next ac. last (asked (ev_turns
      [(example_car_env 0, example_response (MeteringReceiptResV2 OK (Some (failed_ac_status\<lparr>ac_evse_notification := STOP_CHARGING\<rparr>)) None)),
       (example_car_env 0, example_response (PowerDeliveryResV2 OK (Some failed_ac_status) None))]
      (ev_start (example_car MeteringReceiptV2)))) = (V2Message h (Some next), ac) \<and>
    v2_body_type next \<in> {ChargingStatusT, CurrentDemandT}"
proof -
  have "ev_v2_ready (example_car_env 0) (example_car MeteringReceiptV2)"
    by (simp add: ev_v2_ready_def example_car_env_def example_car_def hex_id_def is_hex_def)
  then show ?thesis
    using metering_stop_forgotten [of "ev_start (example_car MeteringReceiptV2)" "example_car_env 0" "example_car_env 0" 1
        "\<lparr>v2_session_id = ''0123456789ABCDEF'', v2_notification = None, v2_signature = None\<rparr>" OK
        "failed_ac_status\<lparr>ac_evse_notification := STOP_CHARGING\<rparr>" None
        "\<lparr>v2_session_id = ''0123456789ABCDEF'', v2_notification = None, v2_signature = None\<rparr>"
        "PowerDeliveryResV2 OK (Some failed_ac_status) None"]
    by (fastforce simp: ev_start_def example_car_def example_response_def failed_code_def)
qed

end
