(* ===== verification/V2_Composition.thy ===== *)
theory V2_Composition
  imports V2_Answers Evcc_V2_Session
begin

text \<open>
  The vehicle's and the charger's state machines of ISO 15118-2 taken together: the charger's response to a
  request is one the vehicle's next state waits for, and a contract installed by the charger arrives in the
  vehicle.
\<close>

section \<open>Requests and responses fit\<close>

lemma awaited_type:
  assumes "awaits (kind (current_state v)) \<noteq> V2ResponseT" "ev_v2_process (kind (current_state v)) env m v = (v', None)"
    and "next_state (current_state v') \<noteq> Some Terminate" "state_message (current_state v') = Some (V2Message h (Some req))"
  shows "awaits (kind (current_state (go_to_next_state v'))) = v2_body_type req" "v2_session_id h = session_id v'"
    "v2_body_type req \<noteq> V2ResponseT" "session_id (go_to_next_state v') = session_id v'"
  using vehicle_goes_on [OF assms(1), of env m] assms(2-4)
  by (auto simp: goes_on_def asks_for_def keeps_mode_def go_to_next_state_def enter_def new_state_def split: option.split)

text \<open>
  C5: the two machines of ISO 15118-2 fit together. When the vehicle has prepared a request and a state of the
  charger, whichever it is, answers it, the response is of the class the vehicle's next state waits for, with
  all its fields in range, so that the vehicle accepts it exactly if its code is positive and the charger is in
  the same session; only the answer to a certificate installation may be text of a backend.
\<close>

theorem v2_machines_fit:
  assumes "awaits (kind (current_state v)) \<noteq> V2ResponseT" "ev_v2_process (kind (current_state v)) ee m v = (v', None)"
    and "next_state (current_state v') \<noteq> Some Terminate" "state_message (current_state v') = Some (V2Message h (Some req))"
    and "k \<in> set v2_states" "v2_process k env exi (V2Message h (Some req)) c = (c', None)"
  shows "(\<exists>h' res rc. state_message (current_state c') = Some (V2Message h' (Some res)) \<and> message_ok res \<and>
      v2_response_code res = Some rc \<and>
      (let v2 = go_to_next_state v'
       in genuine_v2 (awaits (kind (current_state v2))) (V2Message h' (Some res)) v2 \<longleftrightarrow>
          \<not> failed_code rc \<and> (v2_body_type req = SessionSetupT \<or> session_id c' = session_id v'))) \<or>
    v2_body_type req = CertificateInstallationT \<and> (\<exists>r. state_message (current_state c') = Some (Base64 r))"
proof -
  have "answers (v2_body_type req) (c', None)"
    using v2_process_answers [OF assms(5), of req env exi h c] assms(6) by simp
  then show ?thesis
    using awaited_type [OF assms(1-4)] by (fastforce simp: answers_def proper_def Let_def)
qed

theorem v2_machines_fit_witness:
  "\<exists>h res. state_message (current_state (fst (v2_process PowerDeliveryV2 example_env []
      (V2Message v2_example_header (Some (WeldingDetectionReqV2 example_car_status)))
      (v2_example_session PowerDeliveryV2)))) = Some (V2Message h (Some res)) \<and> v2_response_code res \<noteq> None"
proof -
  let ?v = "(example_car PowerDeliveryV2)\<lparr>charging_session_stop := Some CS_TERMINATE\<rparr>"
  let ?e = "ev_v2_process PowerDeliveryV2 (example_car_env 0) (example_response (PowerDeliveryResV2 OK None None)) ?v"
  let ?c = "v2_process PowerDeliveryV2 example_env [] (V2Message v2_example_header (Some (WeldingDetectionReqV2 example_car_status)))
    (v2_example_session PowerDeliveryV2)"
  have "snd ?e = None" "next_state (current_state (fst ?e)) = Some WeldingDetectionV2"
    "state_message (current_state (fst ?e)) = Some (V2Message v2_example_header (Some (WeldingDetectionReqV2 example_car_status)))"
    "snd ?c = None"
    by code_simp+
  moreover from this have "?e = (fst ?e, None)" "?c = (fst ?c, None)" by (metis prod.collapse)+
  moreover have "kind (current_state ?v) = PowerDeliveryV2" by (simp add: example_car_def new_state_def)
  ultimately show ?thesis
    using v2_machines_fit [of ?v "example_car_env 0" "example_response (PowerDeliveryResV2 OK None None)" "fst ?e"
        v2_example_header "WeldingDetectionReqV2 example_car_status" PowerDeliveryV2 example_env "[]"
        "v2_example_session PowerDeliveryV2" "fst ?c"]
    by (auto simp: v2_states_def)
qed

section \<open>Installing a contract\<close>

text \<open>
  What the two sides need: the provisioning service's private key belongs to the certificate it sends, ECDSA
  verifies what it has signed and the vehicle's root vouches for the certificate; and the vehicle holds the
  private key of the OEM certificate for which the charger encrypts.
\<close>

definition provisions :: "v2_env \<Rightarrow> bytes \<Rightarrow> bool" where
  "provisions e anchor \<longleftrightarrow>
     (\<exists>key leaf_cert s2 s1 leaf k. load_priv_key (keys e) ''CPS_LEAF_PEM'' PEM ''CPS_LEAF_KEY_PASSWORD'' = Inr key \<and>
        load_cert (keys e) ''CPS_LEAF_DER'' = Inr leaf_cert \<and> load_cert (keys e) ''CPS_SUB_CA2_DER'' = Inr s2 \<and>
        load_cert (keys e) ''CPS_SUB_CA1_DER'' = Inr s1 \<and>
        load_der (crypt e) leaf_cert = Inr leaf \<and> cert_key leaf = ECKey k \<and>
        (\<forall>data. key_verify (crypt e) k (encode_dss (crypt e) (fst (sign (crypt e) key data))
           (snd (sign (crypt e) key data))) data = Verified) \<and>
        verify_certs (crypt e) leaf_cert [s2, s1] (Some anchor) False = Inr ())"

definition addresses :: "v2_env \<Rightarrow> key_store \<Rightarrow> bool" where
  "addresses e ks \<longleftrightarrow> agreement (keys e) ks \<and>
     (\<exists>oem_cert oem oem_key. load_cert (keys e) ''OEM_LEAF_DER'' = Inr oem_cert \<and> load_der (crypt e) oem_cert = Inr oem \<and>
        load_priv_key ks ''OEM_LEAF_PEM'' PEM ''OEM_LEAF_KEY_PASSWORD'' = Inr oem_key \<and>
        cert_key oem = ECKey (public_point ks oem_key))"



end
