(* ===== verification/Spec2Isabelle.thy ===== *)
theory Spec2Isabelle
  imports Doip_Server Can_Tasks Uds_Echo Secc_Handler Negotiation Evcc_Handler V2_Session V2_Composition
begin

text \<open>
  ArchonZ-Sandbag is a sandbox of vulnerable and simulated vehicle services: an ECU simulator on a CAN bus,
  a DoIP server that answers diagnostics over TCP and UDP, and the two ends of a charging session
  (charger, SECC, and vehicle, EVCC) in a copy of the iso15118 library. This development models these programs as functions and
  proves what makes each part correct, or shows where it is not. Paths are relative to \<open>src/\<close>, and
  \<open>iso15118/\<close> stands for \<open>src/iso15118/iso15118/\<close>.

  \<^bold>\<open>How Python is modelled.\<close> A byte string is a list of integers, an integer is unbounded (\<open>int\<close>) and
  its width is written out where it is packed. An object is a record, an enumeration a datatype. A function that may raise returns
  \<open>py_error + 'a\<close>; a method that changes an object and may raise returns an \<open>outcome\<close>, the state reached
  together with the exception if there is one, since the changes made before an exception stay. Shared notions are in
  \<open>Prelude\<close>. What is outside the repository is an argument: the CAN bus (a list of messages handed to it), sockets and
  streams (what is read from them), clocks and random numbers, the EXI codec, and the hardware behind the
  controller interfaces (the records \<open>env\<close> of the charger, \<open>ev_env\<close> and \<open>ev_v2_env\<close> of the vehicle, one value for each message
  handled, so that answers may change from message to message). Hypotheses on them are named predicates
  (\<open>env_ok\<close>, \<open>ev_env_ok\<close>, \<open>willing\<close>, \<open>agreement\<close>, \<open>provisions\<close>, \<open>addresses\<close>) and hold of the concrete instances in the witnesses.

  \<^bold>\<open>CAN side\<close> (\<open>main.py\<close>, \<open>engine/\<close>, \<open>task/\<close>, \<open>util/obd_util.py\<close>).
  \<^item> \<open>Can_Engine\<close>: \<open>engine.py\<close>. Periodic threads as a state machine (running, told to stop, ended) with registration,
    start, stop and resume; steps of threads and commands interleave freely. The engine keeps its tasks, a stop followed by
    a resume restores them, two stops in a row lose them.
  \<^item> \<open>Can_Tasks\<close>: the task classes with what they send periodically and on a message, and the registration in
    \<open>main()\<close>. Every frame sent is of the stated form, the overflow flag is exact.
  \<^item> \<open>Uds_Echo\<close>: \<open>task_uds_echo.py\<close>. ISO-TP segmentation and reassembly, the UDS dispatcher and its services. A transfer is
    lossless, the dispatcher refines an abstract diagnostic server (session, security level, reset), and every
    single-frame request is answered. The reassembly loop terminates on the length of the remaining payload.

  \<^bold>\<open>DoIP side\<close> (\<open>doip_lib/\<close>, \<open>services/doip_service.py\<close>).
  \<^item> \<open>Doip_Message\<close>: \<open>doip.py\<close>, \<open>utils.py\<close>. Every message class with parse and render, and their round trips.
  \<^item> \<open>Uds_Service\<close>: \<open>uds.py\<close>, \<open>simulator.py\<close>, and the data map of the service.
  \<^item> \<open>Doip_Server\<close>: \<open>server.py\<close>. One pass of the session loop, a session over what the reader returns, the UDP handler, and the
    restart of the server on every third over-long packet. Sessions and datagrams are handled one after the other:
    each handler is one event.

  \<^bold>\<open>Charging side: transport\<close>.
  \<^item> \<open>V2gtp\<close>: \<open>shared/messages/v2gtp.py\<close> and the enumerations of protocols and payload types. Framing round trip, and
    which frames are accepted, with the error otherwise.
  \<^item> \<open>Sdp\<close>: \<open>shared/messages/sdp.py\<close>, discovery requests and responses.
  \<^item> \<open>Secc_Handler\<close>: \<open>secc/comm_session_handler.py\<close> and \<open>secc/transport\<close>. Discovery, the TCP server with its three bind attempts
    (the retry loop ends after \<open>MAX_RETRIES\<close>; drawing a new port may not end, which is the value \<open>None\<close>), sessions by peer, pause and
    terminate, forced close.
  \<^item> \<open>Evcc_Handler\<close>: \<open>evcc/comm_session_handler.py\<close> and \<open>evcc/transport\<close>. Discovery with its fifty requests per cycle and its automatic
    restarts, the connection, the notification queue. A silent network is asked exactly so often; every reachable state keeps
    the TLS settings and the bookkeeping of sessions; two ways in which the search ends early or a protocol is lost.

  \<^bold>\<open>Charging side: sessions\<close>.
  \<^item> \<open>Din_Messages\<close>: the DIN SPEC 70121 messages with the validators that can fail, \<open>secc/failed_responses.py\<close>, the vehicle data.
  \<^item> \<open>Session_State\<close>: what both ends share, \<open>shared/states.py\<close> and the session variables; \<open>create_next_message\<close>.
  \<^item> \<open>Secc_State\<close>, \<open>Din_States\<close>, \<open>Sap_State\<close>: \<open>secc/states/\<close>. The checks, the eleven states of DIN SPEC 70121, the protocol
    negotiation. Every state satisfies one contract, the locale \<open>din_state\<close>, which is interpreted for each of the eleven.
  \<^item> \<open>Din_Properties\<close>: the charger answers every request along the graph of the standard, refuses what is out of
    order, and limits the pre-charge.
  \<^item> \<open>V2_Messages\<close>: \<open>shared/messages/iso15118_2\<close>, the ISO 15118-2 messages with their validators, and the failed responses for them.
  \<^item> \<open>Security\<close>: \<open>shared/security.py\<close>. Certificate chains and signatures over primitives given as arguments: which chains are
    accepted, that what is signed verifies, and a kind of key that gets a chain accepted unchecked.
  \<^item> \<open>Contract_Key\<close>: the rest of that file which ISO 15118-2 uses. Key and certificate files with the errors of reading them, and
    the encryption of a contract's private key; what is encrypted for a vehicle is what it decrypts.
  \<^item> \<open>Charging_Profile\<close>: the checks of schedules and charging profiles in \<open>secc/states/iso15118_2_states.py\<close> against what they are to decide.
  \<^item> \<open>V2_States\<close>: the sixteen states of that file. \<open>V2_Properties\<close> has the invariant of the machine, proved state by state with a small
    calculus of what a handler leads to; \<open>V2_Answers\<close> the classes and ranges of responses, refusals, authorisation by
    contract, resumed sessions and certificate installation; \<open>V2_Session\<close> what the invariant gives over any sequence of reads, through the
    locale \<open>watched_session\<close>, and a session in which current flows without an insulation test.
  \<^item> \<open>Comm_Session\<close>: \<open>shared/comm_session.py\<close>, the receive loop over any sequence of reads. No read goes unnoticed, and no
    charging command is given before authorisation and insulation test.
  \<^item> \<open>Evcc_State\<close>, \<open>Evcc_Din_States\<close>, \<open>Evcc_Sap\<close>: \<open>evcc/states/\<close>. The vehicle's checks, its eleven states (each an interpretation of
    the locale \<open>ev_state\<close>, which refuses every response it does not wait for) and its side of the negotiation.
  \<^item> \<open>Evcc_V2_States\<close>: the vehicle's sixteen states of ISO 15118-2. \<open>Evcc_V2_Properties\<close> interprets the locale \<open>ev_v2_state\<close> for each
    of them and says which response lets the vehicle prepare which request; \<open>Evcc_V2_Session\<close> runs the machine over any sequence of
    responses: the checks before energy, the time a busy charger is given (locale \<open>busy_state\<close>), what is stored of a
    contract, and two ways in which the vehicle goes on charging when it should stop.

  \<^bold>\<open>Both ends together\<close>.
  \<^item> \<open>Din_Composition\<close>: the vehicle's and the charger's machines exchange messages. The invariant \<open>linked\<close> says that the request under way
    is one the charger accepts and that the vehicle waits for its answer; every exchange keeps it.
  \<^item> \<open>Din_Run\<close>: with hardware that plays along, a session runs from set-up to its successful end, with as many rounds
    of the charging loop as the vehicle wants; and two situations in which the machines do not fit.
  \<^item> \<open>Negotiation\<close>: both sides choose the same protocol, and from the negotiation on every run of the composed
    machines is in order.
  \<^item> \<open>V2_Composition\<close>: the two machines of ISO 15118-2. Every response of the charger is of the class the vehicle waits for, and a
    contract the charger installs is the one the vehicle stores.

  \<^bold>\<open>Not modelled.\<close> The states and messages of ISO 15118-20 on both sides: they are further protocols on
  the same base, and the parts of shared files that serve them are left out with them. The controllers and
  simulators: they are the environment. The primitives of the cryptographic library and the TLS context. The EXI
  codec: a bridge to a Java program. Logging, settings, network interfaces, the console, the SOME/IP service (a
  declaration for a third-party package) and the discovery thread of DoIP, which is never started.
\<close>

end
